(* ===== verification/Tmss_Base.thy ===== *)
theory Tmss_Base
  imports Main "HOL-Library.Word" "HOL-Library.Signed_Division"
begin

text \<open>
  The prelude of the development: bytes and C strings, machine integers seen as the bytes of
  a little-endian host, the outcome of a C++ call, and the operators that sequence such calls.

  A member function of the program that works on a state of type \<open>'s\<close> (a \<open>Buffer\<close>, a
  protocol handler) is an \<open>('a, 's) act\<close>: it ends in \<open>Done\<close> (the code returns
  \<open>error_success\<close>, with the value it hands back), in \<open>Fail\<close> (the code returns a non-zero
  error code; the state is the one at the \<open>return\<close>) or in \<open>Crash\<close> (an \<open>assert\<close>
  fails or the behaviour is undefined, so the process has no defined continuation).
\<close>

named_theorems act_simps "rules that run a sequence of calls symbolically"

section \<open>Bytes and strings\<close>

type_synonym byte = "8 word"
type_synonym bytes = "byte list"

text \<open>A C++ \<open>std::string\<close> is a list of bytes; \<open>lit\<close> is a string literal of the source.\<close>

definition lit :: "string \<Rightarrow> bytes" where
  "lit s = map of_char s"

text \<open>The bytes up to the first NUL, what \<open>std::string (p.c_str ())\<close> keeps of \<open>p\<close>.\<close>

definition c_str :: "bytes \<Rightarrow> bytes" where
  "c_str s = takeWhile (\<lambda>c. c \<noteq> 0) s"

lemma c_str_idem [simp]: "c_str (c_str s) = c_str s"
  by (simp add: c_str_def takeWhile_idem)

lemma c_str_no_nul: "0 \<notin> set s \<Longrightarrow> c_str s = s"
  by (auto simp: c_str_def takeWhile_eq_all_conv)

section \<open>Integers as bytes\<close>

text \<open>
  The source takes integers apart through \<open>char *pp = reinterpret_cast<char *>(&value)\<close>:
  on the little-endian hosts the program is built for, \<open>pp[i]\<close> is byte \<open>i\<close>, least
  significant first. \<open>be_bytes n v\<close> is \<open>pp[n-1], ..., pp[0]\<close>, the network order the
  protocol uses, and \<open>be_word\<close> fills \<open>pp\<close> back from such bytes, the rest being 0.
\<close>

definition pp :: "'a::len word \<Rightarrow> nat \<Rightarrow> byte" where
  "pp v i = ucast (drop_bit (8 * i) v)"

primrec be_bytes :: "nat \<Rightarrow> 'a::len word \<Rightarrow> bytes" where
  "be_bytes 0 v = []"
| "be_bytes (Suc n) v = pp v n # be_bytes n v"

primrec be_word :: "bytes \<Rightarrow> 'a::len word" where
  "be_word [] = 0"
| "be_word (b # bs) = or (push_bit (8 * length bs) (ucast b)) (be_word bs)"

lemma length_be_bytes [simp]: "length (be_bytes n v) = n"
  by (induction n) auto

lemma be_bytes_eq_Nil [simp]: "be_bytes n v = [] \<longleftrightarrow> n = 0"
  by (cases n) auto

lemma bit_pp: "bit (pp (v :: 'a::len word) i) k \<longleftrightarrow> k < 8 \<and> bit v (8 * i + k)"
  by (simp add: pp_def bit_simps)

lemma be_word_be_bytes_take:
  "be_word (be_bytes n (v :: 'a::len word)) = take_bit (8 * n) v"
proof (induction n)
  case 0
  show ?case by simp
next
  case (Suc n)
  have "or (push_bit (8 * n) (ucast (pp v n))) (take_bit (8 * n) v) = take_bit (8 * Suc n) v"
    by (rule bit_eqI)
      (auto simp: bit_simps bit_pp not_less dest: bit_imp_le_length)
  with Suc show ?case by simp
qed

lemma be_word_be_bytes [simp]:
  assumes "LENGTH('a::len) \<le> 8 * n"
  shows "be_word (be_bytes n (v :: 'a word)) = v"
  using assms by (simp add: be_word_be_bytes_take take_bit_word_eq_self)

lemma bit_be_word:
  "bit (be_word bs :: 'a::len word) k \<longleftrightarrow>
     k < LENGTH('a) \<and> k div 8 < length bs \<and> bit (bs ! (length bs - 1 - k div 8)) (k mod 8)"
proof (induction bs)
  case Nil
  show ?case by simp
next
  case (Cons b bs)
  consider "k div 8 < length bs" | "k div 8 = length bs" | "length bs < k div 8" by linarith
  then show ?case
  proof cases
    case 1
    then have "k < 8 * length bs" by linarith
    with 1 Cons show ?thesis
      by (auto simp: bit_simps nth_Cons' Suc_diff_Suc)
  next
    case 2
    then have "8 * length bs \<le> k" and "k - 8 * length bs = k mod 8" by presburger+
    with 2 Cons show ?thesis by (auto simp: bit_simps dest: bit_imp_le_length)
  next
    case 3
    then have "8 * length bs + 8 \<le> k" by linarith
    with 3 Cons show ?thesis by (auto simp: bit_simps dest: bit_imp_le_length)
  qed
qed

lemma be_word_short: "8 * length bs \<le> k \<Longrightarrow> be_word bs = take_bit k (be_word bs :: 'a::len word)"
  by (rule bit_eqI) (auto simp: bit_simps bit_be_word)

section \<open>Outcomes of calls\<close>

datatype fault = Assert_Failed | Div_By_Zero | Out_Of_Bounds | Null_Deref | Bad_Free | Thrown | Use_After_Free | No_Return | No_Fuel

datatype ('a, 's) outcome = Done 'a 's | Fail int 's | Crash fault

type_synonym ('a, 's) act = "'s \<Rightarrow> ('a, 's) outcome"

definition ret :: "'a \<Rightarrow> ('a, 's) act" where
  "ret x s = Done x s"

definition fail :: "int \<Rightarrow> ('a, 's) act" where
  "fail e s = Fail e s"

definition crash :: "fault \<Rightarrow> ('a, 's) act" where
  "crash q s = Crash q"

text \<open>\<open>if ((ret = f(...)) != error_success) return ret;\<close>, then the rest of the body.\<close>

definition bind :: "('a, 's) act \<Rightarrow> ('a \<Rightarrow> ('b, 's) act) \<Rightarrow> ('b, 's) act" where
  "bind m f s = (case m s of Done x s' \<Rightarrow> f x s' | Fail e s' \<Rightarrow> Fail e s' | Crash q \<Rightarrow> Crash q)"

definition seq :: "(unit, 's) act \<Rightarrow> ('b, 's) act \<Rightarrow> ('b, 's) act" where
  "seq m n = bind m (\<lambda>_. n)"

text \<open>A call whose return code the source drops.\<close>

definition ignore :: "(unit, 's) act \<Rightarrow> (unit, 's) act" where
  "ignore m s = (case m s of Done x s' \<Rightarrow> Done () s' | Fail e s' \<Rightarrow> Done () s' | Crash q \<Rightarrow> Crash q)"

definition assertion :: "bool \<Rightarrow> (unit, 's) act" where
  "assertion p = (if p then ret () else crash Assert_Failed)"

definition check :: "bool \<Rightarrow> int \<Rightarrow> (unit, 's) act" where
  "check p e = (if p then ret () else fail e)"

primrec for_each :: "('a \<Rightarrow> (unit, 's) act) \<Rightarrow> 'a list \<Rightarrow> (unit, 's) act" where
  "for_each f [] = ret ()"
| "for_each f (x # xs) = seq (f x) (for_each f xs)"

lemma ret_run [act_simps]: "ret x s = Done x s"
  and fail_run [act_simps]: "fail e s = Fail e s"
  and crash_run [act_simps]: "crash q s = Crash q"
  by (simp_all add: ret_def fail_def crash_def)

lemma bind_Done [act_simps]: "m s = Done x s' \<Longrightarrow> bind m f s = f x s'"
  and bind_Fail [act_simps]: "m s = Fail e s' \<Longrightarrow> bind m f s = Fail e s'"
  and bind_Crash [act_simps]: "m s = Crash q \<Longrightarrow> bind m f s = Crash q"
  by (simp_all add: bind_def)

lemma bind_bool [act_simps]:
  "m s = Done False s' \<Longrightarrow> bind m f s = f False s'" "m s = Done True s' \<Longrightarrow> bind m f s = f True s'"
  by (simp_all add: bind_def)

lemma seq_Done [act_simps]: "m s = Done () s' \<Longrightarrow> seq m n s = n s'"
  and seq_Fail [act_simps]: "m s = Fail e s' \<Longrightarrow> seq m n s = Fail e s'"
  and seq_Crash [act_simps]: "m s = Crash q \<Longrightarrow> seq m n s = Crash q"
  by (simp_all add: seq_def bind_def)

lemma ignore_Done [act_simps]: "m s = Done () s' \<Longrightarrow> ignore m s = Done () s'"
  and ignore_Fail [act_simps]: "m s = Fail e s' \<Longrightarrow> ignore m s = Done () s'"
  and ignore_Crash [act_simps]: "m s = Crash q \<Longrightarrow> ignore m s = Crash q"
  by (simp_all add: ignore_def)

lemma assertion_run [act_simps]:
  "p \<Longrightarrow> assertion p s = Done () s" "\<not> p \<Longrightarrow> assertion p s = Crash Assert_Failed"
  by (simp_all add: assertion_def act_simps)

lemma check_run [act_simps]:
  "p \<Longrightarrow> check p e s = Done () s" "\<not> p \<Longrightarrow> check p e s = Fail e s"
  by (simp_all add: check_def act_simps)

lemma bind_Done_iff:
  "bind m f s = Done y t \<longleftrightarrow> (\<exists>x s'. m s = Done x s' \<and> f x s' = Done y t)"
  by (auto simp: bind_def split: outcome.splits)

lemma seq_Done_iff: "seq m n s = Done y t \<longleftrightarrow> (\<exists>s'. m s = Done () s' \<and> n s' = Done y t)"
  by (auto simp: seq_def bind_Done_iff)

lemma for_each_cong [fundef_cong]:
  "xs = ys \<Longrightarrow> (\<And>x. x \<in> set ys \<Longrightarrow> f x = g x) \<Longrightarrow> for_each f xs = for_each g ys"
  by (induction xs arbitrary: ys) auto

section \<open>Arithmetic of C\<close>

text \<open>The remainder \<open>%\<close> of C on values that are not negative is \<open>mod\<close>.\<close>

lemma smod_nonneg: "0 \<le> a \<Longrightarrow> 0 \<le> b \<Longrightarrow> (a :: int) smod b = a mod b"
  by (simp add: signed_modulo_int_def signed_divide_int_def minus_div_mult_eq_mod sgn_if)

definition int_max :: int where
  "int_max = 2 ^ 31 - 1"

text \<open>A value that a 32-bit \<open>int\<close> holds.\<close>

lemma sint_32: "- (2 ^ 31) \<le> x \<Longrightarrow> x < 2 ^ 31 \<Longrightarrow> sint (of_int x :: 32 word) = x"
  by (simp add: int_word_sint)

section \<open>Lists\<close>

lemma take_drop_nth: "i < k \<Longrightarrow> j + k \<le> length xs \<Longrightarrow> take k (drop j xs) ! i = xs ! (j + i)"
  by simp

lemma take_Suc_drop_snoc:
  "j + k < length xs \<Longrightarrow> take (Suc k) (drop j xs) = take k (drop j xs) @ [xs ! (j + k)]"
  by (simp add: take_Suc_conv_app_nth)

end
