(* ===== verification/Ring_Buffer.thy ===== *)
theory Ring_Buffer
  imports Tmss_Base
begin

text \<open>
  \<open>Buffer\<close> of \<open>src/base/io/io_buffer.cpp\<close>, the ring buffer every codec of the program reads
  from and writes to.  The first part translates the class, the second states what it is: a
  bounded FIFO queue of bytes that holds at most \<open>size - 1\<close> of them.

  \<open>buf\<close> is the block of memory the pointer \<open>char *buf\<close> points to (the empty list for
  \<open>nullptr\<close>); reading or writing outside it is \<open>Crash Out_Of_Bounds\<close>, and \<open>% size\<close> with
  \<open>size = 0\<close> is \<open>Crash Div_By_Zero\<close>.  The \<open>int\<close> members are integers: \<open>wf_buffer\<close>
  bounds \<open>size\<close> by \<open>2 ^ 30\<close>, which keeps every intermediate value inside an \<open>int\<close>
  (\<open>buffer_no_overflow\<close>).
\<close>

section \<open>The code\<close>

abbreviation (input) error_buffer_read :: int where "error_buffer_read \<equiv> 12001"

record Buffer =
  buf :: bytes
  wpos :: int
  rpos :: int
  buf_size :: int

text \<open>\<open>Buffer(char *buffer, int size)\<close>\<close>

definition Buffer_new :: "bytes \<Rightarrow> int \<Rightarrow> Buffer" where
  "Buffer_new mem n = \<lparr>buf = mem, wpos = 0, rpos = 0, buf_size = n\<rparr>"

definition rem_size :: "int \<Rightarrow> (int, Buffer) act" where
  "rem_size n = (\<lambda>b. if buf_size b = 0 then Crash Div_By_Zero else Done (n smod buf_size b) b)"

definition write_left :: "(int, Buffer) act" where
  "write_left = (\<lambda>b. rem_size (rpos b + buf_size b - wpos b - 1) b)"

definition read_left :: "(int, Buffer) act" where
  "read_left = (\<lambda>b. rem_size (wpos b + buf_size b - rpos b) b)"

definition continuous_write_left :: "(int, Buffer) act" where
  "continuous_write_left = (\<lambda>b.
     if rpos b \<le> wpos b then bind write_left (\<lambda>l. ret (min (buf_size b - wpos b) l)) b
     else write_left b)"

definition continuous_read_left :: "(int, Buffer) act" where
  "continuous_read_left = (\<lambda>b. if wpos b < rpos b then Done (buf_size b - rpos b) b else read_left b)"

text \<open>\<open>memcpy\<close> out of and into the block.\<close>

definition mem_read :: "int \<Rightarrow> int \<Rightarrow> (bytes, Buffer) act" where
  "mem_read off n = (\<lambda>b.
     if 0 \<le> off \<and> 0 \<le> n \<and> off + n \<le> int (length (buf b))
     then Done (take (nat n) (drop (nat off) (buf b))) b else Crash Out_Of_Bounds)"

definition mem_write :: "int \<Rightarrow> bytes \<Rightarrow> (unit, Buffer) act" where
  "mem_write off xs = (\<lambda>b.
     if 0 \<le> off \<and> off + int (length xs) \<le> int (length (buf b))
     then Done () (b\<lparr>buf := take (nat off) (buf b) @ xs @ drop (nat off + length xs) (buf b)\<rparr>)
     else Crash Out_Of_Bounds)"

definition set_rpos :: "int \<Rightarrow> (unit, Buffer) act" where
  "set_rpos p = (\<lambda>b. Done () (b\<lparr>rpos := p\<rparr>))"

definition set_wpos :: "int \<Rightarrow> (unit, Buffer) act" where
  "set_wpos p = (\<lambda>b. Done () (b\<lparr>wpos := p\<rparr>))"

definition seek_read :: "int \<Rightarrow> (unit, Buffer) act" where
  "seek_read len = (\<lambda>b.
     if len \<le> 0 then Fail error_buffer_read b
     else bind read_left (\<lambda>l.
       if len \<le> l then bind (rem_size (rpos b + len)) set_rpos
       else fail error_buffer_read) b)"

definition seek_write :: "int \<Rightarrow> (unit, Buffer) act" where
  "seek_write len = (\<lambda>b.
     if len \<le> 0 then Fail error_buffer_read b
     else bind write_left (\<lambda>l.
       if len \<le> l then bind (rem_size (wpos b + len)) set_wpos
       else fail error_buffer_read) b)"

definition reset :: "(unit, Buffer) act" where
  "reset = (\<lambda>b. Done () (b\<lparr>rpos := 0, wpos := 0\<rparr>))"

definition read_require :: "int \<Rightarrow> (bool, Buffer) act" where
  "read_require required_size =
     (if required_size < 0 then ret False else bind read_left (\<lambda>l. ret (required_size \<le> l)))"

definition read_empty :: "(bool, Buffer) act" where
  "read_empty = bind read_left (\<lambda>l. ret (l = 0))"

text \<open>
  \<open>read_bytes\<close> copies at most \<open>len\<close> bytes to \<open>dst\<close> and stores the number copied in
  \<open>len\<close>: the result is the bytes copied, by one \<open>memcpy\<close> or by two around the end of the
  block (\<open>copy_out\<close>, which \<open>read_string\<close> shares).
\<close>

definition copy_out :: "int \<Rightarrow> int \<Rightarrow> (bytes, Buffer) act" where
  "copy_out next_rpos len = (\<lambda>b.
     if next_rpos < rpos b
     then bind (mem_read (rpos b) (buf_size b - rpos b)) (\<lambda>xs.
            bind (mem_read 0 next_rpos) (\<lambda>ys. ret (xs @ ys))) b
     else mem_read (rpos b) len b)"

definition read_bytes :: "int \<Rightarrow> (bytes, Buffer) act" where
  "read_bytes len = (\<lambda>b.
     if len \<le> 0 then Fail error_buffer_read b
     else bind read_left (\<lambda>l.
       let n = (if len < l then len else l) in
       bind (rem_size (rpos b + n)) (\<lambda>next_rpos.
         bind (copy_out next_rpos n) (\<lambda>dst. seq (set_rpos next_rpos) (ret dst)))) b)"

text \<open>One byte at the read position (\<open>*(buf + rpos)\<close>), then \<open>seek_read(1)\<close>.\<close>

definition next_byte :: "(byte, Buffer) act" where
  "next_byte = (\<lambda>b. bind (mem_read (rpos b) 1) (\<lambda>xs.
     seq (ignore (seek_read 1)) (ret (hd xs))) b)"

definition require_read :: "int \<Rightarrow> (unit, Buffer) act" where
  "require_read n = bind read_left (\<lambda>l. assertion (n \<le> l))"

definition read_1byte :: "(byte, Buffer) act" where
  "read_1byte = seq (require_read 1) next_byte"

definition read_2bytes :: "(16 word, Buffer) act" where
  "read_2bytes = seq (require_read 2)
     (bind next_byte (\<lambda>pp1. bind next_byte (\<lambda>pp0. ret (be_word [pp1, pp0]))))"

definition read_3bytes :: "(32 word, Buffer) act" where
  "read_3bytes = seq (require_read 3)
     (bind next_byte (\<lambda>pp2. bind next_byte (\<lambda>pp1. bind next_byte (\<lambda>pp0.
        ret (be_word [pp2, pp1, pp0])))))"

definition read_4bytes :: "(32 word, Buffer) act" where
  "read_4bytes = seq (require_read 4)
     (bind next_byte (\<lambda>pp3. bind next_byte (\<lambda>pp2. bind next_byte (\<lambda>pp1. bind next_byte (\<lambda>pp0.
        ret (be_word [pp3, pp2, pp1, pp0]))))))"

definition read_8bytes :: "(64 word, Buffer) act" where
  "read_8bytes = seq (require_read 8)
     (bind next_byte (\<lambda>pp7. bind next_byte (\<lambda>pp6. bind next_byte (\<lambda>pp5. bind next_byte (\<lambda>pp4.
      bind next_byte (\<lambda>pp3. bind next_byte (\<lambda>pp2. bind next_byte (\<lambda>pp1. bind next_byte (\<lambda>pp0.
        ret (be_word [pp7, pp6, pp5, pp4, pp3, pp2, pp1, pp0]))))))))))"

definition read_string :: "int \<Rightarrow> (bytes, Buffer) act" where
  "read_string len = seq (require_read len) (\<lambda>b.
     bind (rem_size (rpos b + len)) (\<lambda>next_rpos.
       bind (copy_out next_rpos len) (\<lambda>result. seq (ignore (seek_read len)) (ret result))) b)"

definition write_bytes :: "bytes \<Rightarrow> (unit, Buffer) act" where
  "write_bytes src = (\<lambda>b. let len = int (length src) in
     if len \<le> 0 then Fail error_buffer_read b
     else bind write_left (\<lambda>l.
       if l < len then fail error_buffer_read
       else bind (rem_size (wpos b + len)) (\<lambda>next_wpos.
         seq (if next_wpos < wpos b
              then seq (mem_write (wpos b) (take (nat (buf_size b - wpos b)) src))
                       (mem_write 0 (drop (nat (buf_size b - wpos b)) src))
              else mem_write (wpos b) src)
             (set_wpos next_wpos))) b)"

definition put_byte :: "byte \<Rightarrow> (unit, Buffer) act" where
  "put_byte v = (\<lambda>b. seq (mem_write (wpos b) [v]) (ignore (seek_write 1)) b)"

definition require_write :: "int \<Rightarrow> (unit, Buffer) act" where
  "require_write n = bind write_left (\<lambda>l. assertion (n \<le> l))"

definition write_1byte :: "byte \<Rightarrow> (unit, Buffer) act" where
  "write_1byte value = seq (require_write 1) (put_byte value)"

definition write_2bytes :: "16 word \<Rightarrow> (unit, Buffer) act" where
  "write_2bytes value = seq (require_write 2)
     (seq (put_byte (pp value 1)) (put_byte (pp value 0)))"

definition write_3bytes :: "32 word \<Rightarrow> (unit, Buffer) act" where
  "write_3bytes value = seq (require_write 3)
     (seq (put_byte (pp value 2)) (seq (put_byte (pp value 1)) (put_byte (pp value 0))))"

definition write_4bytes :: "32 word \<Rightarrow> (unit, Buffer) act" where
  "write_4bytes value = seq (require_write 4)
     (seq (put_byte (pp value 3)) (seq (put_byte (pp value 2))
     (seq (put_byte (pp value 1)) (put_byte (pp value 0)))))"

definition write_8bytes :: "64 word \<Rightarrow> (unit, Buffer) act" where
  "write_8bytes value = seq (require_write 8)
     (seq (put_byte (pp value 7)) (seq (put_byte (pp value 6))
     (seq (put_byte (pp value 5)) (seq (put_byte (pp value 4))
     (seq (put_byte (pp value 3)) (seq (put_byte (pp value 2))
     (seq (put_byte (pp value 1)) (put_byte (pp value 0)))))))))"

section \<open>The bounded queue it implements\<close>

definition wf_buffer :: "Buffer \<Rightarrow> bool" where
  "wf_buffer b \<longleftrightarrow> 0 < buf_size b \<and> buf_size b \<le> 2 ^ 30 \<and> buf_size b \<le> int (length (buf b))
     \<and> 0 \<le> rpos b \<and> rpos b < buf_size b \<and> 0 \<le> wpos b \<and> wpos b < buf_size b"

text \<open>The bytes that wait to be read, oldest first, and the free space.\<close>

definition content :: "Buffer \<Rightarrow> bytes" where
  "content b =
     (if rpos b \<le> wpos b then take (nat (wpos b - rpos b)) (drop (nat (rpos b)) (buf b))
      else take (nat (buf_size b - rpos b)) (drop (nat (rpos b)) (buf b)) @ take (nat (wpos b)) (buf b))"

definition readable :: "Buffer \<Rightarrow> nat" where
  "readable b = length (content b)"

definition room :: "Buffer \<Rightarrow> nat" where
  "room b = nat (buf_size b - 1) - length (content b)"

text \<open>The two pure moves the operations make: drop bytes at the front, append bytes at the end.\<close>

definition skip :: "nat \<Rightarrow> Buffer \<Rightarrow> Buffer" where
  "skip k b = b\<lparr>rpos := (rpos b + int k) mod buf_size b\<rparr>"

primrec push :: "bytes \<Rightarrow> Buffer \<Rightarrow> Buffer" where
  "push [] b = b"
| "push (x # xs) b = push xs
     (b\<lparr>buf := (buf b)[nat (wpos b) := x], wpos := (wpos b + 1) mod buf_size b\<rparr>)"

lemma length_content:
  "wf_buffer b \<Longrightarrow> int (length (content b)) = (wpos b - rpos b) mod buf_size b"
proof -
  assume b: "wf_buffer b"
  show ?thesis
  proof (cases "rpos b \<le> wpos b")
    case True
    with b show ?thesis by (auto simp: wf_buffer_def content_def)
  next
    case False
    have "(wpos b - rpos b) mod buf_size b = (wpos b - rpos b + buf_size b) mod buf_size b"
      by simp
    also have "\<dots> = wpos b - rpos b + buf_size b"
      using b False by (intro mod_pos_pos_trivial) (auto simp: wf_buffer_def)
    finally show ?thesis using b False by (auto simp: wf_buffer_def content_def)
  qed
qed

lemma readable_less: "wf_buffer b \<Longrightarrow> int (readable b) < buf_size b"
  by (simp add: readable_def length_content) (simp add: wf_buffer_def)

lemma readable_plus_room: "wf_buffer b \<Longrightarrow> int (readable b) + int (room b) = buf_size b - 1"
  using readable_less [of b] by (auto simp: room_def readable_def wf_buffer_def)


lemma wf_bounds:
  assumes "wf_buffer b"
  shows "0 < buf_size b" "buf_size b \<le> int (length (buf b))"
    "0 \<le> rpos b" "rpos b < buf_size b" "0 \<le> wpos b" "wpos b < buf_size b"
  using assms by (auto simp: wf_buffer_def)

lemma wpos_eq: "wf_buffer b \<Longrightarrow> wpos b = (rpos b + int (readable b)) mod buf_size b"
  using length_content [of b] wf_bounds [of b]
  by (simp add: readable_def mod_add_right_eq)

lemma mod_wrap:
  assumes "0 \<le> (a::int)" "a < 2 * n"
  shows "a mod n = (if a < n then a else a - n)"
proof (cases "a < n")
  case True
  with assms show ?thesis by simp
next
  case False
  with assms have "(a - n) mod n = a - n" by (intro mod_pos_pos_trivial) auto
  with False show ?thesis by simp
qed

lemma wf_natE:
  assumes "wf_buffer b"
  obtains n r w where "buf_size b = int n" "rpos b = int r" "wpos b = int w" "r < n" "w < n"
    "n \<le> length (buf b)"
    "content b = (if r \<le> w then take (w - r) (drop r (buf b))
       else take (n - r) (drop r (buf b)) @ take w (buf b))"
    "readable b = (if r \<le> w then w - r else n - r + w)"
proof
  note B = wf_bounds [OF assms]
  let ?n = "nat (buf_size b)" and ?r = "nat (rpos b)" and ?w = "nat (wpos b)"
  show "buf_size b = int ?n" "rpos b = int ?r" "wpos b = int ?w" "?r < ?n" "?w < ?n"
    and len: "?n \<le> length (buf b)"
    using B by auto
  show c: "content b = (if ?r \<le> ?w then take (?w - ?r) (drop ?r (buf b))
       else take (?n - ?r) (drop ?r (buf b)) @ take ?w (buf b))"
    using B by (simp add: content_def nat_diff_distrib nat_le_eq_zle)
  have "?r < ?n" "?w < ?n" using B by auto
  with len show "readable b = (if ?r \<le> ?w then ?w - ?r else ?n - ?r + ?w)"
    unfolding readable_def c by (simp add: min_absorb2)
qed

lemma nth_content:
  assumes "wf_buffer b" "i < readable b"
  shows "content b ! i = buf b ! nat ((rpos b + int i) mod buf_size b)"
proof (rule wf_natE [OF assms(1)])
  fix n r w
  assume N: "buf_size b = int n" "rpos b = int r" "wpos b = int w" "r < n" "w < n"
    "n \<le> length (buf b)"
    and c: "content b = (if r \<le> w then take (w - r) (drop r (buf b))
       else take (n - r) (drop r (buf b)) @ take w (buf b))"
    and len: "readable b = (if r \<le> w then w - r else n - r + w)"
  have "nat ((rpos b + int i) mod buf_size b) = (r + i) mod n"
    by (simp add: N flip: of_nat_add of_nat_mod)
  also have "(r + i) mod n = (if r + i < n then r + i else r + i - n)"
    using N len assms(2) by (auto simp: le_mod_geq split: if_splits)
  finally have m: "nat ((rpos b + int i) mod buf_size b) = (if r + i < n then r + i else r + i - n)" .
  have nth: "buf b ! nat ((rpos b + int i) mod buf_size b)
      = buf b ! (if r + i < n then r + i else r + i - n)" by (simp only: m)
  consider "r \<le> w" | "w < r" "r + i < n" | "w < r" "n \<le> r + i" by linarith
  then show ?thesis
  proof cases
    case 1
    with N len assms(2) have "r + i < n" by auto
    with 1 N len assms(2) show ?thesis unfolding nth c by simp
  next
    case 2
    with N have "i < n - r" by linarith
    with 2 N show ?thesis unfolding nth c by (simp add: nth_append)
  next
    case 3
    with N have "\<not> i < n - r" "i - (n - r) = r + i - n" by linarith+
    with 3 N len assms(2) show ?thesis unfolding nth c by (simp add: nth_append)
  qed
qed

lemma read_left_eq [act_simps]: "wf_buffer b \<Longrightarrow> read_left b = Done (int (readable b)) b"
proof -
  assume b: "wf_buffer b"
  have "(wpos b + buf_size b - rpos b) mod buf_size b = (wpos b - rpos b + buf_size b) mod buf_size b"
    by (simp only: algebra_simps)
  with b wf_bounds [OF b] length_content [OF b] show ?thesis
    by (simp add: read_left_def rem_size_def smod_nonneg readable_def)
qed

lemma write_left_eq [act_simps]: "wf_buffer b \<Longrightarrow> write_left b = Done (int (room b)) b"
proof -
  assume b: "wf_buffer b"
  note B = wf_bounds [OF b]
  have "(rpos b + buf_size b - wpos b - 1) mod buf_size b = int (room b)"
  proof (cases "rpos b \<le> wpos b")
    case True
    have "(rpos b + buf_size b - wpos b - 1) mod buf_size b = rpos b + buf_size b - wpos b - 1"
      using True B by (intro mod_pos_pos_trivial) auto
    with True b B show ?thesis by (auto simp: room_def content_def)
  next
    case False
    have "(rpos b + buf_size b - wpos b - 1) mod buf_size b = rpos b - wpos b - 1"
      using False B by (subst mod_wrap) auto
    with False b B show ?thesis by (auto simp: room_def content_def)
  qed
  with B show ?thesis by (simp add: write_left_def rem_size_def smod_nonneg)
qed

lemma skip_sel [simp]:
  "buf (skip k b) = buf b" "wpos (skip k b) = wpos b" "buf_size (skip k b) = buf_size b"
  "rpos (skip k b) = (rpos b + int k) mod buf_size b"
  by (simp_all add: skip_def)

lemma wf_skip [simp]: "wf_buffer b \<Longrightarrow> wf_buffer (skip k b)"
  by (auto simp: wf_buffer_def)

lemma skip_skip [simp]: "skip j (skip k b) = skip (k + j) b"
  by (simp add: skip_def mod_simps algebra_simps)

lemma readable_skip [simp]:
  assumes "wf_buffer b" "k \<le> readable b"
  shows "readable (skip k b) = readable b - k"
proof -
  have "int (readable (skip k b)) = (wpos b - (rpos b + int k) mod buf_size b) mod buf_size b"
    using assms length_content [of "skip k b"] by (simp add: readable_def)
  also have "\<dots> = (wpos b - rpos b - int k) mod buf_size b" by (simp add: mod_simps algebra_simps)
  also have "\<dots> = (int (readable b) - int k) mod buf_size b"
    using assms length_content [of b] by (simp add: readable_def mod_simps)
  also have "\<dots> = int (readable b) - int k"
    using assms readable_less [of b] by (intro mod_pos_pos_trivial) auto
  finally show ?thesis by simp
qed

lemma content_skip [simp]:
  assumes "wf_buffer b" "k \<le> readable b"
  shows "content (skip k b) = drop k (content b)"
proof (rule nth_equalityI)
  show len: "length (content (skip k b)) = length (drop k (content b))"
    using readable_skip [OF assms] by (simp add: readable_def)
  fix i assume "i < length (content (skip k b))"
  with assms len show "content (skip k b) ! i = drop k (content b) ! i"
    by (simp add: nth_content readable_def mod_simps add.assoc)
qed

lemma room_skip [simp]: "wf_buffer b \<Longrightarrow> k \<le> readable b \<Longrightarrow> room (skip k b) = room b + k"
  using readable_plus_room [of b] readable_plus_room [of "skip k b"] by simp

section \<open>Reading\<close>

lemma content_first_segment:
  assumes "wf_buffer b" "n \<le> readable b" "rpos b + int n < buf_size b"
  shows "take n (drop (nat (rpos b)) (buf b)) = take n (content b)"
proof (rule wf_natE [OF assms(1)])
  fix m r w
  assume "buf_size b = int m" "rpos b = int r" "wpos b = int w" "r < m" "w < m"
    "m \<le> length (buf b)"
    "content b = (if r \<le> w then take (w - r) (drop r (buf b))
       else take (m - r) (drop r (buf b)) @ take w (buf b))"
    "readable b = (if r \<le> w then w - r else m - r + w)"
  with assms show ?thesis by (simp add: min_absorb1 split: if_splits)
qed

lemma content_two_segments:
  assumes "wf_buffer b" "n \<le> readable b" "buf_size b \<le> rpos b + int n"
  shows "take (nat (buf_size b - rpos b)) (drop (nat (rpos b)) (buf b))
       @ take (nat (rpos b + int n - buf_size b)) (buf b) = take n (content b)"
proof (rule wf_natE [OF assms(1)])
  fix m r w
  assume N: "buf_size b = int m" "rpos b = int r" "wpos b = int w" "r < m" "w < m"
    "m \<le> length (buf b)"
    and c: "content b = (if r \<le> w then take (w - r) (drop r (buf b))
       else take (m - r) (drop r (buf b)) @ take w (buf b))"
    and len: "readable b = (if r \<le> w then w - r else m - r + w)"
  have wr: "w < r" and k: "n - (m - r) \<le> w" "m - r \<le> n"
    using assms N len by (auto split: if_splits)
  have "nat (buf_size b - rpos b) = m - r" "nat (rpos b + int n - buf_size b) = n - (m - r)"
    using N k by auto
  with N c wr k show ?thesis by (simp add: min_absorb1)
qed

lemma rem_size_eq [act_simps]:
  "wf_buffer b \<Longrightarrow> 0 \<le> n \<Longrightarrow> rem_size n b = Done (n mod buf_size b) b"
  using wf_bounds [of b] by (simp add: rem_size_def smod_nonneg)

lemma seek_read_eq [act_simps]:
  assumes "wf_buffer b" "0 < len" "len \<le> int (readable b)"
  shows "seek_read len b = Done () (skip (nat len) b)"
  using assms wf_bounds [OF assms(1)]
  by (simp add: seek_read_def act_simps set_rpos_def skip_def)

lemma seek_read_neg [act_simps]: "len \<le> 0 \<Longrightarrow> seek_read len b = Fail error_buffer_read b"
  by (simp add: seek_read_def)

lemma seek_read_short [act_simps]:
  "wf_buffer b \<Longrightarrow> int (readable b) < len \<Longrightarrow> seek_read len b = Fail error_buffer_read b"
  by (simp add: seek_read_def act_simps)

lemma require_read_eq [act_simps]:
  "wf_buffer b \<Longrightarrow> n \<le> int (readable b) \<Longrightarrow> require_read n b = Done () b"
  "wf_buffer b \<Longrightarrow> int (readable b) < n \<Longrightarrow> require_read n b = Crash Assert_Failed"
  by (simp_all add: require_read_def act_simps)

lemma read_require_eq:
  "wf_buffer b \<Longrightarrow> read_require n b = Done (0 \<le> n \<and> n \<le> int (readable b)) b"
  by (cases "n < 0") (auto simp: read_require_def act_simps)

lemma read_require_cases [act_simps]:
  "wf_buffer b \<Longrightarrow> 0 \<le> n \<Longrightarrow> n \<le> int (readable b) \<Longrightarrow> read_require n b = Done True b"
  "wf_buffer b \<Longrightarrow> n < 0 \<or> int (readable b) < n \<Longrightarrow> read_require n b = Done False b"
  by (auto simp: read_require_eq)

lemma read_empty_eq [act_simps]: "wf_buffer b \<Longrightarrow> read_empty b = Done (content b = []) b"
  by (simp add: read_empty_def act_simps readable_def)

lemma next_byte_eq [act_simps]:
  assumes "wf_buffer b" "0 < readable b"
  shows "next_byte b = Done (content b ! 0) (skip 1 b)"
proof -
  note B = wf_bounds [OF assms(1)]
  have "nat (rpos b) < length (buf b)" using B by auto
  then have "take 1 (drop (nat (rpos b)) (buf b)) = [content b ! 0]"
    using B nth_content [OF assms] by (simp add: take_Suc_drop_snoc [where k = 0, simplified])
  with assms B show ?thesis
    by (simp add: next_byte_def mem_read_def act_simps)
qed


section \<open>Writing\<close>

lemma push_sel [simp]:
  "rpos (push xs b) = rpos b" "buf_size (push xs b) = buf_size b"
  "length (buf (push xs b)) = length (buf b)"
  by (induction xs arbitrary: b) simp_all

lemma push_push [simp]: "push ys (push xs b) = push (xs @ ys) b"
  by (induction xs arbitrary: b) simp_all

lemma wf_push [simp]: "wf_buffer b \<Longrightarrow> wf_buffer (push xs b)"
proof (induction xs arbitrary: b)
  case (Cons x xs)
  from Cons.prems have "wf_buffer (b\<lparr>buf := (buf b)[nat (wpos b) := x],
      wpos := (wpos b + 1) mod buf_size b\<rparr>)"
    by (auto simp: wf_buffer_def)
  then show ?case by (simp add: Cons.IH)
qed simp

lemma content_push_one:
  assumes "wf_buffer b" "0 < room b"
  shows "content (push [x] b) = content b @ [x]"
proof (rule nth_equalityI)
  let ?b = "push [x] b"
  note B = wf_bounds [OF assms(1)]
  have wf: "wf_buffer ?b" by (rule wf_push [OF assms(1)])
  have less: "int (readable b) + 1 < buf_size b"
    using readable_plus_room [OF assms(1)] assms(2) by simp
  have "int (readable ?b) = ((wpos b + 1) mod buf_size b - rpos b) mod buf_size b"
    using length_content [OF wf] by (simp add: readable_def)
  also have "\<dots> = (wpos b - rpos b + 1) mod buf_size b" by (simp add: mod_simps algebra_simps)
  also have "\<dots> = (int (readable b) + 1) mod buf_size b"
    using length_content [OF assms(1)] by (simp add: readable_def mod_simps)
  also have "\<dots> = int (readable b) + 1" using less by simp
  finally have len: "readable ?b = readable b + 1" by simp
  then show "length (content ?b) = length (content b @ [x])" by (simp add: readable_def)
  fix i assume "i < length (content ?b)"
  with len have i: "i < readable ?b" "i \<le> readable b" by (simp_all add: readable_def)
  let ?at = "\<lambda>j. (rpos b + int j) mod buf_size b"
  have at: "0 \<le> ?at j" "?at j < buf_size b" for j using B by simp_all
  have w: "wpos b = ?at (readable b)" by (rule wpos_eq [OF assms(1)])
  show "content ?b ! i = (content b @ [x]) ! i"
  proof (cases "i = readable b")
    case True
    have "nat (?at (readable b)) < length (buf b)" using at [of "readable b"] B by linarith
    with True w show ?thesis
      using nth_content [OF wf i(1)] by (simp add: readable_def nth_append)
  next
    case False
    with i have less_i: "i < readable b" by simp
    have "?at i \<noteq> ?at (readable b)"
    proof
      assume "?at i = ?at (readable b)"
      then have "int i mod buf_size b = int (readable b) mod buf_size b"
        by (simp add: mod_eq_dvd_iff algebra_simps)
      with less less_i show False by simp
    qed
    with at w have "nat (?at i) \<noteq> nat (wpos b)" by (metis eq_nat_nat_iff B(5))
    with less_i nth_content [OF wf i(1)] nth_content [OF assms(1) less_i] show ?thesis
      by (simp add: readable_def nth_append)
  qed
qed

lemma content_push [simp]:
  "wf_buffer b \<Longrightarrow> length xs \<le> room b \<Longrightarrow> content (push xs b) = content b @ xs"
proof (induction xs arbitrary: b)
  case (Cons x xs)
  let ?b = "push [x] b"
  have b: "content ?b = content b @ [x]" using Cons.prems by (intro content_push_one) auto
  then have "room ?b = room b - 1" by (simp add: room_def)
  with Cons have "content (push xs ?b) = content ?b @ xs" by (intro Cons.IH wf_push) auto
  with b show ?case by (simp del: push_push)
qed simp

lemma readable_push [simp]:
  "wf_buffer b \<Longrightarrow> length xs \<le> room b \<Longrightarrow> readable (push xs b) = readable b + length xs"
  by (simp add: readable_def)

lemma room_push [simp]:
  "wf_buffer b \<Longrightarrow> length xs \<le> room b \<Longrightarrow> room (push xs b) = room b - length xs"
  by (simp add: room_def)

lemma content_buf: "length (content (b\<lparr>buf := m\<rparr>)) = length (content b)" if "length m = length (buf b)"
  using that by (simp add: content_def)

lemma wf_buf: "wf_buffer b \<Longrightarrow> length m = length (buf b) \<Longrightarrow> wf_buffer (b\<lparr>buf := m\<rparr>)"
  by (simp add: wf_buffer_def)

lemma seek_write_eq [act_simps]:
  assumes "wf_buffer b" "0 < len" "len \<le> int (room b)"
  shows "seek_write len b = Done () (b\<lparr>wpos := (wpos b + len) mod buf_size b\<rparr>)"
  using assms wf_bounds [OF assms(1)] by (simp add: seek_write_def act_simps set_wpos_def)

lemma seek_write_full [act_simps]:
  "wf_buffer b \<Longrightarrow> len \<le> 0 \<or> int (room b) < len \<Longrightarrow> seek_write len b = Fail error_buffer_read b"
  by (auto simp: seek_write_def act_simps)

lemma require_write_eq [act_simps]:
  "wf_buffer b \<Longrightarrow> n \<le> int (room b) \<Longrightarrow> require_write n b = Done () b"
  "wf_buffer b \<Longrightarrow> int (room b) < n \<Longrightarrow> require_write n b = Crash Assert_Failed"
  by (simp_all add: require_write_def act_simps)

lemma put_byte_eq [act_simps]:
  assumes "wf_buffer b" "0 < room b"
  shows "put_byte v b = Done () (push [v] b)"
proof -
  note B = wf_bounds [OF assms(1)]
  let ?m = "(buf b)[nat (wpos b) := v]"
  have m: "take (nat (wpos b)) (buf b) @ v # drop (Suc (nat (wpos b))) (buf b) = ?m"
    using B by (simp add: upd_conv_take_nth_drop)
  have "wf_buffer (b\<lparr>buf := ?m\<rparr>)" "room (b\<lparr>buf := ?m\<rparr>) = room b"
    using assms by (simp_all add: wf_buf room_def content_buf)
  with assms B m show ?thesis
    by (simp add: put_byte_def mem_write_def act_simps)
qed

text \<open>What \<open>push\<close> does to the memory: one \<open>memcpy\<close> before the end, two around it.\<close>

lemma push_segment:
  assumes "0 \<le> wpos b" "0 < buf_size b" "buf_size b \<le> int (length (buf b))"
    "wpos b + int (length xs) \<le> buf_size b" "wpos b < buf_size b"
  shows "push xs b = b\<lparr>buf := take (nat (wpos b)) (buf b) @ xs
      @ drop (nat (wpos b) + length xs) (buf b), wpos := (wpos b + int (length xs)) mod buf_size b\<rparr>"
  using assms
proof (induction xs arbitrary: b)
  case Nil
  then show ?case by simp
next
  case (Cons x xs)
  let ?w = "nat (wpos b)"
  let ?b = "b\<lparr>buf := (buf b)[?w := x], wpos := (wpos b + 1) mod buf_size b\<rparr>"
  show ?case
  proof (cases "xs = []")
    case True
    with Cons.prems show ?thesis by (simp add: upd_conv_take_nth_drop)
  next
    case False
    with Cons.prems have w1: "(wpos b + 1) mod buf_size b = wpos b + 1"
      by (cases xs) simp_all
    have "push xs ?b = ?b\<lparr>buf := take (Suc ?w) ((buf b)[?w := x]) @ xs
        @ drop (Suc ?w + length xs) ((buf b)[?w := x]), wpos := (wpos b + 1 + int (length xs)) mod buf_size b\<rparr>"
      using Cons.prems False w1 Cons.IH [of ?b] by (cases xs) (simp_all add: nat_add_distrib)
    moreover have "take (Suc ?w) ((buf b)[?w := x]) = take ?w (buf b) @ [x]"
      using Cons.prems by (simp add: take_Suc_conv_app_nth)
    ultimately show ?thesis by (simp add: add.assoc)
  qed
qed

lemma write_bytes_eq [act_simps]:
  assumes "wf_buffer b" "src \<noteq> []" "length src \<le> room b"
  shows "write_bytes src b = Done () (push src b)"
proof -
  note B = wf_bounds [OF assms(1)]
  let ?k = "nat (buf_size b - wpos b)"
  have len: "int (length src) < buf_size b"
    using readable_plus_room [OF assms(1)] assms(3) by simp
  show ?thesis
  proof (cases "wpos b + int (length src) < buf_size b")
    case True
    with B len push_segment [of b src] assms show ?thesis
      by (simp add: write_bytes_def act_simps mem_write_def set_wpos_def)
  next
    case False
    let ?xs = "take ?k src" and ?ys = "drop ?k src"
    let ?next = "wpos b + int (length src) - buf_size b"
    have next_: "(wpos b + int (length src)) mod buf_size b = ?next" "?next < wpos b"
      using False B len by (simp_all add: mod_wrap)
    have lens: "wpos b + int (length ?xs) = buf_size b" "int (length ?ys) = ?next"
      using False B by auto
    let ?m = "take (nat (wpos b)) (buf b) @ ?xs @ drop (nat (wpos b) + length ?xs) (buf b)"
    have b1: "push ?xs b = b\<lparr>buf := ?m, wpos := 0\<rparr>"
      using push_segment [of b ?xs] B lens by simp
    have lm: "length ?m = length (buf b)" using B lens by auto
    have "push ?ys (push ?xs b) = b\<lparr>buf := ?ys @ drop (length ?ys) ?m, wpos := ?next\<rparr>"
      unfolding b1 using push_segment [of "b\<lparr>buf := ?m, wpos := 0\<rparr>" ?ys] B lens lm next_
      by (simp del: length_drop length_take length_append)
    then have "push src b = b\<lparr>buf := ?ys @ drop (length ?ys) ?m, wpos := ?next\<rparr>" by simp
    then show ?thesis
      using assms B next_ lens lm False
      by (simp add: write_bytes_def act_simps mem_write_def set_wpos_def
          del: length_drop length_take length_append push_push)
  qed
qed

lemma write_bytes_full [act_simps]:
  "wf_buffer b \<Longrightarrow> src = [] \<or> room b < length src \<Longrightarrow> write_bytes src b = Fail error_buffer_read b"
  by (auto simp: write_bytes_def Let_def act_simps)

declare push.simps(2) [simp del]

section \<open>Integers and strings\<close>

lemma nth_drop_content: "k \<le> readable b \<Longrightarrow> drop k (content b) ! i = content b ! (k + i)"
  by (simp add: readable_def)

lemma take_content:
  "2 \<le> readable b \<Longrightarrow> take 2 (content b) = [content b ! 0, content b ! 1]"
  "3 \<le> readable b \<Longrightarrow> take 3 (content b) = [content b ! 0, content b ! 1, content b ! 2]"
  "4 \<le> readable b \<Longrightarrow> take 4 (content b) = [content b ! 0, content b ! 1, content b ! 2, content b ! 3]"
  "8 \<le> readable b \<Longrightarrow> take 8 (content b) = [content b ! 0, content b ! 1, content b ! 2, content b ! 3,
     content b ! 4, content b ! 5, content b ! 6, content b ! 7]"
  unfolding readable_def by (auto intro!: nth_equalityI simp: less_Suc_eq numeral_eq_Suc nth_Cons')

lemma read_1byte_eq [act_simps]:
  "wf_buffer b \<Longrightarrow> 1 \<le> readable b \<Longrightarrow> read_1byte b = Done (content b ! 0) (skip 1 b)"
  by (simp add: read_1byte_def act_simps)

lemma read_2bytes_eq [act_simps]:
  "wf_buffer b \<Longrightarrow> 2 \<le> readable b \<Longrightarrow> read_2bytes b = Done (be_word (take 2 (content b))) (skip 2 b)"
  using take_content(1) [of b]
  by (simp add: read_2bytes_def act_simps nth_drop_content numeral_eq_Suc)

lemma read_3bytes_eq [act_simps]:
  "wf_buffer b \<Longrightarrow> 3 \<le> readable b \<Longrightarrow> read_3bytes b = Done (be_word (take 3 (content b))) (skip 3 b)"
  using take_content(2) [of b]
  by (simp add: read_3bytes_def act_simps nth_drop_content numeral_eq_Suc)

lemma read_4bytes_eq [act_simps]:
  "wf_buffer b \<Longrightarrow> 4 \<le> readable b \<Longrightarrow> read_4bytes b = Done (be_word (take 4 (content b))) (skip 4 b)"
  using take_content(3) [of b]
  by (simp add: read_4bytes_def act_simps nth_drop_content numeral_eq_Suc)

lemma read_8bytes_eq [act_simps]:
  "wf_buffer b \<Longrightarrow> 8 \<le> readable b \<Longrightarrow> read_8bytes b = Done (be_word (take 8 (content b))) (skip 8 b)"
  using take_content(4) [of b]
  by (simp add: read_8bytes_def act_simps nth_drop_content numeral_eq_Suc)

lemma reads_short [act_simps]:
  "wf_buffer b \<Longrightarrow> readable b < 1 \<Longrightarrow> read_1byte b = Crash Assert_Failed"
  "wf_buffer b \<Longrightarrow> readable b < 2 \<Longrightarrow> read_2bytes b = Crash Assert_Failed"
  "wf_buffer b \<Longrightarrow> readable b < 3 \<Longrightarrow> read_3bytes b = Crash Assert_Failed"
  "wf_buffer b \<Longrightarrow> readable b < 4 \<Longrightarrow> read_4bytes b = Crash Assert_Failed"
  "wf_buffer b \<Longrightarrow> readable b < 8 \<Longrightarrow> read_8bytes b = Crash Assert_Failed"
  by (simp_all add: read_1byte_def read_2bytes_def read_3bytes_def read_4bytes_def
      read_8bytes_def act_simps)

lemma skip_zero [simp]: "wf_buffer b \<Longrightarrow> skip 0 b = b"
  using wf_bounds [of b] by (simp add: skip_def)

text \<open>The one or two \<open>memcpy\<close> of a block read deliver the front of the queue.\<close>

lemma copy_out_eq [act_simps]:
  assumes "wf_buffer b" "0 \<le> n" "n \<le> int (readable b)"
  shows "copy_out ((rpos b + n) mod buf_size b) n b = Done (take (nat n) (content b)) b"
proof -
  note B = wf_bounds [OF assms(1)]
  have len: "n < buf_size b" using readable_less [OF assms(1)] assms(3) by simp
  have k: "nat n \<le> readable b" "int (nat n) = n" using assms by auto
  show ?thesis
  proof (cases "rpos b + n < buf_size b")
    case True
    with B k assms(2) content_first_segment [OF assms(1) k(1)] show ?thesis
      by (simp add: copy_out_def mem_read_def)
  next
    case False
    then have m: "(rpos b + n) mod buf_size b = rpos b + n - buf_size b"
      using B len assms(2) by (simp add: mod_wrap)
    with False B k len content_two_segments [OF assms(1) k(1)] show ?thesis
      by (simp add: copy_out_def mem_read_def act_simps)
  qed
qed

lemma read_string_eq [act_simps]:
  assumes "wf_buffer b" "0 \<le> n" "n \<le> int (readable b)"
  shows "read_string n b = Done (take (nat n) (content b)) (skip (nat n) b)"
  using assms wf_bounds [OF assms(1)] copy_out_eq [OF assms(1), of 0]
  by (cases "n = 0") (simp_all add: read_string_def act_simps)

lemma read_string_short [act_simps]:
  "wf_buffer b \<Longrightarrow> int (readable b) < n \<Longrightarrow> read_string n b = Crash Assert_Failed"
  by (simp add: read_string_def act_simps)

lemma read_bytes_eq [act_simps]:
  assumes "wf_buffer b" "0 < n"
  shows "read_bytes n b = Done (take (nat n) (content b)) (skip (min (nat n) (readable b)) b)"
proof -
  let ?k = "min (nat n) (readable b)"
  have k: "(if n < int (readable b) then n else int (readable b)) = int ?k" using assms by auto
  have "take (nat n) (content b) = take ?k (content b)" by (simp add: readable_def min_def)
  then show ?thesis
    using assms wf_bounds [OF assms(1)]
    by (simp add: read_bytes_def act_simps k Let_def set_rpos_def skip_def del: of_nat_min)
qed

lemma read_bytes_none [act_simps]: "n \<le> 0 \<Longrightarrow> read_bytes n b = Fail error_buffer_read b"
  by (simp add: read_bytes_def)

lemma push_Cons_append: "push xs (push [x] b) = push (x # xs) b"
  by simp

lemma write_ints_eq [act_simps]:
  "wf_buffer b \<Longrightarrow> 1 \<le> room b \<Longrightarrow> write_1byte v1 b = Done () (push [v1] b)"
  "wf_buffer b \<Longrightarrow> 2 \<le> room b \<Longrightarrow> write_2bytes v2 b = Done () (push (be_bytes 2 v2) b)"
  "wf_buffer b \<Longrightarrow> 3 \<le> room b \<Longrightarrow> write_3bytes v3 b = Done () (push (be_bytes 3 v3) b)"
  "wf_buffer b \<Longrightarrow> 4 \<le> room b \<Longrightarrow> write_4bytes v4 b = Done () (push (be_bytes 4 v4) b)"
  "wf_buffer b \<Longrightarrow> 8 \<le> room b \<Longrightarrow> write_8bytes v8 b = Done () (push (be_bytes 8 v8) b)"
  by (simp_all add: write_1byte_def write_2bytes_def write_3bytes_def write_4bytes_def
      write_8bytes_def act_simps numeral_eq_Suc)

lemma writes_full [act_simps]:
  "wf_buffer b \<Longrightarrow> room b < 1 \<Longrightarrow> write_1byte v1 b = Crash Assert_Failed"
  "wf_buffer b \<Longrightarrow> room b < 2 \<Longrightarrow> write_2bytes v2 b = Crash Assert_Failed"
  "wf_buffer b \<Longrightarrow> room b < 3 \<Longrightarrow> write_3bytes v3 b = Crash Assert_Failed"
  "wf_buffer b \<Longrightarrow> room b < 4 \<Longrightarrow> write_4bytes v4 b = Crash Assert_Failed"
  "wf_buffer b \<Longrightarrow> room b < 8 \<Longrightarrow> write_8bytes v8 b = Crash Assert_Failed"
  by (simp_all add: write_1byte_def write_2bytes_def write_3bytes_def write_4bytes_def
      write_8bytes_def act_simps)

lemma reset_eq: "reset b = Done () (b\<lparr>rpos := 0, wpos := 0\<rparr>)"
  by (simp add: reset_def)

lemma wf_Buffer_new [simp]:
  "0 < n \<Longrightarrow> n \<le> 2 ^ 30 \<Longrightarrow> n \<le> int (length mem) \<Longrightarrow> wf_buffer (Buffer_new mem n)"
  by (simp add: wf_buffer_def Buffer_new_def)

lemma content_Buffer_new [simp]: "content (Buffer_new mem n) = []"
  and buf_size_Buffer_new [simp]: "buf_size (Buffer_new mem n) = n"
  by (simp_all add: content_def Buffer_new_def)

lemma readable_Buffer_new [simp]: "readable (Buffer_new mem n) = 0"
  and room_Buffer_new [simp]: "room (Buffer_new mem n) = nat (n - 1)"
  by (simp_all add: readable_def room_def)

section \<open>A contract for byte queues\<close>

text \<open>
  What the codecs rely on: blocks go in whole or not at all, and come out in order.  A run of
  such operations is compared with the plain list queue \<open>queue_run\<close>.
\<close>

datatype queue_op = Put bytes | Get int

primrec queue_run :: "nat \<Rightarrow> queue_op list \<Rightarrow> bytes \<Rightarrow> bytes option list \<times> bytes" where
  "queue_run cap [] q = ([], q)"
| "queue_run cap (op # ops) q = (case op of
     Put xs \<Rightarrow> if xs = [] \<or> cap < length q + length xs
       then (let (out, q') = queue_run cap ops q in (None # out, q'))
       else (let (out, q') = queue_run cap ops (q @ xs) in (Some [] # out, q'))
   | Get n \<Rightarrow> if n \<le> 0
       then (let (out, q') = queue_run cap ops q in (None # out, q'))
       else (let (out, q') = queue_run cap ops (drop (nat n) q) in (Some (take (nat n) q) # out, q')))"

primrec calls_run :: "(bytes \<Rightarrow> (unit, 's) act) \<Rightarrow> (int \<Rightarrow> (bytes, 's) act)
    \<Rightarrow> queue_op list \<Rightarrow> 's \<Rightarrow> (bytes option list \<times> 's) option" where
  "calls_run put get [] s = Some ([], s)"
| "calls_run put get (op # ops) s = (
     case (case op of Put xs \<Rightarrow> bind (put xs) (\<lambda>_. ret []) | Get n \<Rightarrow> get n) s of
       Done v s' \<Rightarrow> map_option (apfst ((#) (Some v))) (calls_run put get ops s')
     | Fail e s' \<Rightarrow> map_option (apfst ((#) None)) (calls_run put get ops s')
     | Crash q \<Rightarrow> None)"

locale byte_queue =
  fixes inv :: "'s \<Rightarrow> bool" and items :: "'s \<Rightarrow> bytes" and cap :: "'s \<Rightarrow> nat"
    and put :: "bytes \<Rightarrow> (unit, 's) act" and get :: "int \<Rightarrow> (bytes, 's) act" and err :: int
  assumes put_ok: "inv s \<Longrightarrow> xs \<noteq> [] \<Longrightarrow> length (items s) + length xs \<le> cap s \<Longrightarrow>
      \<exists>s'. put xs s = Done () s' \<and> inv s' \<and> items s' = items s @ xs \<and> cap s' = cap s"
    and put_full: "inv s \<Longrightarrow> xs = [] \<or> cap s < length (items s) + length xs \<Longrightarrow> put xs s = Fail err s"
    and get_ok: "inv s \<Longrightarrow> 0 < n \<Longrightarrow> \<exists>s'. get n s = Done (take (nat n) (items s)) s' \<and> inv s'
      \<and> items s' = drop (nat n) (items s) \<and> cap s' = cap s"
    and get_none: "inv s \<Longrightarrow> n \<le> 0 \<Longrightarrow> get n s = Fail err s"
begin

lemma run_refines:
  assumes "inv s"
  shows "\<exists>s'. calls_run put get ops s = Some (fst (queue_run (cap s) ops (items s)), s')
     \<and> inv s' \<and> items s' = snd (queue_run (cap s) ops (items s)) \<and> cap s' = cap s"
  using assms
proof (induction ops arbitrary: s)
  case Nil
  then show ?case by simp
next
  case (Cons op ops)
  show ?case
  proof (cases op)
    case (Put xs)
    show ?thesis
    proof (cases "xs = [] \<or> cap s < length (items s) + length xs")
      case True
      with Cons.IH [OF Cons.prems] put_full [OF Cons.prems True] Put show ?thesis
        by (auto simp: act_simps split_beta)
    next
      case False
      then obtain s' where s': "put xs s = Done () s'" "inv s'" "items s' = items s @ xs" "cap s' = cap s"
        using put_ok [OF Cons.prems, of xs] by auto
      with Cons.IH [OF s'(2)] False Put show ?thesis by (auto simp: act_simps split_beta)
    qed
  next
    case (Get n)
    show ?thesis
    proof (cases "n \<le> 0")
      case True
      with Cons.IH [OF Cons.prems] get_none [OF Cons.prems True] Get show ?thesis
        by (auto simp: split_beta)
    next
      case False
      then obtain s' where s': "get n s = Done (take (nat n) (items s)) s'" "inv s'"
          "items s' = drop (nat n) (items s)" "cap s' = cap s"
        using get_ok [OF Cons.prems, of n] by auto
      with Cons.IH [OF s'(2)] False Get show ?thesis by (auto simp: split_beta)
    qed
  qed
qed

end

lemma put_fits: "wf_buffer b \<Longrightarrow> length (content b) + n \<le> nat (buf_size b - 1) \<longleftrightarrow> n \<le> room b"
  using readable_plus_room [of b] by (auto simp: room_def readable_def)

interpretation ring: byte_queue wf_buffer content "\<lambda>b. nat (buf_size b - 1)" write_bytes read_bytes
  error_buffer_read
proof (unfold_locales, goal_cases)
  case (1 s xs)
  then show ?case by (simp add: put_fits act_simps)
next
  case (2 s xs)
  then have "xs = [] \<or> room s < length xs" using put_fits [of s "length xs"] by auto
  with 2 show ?case by (simp add: act_simps)
next
  case (3 s n)
  then show ?case by (simp add: act_simps) (simp add: readable_def min_def)
next
  case (4 s n)
  then show ?case by (simp add: act_simps)
qed

end
