(* ===== verification/Stream_Codec.thy ===== *)
theory Stream_Codec
  imports Ring_Buffer
begin

text \<open>
  The interfaces between the byte queue and the codecs above it.  A \<open>stream_writer\<close> is an
  operation that appends the encoding of a value; a \<open>stream_codec\<close> also reads it back.  Both are
  stated for one value and used for sequences of values.  \<open>reader\<close> is the contract of decoders on
  input nobody has checked: they stop, inside the data, with a value or with an error code.
\<close>

section \<open>Writers and codecs\<close>

text \<open>\<open>if (!stream->read_require(n)) { return e; }\<close>\<close>

definition guard_read :: "int \<Rightarrow> int \<Rightarrow> (unit, Buffer) act" where
  "guard_read n e = bind (read_require n) (\<lambda>ok. check ok e)"

lemma guard_read_eq [act_simps]:
  "wf_buffer b \<Longrightarrow> 0 \<le> n \<Longrightarrow> n \<le> int (readable b) \<Longrightarrow> guard_read n e b = Done () b"
  "wf_buffer b \<Longrightarrow> n < 0 \<or> int (readable b) < n \<Longrightarrow> guard_read n e b = Fail e b"
  by (auto simp: guard_read_def act_simps)

primrec get_many :: "('a, 's) act \<Rightarrow> nat \<Rightarrow> ('a list, 's) act" where
  "get_many g 0 = ret []"
| "get_many g (Suc n) = bind g (\<lambda>v. bind (get_many g n) (\<lambda>vs. ret (v # vs)))"

text \<open>
  \<open>need v\<close> is what must be readable before \<open>v\<close> is written: the program guards its writes with
  \<open>read_require\<close>.
\<close>

locale stream_writer =
  fixes enc :: "'a \<Rightarrow> bytes" and need :: "'a \<Rightarrow> nat" and valid :: "'a \<Rightarrow> bool"
    and put :: "'a \<Rightarrow> (unit, Buffer) act"
  assumes put_enc: "wf_buffer b \<Longrightarrow> valid v \<Longrightarrow> need v \<le> readable b \<Longrightarrow> length (enc v) \<le> room b \<Longrightarrow>
    put v b = Done () (push (enc v) b)"
begin

lemma put_all:
  assumes "wf_buffer b" "\<forall>v\<in>set vs. valid v \<and> need v \<le> readable b"
    "length (concat (map enc vs)) \<le> room b"
  shows "for_each put vs b = Done () (push (concat (map enc vs)) b)"
  using assms
proof (induction vs arbitrary: b)
  case (Cons v vs)
  have v: "put v b = Done () (push (enc v) b)" using Cons.prems by (intro put_enc) auto
  have "for_each put vs (push (enc v) b) = Done () (push (concat (map enc vs)) (push (enc v) b))"
    using Cons.prems by (intro Cons.IH) (auto intro: trans_le_add1)
  with v show ?case by (simp add: act_simps)
qed (simp add: act_simps)

end

locale stream_codec = stream_writer +
  fixes get :: "('a, Buffer) act"
  assumes get_enc: "wf_buffer b \<Longrightarrow> valid v \<Longrightarrow> take (length (enc v)) (content b) = enc v \<Longrightarrow>
    get b = Done v (skip (length (enc v)) b)"
begin

lemma get_prefix:
  assumes "wf_buffer b" "valid v" "content b = enc v @ ys"
  shows "get b = Done v (skip (length (enc v)) b)"
    "content (skip (length (enc v)) b) = ys"
  using assms by (simp_all add: get_enc readable_def)

lemma get_all:
  assumes "wf_buffer b" "\<forall>v\<in>set vs. valid v" "content b = concat (map enc vs) @ ys"
  shows "get_many get (length vs) b = Done vs (skip (length (concat (map enc vs))) b)"
  using assms
proof (induction vs arbitrary: b)
  case (Cons v vs)
  have pre: "content b = enc v @ concat (map enc vs) @ ys" using Cons.prems by simp
  then have le: "length (enc v) \<le> readable b" by (simp add: readable_def)
  have v: "get b = Done v (skip (length (enc v)) b)"
    using Cons.prems pre by (intro get_prefix(1)) auto
  have "get_many get (length vs) (skip (length (enc v)) b)
      = Done vs (skip (length (concat (map enc vs))) (skip (length (enc v)) b))"
    using Cons.prems pre le by (intro Cons.IH) simp_all
  with v show ?case by (simp add: act_simps)
qed (simp add: act_simps)

text \<open>What was written behind the bytes already waiting is read back in order.\<close>

lemma roundtrip_all:
  assumes "wf_buffer b" "\<forall>v\<in>set vs. valid v \<and> need v \<le> readable b"
    "length (concat (map enc vs)) \<le> room b"
  shows "\<exists>b'. for_each put vs b = Done () b' \<and>
     get_many get (length vs) (skip (readable b) b')
       = Done vs (skip (readable b + length (concat (map enc vs))) b')
   \<and> content (skip (readable b + length (concat (map enc vs))) b') = []"
proof -
  let ?e = "concat (map enc vs)" and ?b = "push (concat (map enc vs)) b"
  have "content (skip (readable b) ?b) = ?e @ []" using assms by (simp add: readable_def)
  then have "get_many get (length vs) (skip (readable b) ?b)
      = Done vs (skip (length ?e) (skip (readable b) ?b))"
    using assms by (intro get_all) simp_all
  moreover have "content (skip (readable b + length ?e) ?b) = []"
    using assms by (simp add: readable_def)
  ultimately show ?thesis using put_all [OF assms] by simp
qed

end

text \<open>A writer whose size the program computes before it writes.\<close>

locale sized_writer = stream_writer +
  fixes size_of :: "'a \<Rightarrow> int"
  assumes size_of_enc: "valid v \<Longrightarrow> size_of v = int (length (enc v))"
begin

lemma put_sized:
  assumes "wf_buffer b" "valid v" "need v \<le> readable b" "size_of v \<le> int (room b)"
  shows "\<exists>b'. put v b = Done () b' \<and> wf_buffer b' \<and> content b' = content b @ enc v
     \<and> int (readable b') = int (readable b) + size_of v"
  using assms by (simp add: put_enc size_of_enc)

end

text \<open>Two codecs in a row are a codec for pairs.\<close>

locale codec_pair =
  fst: stream_codec enc1 need1 valid1 put1 get1 + snd: stream_codec enc2 need2 valid2 put2 get2
  for enc1 :: "'a \<Rightarrow> bytes" and need1 valid1 put1 get1
    and enc2 :: "'b \<Rightarrow> bytes" and need2 valid2 put2 get2

sublocale codec_pair \<subseteq> stream_codec "\<lambda>(x, y). enc1 x @ enc2 y"
  "\<lambda>(x, y). max (need1 x) (need2 y)" "\<lambda>(x, y). valid1 x \<and> valid2 y"
  "\<lambda>(x, y). seq (put1 x) (put2 y)" "bind get1 (\<lambda>x. bind get2 (\<lambda>y. ret (x, y)))"
proof (unfold_locales, goal_cases)
  case (1 b p)
  then show ?case by (cases p) (simp add: act_simps fst.put_enc snd.put_enc)
next
  case (2 b p)
  obtain x y where p: "p = (x, y)" by (cases p)
  let ?xs = "enc1 x @ enc2 y"
  have "take (length ?xs) (content b) = ?xs" using 2 p by simp
  then have pre: "content b = enc1 x @ enc2 y @ drop (length ?xs) (content b)"
    by (metis append.assoc append_take_drop_id)
  then have "get1 b = Done x (skip (length (enc1 x)) b)"
      "content (skip (length (enc1 x)) b) = enc2 y @ drop (length ?xs) (content b)"
    using fst.get_prefix [of b x] 2 p by simp_all
  moreover have "length (enc1 x) \<le> readable b" using pre by (metis le_add1 length_append readable_def)
  ultimately show ?case using snd.get_prefix(1) [of "skip (length (enc1 x)) b" y] 2 p
    by (simp add: act_simps)
qed

section \<open>The integers of the queue\<close>

lemma take_content_length: "take k (content b) = xs \<Longrightarrow> length xs = k \<Longrightarrow> k \<le> readable b"
  by (auto simp: readable_def)

interpretation int16: stream_codec "be_bytes 2" "\<lambda>_. 0" "\<lambda>_. True" write_2bytes read_2bytes
  by unfold_locales (simp_all add: act_simps take_content_length)

interpretation int32: stream_codec "be_bytes 4" "\<lambda>_. 0" "\<lambda>_. True" write_4bytes read_4bytes
  by unfold_locales (simp_all add: act_simps take_content_length)

interpretation int64: stream_codec "be_bytes 8" "\<lambda>_. 0" "\<lambda>_. True" write_8bytes read_8bytes
  by unfold_locales (simp_all add: act_simps take_content_length)

text \<open>Three bytes hold the low 24 bits.\<close>

interpretation int24: stream_codec "be_bytes 3" "\<lambda>_. 0" "\<lambda>v. take_bit 24 v = v" write_3bytes read_3bytes
  by unfold_locales (simp_all add: act_simps take_content_length be_word_be_bytes_take)

section \<open>Decoders on their own encoding\<close>

text \<open>
  \<open>g\<close> turns the bytes \<open>xs\<close> into \<open>v\<close>, whatever follows them (\<open>reads\<close>) or when nothing follows
  (\<open>reads_end\<close>).  The rules follow a decoder from call to call.
\<close>

definition reads :: "('a, Buffer) act \<Rightarrow> bytes \<Rightarrow> 'a \<Rightarrow> bool" where
  "reads g xs v \<longleftrightarrow> (\<forall>b ys. wf_buffer b \<longrightarrow> content b = xs @ ys \<longrightarrow> g b = Done v (skip (length xs) b))"

definition reads_end :: "('a, Buffer) act \<Rightarrow> bytes \<Rightarrow> 'a \<Rightarrow> bool" where
  "reads_end g xs v \<longleftrightarrow> (\<forall>b. wf_buffer b \<longrightarrow> content b = xs \<longrightarrow> g b = Done v (skip (length xs) b))"

context stream_codec
begin

lemma codec_reads: "valid v \<Longrightarrow> reads get (enc v) v"
  by (simp add: reads_def get_prefix)

end

lemma reads_readsend: "reads g xs v \<Longrightarrow> reads_end g xs v"
  by (simp add: reads_def reads_end_def)

lemma reads_ret: "reads (ret v) [] v"
  by (simp add: reads_def act_simps)

lemma reads_bind: "reads g xs v \<Longrightarrow> reads (f v) ys w \<Longrightarrow> reads (bind g f) (xs @ ys) w"
  by (auto simp: reads_def act_simps readable_def)

lemma reads_end_bind: "reads g xs v \<Longrightarrow> reads_end (f v) ys w \<Longrightarrow> reads_end (bind g f) (xs @ ys) w"
  by (auto simp: reads_def reads_end_def act_simps readable_def)

lemma reads_seq: "reads g xs () \<Longrightarrow> reads h ys w \<Longrightarrow> reads (seq g h) (xs @ ys) w"
  unfolding seq_def by (rule reads_bind)

lemma reads_end_seq: "reads g xs () \<Longrightarrow> reads_end h ys w \<Longrightarrow> reads_end (seq g h) (xs @ ys) w"
  unfolding seq_def by (rule reads_end_bind)

lemma reads_bind_last: "reads g xs v \<Longrightarrow> reads (f v) [] w \<Longrightarrow> reads (bind g f) xs w"
  using reads_bind [of g xs v f "[]" w] by simp

lemma reads_check: "p \<Longrightarrow> reads g xs v \<Longrightarrow> reads (seq (check p e) g) xs v"
  by (auto simp: reads_def act_simps)

lemma reads_more: "xs \<noteq> [] \<Longrightarrow> reads (f False) xs v \<Longrightarrow> reads (bind read_empty f) xs v"
  by (auto simp: reads_def act_simps)

lemma reads_end_empty: "reads_end (f True) [] v \<Longrightarrow> reads_end (bind read_empty f) [] v"
  by (auto simp: reads_end_def act_simps)

lemma reads_end_more: "xs \<noteq> [] \<Longrightarrow> reads_end (f False) xs v \<Longrightarrow> reads_end (bind read_empty f) xs v"
  by (auto simp: reads_end_def act_simps)

section \<open>Decoders on any input\<close>

text \<open>
  On at most \<open>n\<close> readable bytes, \<open>m\<close> ends without a crash at a later position of the same data,
  and consumes at least \<open>k\<close> bytes when it succeeds.
\<close>

definition reader :: "nat \<Rightarrow> nat \<Rightarrow> ('a, Buffer) act \<Rightarrow> bool" where
  "reader n k m \<longleftrightarrow> (\<forall>b. wf_buffer b \<and> readable b \<le> n \<longrightarrow> (case m b of
     Done v s \<Rightarrow> \<exists>j. k \<le> j \<and> j \<le> readable b \<and> s = skip j b
   | Fail e s \<Rightarrow> \<exists>j. j \<le> readable b \<and> s = skip j b
   | Crash q \<Rightarrow> False))"

lemma readerI:
  assumes "\<And>b. wf_buffer b \<Longrightarrow> readable b \<le> n \<Longrightarrow>
    (\<exists>v j. m b = Done v (skip j b) \<and> k \<le> j \<and> j \<le> readable b)
    \<or> (\<exists>e j. m b = Fail e (skip j b) \<and> j \<le> readable b)"
  shows "reader n k m"
  unfolding reader_def using assms by fastforce

lemma readerD:
  assumes "reader n k m" "wf_buffer b" "readable b \<le> n"
  shows "(\<exists>v j. m b = Done v (skip j b) \<and> k \<le> j \<and> j \<le> readable b)
    \<or> (\<exists>e j. m b = Fail e (skip j b) \<and> j \<le> readable b)"
  using assms(1) [unfolded reader_def, rule_format, of b] assms(2,3)
  by (auto split: outcome.splits)

lemma reader_ret [intro!]: "reader n 0 (ret v)"
  by (rule readerI) (auto simp: act_simps intro: exI [of _ 0])

lemma reader_fail [intro!]: "reader n k (fail e)"
  by (rule readerI) (auto simp: act_simps intro: exI [of _ 0])

lemma reader_check [intro!]: "reader n 0 (check p e)"
  by (auto simp: check_def)

lemma reader_weaken: "reader n k m \<Longrightarrow> k' \<le> k \<Longrightarrow> n' \<le> n \<Longrightarrow> reader n' k' m"
  by (rule readerI) (meson order_trans readerD)

lemma reader_bind:
  assumes "reader n k m" "\<And>v. reader (n - k) k' (f v)" "l \<le> k + k'"
  shows "reader n l (bind m f)"
proof (rule readerI)
  fix b assume b: "wf_buffer b" "readable b \<le> n"
  from readerD [OF assms(1) b]
  show "(\<exists>v j. bind m f b = Done v (skip j b) \<and> l \<le> j \<and> j \<le> readable b)
    \<or> (\<exists>e j. bind m f b = Fail e (skip j b) \<and> j \<le> readable b)"
  proof (elim disjE exE conjE)
    fix v j assume m: "m b = Done v (skip j b)" "k \<le> j" "j \<le> readable b"
    let ?b = "skip j b"
    have "wf_buffer ?b" "readable ?b \<le> n - k" using m b by auto
    from readerD [OF assms(2) this, of v] show ?thesis
    proof (elim disjE exE conjE)
      fix w i assume "f v ?b = Done w (skip i ?b)" "k' \<le> i" "i \<le> readable ?b"
      with m b assms(3) show ?thesis
        by (intro disjI1 exI [of _ w] exI [of _ "j + i"]) (auto simp: act_simps)
    next
      fix e i assume "f v ?b = Fail e (skip i ?b)" "i \<le> readable ?b"
      with m b show ?thesis
        by (intro disjI2 exI [of _ e] exI [of _ "j + i"]) (auto simp: act_simps)
    qed
  next
    fix e j assume "m b = Fail e (skip j b)" "j \<le> readable b"
    then show ?thesis by (auto simp: act_simps)
  qed
qed

lemma reader_seq:
  "reader n k m \<Longrightarrow> reader (n - k) k' m' \<Longrightarrow> l \<le> k + k' \<Longrightarrow> reader n l (seq m m')"
  unfolding seq_def by (rule reader_bind)

lemma reader_ge: "reader n k m \<Longrightarrow> k' \<le> k \<Longrightarrow> reader n k' m"
  by (rule reader_weaken) auto

lemma reader_bind_sum:
  "reader n k m \<Longrightarrow> (\<And>v. reader (n - k) k' (f v)) \<Longrightarrow> reader n (k + k') (bind m f)"
  by (rule reader_bind) auto

lemma reader_seq_sum: "reader n k m \<Longrightarrow> reader (n - k) k' m' \<Longrightarrow> reader n (k + k') (seq m m')"
  by (rule reader_seq) auto

lemma reader_if [intro!]: "(p \<Longrightarrow> reader n k m) \<Longrightarrow> (\<not> p \<Longrightarrow> reader n k m') \<Longrightarrow> reader n k (if p then m else m')"
  by simp

lemma reader_read_empty [intro!]: "reader n 0 read_empty"
  by (rule readerI) (auto simp: act_simps intro: exI [of _ 0])

text \<open>A fixed-size read behind the guard that fits it.\<close>

lemma reader_guarded:
  assumes "\<And>b. wf_buffer b \<Longrightarrow> k \<le> readable b \<Longrightarrow> \<exists>v. m b = Done v (skip k b)"
  shows "reader n k (seq (guard_read (int k) e) m)"
proof (rule readerI)
  fix b assume b: "wf_buffer b"
  show "(\<exists>v j. seq (guard_read (int k) e) m b = Done v (skip j b) \<and> k \<le> j \<and> j \<le> readable b)
    \<or> (\<exists>e' j. seq (guard_read (int k) e) m b = Fail e' (skip j b) \<and> j \<le> readable b)"
  proof (cases "k \<le> readable b")
    case True
    with b assms [OF b True] show ?thesis by (auto simp: act_simps)
  next
    case False
    with b show ?thesis by (auto simp: act_simps intro: exI [of _ 0])
  qed
qed

end
