(* ===== verification/Ring_Props.thy ===== *)
theory Ring_Props
  imports Stream_Codec
begin

text \<open>The properties of \<open>Buffer\<close>: it is a bounded queue, and its \<open>int\<close> arithmetic stays in range.\<close>

section \<open>Properties\<close>

text \<open>
  C1: \<open>Buffer\<close> is a queue of at most \<open>size - 1\<close> bytes.  Every sequence of \<open>write_bytes\<close> and
  \<open>read_bytes\<close> calls answers like the same calls on a plain list with that capacity, errors
  included, and never crashes, wherever the read and write positions stand.
\<close>

lemma ring_refines_queue:
  assumes "wf_buffer b"
  shows "\<exists>b'. calls_run write_bytes read_bytes ops b
      = Some (fst (queue_run (nat (buf_size b - 1)) ops (content b)), b')
    \<and> wf_buffer b' \<and> content b' = snd (queue_run (nat (buf_size b - 1)) ops (content b))
    \<and> buf_size b' = buf_size b"
proof -
  from ring.run_refines [OF assms, of ops] obtain b' where
    r: "calls_run write_bytes read_bytes ops b
      = Some (fst (queue_run (nat (buf_size b - 1)) ops (content b)), b')"
    "wf_buffer b'" "content b' = snd (queue_run (nat (buf_size b - 1)) ops (content b))"
    "nat (buf_size b' - 1) = nat (buf_size b - 1)" by blast
  have "buf_size b' = buf_size b"
    using r(4) wf_bounds(1) [OF assms] wf_bounds(1) [OF r(2)] by linarith
  with r show ?thesis by blast
qed

lemma ring_refines_queue_witness:
  "\<exists>b'. calls_run write_bytes read_bytes [Put [1, 2, 3], Get 2, Put [4, 5], Put [6], Get 9]
      (Buffer_new (replicate 4 0) 4)
    = Some ([Some [], Some [1, 2], Some [], None, Some [3, 4, 5]], b') \<and> content b' = []"
  using ring_refines_queue [of "Buffer_new (replicate 4 0) 4"
      "[Put [1, 2, 3], Get 2, Put [4, 5], Put [6], Get 9]"] by auto

text \<open>
  C35: the sums the code forms before \<open>% size\<close> fit an \<open>int\<close> and are not negative, so the signed
  remainder is the modulus, as long as the buffer has at most \<open>2 ^ 30\<close> bytes.
\<close>

lemma buffer_no_overflow:
  assumes "wf_buffer b" "0 \<le> k" "k \<le> int (readable b) \<or> k \<le> int (room b)"
  shows "0 \<le> rpos b + buf_size b - wpos b - 1 \<and> rpos b + buf_size b - wpos b - 1 \<le> int_max
    \<and> 0 \<le> wpos b + buf_size b - rpos b \<and> wpos b + buf_size b - rpos b \<le> int_max
    \<and> rpos b + k \<le> int_max \<and> wpos b + k \<le> int_max
    \<and> write_left b = Done (int (room b)) b \<and> read_left b = Done (int (readable b)) b
    \<and> int (readable b) + int (room b) = buf_size b - 1"
  using assms readable_plus_room [OF assms(1)]
  by (auto simp: act_simps) (auto simp: wf_buffer_def int_max_def)

lemma buffer_no_overflow_witness:
  "write_left (Buffer_new (replicate 4 0) 4) = Done 3 (Buffer_new (replicate 4 0) 4)"
  using buffer_no_overflow [of "Buffer_new (replicate 4 0) 4" 1] by simp

lemma be_bytes_24: "be_word (be_bytes 3 (v :: 32 word)) = take_bit 24 v"
  by (simp add: be_word_be_bytes_take)

text \<open>
  Integers are stored in network order and come back unchanged: behind what waits in the
  buffer, a block of 16-bit, 32-bit, 64-bit and 24-bit values is read back as it was written.
\<close>

lemma ints_roundtrip:
  assumes "wf_buffer b" "17 \<le> room b"
  shows "\<exists>b'. seq (write_2bytes v2) (seq (write_3bytes v3) (seq (write_4bytes v4) (write_8bytes v8))) b
      = Done () b'
    \<and> content b' = content b @ be_bytes 2 v2 @ be_bytes 3 v3 @ be_bytes 4 v4 @ be_bytes 8 v8
    \<and> bind read_2bytes (\<lambda>x2. bind read_3bytes (\<lambda>x3. bind read_4bytes (\<lambda>x4. bind read_8bytes (\<lambda>x8.
        ret (x2, x3, x4, x8))))) (skip (readable b) b')
      = Done (v2, take_bit 24 v3, v4, v8) (skip (readable b + 17) b')"
  using assms by (simp add: act_simps be_bytes_24 readable_def) (simp add: add.commute)

lemma ints_roundtrip_witness:
  "\<exists>b'. seq (write_2bytes 0x1234) (seq (write_3bytes 0x56789A) (seq (write_4bytes 1) (write_8bytes 2)))
        (Buffer_new (replicate 18 0) 18) = Done () b'
    \<and> bind read_2bytes (\<lambda>x2. bind read_3bytes (\<lambda>x3. bind read_4bytes (\<lambda>x4. bind read_8bytes (\<lambda>x8.
        ret (x2, x3, x4, x8))))) (skip 0 b') = Done (0x1234, 0x56789A, 1, 2) (skip 17 b')"
  using ints_roundtrip [of "Buffer_new (replicate 18 0) 18" "0x1234" "0x56789A" 1 2]
  by (auto simp: take_bit_word_eq_self)

end
