(* ===== verification/Amf0_Prim.thy ===== *)
theory Amf0_Prim
  imports Stream_Codec
begin

text \<open>
  The free functions of \<open>src/protocol/rtmp/rtmp_amf.cpp\<close> that read and write one AMF0 value that
  has no parts: strings, booleans, numbers, null, undefined, the end-of-object mark, dates.  A
  \<open>double\<close> is its 64 bits, which the code moves with \<open>memcpy\<close>.  The readers that take a
  \<open>T &value\<close> get the old content of \<open>value\<close>, which they return when they do not assign it.
\<close>

section \<open>The code\<close>

abbreviation (input) error_rtmp_amf0_decode :: int where "error_rtmp_amf0_decode \<equiv> 14100"
abbreviation (input) error_rtmp_amf0_encode :: int where "error_rtmp_amf0_encode \<equiv> 14101"
abbreviation (input) error_rtmp_amf0_invalid :: int where "error_rtmp_amf0_invalid \<equiv> 14106"

abbreviation (input) RTMP_AMF0_Number :: byte where "RTMP_AMF0_Number \<equiv> 0x00"
abbreviation (input) RTMP_AMF0_Boolean :: byte where "RTMP_AMF0_Boolean \<equiv> 0x01"
abbreviation (input) RTMP_AMF0_String :: byte where "RTMP_AMF0_String \<equiv> 0x02"
abbreviation (input) RTMP_AMF0_Object :: byte where "RTMP_AMF0_Object \<equiv> 0x03"
abbreviation (input) RTMP_AMF0_Null :: byte where "RTMP_AMF0_Null \<equiv> 0x05"
abbreviation (input) RTMP_AMF0_Undefined :: byte where "RTMP_AMF0_Undefined \<equiv> 0x06"
abbreviation (input) RTMP_AMF0_EcmaArray :: byte where "RTMP_AMF0_EcmaArray \<equiv> 0x08"
abbreviation (input) RTMP_AMF0_ObjectEnd :: byte where "RTMP_AMF0_ObjectEnd \<equiv> 0x09"
abbreviation (input) RTMP_AMF0_StrictArray :: byte where "RTMP_AMF0_StrictArray \<equiv> 0x0A"
abbreviation (input) RTMP_AMF0_Date :: byte where "RTMP_AMF0_Date \<equiv> 0x0B"

text \<open>The marker byte every reader checks and every writer puts first.\<close>

definition read_marker :: "byte \<Rightarrow> (unit, Buffer) act" where
  "read_marker m = seq (guard_read 1 error_rtmp_amf0_decode)
     (bind read_1byte (\<lambda>marker. check (marker = m) error_rtmp_amf0_decode))"

definition write_marker :: "byte \<Rightarrow> (unit, Buffer) act" where
  "write_marker m = seq (guard_read 1 error_rtmp_amf0_encode) (write_1byte m)"

definition amf0_read_utf8 :: "bytes \<Rightarrow> (bytes, Buffer) act" where
  "amf0_read_utf8 value =
     bind (seq (guard_read 2 error_rtmp_amf0_decode) read_2bytes) (\<lambda>len.
       if sint len \<le> 0 then ret value
       else seq (guard_read (sint len) error_rtmp_amf0_decode) (read_string (sint len)))"

definition amf0_write_utf8 :: "bytes \<Rightarrow> (unit, Buffer) act" where
  "amf0_write_utf8 value =
     seq (guard_read 2 error_rtmp_amf0_encode)
    (seq (write_2bytes (of_nat (length value)))
      (if length value \<le> 0 then ret ()
       else seq (guard_read (int (length value)) error_rtmp_amf0_encode)
              (ignore (write_bytes value))))"

definition amf0_read_string :: "bytes \<Rightarrow> (bytes, Buffer) act" where
  "amf0_read_string value = seq (read_marker RTMP_AMF0_String) (amf0_read_utf8 value)"

definition amf0_write_string :: "bytes \<Rightarrow> (unit, Buffer) act" where
  "amf0_write_string value = seq (write_marker RTMP_AMF0_String) (amf0_write_utf8 value)"

definition amf0_read_boolean :: "(bool, Buffer) act" where
  "amf0_read_boolean = seq (read_marker RTMP_AMF0_Boolean)
     (bind (seq (guard_read 1 error_rtmp_amf0_decode) read_1byte) (\<lambda>v. ret (v \<noteq> 0)))"

definition amf0_write_boolean :: "bool \<Rightarrow> (unit, Buffer) act" where
  "amf0_write_boolean value = seq (write_marker RTMP_AMF0_Boolean)
     (seq (guard_read 1 error_rtmp_amf0_encode)
       (if value then write_1byte 0x01 else write_1byte 0x00))"

definition amf0_read_number :: "(64 word, Buffer) act" where
  "amf0_read_number = seq (read_marker RTMP_AMF0_Number)
     (seq (guard_read 8 error_rtmp_amf0_decode) read_8bytes)"

definition amf0_write_number :: "64 word \<Rightarrow> (unit, Buffer) act" where
  "amf0_write_number value = seq (write_marker RTMP_AMF0_Number)
     (seq (guard_read 8 error_rtmp_amf0_encode) (write_8bytes value))"

definition amf0_read_null :: "(unit, Buffer) act" where
  "amf0_read_null = read_marker RTMP_AMF0_Null"

definition amf0_write_null :: "(unit, Buffer) act" where
  "amf0_write_null = write_marker RTMP_AMF0_Null"

definition amf0_read_undefined :: "(unit, Buffer) act" where
  "amf0_read_undefined = read_marker RTMP_AMF0_Undefined"

definition amf0_write_undefined :: "(unit, Buffer) act" where
  "amf0_write_undefined = write_marker RTMP_AMF0_Undefined"

text \<open>\<open>Amf0ObjectEOF::read\<close> and \<open>write\<close>: two zero bytes and the marker.\<close>

definition Amf0ObjectEOF_read :: "(unit, Buffer) act" where
  "Amf0ObjectEOF_read =
     bind (seq (guard_read 2 error_rtmp_amf0_decode) read_2bytes) (\<lambda>temp.
     seq (check (temp = 0x00) error_rtmp_amf0_decode)
    (bind (seq (guard_read 1 error_rtmp_amf0_decode) read_1byte) (\<lambda>marker.
     check (marker = RTMP_AMF0_ObjectEnd) error_rtmp_amf0_decode)))"

definition Amf0ObjectEOF_write :: "(unit, Buffer) act" where
  "Amf0ObjectEOF_write =
     seq (guard_read 2 error_rtmp_amf0_encode)
    (seq (write_2bytes 0x00)
    (seq (guard_read 1 error_rtmp_amf0_encode) (write_1byte RTMP_AMF0_ObjectEnd)))"

definition amf0_write_object_eof :: "(unit, Buffer) act" where
  "amf0_write_object_eof =
     seq (guard_read 2 error_rtmp_amf0_encode)
    (seq (write_2bytes 0x00)
    (seq (guard_read 1 error_rtmp_amf0_encode) (write_1byte RTMP_AMF0_ObjectEnd)))"

text \<open>\<open>Amf0Date::read\<close> and \<open>write\<close>: the date and the time zone.\<close>

definition Amf0Date_read :: "(64 word \<times> 16 word, Buffer) act" where
  "Amf0Date_read = seq (read_marker RTMP_AMF0_Date)
     (bind (seq (guard_read 8 error_rtmp_amf0_decode) read_8bytes) (\<lambda>date_value.
      bind (seq (guard_read 2 error_rtmp_amf0_decode) read_2bytes) (\<lambda>time_zone.
      ret (date_value, time_zone))))"

definition Amf0Date_write :: "64 word \<Rightarrow> 16 word \<Rightarrow> (unit, Buffer) act" where
  "Amf0Date_write date_value time_zone = seq (write_marker RTMP_AMF0_Date)
     (seq (seq (guard_read 8 error_rtmp_amf0_encode) (write_8bytes date_value))
          (seq (guard_read 2 error_rtmp_amf0_encode) (write_2bytes time_zone)))"

text \<open>
  \<open>amf0_is_object_eof\<close> means to look at the next three bytes: it reads them and seeks back by
  \<open>seek_read(-3)\<close>, whose error it drops.
\<close>

definition amf0_is_object_eof :: "(bool, Buffer) act" where
  "amf0_is_object_eof = bind (read_require 3) (\<lambda>ok.
     if ok then bind read_3bytes (\<lambda>flag. seq (ignore (seek_read (-3))) (ret (flag = 0x09)))
     else ret False)"

section \<open>The encodings\<close>

definition enc_utf8 :: "bytes \<Rightarrow> bytes" where
  "enc_utf8 s = be_bytes 2 (of_nat (length s) :: 16 word) @ s"

definition enc_string :: "bytes \<Rightarrow> bytes" where
  "enc_string s = RTMP_AMF0_String # enc_utf8 s"

definition enc_boolean :: "bool \<Rightarrow> bytes" where
  "enc_boolean v = [RTMP_AMF0_Boolean, if v then 1 else 0]"

definition enc_number :: "64 word \<Rightarrow> bytes" where
  "enc_number v = RTMP_AMF0_Number # be_bytes 8 v"

definition enc_eof :: bytes where
  "enc_eof = [0, 0, RTMP_AMF0_ObjectEnd]"

definition enc_date :: "64 word \<times> 16 word \<Rightarrow> bytes" where
  "enc_date d = RTMP_AMF0_Date # be_bytes 8 (fst d) @ be_bytes 2 (snd d)"

lemma length_enc [simp]:
  "length (enc_utf8 s) = 2 + length s" "length (enc_string s) = 3 + length s"
  "length (enc_boolean v) = 2" "length (enc_number n) = 9" "length enc_eof = 3"
  "length (enc_date d) = 11"
  by (simp_all add: enc_utf8_def enc_string_def enc_boolean_def enc_number_def enc_eof_def
      enc_date_def)

section \<open>Writing\<close>

text \<open>The guards of the writers look at the bytes to read: with none, nothing can be written.\<close>

lemma write_marker_eq [act_simps]:
  "wf_buffer b \<Longrightarrow> 1 \<le> readable b \<Longrightarrow> 1 \<le> room b \<Longrightarrow> write_marker m b = Done () (push [m] b)"
  "wf_buffer b \<Longrightarrow> readable b = 0 \<Longrightarrow> write_marker m b = Fail error_rtmp_amf0_encode b"
  "wf_buffer b \<Longrightarrow> 1 \<le> readable b \<Longrightarrow> room b = 0 \<Longrightarrow> write_marker m b = Crash Assert_Failed"
  by (simp_all add: write_marker_def act_simps)

lemma amf0_write_utf8_eq [act_simps]:
  assumes "wf_buffer b" "2 \<le> readable b" "length s \<le> readable b + 2" "length (enc_utf8 s) \<le> room b"
  shows "amf0_write_utf8 s b = Done () (push (enc_utf8 s) b)"
  using assms by (cases s) (simp_all add: amf0_write_utf8_def enc_utf8_def act_simps)

lemma amf0_write_string_eq [act_simps]:
  assumes "wf_buffer b" "1 \<le> readable b" "length s \<le> readable b + 3" "length (enc_string s) \<le> room b"
  shows "amf0_write_string s b = Done () (push (enc_string s) b)"
  using assms by (simp add: amf0_write_string_def enc_string_def act_simps)

lemma amf0_write_boolean_eq [act_simps]:
  assumes "wf_buffer b" "1 \<le> readable b" "2 \<le> room b"
  shows "amf0_write_boolean v b = Done () (push (enc_boolean v) b)"
  using assms by (simp add: amf0_write_boolean_def enc_boolean_def act_simps)

lemma amf0_write_number_eq [act_simps]:
  assumes "wf_buffer b" "7 \<le> readable b" "9 \<le> room b"
  shows "amf0_write_number v b = Done () (push (enc_number v) b)"
  using assms by (simp add: amf0_write_number_def enc_number_def act_simps)

lemma amf0_write_null_eq [act_simps]:
  "wf_buffer b \<Longrightarrow> 1 \<le> readable b \<Longrightarrow> 1 \<le> room b \<Longrightarrow>
    amf0_write_null b = Done () (push [RTMP_AMF0_Null] b)"
  "wf_buffer b \<Longrightarrow> 1 \<le> readable b \<Longrightarrow> 1 \<le> room b \<Longrightarrow>
    amf0_write_undefined b = Done () (push [RTMP_AMF0_Undefined] b)"
  by (simp_all add: amf0_write_null_def amf0_write_undefined_def act_simps)

lemma be_bytes_zero: "be_bytes n (0 :: 'a::len word) = replicate n 0"
  by (induction n) (simp_all add: pp_def)

lemma Amf0ObjectEOF_write_eq [act_simps]:
  assumes "wf_buffer b" "2 \<le> readable b" "3 \<le> room b"
  shows "Amf0ObjectEOF_write b = Done () (push enc_eof b)"
    "amf0_write_object_eof b = Done () (push enc_eof b)"
  using assms by (simp_all add: Amf0ObjectEOF_write_def amf0_write_object_eof_def enc_eof_def
      act_simps be_bytes_zero numeral_eq_Suc)

lemma Amf0Date_write_eq [act_simps]:
  assumes "wf_buffer b" "7 \<le> readable b" "11 \<le> room b"
  shows "Amf0Date_write d z b = Done () (push (enc_date (d, z)) b)"
  using assms by (simp add: Amf0Date_write_def enc_date_def act_simps)

lemma writes_need_readable:
  assumes "wf_buffer b" "readable b = 0"
  shows "amf0_write_utf8 s b = Fail error_rtmp_amf0_encode b"
    "amf0_write_string s b = Fail error_rtmp_amf0_encode b"
    "amf0_write_boolean v b = Fail error_rtmp_amf0_encode b"
    "amf0_write_number n b = Fail error_rtmp_amf0_encode b"
    "amf0_write_null b = Fail error_rtmp_amf0_encode b"
    "amf0_write_undefined b = Fail error_rtmp_amf0_encode b"
    "Amf0Date_write d z b = Fail error_rtmp_amf0_encode b"
    "Amf0ObjectEOF_write b = Fail error_rtmp_amf0_encode b"
  using assms by (simp_all add: amf0_write_utf8_def amf0_write_string_def amf0_write_boolean_def
      amf0_write_number_def amf0_write_null_def amf0_write_undefined_def Amf0Date_write_def
      Amf0ObjectEOF_write_def act_simps)

section \<open>Reading what was written\<close>

lemma read_marker_eq [act_simps]:
  "wf_buffer b \<Longrightarrow> 1 \<le> readable b \<Longrightarrow> content b ! 0 = m \<Longrightarrow> read_marker m b = Done () (skip 1 b)"
  "wf_buffer b \<Longrightarrow> 1 \<le> readable b \<Longrightarrow> content b ! 0 \<noteq> m \<Longrightarrow>
    read_marker m b = Fail error_rtmp_amf0_decode (skip 1 b)"
  "wf_buffer b \<Longrightarrow> readable b = 0 \<Longrightarrow> read_marker m b = Fail error_rtmp_amf0_decode b"
  by (simp_all add: read_marker_def act_simps)

text \<open>The front of the queue, when it starts with a given encoding.\<close>

lemma content_prefix:
  assumes "take (length xs) (content b) = xs"
  shows "length xs \<le> readable b" "\<And>i. i < length xs \<Longrightarrow> content b ! i = xs ! i"
    "\<And>k. k \<le> length xs \<Longrightarrow> take k (content b) = take k xs"
    "\<And>j k. j + k \<le> length xs \<Longrightarrow> take k (drop j (content b)) = take k (drop j xs)"
proof -
  have xs: "content b = xs @ drop (length xs) (content b)"
    using assms by (metis append_take_drop_id)
  show "length xs \<le> readable b" using assms by (rule take_content_length) simp
  show "\<And>i. i < length xs \<Longrightarrow> content b ! i = xs ! i" by (subst xs) (simp add: nth_append)
  show "\<And>k. k \<le> length xs \<Longrightarrow> take k (content b) = take k xs" by (subst xs) simp
  show "\<And>j k. j + k \<le> length xs \<Longrightarrow> take k (drop j (content b)) = take k (drop j xs)"
    by (subst xs) simp
qed

lemma sint_length: "length s < 2 ^ 15 \<Longrightarrow> sint (of_nat (length s) :: 16 word) = int (length s)"
  using int_word_sint [of "int (length s)", where 'a = 16] by simp

lemma amf0_read_utf8_eq:
  assumes "wf_buffer b" "length s < 2 ^ 15" "s \<noteq> [] \<or> old = []"
    "take (length (enc_utf8 s)) (content b) = enc_utf8 s"
  shows "amf0_read_utf8 old b = Done s (skip (length (enc_utf8 s)) b)"
proof -
  note P = content_prefix [OF assms(4)]
  have "2 + length s \<le> readable b" using P(1) by simp
  moreover have "be_word (take 2 (content b)) = (of_nat (length s) :: 16 word)"
    using P(3) [of 2] by (simp add: enc_utf8_def)
  moreover have "take (length s) (drop 2 (content b)) = s"
    using P(4) [of 2 "length s"] by (simp add: enc_utf8_def)
  ultimately show ?thesis
    using assms(1-3) by (cases "s = []") (simp_all add: amf0_read_utf8_def act_simps sint_length)
qed

lemma amf0_read_utf8_negative:
  assumes "wf_buffer b" "2 \<le> readable b" "sint (be_word (take 2 (content b)) :: 16 word) \<le> 0"
  shows "amf0_read_utf8 old b = Done old (skip 2 b)"
  using assms by (simp add: amf0_read_utf8_def act_simps)

interpretation utf8: stream_codec enc_utf8 "\<lambda>s. max 2 (length s - 2)" "\<lambda>s. length s < 2 ^ 15"
  amf0_write_utf8 "amf0_read_utf8 []"
proof (unfold_locales, goal_cases)
  case (1 b s)
  then show ?case by (intro amf0_write_utf8_eq) auto
qed (simp add: amf0_read_utf8_eq)

text \<open>A marker in front of a codec.\<close>

lemma read_marker_front:
  assumes "wf_buffer b" "take 1 (content b) = [m]"
  shows "read_marker m b = Done () (skip 1 b)"
proof -
  have "1 \<le> readable b" "content b ! 0 = m"
    using assms(2) by (cases "content b"; auto simp: readable_def)+
  with assms(1) show ?thesis by (simp add: act_simps)
qed

lemma skip_marker:
  assumes "wf_buffer b" "take (Suc n) (content b) = m # xs"
  shows "read_marker m b = Done () (skip 1 b)" "take n (content (skip 1 b)) = xs"
proof -
  have "content b \<noteq> []" using assms(2) by auto
  then have r: "1 \<le> readable b" by (cases "content b") (simp_all add: readable_def)
  moreover have "content b ! 0 = m" using assms(2) by (cases "content b") auto
  ultimately show "read_marker m b = Done () (skip 1 b)" using assms(1) by (simp add: act_simps)
  show "take n (content (skip 1 b)) = xs"
    using assms r by (cases "content b") auto
qed

interpretation str: stream_codec enc_string "\<lambda>s. max 1 (length s - 3)" "\<lambda>s. length s < 2 ^ 15"
  amf0_write_string "amf0_read_string []"
proof (unfold_locales, goal_cases)
  case (1 b s)
  then show ?case by (intro amf0_write_string_eq) auto
next
  case (2 b s)
  then have "take (Suc (length (enc_utf8 s))) (content b) = RTMP_AMF0_String # enc_utf8 s"
    by (simp add: enc_string_def)
  from skip_marker [OF 2(1) this] 2 show ?case
    by (simp add: amf0_read_string_def act_simps amf0_read_utf8_eq)
qed

interpretation boolean: stream_codec enc_boolean "\<lambda>_. 1" "\<lambda>_. True" amf0_write_boolean amf0_read_boolean
proof (unfold_locales, goal_cases)
  case (2 b v)
  then have "take (Suc 1) (content b) = RTMP_AMF0_Boolean # [if v then 1 else 0]"
    by (simp add: enc_boolean_def numeral_2_eq_2)
  note M = skip_marker [OF 2(1) this]
  have "1 \<le> readable (skip 1 b)" using take_content_length [OF M(2)] by simp
  moreover have "content (skip 1 b) ! 0 = (if v then 1 else 0)"
    using M(2) by (cases "content (skip 1 b)") auto
  ultimately show ?case using M(1) 2(1) by (simp add: amf0_read_boolean_def act_simps)
qed (simp add: act_simps)

interpretation number: stream_codec enc_number "\<lambda>_. 7" "\<lambda>_. True" amf0_write_number amf0_read_number
proof (unfold_locales, goal_cases)
  case (2 b v)
  then have "take (Suc 8) (content b) = RTMP_AMF0_Number # be_bytes 8 v"
    by (simp add: enc_number_def)
  note M = skip_marker [OF 2(1) this]
  have "8 \<le> readable (skip 1 b)" using take_content_length [OF M(2)] by simp
  with M 2(1) show ?case by (simp add: amf0_read_number_def act_simps del: content_skip readable_skip)
qed (simp add: act_simps)

interpretation null: stream_codec "\<lambda>_. [RTMP_AMF0_Null]" "\<lambda>_. 1" "\<lambda>_. True" "\<lambda>_. amf0_write_null"
  amf0_read_null
proof (unfold_locales, goal_cases)
  case (2 b v)
  then show ?case using read_marker_front [OF 2(1)] by (simp add: amf0_read_null_def)
qed (simp add: act_simps)

interpretation undefined: stream_codec "\<lambda>_. [RTMP_AMF0_Undefined]" "\<lambda>_. 1" "\<lambda>_. True"
  "\<lambda>_. amf0_write_undefined" amf0_read_undefined
proof (unfold_locales, goal_cases)
  case (2 b v)
  then show ?case using read_marker_front [OF 2(1)] by (simp add: amf0_read_undefined_def)
qed (simp add: act_simps)

interpretation date: stream_codec enc_date "\<lambda>_. 7" "\<lambda>_. True" "\<lambda>(d, z). Amf0Date_write d z" Amf0Date_read
proof (unfold_locales, goal_cases)
  case (2 b v)
  let ?d = "be_bytes 8 (fst v)" and ?z = "be_bytes 2 (snd v)" and ?b = "skip 1 b"
  from 2 have "take (Suc 10) (content b) = RTMP_AMF0_Date # ?d @ ?z"
    by (simp add: enc_date_def)
  note M = skip_marker [OF 2(1) this]
  have P: "take (length (?d @ ?z)) (content ?b) = ?d @ ?z" using M(2) by simp
  have "10 \<le> readable ?b" "take 8 (content ?b) = ?d" "take 2 (drop 8 (content ?b)) = ?z"
    using content_prefix(1) [OF P] content_prefix(3) [OF P, of 8] content_prefix(4) [OF P, of 8 2]
    by simp_all
  with M(1) 2(1) show ?case
    by (simp add: Amf0Date_read_def act_simps del: content_skip [of b] readable_skip [of b] skip_skip)
      (simp add: act_simps)
qed (auto simp: act_simps)

interpretation eof: stream_codec "\<lambda>_. enc_eof" "\<lambda>_. 2" "\<lambda>_. True" "\<lambda>_. Amf0ObjectEOF_write"
  Amf0ObjectEOF_read
proof (unfold_locales, goal_cases)
  case (2 b v)
  then have P: "take (length enc_eof) (content b) = enc_eof" by simp
  have "3 \<le> readable b" "take 2 (content b) = [0, 0]" "content b ! 2 = RTMP_AMF0_ObjectEnd"
    using content_prefix(1,3) [OF P] content_prefix(2) [OF P, of 2] by (simp_all add: enc_eof_def)
  with 2(1) show ?case by (simp add: Amf0ObjectEOF_read_def act_simps nth_drop_content)
qed (simp add: act_simps)

section \<open>Reading any input\<close>

lemma reader_fixed [intro!]:
  "reader n 1 (seq (guard_read 1 e) read_1byte)" "reader n 2 (seq (guard_read 2 e) read_2bytes)"
  "reader n 4 (seq (guard_read 4 e) read_4bytes)" "reader n 8 (seq (guard_read 8 e) read_8bytes)"
  using reader_guarded [of 1 read_1byte n e] reader_guarded [of 2 read_2bytes n e]
    reader_guarded [of 4 read_4bytes n e] reader_guarded [of 8 read_8bytes n e]
  by (simp_all add: act_simps)

lemma reader_marker [intro!]: "reader n 1 (read_marker m)"
proof (rule readerI)
  fix b assume "wf_buffer b"
  then show "(\<exists>v j. read_marker m b = Done v (skip j b) \<and> 1 \<le> j \<and> j \<le> readable b)
    \<or> (\<exists>e j. read_marker m b = Fail e (skip j b) \<and> j \<le> readable b)"
    by (cases "readable b = 0"; cases "content b ! 0 = m")
      (auto simp: act_simps intro: exI [of _ 0] exI [of _ 1])
qed

text \<open>Applied in this order, they follow a body from its first call to its last.\<close>

lemmas reader_rules = reader_fixed reader_marker reader_ret reader_check reader_fail
  reader_seq_sum reader_bind_sum

lemma reader_blob: "0 < k \<Longrightarrow> reader n 0 (seq (guard_read k e) (read_string k))"
  using reader_guarded [of "nat k" "read_string k" n e] by (auto simp: act_simps intro: reader_weaken)

lemma reader_utf8 [intro!]: "reader n 2 (amf0_read_utf8 s)"
  unfolding amf0_read_utf8_def by (rule reader_bind [where k' = 0]) (auto intro: reader_blob)

lemma reader_string [intro!]: "reader n 3 (amf0_read_string s)"
  unfolding amf0_read_string_def by (rule reader_ge, (rule reader_rules reader_utf8)+, simp)

lemma reader_boolean [intro!]: "reader n 2 amf0_read_boolean"
  unfolding amf0_read_boolean_def by (rule reader_ge, (rule reader_rules)+, simp)

lemma reader_number [intro!]: "reader n 9 amf0_read_number"
  unfolding amf0_read_number_def by (rule reader_ge, (rule reader_rules)+, simp)

lemma reader_null [intro!]: "reader n 1 amf0_read_null" "reader n 1 amf0_read_undefined"
  unfolding amf0_read_null_def amf0_read_undefined_def by (rule reader_marker)+

lemma reader_date [intro!]: "reader n 11 Amf0Date_read"
  unfolding Amf0Date_read_def by (rule reader_ge, (rule reader_rules)+, simp)

lemma reader_eof [intro!]: "reader n 3 Amf0ObjectEOF_read"
  unfolding Amf0ObjectEOF_read_def by (rule reader_ge, (rule reader_rules)+, simp)

lemma amf0_is_object_eof_eq [act_simps]:
  "wf_buffer b \<Longrightarrow> 3 \<le> readable b \<Longrightarrow>
    amf0_is_object_eof b = Done (be_word (take 3 (content b)) = (0x09 :: 32 word)) (skip 3 b)"
  "wf_buffer b \<Longrightarrow> readable b < 3 \<Longrightarrow> amf0_is_object_eof b = Done False b"
  by (simp_all add: amf0_is_object_eof_def act_simps)

lemma reader_is_object_eof [intro!]: "reader n 0 amf0_is_object_eof"
proof (rule readerI)
  fix b assume "wf_buffer b"
  then show "(\<exists>v j. amf0_is_object_eof b = Done v (skip j b) \<and> 0 \<le> j \<and> j \<le> readable b)
    \<or> (\<exists>e j. amf0_is_object_eof b = Fail e (skip j b) \<and> j \<le> readable b)"
    by (cases "readable b < 3") (auto simp: act_simps not_less intro: exI [of _ 0] exI [of _ 3])
qed

end
