(* ===== verification/Keyed_Store.thy ===== *)
theory Keyed_Store
  imports Tmss_Base
begin

text \<open>
  The contract of the program's tables (property tables, file indexes, channel maps): they
  behave as finite maps.  A client reasons about a series of updates through \<open>updates_map\<close>.
\<close>

datatype ('k, 'v) update = Insert 'k 'v | Delete 'k

primrec update_map :: "('k, 'v) update \<Rightarrow> ('k \<Rightarrow> 'v option) \<Rightarrow> ('k \<Rightarrow> 'v option)" where
  "update_map (Insert k v) m = m(k \<mapsto> v)"
| "update_map (Delete k) m = m(k := None)"

locale keyed_store =
  fixes inv :: "'s \<Rightarrow> bool" and lookup :: "'k \<Rightarrow> 's \<Rightarrow> 'v option"
    and insert :: "'k \<Rightarrow> 'v \<Rightarrow> 's \<Rightarrow> 's" and delete :: "'k \<Rightarrow> 's \<Rightarrow> 's"
  assumes inv_insert: "inv s \<Longrightarrow> inv (insert k v s)"
    and inv_delete: "inv s \<Longrightarrow> inv (delete k s)"
    and lookup_insert: "inv s \<Longrightarrow> lookup k' (insert k v s) = (if k' = k then Some v else lookup k' s)"
    and lookup_delete: "inv s \<Longrightarrow> lookup k' (delete k s) = (if k' = k then None else lookup k' s)"
begin

primrec apply_update :: "('k, 'v) update \<Rightarrow> 's \<Rightarrow> 's" where
  "apply_update (Insert k v) s = insert k v s"
| "apply_update (Delete k) s = delete k s"

lemma updates_refine:
  "inv s \<Longrightarrow> inv (fold apply_update us s) \<and>
    (\<lambda>k. lookup k (fold apply_update us s)) = fold update_map us (\<lambda>k. lookup k s)"
proof (induction us arbitrary: s)
  case (Cons u us)
  have "inv (apply_update u s)" "(\<lambda>k. lookup k (apply_update u s)) = update_map u (\<lambda>k. lookup k s)"
    using Cons.prems
    by (cases u; auto simp: inv_insert inv_delete lookup_insert lookup_delete fun_eq_iff)+
  with Cons.IH [of "apply_update u s"] show ?case by simp
qed simp

lemma last_insert_wins:
  "inv s \<Longrightarrow> (\<And>u. u \<in> set us \<Longrightarrow> (case u of Insert k' v \<Rightarrow> k' | Delete k' \<Rightarrow> k') \<noteq> k) \<Longrightarrow>
    lookup k (fold apply_update us (insert k v s)) = Some v"
proof (induction us arbitrary: s rule: rev_induct)
  case Nil
  then show ?case by (simp add: lookup_insert)
next
  case (snoc u us)
  have i: "inv (fold apply_update us (insert k v s))"
    using updates_refine [of "insert k v s" us] snoc.prems by (simp add: inv_insert)
  have "lookup k (fold apply_update us (insert k v s)) = Some v"
    using snoc.prems by (intro snoc.IH) auto
  with i snoc.prems(2) [of u] show ?case
    by (cases u) (auto simp: lookup_insert lookup_delete)
qed

end

end
