(* ===== verification/Amf0.thy ===== *)
theory Amf0
  imports Amf0_Prim Keyed_Store
begin

text \<open>
  AMF0 values, the class hierarchy under \<open>Amf0Any\<close> of \<open>src/protocol/rtmp/rtmp_amf.cpp\<close>:
  one constructor per class, with its data members.  The virtual functions \<open>total_size\<close>,
  \<open>write\<close>, \<open>read\<close> and \<open>copy\<close> are one definition per class with parts, taking the function for the
  parts as an argument, and one function that dispatches on the class and ties the recursion.
  Objects and ecma arrays keep their properties in an \<open>UnSortedHashtable\<close>, a list of pairs.
\<close>

section \<open>UnSortedHashtable\<close>

type_synonym 'v hashtable = "(bytes \<times> 'v) list"

text \<open>
  \<open>set\<close> erases the first entry with the key and appends the new value unless it is null.
\<close>

primrec erase_first :: "bytes \<Rightarrow> 'v hashtable \<Rightarrow> 'v hashtable" where
  "erase_first key [] = []"
| "erase_first key (p # ps) = (if key = fst p then ps else p # erase_first key ps)"

definition hash_set :: "bytes \<Rightarrow> 'v option \<Rightarrow> 'v hashtable \<Rightarrow> 'v hashtable" where
  "hash_set key v ps = (case v of None \<Rightarrow> erase_first key ps | Some x \<Rightarrow> erase_first key ps @ [(key, x)])"

primrec hash_get_property :: "bytes \<Rightarrow> 'v hashtable \<Rightarrow> 'v option" where
  "hash_get_property name [] = None"
| "hash_get_property name (p # ps) = (if fst p = name then Some (snd p) else hash_get_property name ps)"

primrec hash_remove :: "bytes \<Rightarrow> 'v hashtable \<Rightarrow> 'v hashtable" where
  "hash_remove name [] = []"
| "hash_remove name (p # ps) = (if fst p = name then hash_remove name ps else p # hash_remove name ps)"

definition hash_copy :: "('v \<Rightarrow> 'v) \<Rightarrow> 'v hashtable \<Rightarrow> 'v hashtable \<Rightarrow> 'v hashtable" where
  "hash_copy cp src ps = foldl (\<lambda>acc p. hash_set (fst p) (Some (cp (snd p))) acc) ps src"

section \<open>Values\<close>

datatype amf0 =
    Amf0String bytes
  | Amf0Boolean bool
  | Amf0Number "64 word"
  | Amf0Date "64 word" "16 word"
  | Amf0Null
  | Amf0Undefined
  | Amf0Object "(bytes \<times> amf0) list"
  | Amf0EcmaArray "32 word" "(bytes \<times> amf0) list"
  | Amf0StrictArray "32 word" "amf0 list"
  | Amf0ObjectEOF

fun marker :: "amf0 \<Rightarrow> byte" where
  "marker (Amf0String s) = RTMP_AMF0_String"
| "marker (Amf0Boolean v) = RTMP_AMF0_Boolean"
| "marker (Amf0Number v) = RTMP_AMF0_Number"
| "marker (Amf0Date d z) = RTMP_AMF0_Date"
| "marker Amf0Null = RTMP_AMF0_Null"
| "marker Amf0Undefined = RTMP_AMF0_Undefined"
| "marker (Amf0Object ps) = RTMP_AMF0_Object"
| "marker (Amf0EcmaArray c ps) = RTMP_AMF0_EcmaArray"
| "marker (Amf0StrictArray c vs) = RTMP_AMF0_StrictArray"
| "marker Amf0ObjectEOF = RTMP_AMF0_ObjectEnd"

definition is_string :: "amf0 \<Rightarrow> bool" where "is_string v \<longleftrightarrow> marker v = RTMP_AMF0_String"
definition is_boolean :: "amf0 \<Rightarrow> bool" where "is_boolean v \<longleftrightarrow> marker v = RTMP_AMF0_Boolean"
definition is_number :: "amf0 \<Rightarrow> bool" where "is_number v \<longleftrightarrow> marker v = RTMP_AMF0_Number"
definition is_null :: "amf0 \<Rightarrow> bool" where "is_null v \<longleftrightarrow> marker v = RTMP_AMF0_Null"
definition is_undefined :: "amf0 \<Rightarrow> bool" where "is_undefined v \<longleftrightarrow> marker v = RTMP_AMF0_Undefined"
definition is_object :: "amf0 \<Rightarrow> bool" where "is_object v \<longleftrightarrow> marker v = RTMP_AMF0_Object"
definition is_ecma_array :: "amf0 \<Rightarrow> bool" where
  "is_ecma_array v \<longleftrightarrow> marker v = RTMP_AMF0_EcmaArray"
definition is_strict_array :: "amf0 \<Rightarrow> bool" where
  "is_strict_array v \<longleftrightarrow> marker v = RTMP_AMF0_StrictArray"
definition is_date :: "amf0 \<Rightarrow> bool" where "is_date v \<longleftrightarrow> marker v = RTMP_AMF0_Date"
definition is_object_eof :: "amf0 \<Rightarrow> bool" where "is_object_eof v \<longleftrightarrow> marker v = RTMP_AMF0_ObjectEnd"

definition is_complex_object :: "amf0 \<Rightarrow> bool" where
  "is_complex_object v \<longleftrightarrow> is_object v \<or> is_object_eof v \<or> is_ecma_array v \<or> is_strict_array v"

text \<open>
  The casts: \<open>dynamic_pointer_cast\<close> and an \<open>assert\<close>.  \<open>Amf0EcmaArray\<close> derives from
  \<open>Amf0Object\<close>, so \<open>to_object\<close> accepts both.
\<close>

fun to_str :: "amf0 \<Rightarrow> (bytes, 's) act" where
  "to_str (Amf0String s) = ret s"
| "to_str _ = crash Assert_Failed"

fun to_boolean :: "amf0 \<Rightarrow> (bool, 's) act" where
  "to_boolean (Amf0Boolean v) = ret v"
| "to_boolean _ = crash Assert_Failed"

fun to_number :: "amf0 \<Rightarrow> (64 word, 's) act" where
  "to_number (Amf0Number v) = ret v"
| "to_number _ = crash Assert_Failed"

fun to_date :: "amf0 \<Rightarrow> (64 word, 's) act" where
  "to_date (Amf0Date d z) = ret d"
| "to_date _ = crash Assert_Failed"

fun to_date_time_zone :: "amf0 \<Rightarrow> (16 word, 's) act" where
  "to_date_time_zone (Amf0Date d z) = ret z"
| "to_date_time_zone _ = crash Assert_Failed"

fun to_object :: "amf0 \<Rightarrow> (amf0, 's) act" where
  "to_object (Amf0Object ps) = ret (Amf0Object ps)"
| "to_object (Amf0EcmaArray c ps) = ret (Amf0EcmaArray c ps)"
| "to_object _ = crash Assert_Failed"

fun to_ecma_array :: "amf0 \<Rightarrow> (amf0, 's) act" where
  "to_ecma_array (Amf0EcmaArray c ps) = ret (Amf0EcmaArray c ps)"
| "to_ecma_array _ = crash Assert_Failed"

fun to_strict_array :: "amf0 \<Rightarrow> (amf0, 's) act" where
  "to_strict_array (Amf0StrictArray c vs) = ret (Amf0StrictArray c vs)"
| "to_strict_array _ = crash Assert_Failed"

fun set_number :: "64 word \<Rightarrow> amf0 \<Rightarrow> (amf0, 's) act" where
  "set_number x (Amf0Number v) = ret (Amf0Number x)"
| "set_number x _ = crash Assert_Failed"

definition hash_ensure_property_string :: "bytes \<Rightarrow> amf0 hashtable \<Rightarrow> amf0 option" where
  "hash_ensure_property_string name ps = (case hash_get_property name ps of
     None \<Rightarrow> None | Some prop \<Rightarrow> if \<not> is_string prop then None else Some prop)"

definition hash_ensure_property_number :: "bytes \<Rightarrow> amf0 hashtable \<Rightarrow> amf0 option" where
  "hash_ensure_property_number name ps = (case hash_get_property name ps of
     None \<Rightarrow> None | Some prop \<Rightarrow> if \<not> is_number prop then None else Some prop)"

text \<open>\<open>Amf0Object\<close> passes these on to its table; \<open>append\<close> also keeps \<open>_count\<close> up to date.\<close>

fun Amf0Object_set :: "bytes \<Rightarrow> amf0 \<Rightarrow> amf0 \<Rightarrow> amf0" where
  "Amf0Object_set key v (Amf0Object ps) = Amf0Object (hash_set key (Some v) ps)"
| "Amf0Object_set key v (Amf0EcmaArray c ps) = Amf0EcmaArray c (hash_set key (Some v) ps)"
| "Amf0Object_set key v x = x"

fun Amf0StrictArray_append :: "amf0 \<Rightarrow> amf0 \<Rightarrow> amf0" where
  "Amf0StrictArray_append v (Amf0StrictArray c vs) =
     Amf0StrictArray (of_nat (length (vs @ [v]))) (vs @ [v])"
| "Amf0StrictArray_append v x = x"

section \<open>total_size\<close>

definition Amf0Size_utf8 :: "bytes \<Rightarrow> int" where "Amf0Size_utf8 value = 2 + int (length value)"
definition Amf0Size_str :: "bytes \<Rightarrow> int" where "Amf0Size_str value = 1 + Amf0Size_utf8 value"
definition Amf0Size_number :: int where "Amf0Size_number = 1 + 8"
definition Amf0Size_date :: int where "Amf0Size_date = 1 + 8 + 2"
definition Amf0Size_null :: int where "Amf0Size_null = 1"
definition Amf0Size_undefined :: int where "Amf0Size_undefined = 1"
definition Amf0Size_boolean :: int where "Amf0Size_boolean = 1 + 1"
definition Amf0Size_object_eof :: int where "Amf0Size_object_eof = 2 + 1"

definition Amf0Object_total_size :: "(amf0 \<Rightarrow> int) \<Rightarrow> amf0 hashtable \<Rightarrow> int" where
  "Amf0Object_total_size any ps =
     foldl (\<lambda>size p. size + Amf0Size_utf8 (fst p) + any (snd p)) 1 ps + Amf0Size_object_eof"

definition Amf0EcmaArray_total_size :: "(amf0 \<Rightarrow> int) \<Rightarrow> amf0 hashtable \<Rightarrow> int" where
  "Amf0EcmaArray_total_size any ps =
     foldl (\<lambda>size p. size + Amf0Size_utf8 (fst p) + any (snd p)) (1 + 4) ps + Amf0Size_object_eof"

definition Amf0StrictArray_total_size :: "(amf0 \<Rightarrow> int) \<Rightarrow> amf0 list \<Rightarrow> int" where
  "Amf0StrictArray_total_size any vs = foldl (\<lambda>size v. size + any v) (1 + 4) vs"

lemma total_size_cong [fundef_cong]:
  "ps = qs \<Longrightarrow> (\<And>p. p \<in> set qs \<Longrightarrow> f (snd p) = g (snd p)) \<Longrightarrow>
     Amf0Object_total_size f ps = Amf0Object_total_size g qs"
  "ps = qs \<Longrightarrow> (\<And>p. p \<in> set qs \<Longrightarrow> f (snd p) = g (snd p)) \<Longrightarrow>
     Amf0EcmaArray_total_size f ps = Amf0EcmaArray_total_size g qs"
  "vs = ws \<Longrightarrow> (\<And>v. v \<in> set ws \<Longrightarrow> f v = g v) \<Longrightarrow>
     Amf0StrictArray_total_size f vs = Amf0StrictArray_total_size g ws"
  unfolding Amf0Object_total_size_def Amf0EcmaArray_total_size_def Amf0StrictArray_total_size_def
  by (auto intro!: foldl_cong)

fun total_size :: "amf0 \<Rightarrow> int" where
  "total_size (Amf0String s) = Amf0Size_str s"
| "total_size (Amf0Boolean v) = Amf0Size_boolean"
| "total_size (Amf0Number v) = Amf0Size_number"
| "total_size (Amf0Date d z) = Amf0Size_date"
| "total_size Amf0Null = Amf0Size_null"
| "total_size Amf0Undefined = Amf0Size_undefined"
| "total_size (Amf0Object ps) = Amf0Object_total_size total_size ps"
| "total_size (Amf0EcmaArray c ps) = Amf0EcmaArray_total_size total_size ps"
| "total_size (Amf0StrictArray c vs) = Amf0StrictArray_total_size total_size vs"
| "total_size Amf0ObjectEOF = Amf0Size_object_eof"

text \<open>\<open>Amf0Size::any\<close> takes a \<open>shared_ptr\<close>: a null pointer counts 0.\<close>

definition Amf0Size_any :: "amf0 option \<Rightarrow> int" where
  "Amf0Size_any v = (case v of None \<Rightarrow> 0 | Some x \<Rightarrow> total_size x)"

section \<open>write\<close>

definition write_property :: "(amf0 \<Rightarrow> (unit, Buffer) act) \<Rightarrow> bytes \<times> amf0 \<Rightarrow> (unit, Buffer) act" where
  "write_property write_any p = seq (amf0_write_utf8 (fst p)) (write_any (snd p))"

definition Amf0Object_write :: "(amf0 \<Rightarrow> (unit, Buffer) act) \<Rightarrow> amf0 hashtable \<Rightarrow> (unit, Buffer) act" where
  "Amf0Object_write write_any ps = seq (write_marker RTMP_AMF0_Object)
     (seq (for_each (write_property write_any) ps) Amf0ObjectEOF_write)"

definition write_count :: "32 word \<Rightarrow> (unit, Buffer) act" where
  "write_count c = seq (guard_read 4 error_rtmp_amf0_encode) (write_4bytes c)"

definition Amf0EcmaArray_write ::
    "(amf0 \<Rightarrow> (unit, Buffer) act) \<Rightarrow> 32 word \<Rightarrow> amf0 hashtable \<Rightarrow> (unit, Buffer) act" where
  "Amf0EcmaArray_write write_any count ps = seq (write_marker RTMP_AMF0_EcmaArray)
     (seq (write_count count) (seq (for_each (write_property write_any) ps) Amf0ObjectEOF_write))"

definition Amf0StrictArray_write ::
    "(amf0 \<Rightarrow> (unit, Buffer) act) \<Rightarrow> 32 word \<Rightarrow> amf0 list \<Rightarrow> (unit, Buffer) act" where
  "Amf0StrictArray_write write_any count vs = seq (write_marker RTMP_AMF0_StrictArray)
     (seq (write_count count) (for_each write_any vs))"

lemma write_cong [fundef_cong]:
  "ps = qs \<Longrightarrow> (\<And>p. p \<in> set qs \<Longrightarrow> f (snd p) = g (snd p)) \<Longrightarrow>
     Amf0Object_write f ps = Amf0Object_write g qs"
  "c = d \<Longrightarrow> ps = qs \<Longrightarrow> (\<And>p. p \<in> set qs \<Longrightarrow> f (snd p) = g (snd p)) \<Longrightarrow>
     Amf0EcmaArray_write f c ps = Amf0EcmaArray_write g d qs"
  "c = d \<Longrightarrow> vs = ws \<Longrightarrow> (\<And>v. v \<in> set ws \<Longrightarrow> f v = g v) \<Longrightarrow>
     Amf0StrictArray_write f c vs = Amf0StrictArray_write g d ws"
  unfolding Amf0Object_write_def Amf0EcmaArray_write_def Amf0StrictArray_write_def
  by (auto intro!: arg_cong2 [where f = seq] for_each_cong simp: write_property_def)

fun amf0_write_any :: "amf0 \<Rightarrow> (unit, Buffer) act" where
  "amf0_write_any (Amf0String s) = amf0_write_string s"
| "amf0_write_any (Amf0Boolean v) = amf0_write_boolean v"
| "amf0_write_any (Amf0Number v) = amf0_write_number v"
| "amf0_write_any (Amf0Date d z) = Amf0Date_write d z"
| "amf0_write_any Amf0Null = amf0_write_null"
| "amf0_write_any Amf0Undefined = amf0_write_undefined"
| "amf0_write_any (Amf0Object ps) = Amf0Object_write amf0_write_any ps"
| "amf0_write_any (Amf0EcmaArray c ps) = Amf0EcmaArray_write amf0_write_any c ps"
| "amf0_write_any (Amf0StrictArray c vs) = Amf0StrictArray_write amf0_write_any c vs"
| "amf0_write_any Amf0ObjectEOF = Amf0ObjectEOF_write"

section \<open>copy\<close>

definition Amf0Object_copy :: "(amf0 \<Rightarrow> amf0) \<Rightarrow> amf0 hashtable \<Rightarrow> amf0" where
  "Amf0Object_copy cp ps = Amf0Object (hash_copy cp ps [])"

definition Amf0EcmaArray_copy :: "(amf0 \<Rightarrow> amf0) \<Rightarrow> 32 word \<Rightarrow> amf0 hashtable \<Rightarrow> amf0" where
  "Amf0EcmaArray_copy cp c ps = Amf0EcmaArray c (hash_copy cp ps [])"

definition Amf0StrictArray_copy :: "(amf0 \<Rightarrow> amf0) \<Rightarrow> 32 word \<Rightarrow> amf0 list \<Rightarrow> amf0" where
  "Amf0StrictArray_copy cp c vs =
     (case foldl (\<lambda>copy v. Amf0StrictArray_append (cp v) copy) (Amf0StrictArray 0 []) vs of
        Amf0StrictArray _ ws \<Rightarrow> Amf0StrictArray c ws | x \<Rightarrow> x)"

lemma copy_cong [fundef_cong]:
  "ps = qs \<Longrightarrow> (\<And>p. p \<in> set qs \<Longrightarrow> f (snd p) = g (snd p)) \<Longrightarrow> Amf0Object_copy f ps = Amf0Object_copy g qs"
  "c = d \<Longrightarrow> ps = qs \<Longrightarrow> (\<And>p. p \<in> set qs \<Longrightarrow> f (snd p) = g (snd p)) \<Longrightarrow>
     Amf0EcmaArray_copy f c ps = Amf0EcmaArray_copy g d qs"
  "c = d \<Longrightarrow> vs = ws \<Longrightarrow> (\<And>v. v \<in> set ws \<Longrightarrow> f v = g v) \<Longrightarrow>
     Amf0StrictArray_copy f c vs = Amf0StrictArray_copy g d ws"
  unfolding Amf0Object_copy_def Amf0EcmaArray_copy_def Amf0StrictArray_copy_def hash_copy_def
  by (auto intro!: foldl_cong arg_cong [where f = "case_amf0 _ _ _ _ _ _ _ _ _ _"])

fun amf0_copy :: "amf0 \<Rightarrow> amf0" where
  "amf0_copy (Amf0String s) = Amf0String (c_str s)"
| "amf0_copy (Amf0Boolean v) = Amf0Boolean v"
| "amf0_copy (Amf0Number v) = Amf0Number v"
| "amf0_copy (Amf0Date d z) = Amf0Date d z"
| "amf0_copy Amf0Null = Amf0Null"
| "amf0_copy Amf0Undefined = Amf0Undefined"
| "amf0_copy (Amf0Object ps) = Amf0Object_copy amf0_copy ps"
| "amf0_copy (Amf0EcmaArray c ps) = Amf0EcmaArray_copy amf0_copy c ps"
| "amf0_copy (Amf0StrictArray c vs) = Amf0StrictArray_copy amf0_copy c vs"
| "amf0_copy Amf0ObjectEOF = Amf0ObjectEOF"

section \<open>read\<close>

text \<open>\<open>Amf0Any::discovery\<close> makes an empty value of the class the marker names.\<close>

definition discovery :: "(amf0, Buffer) act" where
  "discovery = bind amf0_is_object_eof (\<lambda>eof.
     if eof then ret Amf0ObjectEOF
     else bind (seq (guard_read 1 error_rtmp_amf0_decode) read_1byte) (\<lambda>marker.
       seq (ignore (seek_read (-1)))
        (if marker = RTMP_AMF0_String then ret (Amf0String [])
         else if marker = RTMP_AMF0_Boolean then ret (Amf0Boolean False)
         else if marker = RTMP_AMF0_Number then ret (Amf0Number 0)
         else if marker = RTMP_AMF0_Null then ret Amf0Null
         else if marker = RTMP_AMF0_Undefined then ret Amf0Undefined
         else if marker = RTMP_AMF0_Object then ret (Amf0Object [])
         else if marker = RTMP_AMF0_EcmaArray then ret (Amf0EcmaArray 0 [])
         else if marker = RTMP_AMF0_StrictArray then ret (Amf0StrictArray 0 [])
         else if marker = RTMP_AMF0_Date then ret (Amf0Date 0 0)
         else fail error_rtmp_amf0_invalid)))"

text \<open>
  The \<open>while\<close> loop over the properties; \<open>continue\<close> is the part of its condition after
  \<open>!stream->read_empty()\<close>, on the number of properties read so far.
\<close>

primrec read_properties :: "(amf0, Buffer) act \<Rightarrow> (int \<Rightarrow> bool) \<Rightarrow> nat \<Rightarrow> amf0 hashtable
    \<Rightarrow> (amf0 hashtable, Buffer) act" where
  "read_properties read_any continue 0 ps = crash No_Fuel"
| "read_properties read_any continue (Suc n) ps = bind read_empty (\<lambda>empty.
     if empty \<or> \<not> continue (int (length ps)) then ret ps
     else bind amf0_is_object_eof (\<lambda>eof.
       if eof then seq Amf0ObjectEOF_read (ret ps)
       else bind (amf0_read_utf8 []) (\<lambda>property_name.
            bind read_any (\<lambda>property_value.
            read_properties read_any continue n (hash_set property_name (Some property_value) ps)))))"

definition Amf0Object_read :: "(amf0, Buffer) act \<Rightarrow> nat \<Rightarrow> amf0 hashtable \<Rightarrow> (amf0, Buffer) act" where
  "Amf0Object_read read_any n ps = seq (read_marker RTMP_AMF0_Object)
     (bind (read_properties read_any (\<lambda>count. True) n ps) (\<lambda>qs. ret (Amf0Object qs)))"

definition Amf0EcmaArray_read :: "(amf0, Buffer) act \<Rightarrow> nat \<Rightarrow> amf0 hashtable \<Rightarrow> (amf0, Buffer) act" where
  "Amf0EcmaArray_read read_any n ps = seq (read_marker RTMP_AMF0_EcmaArray)
     (bind (seq (guard_read 4 error_rtmp_amf0_decode) read_4bytes) (\<lambda>count.
      bind (read_properties read_any (\<lambda>c. c < sint count) n ps) (\<lambda>qs. ret (Amf0EcmaArray count qs))))"

primrec read_elements :: "(amf0, Buffer) act \<Rightarrow> int \<Rightarrow> nat \<Rightarrow> int \<Rightarrow> amf0 list \<Rightarrow> (amf0 list, Buffer) act" where
  "read_elements read_any count 0 i vs = crash No_Fuel"
| "read_elements read_any count (Suc n) i vs =
     (if \<not> i < count then ret vs
      else bind read_empty (\<lambda>empty.
        if empty then ret vs
        else bind read_any (\<lambda>elem. read_elements read_any count n (i + 1) (vs @ [elem]))))"

definition Amf0StrictArray_read :: "(amf0, Buffer) act \<Rightarrow> nat \<Rightarrow> amf0 list \<Rightarrow> (amf0, Buffer) act" where
  "Amf0StrictArray_read read_any n vs = seq (read_marker RTMP_AMF0_StrictArray)
     (bind (seq (guard_read 4 error_rtmp_amf0_decode) read_4bytes) (\<lambda>count.
      bind (read_elements read_any (sint count) n 0 vs) (\<lambda>ws. ret (Amf0StrictArray count ws))))"

text \<open>The virtual \<open>read\<close>, called on the value \<open>discovery\<close> made.\<close>

fun amf0_read_body :: "(amf0, Buffer) act \<Rightarrow> nat \<Rightarrow> amf0 \<Rightarrow> (amf0, Buffer) act" where
  "amf0_read_body read_any n (Amf0String s) = bind (amf0_read_string s) (\<lambda>x. ret (Amf0String x))"
| "amf0_read_body read_any n (Amf0Boolean v) = bind amf0_read_boolean (\<lambda>x. ret (Amf0Boolean x))"
| "amf0_read_body read_any n (Amf0Number v) = bind amf0_read_number (\<lambda>x. ret (Amf0Number x))"
| "amf0_read_body read_any n (Amf0Date d z) = bind Amf0Date_read (\<lambda>x. ret (Amf0Date (fst x) (snd x)))"
| "amf0_read_body read_any n Amf0Null = seq amf0_read_null (ret Amf0Null)"
| "amf0_read_body read_any n Amf0Undefined = seq amf0_read_undefined (ret Amf0Undefined)"
| "amf0_read_body read_any n (Amf0Object ps) = Amf0Object_read read_any n ps"
| "amf0_read_body read_any n (Amf0EcmaArray c ps) = Amf0EcmaArray_read read_any n ps"
| "amf0_read_body read_any n (Amf0StrictArray c vs) = Amf0StrictArray_read read_any n vs"
| "amf0_read_body read_any n Amf0ObjectEOF = seq Amf0ObjectEOF_read (ret Amf0ObjectEOF)"

text \<open>\<open>n\<close> bounds both the nesting and the iterations of each loop.\<close>

primrec amf0_read_any :: "nat \<Rightarrow> (amf0, Buffer) act" where
  "amf0_read_any 0 = crash No_Fuel"
| "amf0_read_any (Suc n) = bind discovery (amf0_read_body (amf0_read_any n) n)"

end
