(* ===== verification/Amf0_Stream.thy ===== *)
theory Amf0_Stream
  imports Amf0_Facts
begin

text \<open>
  AMF0 values on a buffer: \<open>amf0_write_any\<close> appends \<open>enc v\<close> when there is room and enough to
  read, refuses an empty buffer, and \<open>amf0_read_any\<close> ends without a crash on every input, in at
  most \<open>readable b + 1\<close> nested calls and loop rounds.
\<close>

section \<open>Writing\<close>

lemma write_count_eq [act_simps]:
  "wf_buffer b \<Longrightarrow> 4 \<le> readable b \<Longrightarrow> 4 \<le> room b \<Longrightarrow> write_count c b = Done () (push (enc_count c) b)"
  by (simp add: write_count_def enc_count_def act_simps)

text \<open>A series of writes appends the encodings in order, if each does on every larger buffer.\<close>

lemma for_each_push:
  assumes "wf_buffer b" "\<And>x b'. x \<in> set xs \<Longrightarrow> wf_buffer b' \<Longrightarrow> readable b \<le> readable b' \<Longrightarrow>
      length (e x) \<le> room b' \<Longrightarrow> f x b' = Done () (push (e x) b')"
    "length (concat (map e xs)) \<le> room b"
  shows "for_each f xs b = Done () (push (concat (map e xs)) b)"
  using assms
proof (induction xs arbitrary: b)
  case (Cons x xs)
  have x: "f x b = Done () (push (e x) b)" using Cons.prems by (intro Cons.prems(2)) auto
  have "for_each f xs (push (e x) b) = Done () (push (concat (map e xs)) (push (e x) b))"
    using Cons.prems by (intro Cons.IH) (auto intro: Cons.prems(2))
  with x show ?case by (simp add: act_simps)
qed (simp add: act_simps)

text \<open>
  \<open>need v\<close> bytes to read are enough for every guard on the way: seven for the eight bytes of a
  number behind its marker, and what a string may exceed them by.
\<close>

fun need :: "amf0 \<Rightarrow> nat" where
  "need (Amf0String s) = max 7 (length s)"
| "need (Amf0Object ps) = fold (\<lambda>p n. max n (max (length (fst p)) (need (snd p)))) ps 7"
| "need (Amf0EcmaArray c ps) = fold (\<lambda>p n. max n (max (length (fst p)) (need (snd p)))) ps 7"
| "need (Amf0StrictArray c vs) = fold (\<lambda>v n. max n (need v)) vs 7"
| "need _ = 7"

lemma fold_max_le: "fold (\<lambda>p n. max n (f p)) ps a \<le> (k :: nat) \<longleftrightarrow> a \<le> k \<and> (\<forall>p\<in>set ps. f p \<le> k)"
  by (induction ps arbitrary: a) auto

lemma write_properties_eq:
  assumes "wf_buffer b" "7 \<le> readable b" "\<forall>p\<in>set ps. length (fst p) \<le> readable b"
    "\<And>p b'. p \<in> set ps \<Longrightarrow> wf_buffer b' \<Longrightarrow> readable b \<le> readable b' \<Longrightarrow>
      length (enc (snd p)) \<le> room b' \<Longrightarrow> w (snd p) b' = Done () (push (enc (snd p)) b')"
    "length (concat (map (\<lambda>p. enc_utf8 (fst p) @ enc (snd p)) ps)) \<le> room b"
  shows "for_each (write_property w) ps b =
    Done () (push (concat (map (\<lambda>p. enc_utf8 (fst p) @ enc (snd p)) ps)) b)"
proof (rule for_each_push [OF assms(1) _ assms(5)])
  fix p b' assume p: "p \<in> set ps" "wf_buffer b'" "readable b \<le> readable b'"
    "length (enc_utf8 (fst p) @ enc (snd p)) \<le> room b'"
  have "amf0_write_utf8 (fst p) b' = Done () (push (enc_utf8 (fst p)) b')"
    using p assms(2,3) by (intro amf0_write_utf8_eq) (auto intro: trans_le_add1)
  moreover have "w (snd p) (push (enc_utf8 (fst p)) b')
      = Done () (push (enc (snd p)) (push (enc_utf8 (fst p)) b'))"
    using p by (intro assms(4)) auto
  ultimately show "write_property w p b' = Done () (push (enc_utf8 (fst p) @ enc (snd p)) b')"
    by (simp add: write_property_def act_simps)
qed

lemma amf0_write_any_eq:
  "wf_buffer b \<Longrightarrow> need v \<le> readable b \<Longrightarrow> length (enc v) \<le> room b \<Longrightarrow>
    amf0_write_any v b = Done () (push (enc v) b)"
proof (induction v arbitrary: b rule: amf0_write_any.induct)
  case (7 ps)
  let ?b = "push [RTMP_AMF0_Object] b" and ?e = "concat (map (\<lambda>p. enc_utf8 (fst p) @ enc (snd p)) ps)"
  have "for_each (write_property amf0_write_any) ps ?b = Done () (push ?e ?b)"
    using 7 by (intro write_properties_eq) (auto simp: fold_max_le intro!: 7(1) intro: trans_le_add1 order_trans)
  with 7 show ?case by (simp add: Amf0Object_write_def act_simps fold_max_le)
next
  case (8 c ps)
  let ?b = "push (enc_count c) (push [RTMP_AMF0_EcmaArray] b)"
    and ?e = "concat (map (\<lambda>p. enc_utf8 (fst p) @ enc (snd p)) ps)"
  have "for_each (write_property amf0_write_any) ps ?b = Done () (push ?e ?b)"
    using 8 by (intro write_properties_eq) (auto simp: fold_max_le intro!: 8(1) intro: trans_le_add1 order_trans)
  with 8 show ?case by (simp add: Amf0EcmaArray_write_def act_simps fold_max_le)
next
  case (9 c vs)
  let ?b = "push (enc_count c) (push [RTMP_AMF0_StrictArray] b)"
  have "for_each amf0_write_any vs ?b = Done () (push (concat (map enc vs)) ?b)"
    using 9 by (intro for_each_push) (auto simp: fold_max_le intro!: 9(1) intro: trans_le_add1 order_trans)
  with 9 show ?case by (simp add: Amf0StrictArray_write_def act_simps fold_max_le)
qed (simp_all add: act_simps)

interpretation any: sized_writer enc need "\<lambda>_. True" amf0_write_any total_size
  by unfold_locales (simp_all add: amf0_write_any_eq total_size_enc)

lemma amf0_write_any_empty:
  assumes "wf_buffer b" "readable b = 0"
  shows "amf0_write_any v b = Fail error_rtmp_amf0_encode b"
  using assms
  by (cases v) (simp_all add: writes_need_readable Amf0Object_write_def Amf0EcmaArray_write_def
      Amf0StrictArray_write_def act_simps)

section \<open>Reading any input\<close>

lemma discovery_reader: "reader n 1 discovery"
proof (rule readerI)
  fix b assume b: "wf_buffer b"
  consider "readable b = 0" | "0 < readable b" "readable b < 3" | "readable b = 3" | "3 < readable b"
    by linarith
  then show "(\<exists>v j. discovery b = Done v (skip j b) \<and> 1 \<le> j \<and> j \<le> readable b)
    \<or> (\<exists>e j. discovery b = Fail e (skip j b) \<and> j \<le> readable b)"
  proof cases
    case 1
    with b show ?thesis by (auto simp: discovery_def act_simps intro: exI [of _ 0])
  next
    case 2
    with b show ?thesis by (auto simp: discovery_def act_simps)
  next
    case 3
    with b show ?thesis by (auto simp: discovery_def act_simps)
  next
    case 4
    with b show ?thesis by (auto simp: discovery_def act_simps)
  qed
qed

lemma reader_properties:
  "reader n 1 r \<Longrightarrow> reader n 0 (read_properties r continue (Suc n) ps)"
proof (induction n arbitrary: ps)
  case 0
  show ?case
    by (rule readerI) (auto simp: readable_def act_simps intro: exI [of _ 0])
next
  case (Suc n)
  have r: "reader (Suc n - 2) 1 r" by (rule reader_weaken [OF Suc.prems]) simp_all
  have next_: "reader (n - 1 - 1) 0 (read_properties r continue (Suc n) qs)" for qs
  proof (rule reader_weaken [of n])
    show "reader n 0 (read_properties r continue (Suc n) qs)"
      by (rule Suc.IH [OF reader_weaken [OF Suc.prems]]) simp_all
  qed auto
  have body: "reader (Suc n) 0 (bind (amf0_read_utf8 []) (\<lambda>name. bind r (\<lambda>v.
      read_properties r continue (Suc n) (hash_set name (Some v) ps))))"
    by (rule reader_bind [where k = 2 and k' = 1], rule reader_utf8,
        rule reader_bind [where k = 1 and k' = 0]) (use r next_ in auto)
  have eof: "reader (Suc n) 0 (seq Amf0ObjectEOF_read (ret ps))"
    by (rule reader_seq [where k' = 0]) auto
  have choice: "reader (Suc n) 0 (if e then seq Amf0ObjectEOF_read (ret ps)
      else bind (amf0_read_utf8 []) (\<lambda>name. bind r (\<lambda>v.
        read_properties r continue (Suc n) (hash_set name (Some v) ps))))" for e
    using body eof by (cases e) simp_all
  have "reader (Suc n) 0 (bind amf0_is_object_eof (\<lambda>e. if e then seq Amf0ObjectEOF_read (ret ps)
      else bind (amf0_read_utf8 []) (\<lambda>name. bind r (\<lambda>v.
        read_properties r continue (Suc n) (hash_set name (Some v) ps)))))"
    by (rule reader_bind [where k = 0 and k' = 0, OF reader_is_object_eof]) (use choice in simp_all)
  then have round: "reader (Suc n) 0 (if stop then ret ps else bind amf0_is_object_eof (\<lambda>e.
      if e then seq Amf0ObjectEOF_read (ret ps) else bind (amf0_read_utf8 []) (\<lambda>name. bind r (\<lambda>v.
        read_properties r continue (Suc n) (hash_set name (Some v) ps)))))" for stop
    by (cases stop) (simp_all only: if_True if_False reader_ret)
  show ?case
    unfolding read_properties.simps(2) [where n = "Suc n"]
    by (rule reader_bind [where k = 0 and k' = 0, OF reader_read_empty]) (use round in simp_all)
qed

lemma reader_elements:
  "reader n 1 r \<Longrightarrow> reader n 0 (read_elements r count (Suc n) i vs)"
proof (induction n arbitrary: i vs)
  case 0
  show ?case
    by (rule readerI) (auto simp: readable_def act_simps intro: exI [of _ 0])
next
  case (Suc n)
  have next_: "reader n 0 (read_elements r count (Suc n) j ws)" for j ws
    by (rule Suc.IH [OF reader_weaken [OF Suc.prems]]) simp_all
  have body: "reader (Suc n) 0 (bind r (\<lambda>elem. read_elements r count (Suc n) (i + 1) (vs @ [elem])))"
    by (rule reader_bind [where k = 1 and k' = 0]) (use Suc.prems next_ in auto)
  then have choice: "reader (Suc n) 0 (if e then ret vs
      else bind r (\<lambda>elem. read_elements r count (Suc n) (i + 1) (vs @ [elem])))" for e
    by (cases e) (simp_all only: if_True if_False reader_ret)
  have "reader (Suc n) 0 (bind read_empty (\<lambda>e. if e then ret vs
      else bind r (\<lambda>elem. read_elements r count (Suc n) (i + 1) (vs @ [elem]))))"
    by (rule reader_bind [where k = 0 and k' = 0, OF reader_read_empty]) (use choice in simp_all)
  then show ?case
    unfolding read_elements.simps(2) [where n = "Suc n"]
    by (cases "i < count") (simp_all only: simp_thms if_True if_False reader_ret)
qed

lemma reader_body:
  assumes "reader n 1 r"
  shows "reader n 1 (amf0_read_body r (Suc n) v)"
proof -
  have r: "reader (n - 1) 0 (read_properties r continue (Suc n) ps)" for continue ps
    by (rule reader_weaken [OF reader_properties [OF assms]]) auto
  have r4: "reader (n - 1 - 4) 0 (read_properties r continue (Suc n) ps)" for continue ps
    by (rule reader_weaken [OF reader_properties [OF assms]]) auto
  have e4: "reader (n - 1 - 4) 0 (read_elements r count (Suc n) i vs)" for count i vs
    by (rule reader_weaken [OF reader_elements [OF assms]]) auto
  show ?thesis
  proof (cases v)
    case (Amf0Object ps)
    then show ?thesis
      by (simp only: amf0_read_body.simps Amf0Object_read_def)
        (rule reader_ge, (rule reader_rules r)+, simp)
  next
    case (Amf0EcmaArray c ps)
    then show ?thesis
      by (simp only: amf0_read_body.simps Amf0EcmaArray_read_def)
        (rule reader_ge, (rule reader_rules r4)+, simp)
  next
    case (Amf0StrictArray c vs)
    then show ?thesis
      by (simp only: amf0_read_body.simps Amf0StrictArray_read_def)
        (rule reader_ge, (rule reader_rules e4)+, simp)
  qed (simp only: amf0_read_body.simps, rule reader_ge, (rule reader_string reader_boolean reader_number reader_date
      reader_null reader_eof reader_rules)+, simp)+
qed

lemma reader_any: "reader n 1 (amf0_read_any (Suc n))"
proof (induction n)
  case 0
  show ?case
  proof (rule readerI)
    fix b assume "wf_buffer b" "readable b \<le> 0"
    then show "(\<exists>v j. amf0_read_any (Suc 0) b = Done v (skip j b) \<and> 1 \<le> j \<and> j \<le> readable b)
      \<or> (\<exists>e j. amf0_read_any (Suc 0) b = Fail e (skip j b) \<and> j \<le> readable b)"
      by (auto simp: discovery_def act_simps intro: exI [of _ 0])
  qed
next
  case (Suc n)
  show ?case unfolding amf0_read_any.simps(2) [of "Suc n"]
    by (rule reader_bind [OF discovery_reader, where k' = 1]) (use reader_body [OF Suc] in auto)
qed

section \<open>A buffer to write to\<close>

text \<open>Seven bytes wait to be read, so every guard of a number passes; 56 more fit.\<close>

definition seven_zeros :: Buffer where
  "seven_zeros = push [0, 0, 0, 0, 0, 0, 0] (Buffer_new (replicate 64 0) 64)"

lemma seven_zeros_facts:
  "wf_buffer seven_zeros" "content seven_zeros = [0, 0, 0, 0, 0, 0, 0]" "readable seven_zeros = 7"
  "room seven_zeros = 56"
  by (simp_all add: seven_zeros_def)

end
