(* ===== verification/Amf0_Props.thy ===== *)
theory Amf0_Props
  imports Amf0_Stream
begin

text \<open>The properties of the AMF0 component, over the lemmas of \<open>Amf0_Facts\<close> and \<open>Amf0_Stream\<close>.\<close>

section \<open>Where the marker goes\<close>

text \<open>Values without parts.\<close>

fun atom :: "amf0 \<Rightarrow> bool" where
  "atom (Amf0Object ps) \<longleftrightarrow> False"
| "atom (Amf0EcmaArray c ps) \<longleftrightarrow> False"
| "atom (Amf0StrictArray c vs) \<longleftrightarrow> False"
| "atom Amf0ObjectEOF \<longleftrightarrow> False"
| "atom _ \<longleftrightarrow> True"

lemma reader_Done: "reader n k m \<Longrightarrow> wf_buffer b \<Longrightarrow> readable b \<le> n \<Longrightarrow> m b = Done v s \<Longrightarrow>
    \<exists>j. s = skip j b \<and> k \<le> j \<and> j \<le> readable b"
  using readerD by fastforce

lemma discovery_empty_string:
  "discovery b = Done (Amf0String x) s \<Longrightarrow> x = []"
  by (auto simp: discovery_def bind_Done_iff seq_Done_iff ret_run fail_run split: if_splits)

lemma read_utf8_length:
  assumes "wf_buffer b" "amf0_read_utf8 [] b = Done s t"
  shows "2 + length s \<le> readable b"
proof (cases "2 \<le> readable b")
  case False
  with assms show ?thesis by (simp add: amf0_read_utf8_def act_simps)
next
  case True
  let ?n = "sint (be_word (take 2 (content b)) :: 16 word)"
  show ?thesis
  proof (cases "?n \<le> 0 \<or> int (readable b) - 2 < ?n")
    case True
    with assms \<open>2 \<le> readable b\<close> show ?thesis by (auto simp: amf0_read_utf8_def act_simps)
  next
    case False
    with assms \<open>2 \<le> readable b\<close> show ?thesis by (auto simp: amf0_read_utf8_def act_simps)
  qed
qed

lemma read_string_length:
  assumes "wf_buffer b" "amf0_read_string [] b = Done s t"
  shows "3 + length s \<le> readable b"
proof -
  obtain b' where m: "read_marker RTMP_AMF0_String b = Done () b'" "amf0_read_utf8 [] b' = Done s t"
    using assms(2) by (auto simp: amf0_read_string_def seq_Done_iff)
  from reader_Done [OF reader_marker assms(1) order_refl m(1)] obtain j where
    "b' = skip j b" "1 \<le> j" "j \<le> readable b" by blast
  with read_utf8_length [of b' s t] m(2) assms(1) show ?thesis by simp
qed

lemma body_atom_length:
  assumes "wf_buffer b" "amf0_read_body r n x b = Done v s" "atom v" "\<forall>y. x = Amf0String y \<longrightarrow> y = []"
  shows "length (enc v) \<le> readable b"
proof (cases x)
  case (Amf0String y)
  with assms show ?thesis by (auto simp: bind_Done_iff ret_run dest: read_string_length)
next
  case (Amf0Boolean y)
  with assms show ?thesis
    by (auto simp: bind_Done_iff ret_run dest: reader_Done [OF reader_boolean assms(1) order_refl])
next
  case (Amf0Number y)
  with assms show ?thesis
    by (auto simp: bind_Done_iff ret_run dest: reader_Done [OF reader_number assms(1) order_refl])
next
  case (Amf0Date d z)
  with assms show ?thesis
    by (auto simp: bind_Done_iff ret_run dest: reader_Done [OF reader_date assms(1) order_refl])
next
  case Amf0Null
  with assms show ?thesis
    by (auto simp: seq_Done_iff ret_run dest: reader_Done [OF reader_null(1) assms(1) order_refl])
next
  case Amf0Undefined
  with assms show ?thesis
    by (auto simp: seq_Done_iff ret_run dest: reader_Done [OF reader_null(2) assms(1) order_refl])
next
  case (Amf0Object ps)
  with assms show ?thesis by (auto simp: Amf0Object_read_def bind_Done_iff seq_Done_iff ret_run)
next
  case (Amf0EcmaArray c ps)
  with assms show ?thesis by (auto simp: Amf0EcmaArray_read_def bind_Done_iff seq_Done_iff ret_run)
next
  case (Amf0StrictArray c vs)
  with assms show ?thesis by (auto simp: Amf0StrictArray_read_def bind_Done_iff seq_Done_iff ret_run)
next
  case Amf0ObjectEOF
  with assms show ?thesis by (auto simp: seq_Done_iff ret_run)
qed

lemma read_any_not_back:
  assumes "wf_buffer b" "atom v" "content b = enc v"
  shows "amf0_read_any n b \<noteq> Done v s"
proof
  assume r: "amf0_read_any n b = Done v s"
  then obtain m where n: "n = Suc m" by (cases n) (auto simp: crash_run)
  with r obtain x b' where d: "discovery b = Done x b'"
      and body: "amf0_read_body (amf0_read_any m) m x b' = Done v s"
    by (auto simp: bind_Done_iff)
  from reader_Done [OF discovery_reader assms(1) order_refl d] obtain j where
    j: "b' = skip j b" "1 \<le> j" "j \<le> readable b" by blast
  have "length (enc v) \<le> readable b'"
    using body_atom_length [OF _ body assms(2)] d j assms(1) by (auto dest: discovery_empty_string)
  with j assms(1,3) show False by (simp add: readable_def)
qed

section \<open>Properties\<close>

primrec hash_update :: "(bytes, 'v) update \<Rightarrow> 'v hashtable \<Rightarrow> 'v hashtable" where
  "hash_update (Insert k v) ps = hash_set k (Some v) ps"
| "hash_update (Delete k) ps = hash_remove k ps"

lemma hash_update_eq: "hash.apply_update = (hash_update :: (bytes, 'v) update \<Rightarrow> _)"
proof (rule ext)
  fix u :: "(bytes, 'v) update"
  show "hash.apply_update u = hash_update u" by (cases u) (auto simp: fun_eq_iff)
qed



text \<open>
  C11: \<open>amf0_read_any\<close> is safe on any bytes a peer sends: it returns a value or an error code, never
  fails an assertion or leaves the buffer, and with \<open>n\<close> above the number of readable bytes its
  recursion and its loops end; what is left to read is a rest of the same data.
\<close>

lemma amf0_read_any_safe:
  assumes "wf_buffer b" "readable b < n"
  shows "(\<exists>v j. amf0_read_any n b = Done v (skip j b) \<and> 1 \<le> j \<and> j \<le> readable b)
    \<or> (\<exists>e j. amf0_read_any n b = Fail e (skip j b) \<and> j \<le> readable b)"
  using readerD [OF reader_any assms(1), of "n - 1"] assms(2) by (cases n) auto

lemma amf0_read_any_safe_witness:
  "\<exists>r j. r = amf0_read_any 8 seven_zeros \<and> j \<le> 7
     \<and> ((\<exists>v. r = Done v (skip j seven_zeros)) \<or> (\<exists>e. r = Fail e (skip j seven_zeros)))"
  using amf0_read_any_safe [of seven_zeros 8] by (auto simp: seven_zeros_facts)

text \<open>
  C32: the property table is a map.  After any series of \<open>set\<close> and \<open>remove\<close> calls no key is there
  twice and \<open>get_property\<close> finds what the same updates of a map give, whatever the order of the
  entries.
\<close>

lemma hashtable_is_map:
  assumes "hash_ok ps"
  shows "hash_ok (fold hash_update us ps)
    \<and> (\<lambda>k. hash_get_property k (fold hash_update us ps)) = fold update_map us (map_of ps)"
  using hash.updates_refine [OF assms, of us] by (simp add: hash_update_eq hash_get_map_of [abs_def])

lemma hashtable_is_map_witness:
  "hash_get_property (lit ''a'') (fold hash_update
      [Insert (lit ''a'') 1, Insert (lit ''b'') 2, Insert (lit ''a'') (3::nat)] [(lit ''b'', 0)]) = Some 3"
  using fun_cong [OF conjunct2 [OF hashtable_is_map [of "[(lit ''b'', 0)]"
      "[Insert (lit ''a'') 1, Insert (lit ''b'') 2, Insert (lit ''a'') (3::nat)]"]], of "lit ''a''"]
  by (simp add: hash_ok_def lit_def)

text \<open>
  \<open>copy\<close> gives the value back when its strings hold no NUL and its tables no key twice, and a
  copy always has these properties; so copying twice is copying once.
\<close>

lemma amf0_copy_idem:
  "amf0_copy (amf0_copy v) = amf0_copy v \<and> (amf0_copy v = v \<longleftrightarrow> amf0_ok v)"
  by (metis copy_makes_ok copy_ok_id)

text \<open>
  Strings come back as they were written, in order and behind other bytes, as long as they are
  shorter than \<open>2 ^ 15\<close>: the reader takes the length for a signed 16-bit number.
\<close>

lemma amf0_strings_roundtrip:
  assumes "wf_buffer b" "\<forall>s\<in>set ss. length s < 2 ^ 15 \<and> max 1 (length s - 3) \<le> readable b"
    "length (concat (map enc_string ss)) \<le> room b"
  shows "\<exists>b'. for_each amf0_write_string ss b = Done () b' \<and>
     get_many (amf0_read_string []) (length ss) (skip (readable b) b')
       = Done ss (skip (readable b + length (concat (map enc_string ss))) b')
   \<and> content (skip (readable b + length (concat (map enc_string ss))) b') = []"
  using str.roundtrip_all [OF assms] .

lemma amf0_strings_roundtrip_witness:
  "\<exists>b'. for_each amf0_write_string [lit ''connect'', [], lit ''live''] seven_zeros = Done () b' \<and>
     get_many (amf0_read_string []) 3 (skip 7 b') = Done [lit ''connect'', [], lit ''live''] (skip 27 b')"
  using amf0_strings_roundtrip [of seven_zeros "[lit ''connect'', [], lit ''live'']"]
  by (simp add: seven_zeros_facts lit_def) (auto simp: numeral_3_eq_3)

text \<open>
  A string of \<open>2 ^ 15\<close> to \<open>2 ^ 16 - 1\<close> bytes is written with its length but read back as if
  nothing was there: the variable keeps its old value and only the length is consumed.
\<close>

lemma amf0_long_string_lost:
  assumes "wf_buffer b" "2 ^ 15 \<le> length s" "length s < 2 ^ 16" "content b = enc_string s @ ys"
  shows "amf0_read_string old b = Done old (skip 3 b) \<and> content (skip 3 b) = s @ ys"
proof -
  have neg: "sint (of_nat (length s) :: 16 word) \<le> 0"
    using assms(2,3) int_word_sint [of "int (length s)", where 'a = 16] by (simp add: mod_wrap)
  have "take (Suc 2) (content b) = RTMP_AMF0_String # be_bytes 2 (of_nat (length s) :: 16 word)"
    using assms(4) by (simp add: enc_string_def enc_utf8_def)
  note M = skip_marker [OF assms(1) this]
  have "2 \<le> readable (skip 1 b)" using take_content_length [OF M(2)] by simp
  moreover have "3 \<le> readable b" using assms(4) by (simp add: readable_def)
  ultimately show ?thesis
    using M neg assms(1,4) amf0_read_utf8_negative [of "skip 1 b" old]
    by (simp add: amf0_read_string_def act_simps enc_string_def enc_utf8_def)
qed

lemma amf0_long_string_lost_witness:
  "amf0_read_string (lit ''old'') (push (enc_string (replicate 32768 0)) (Buffer_new (replicate 40000 0) 40000))
     = Done (lit ''old'') (skip 3 (push (enc_string (replicate 32768 0)) (Buffer_new (replicate 40000 0) 40000)))"
  using amf0_long_string_lost [of "push (enc_string (replicate 32768 0)) (Buffer_new (replicate 40000 0) 40000)"
      "replicate 32768 0" "[]" "lit ''old''"] by simp

text \<open>
  Nothing can be written to an empty buffer.  The writers guard themselves with
  \<open>read_require\<close>, which counts the bytes to read, not the free space.
\<close>

lemma amf0_write_any_needs_data:
  assumes "0 < n" "n \<le> 2 ^ 30" "n \<le> int (length mem)"
  shows "amf0_write_any v (Buffer_new mem n) = Fail error_rtmp_amf0_encode (Buffer_new mem n)"
  using assms by (intro amf0_write_any_empty) simp_all

lemma amf0_write_any_needs_data_witness:
  "amf0_write_any Amf0Null (Buffer_new (replicate 64 0) 64)
     = Fail error_rtmp_amf0_encode (Buffer_new (replicate 64 0) 64)"
  using amf0_write_any_needs_data [of 64 "replicate 64 0" Amf0Null] by simp

text \<open>
  \<open>amf0_read_any\<close> does not read back what \<open>amf0_write_any\<close> wrote: on the encoding of a value
  without parts it never returns that value.  \<open>discovery\<close> consumes the bytes it only means to look
  at, because \<open>seek_read\<close> refuses to seek backwards.
\<close>

lemma amf0_read_any_loses_marker:
  assumes "wf_buffer b" "atom v" "content b = enc v"
  shows "\<forall>n s. amf0_read_any n b \<noteq> Done v s"
  using read_any_not_back [OF assms] by blast

lemma amf0_read_any_loses_marker_witness:
  "\<forall>n s. amf0_read_any n (push [RTMP_AMF0_Null] (Buffer_new (replicate 8 0) 8)) \<noteq> Done Amf0Null s"
  using amf0_read_any_loses_marker [of "push [RTMP_AMF0_Null] (Buffer_new (replicate 8 0) 8)" Amf0Null]
  by simp

text \<open>
  The count of an ecma array is not kept up to date: after any number of \<open>set\<close> calls on a new
  array it is still written as 0, and a reader of that encoding stops before the first property,
  which it leaves in the stream.
\<close>

lemma ecma_array_count_stale:
  assumes "wf_buffer b" "v = fold (\<lambda>p. Amf0Object_set (fst p) (snd p)) props (Amf0EcmaArray 0 [])" "content b = enc v @ ys"
  shows "\<exists>ps. v = Amf0EcmaArray 0 ps \<and> Amf0EcmaArray_read r (Suc n) [] b = Done (Amf0EcmaArray 0 []) (skip 5 b)"
proof -
  have "\<exists>ps. fold (\<lambda>p. Amf0Object_set (fst p) (snd p)) props (Amf0EcmaArray c qs) = Amf0EcmaArray c ps"
    for c qs by (induction props arbitrary: qs) auto
  with assms(2) obtain ps where v: "v = Amf0EcmaArray 0 ps" by blast
  then have c: "content b = RTMP_AMF0_EcmaArray # be_bytes 4 (0 :: 32 word) @ drop 5 (content b)"
    using assms(3) by (simp add: enc_count_def)
  then have "take (Suc 4) (content b) = RTMP_AMF0_EcmaArray # be_bytes 4 (0 :: 32 word)"
    by (metis append_Cons append_eq_conv_conj length_Cons length_be_bytes)
  note M = skip_marker [OF assms(1) this]
  have r4: "4 \<le> readable (skip 1 b)" using take_content_length [OF M(2)] by simp
  have "5 \<le> readable b" using c by (metis length_Cons length_append length_be_bytes le_add1
        add_Suc readable_def numeral_nat(3) eval_nat_numeral(3))
  with M r4 assms(1) v show ?thesis
    by (simp add: Amf0EcmaArray_read_def act_simps del: content_skip [of b] readable_skip [of b])
qed

lemma ecma_array_count_stale_witness:
  "Amf0EcmaArray_read (amf0_read_any 9) 9 []
        (push (enc (Amf0EcmaArray 0 [(lit ''a'', Amf0Null)])) (Buffer_new (replicate 16 0) 16))
      = Done (Amf0EcmaArray 0 [])
          (skip 5 (push (enc (Amf0EcmaArray 0 [(lit ''a'', Amf0Null)])) (Buffer_new (replicate 16 0) 16)))"
  using ecma_array_count_stale [of "push (enc (Amf0EcmaArray 0 [(lit ''a'', Amf0Null)])) (Buffer_new (replicate 16 0) 16)"
      "Amf0EcmaArray 0 [(lit ''a'', Amf0Null)]" "[(lit ''a'', Amf0Null)]" "[]" "amf0_read_any 9" 8]
  by (auto simp: hash_set_def lit_def)

end
