(* ===== verification/Rtmp_Packets.thy ===== *)
theory Rtmp_Packets
  imports Amf0_Stream
begin

text \<open>
  The packet classes of \<open>src/protocol/rtmp/rtmp_stack.cpp\<close>: one record per class with its data
  members and default values, and its \<open>decode\<close>, \<open>encode_packet\<close> and \<open>get_size\<close>.  The
  \<open>shared_ptr\<close> members that may be null are options.  \<open>decode\<close> gets the packet the caller made and
  returns it filled; a packet whose decoding failed is dropped by every caller, so \<open>Fail\<close> does not
  carry it.  \<open>n\<close> is the fuel of \<open>amf0_read_any\<close>.  The member \<open>command_object\<close> of most commands
  is the null value from construction on and is neither assigned nor used: it is left out, and
  reading or writing it is reading or writing null.
\<close>

section \<open>Constants and doubles\<close>

abbreviation (input) error_rtmp_packet_invalid :: int where "error_rtmp_packet_invalid \<equiv> 14102"
abbreviation (input) error_rtmp_message_encode :: int where "error_rtmp_message_encode \<equiv> 14107"
abbreviation (input) error_rtmp_message_decode :: int where "error_rtmp_message_decode \<equiv> 14201"

abbreviation (input) RTMP_AMF0_COMMAND_CONNECT where "RTMP_AMF0_COMMAND_CONNECT \<equiv> lit ''connect''"
abbreviation (input) RTMP_AMF0_COMMAND_CREATE_STREAM where "RTMP_AMF0_COMMAND_CREATE_STREAM \<equiv> lit ''createStream''"
abbreviation (input) RTMP_AMF0_COMMAND_CLOSE_STREAM where "RTMP_AMF0_COMMAND_CLOSE_STREAM \<equiv> lit ''closeStream''"
abbreviation (input) RTMP_AMF0_COMMAND_PLAY where "RTMP_AMF0_COMMAND_PLAY \<equiv> lit ''play''"
abbreviation (input) RTMP_AMF0_COMMAND_PAUSE where "RTMP_AMF0_COMMAND_PAUSE \<equiv> lit ''pause''"
abbreviation (input) RTMP_AMF0_COMMAND_ON_STATUS where "RTMP_AMF0_COMMAND_ON_STATUS \<equiv> lit ''onStatus''"
abbreviation (input) RTMP_AMF0_COMMAND_RESULT where "RTMP_AMF0_COMMAND_RESULT \<equiv> lit ''_result''"
abbreviation (input) RTMP_AMF0_COMMAND_ERROR where "RTMP_AMF0_COMMAND_ERROR \<equiv> lit ''_error''"
abbreviation (input) RTMP_AMF0_COMMAND_RELEASE_STREAM where "RTMP_AMF0_COMMAND_RELEASE_STREAM \<equiv> lit ''releaseStream''"
abbreviation (input) RTMP_AMF0_COMMAND_FC_PUBLISH where "RTMP_AMF0_COMMAND_FC_PUBLISH \<equiv> lit ''FCPublish''"
abbreviation (input) RTMP_AMF0_COMMAND_UNPUBLISH where "RTMP_AMF0_COMMAND_UNPUBLISH \<equiv> lit ''FCUnpublish''"
abbreviation (input) RTMP_AMF0_COMMAND_PUBLISH where "RTMP_AMF0_COMMAND_PUBLISH \<equiv> lit ''publish''"

abbreviation (input) RTMP_MSG_SetChunkSize :: byte where "RTMP_MSG_SetChunkSize \<equiv> 1"
abbreviation (input) RTMP_MSG_Acknowledgement :: byte where "RTMP_MSG_Acknowledgement \<equiv> 3"
abbreviation (input) RTMP_MSG_UserControlMessage :: byte where "RTMP_MSG_UserControlMessage \<equiv> 4"
abbreviation (input) RTMP_MSG_WindowAcknowledgementSize :: byte where "RTMP_MSG_WindowAcknowledgementSize \<equiv> 5"
abbreviation (input) RTMP_MSG_SetPeerBandwidth :: byte where "RTMP_MSG_SetPeerBandwidth \<equiv> 6"
abbreviation (input) RTMP_MSG_AMF3DataMessage :: byte where "RTMP_MSG_AMF3DataMessage \<equiv> 15"
abbreviation (input) RTMP_MSG_AMF3CommandMessage :: byte where "RTMP_MSG_AMF3CommandMessage \<equiv> 17"
abbreviation (input) RTMP_MSG_AMF0DataMessage :: byte where "RTMP_MSG_AMF0DataMessage \<equiv> 18"
abbreviation (input) RTMP_MSG_AMF0CommandMessage :: byte where "RTMP_MSG_AMF0CommandMessage \<equiv> 20"

abbreviation (input) RTMP_CID_ProtocolControl :: int where "RTMP_CID_ProtocolControl \<equiv> 2"
abbreviation (input) RTMP_CID_OverConnection :: int where "RTMP_CID_OverConnection \<equiv> 3"
abbreviation (input) RTMP_CID_OverConnection2 :: int where "RTMP_CID_OverConnection2 \<equiv> 4"
abbreviation (input) RTMP_CID_OverStream :: int where "RTMP_CID_OverStream \<equiv> 5"

text \<open>
  The literals the code compares or stores as \<open>double\<close>, in IEEE 754 binary64, and \<open>==\<close> on
  doubles: NaN equals nothing, the two zeros are equal.
\<close>

definition dbl_0 :: "64 word" where "dbl_0 = 0"
definition dbl_1 :: "64 word" where "dbl_1 = 0x3FF0000000000000"
definition dbl_2 :: "64 word" where "dbl_2 = 0x4000000000000000"
definition dbl_3 :: "64 word" where "dbl_3 = 0x4008000000000000"
definition dbl_m1 :: "64 word" where "dbl_m1 = 0xBFF0000000000000"
definition dbl_m2 :: "64 word" where "dbl_m2 = 0xC000000000000000"

definition dbl_nan :: "64 word \<Rightarrow> bool" where
  "dbl_nan x \<longleftrightarrow> 0x7FF0000000000000 < take_bit 63 x"

definition dbl_eq :: "64 word \<Rightarrow> 64 word \<Rightarrow> bool" where
  "dbl_eq x y \<longleftrightarrow> \<not> dbl_nan x \<and> \<not> dbl_nan y \<and> (x = y \<or> take_bit 63 x = 0 \<and> take_bit 63 y = 0)"

section \<open>Commands\<close>

text \<open>
  Every command starts with its name and a transaction id.  \<open>accept\<close> is the check of the name.
\<close>

record command =
  command_name :: bytes
  transaction_id :: "64 word"

definition read_command :: "(bytes \<Rightarrow> bool) \<Rightarrow> 'a command_scheme \<Rightarrow> ('a command_scheme, Buffer) act" where
  "read_command accept p = bind (amf0_read_string (command_name p)) (\<lambda>name.
     seq (check (accept name) error_rtmp_amf0_decode)
    (bind amf0_read_number (\<lambda>tid. ret (p\<lparr>command_name := name, transaction_id := tid\<rparr>))))"

definition write_command :: "'a command_scheme \<Rightarrow> (unit, Buffer) act" where
  "write_command p = seq (amf0_write_string (command_name p)) (amf0_write_number (transaction_id p))"

definition named :: "bytes \<Rightarrow> bytes \<Rightarrow> bool" where
  "named required name \<longleftrightarrow> \<not> (name = [] \<or> name \<noteq> required)"

text \<open>\<open>if (p && (ret = p->write(stream)) != error_success) return ret;\<close>\<close>

definition write_opt :: "amf0 option \<Rightarrow> (unit, Buffer) act" where
  "write_opt v = (case v of None \<Rightarrow> ret () | Some x \<Rightarrow> amf0_write_any x)"

subsection \<open>connect\<close>

record RtmpConnectAppPacket = command +
  connect_object :: amf0
  connect_args :: "amf0 option"

definition RtmpConnectAppPacket_new :: RtmpConnectAppPacket where
  "RtmpConnectAppPacket_new = \<lparr>command_name = RTMP_AMF0_COMMAND_CONNECT, transaction_id = dbl_1,
     connect_object = Amf0Object [], connect_args = None\<rparr>"

definition RtmpConnectAppPacket_decode ::
    "nat \<Rightarrow> RtmpConnectAppPacket \<Rightarrow> (RtmpConnectAppPacket, Buffer) act" where
  "RtmpConnectAppPacket_decode n p =
     bind (read_command (named RTMP_AMF0_COMMAND_CONNECT) p) (\<lambda>p.
     bind (amf0_read_body (amf0_read_any n) n (connect_object p)) (\<lambda>obj.
     bind read_empty (\<lambda>empty.
       if empty then ret (p\<lparr>connect_object := obj\<rparr>)
       else bind discovery (\<lambda>any.
            bind (amf0_read_body (amf0_read_any n) n any) (\<lambda>any.
            ret (if \<not> is_object any then p\<lparr>connect_object := obj\<rparr>
                 else p\<lparr>connect_object := obj, connect_args := Some any\<rparr>))))))"

definition RtmpConnectAppPacket_get_size :: "RtmpConnectAppPacket \<Rightarrow> int" where
  "RtmpConnectAppPacket_get_size p = Amf0Size_str (command_name p) + Amf0Size_number
     + Amf0Size_any (Some (connect_object p)) + Amf0Size_any (connect_args p)"

definition RtmpConnectAppPacket_encode_packet :: "RtmpConnectAppPacket \<Rightarrow> (unit, Buffer) act" where
  "RtmpConnectAppPacket_encode_packet p = seq (write_command p)
     (seq (amf0_write_any (connect_object p)) (write_opt (connect_args p)))"

record RtmpConnectAppResPacket = command +
  connect_props :: amf0
  connect_info :: amf0

definition RtmpConnectAppResPacket_new :: RtmpConnectAppResPacket where
  "RtmpConnectAppResPacket_new = \<lparr>command_name = RTMP_AMF0_COMMAND_RESULT, transaction_id = dbl_1,
     connect_props = Amf0Object [], connect_info = Amf0Object []\<rparr>"

definition RtmpConnectAppResPacket_decode ::
    "nat \<Rightarrow> RtmpConnectAppResPacket \<Rightarrow> (RtmpConnectAppResPacket, Buffer) act" where
  "RtmpConnectAppResPacket_decode n p =
     bind (read_command (named RTMP_AMF0_COMMAND_RESULT) p) (\<lambda>p.
     bind (bind read_empty (\<lambda>empty.
             if empty then ret (connect_props p)
             else bind (amf0_read_any n) (\<lambda>v. ret (if \<not> is_object v then connect_props p else v)))) (\<lambda>props.
     bind (amf0_read_body (amf0_read_any n) n (connect_info p)) (\<lambda>info.
     ret (p\<lparr>connect_props := props, connect_info := info\<rparr>))))"

definition RtmpConnectAppResPacket_get_size :: "RtmpConnectAppResPacket \<Rightarrow> int" where
  "RtmpConnectAppResPacket_get_size p = Amf0Size_str (command_name p) + Amf0Size_number
     + Amf0Size_any (Some (connect_props p)) + Amf0Size_any (Some (connect_info p))"

definition RtmpConnectAppResPacket_encode_packet :: "RtmpConnectAppResPacket \<Rightarrow> (unit, Buffer) act" where
  "RtmpConnectAppResPacket_encode_packet p = seq (write_command p)
     (seq (amf0_write_any (connect_props p)) (amf0_write_any (connect_info p)))"

subsection \<open>play and pause\<close>

record RtmpPlayPacket = command +
  play_stream_name :: bytes
  play_start :: "64 word"
  play_duration :: "64 word"
  play_reset :: bool

definition RtmpPlayPacket_new :: RtmpPlayPacket where
  "RtmpPlayPacket_new = \<lparr>command_name = RTMP_AMF0_COMMAND_PLAY, transaction_id = dbl_0,
     play_stream_name = [], play_start = dbl_m2, play_duration = dbl_m1, play_reset = True\<rparr>"

text \<open>\<open>if (!stream->read_empty() && (ret = amf0_read_number(stream, v)) != error_success)\<close>\<close>

definition read_number_opt :: "64 word \<Rightarrow> (64 word, Buffer) act" where
  "read_number_opt v = bind read_empty (\<lambda>empty. if empty then ret v else amf0_read_number)"

definition read_reset :: "nat \<Rightarrow> (bool, Buffer) act" where
  "read_reset n = (\<lambda>b. case amf0_read_any n b of
       Done (Amf0Boolean v) b' \<Rightarrow> Done v b'
     | Done (Amf0Number v) b' \<Rightarrow> Done (\<not> dbl_eq v dbl_0) b'
     | Done _ b' \<Rightarrow> Fail error_rtmp_amf0_decode b'
     | Fail e b' \<Rightarrow> Fail error_rtmp_amf0_decode b'
     | Crash q \<Rightarrow> Crash q)"

definition RtmpPlayPacket_decode :: "nat \<Rightarrow> RtmpPlayPacket \<Rightarrow> (RtmpPlayPacket, Buffer) act" where
  "RtmpPlayPacket_decode n p =
     bind (read_command (named RTMP_AMF0_COMMAND_PLAY) p) (\<lambda>p.
     seq amf0_read_null
    (bind (amf0_read_string (play_stream_name p)) (\<lambda>name.
     bind (read_number_opt (play_start p)) (\<lambda>start.
     bind (read_number_opt (play_duration p)) (\<lambda>duration.
     bind read_empty (\<lambda>empty.
     let q = p\<lparr>play_stream_name := name, play_start := start, play_duration := duration\<rparr> in
     if empty then ret q
     else bind (read_reset n) (\<lambda>reset. ret (q\<lparr>play_reset := reset\<rparr>))))))))"

definition play_has_start :: "RtmpPlayPacket \<Rightarrow> bool" where
  "play_has_start p \<longleftrightarrow> \<not> dbl_eq (play_start p) dbl_m2 \<or> \<not> dbl_eq (play_duration p) dbl_m1 \<or> \<not> play_reset p"

definition play_has_duration :: "RtmpPlayPacket \<Rightarrow> bool" where
  "play_has_duration p \<longleftrightarrow> \<not> dbl_eq (play_duration p) dbl_m1 \<or> \<not> play_reset p"

definition RtmpPlayPacket_get_size :: "RtmpPlayPacket \<Rightarrow> int" where
  "RtmpPlayPacket_get_size p = Amf0Size_str (command_name p) + Amf0Size_number + Amf0Size_null
     + Amf0Size_str (play_stream_name p)
     + (if play_has_start p then Amf0Size_number else 0)
     + (if play_has_duration p then Amf0Size_number else 0)
     + (if \<not> play_reset p then Amf0Size_boolean else 0)"

definition RtmpPlayPacket_encode_packet :: "RtmpPlayPacket \<Rightarrow> (unit, Buffer) act" where
  "RtmpPlayPacket_encode_packet p = seq (write_command p)
    (seq amf0_write_null
    (seq (amf0_write_string (play_stream_name p))
    (seq (if play_has_start p then amf0_write_number (play_start p) else ret ())
    (seq (if play_has_duration p then amf0_write_number (play_duration p) else ret ())
         (if \<not> play_reset p then amf0_write_boolean (play_reset p) else ret ())))))"

record RtmpPlayResPacket = command +
  play_desc :: amf0

definition RtmpPlayResPacket_new :: RtmpPlayResPacket where
  "RtmpPlayResPacket_new = \<lparr>command_name = RTMP_AMF0_COMMAND_RESULT, transaction_id = dbl_0,
     play_desc = Amf0Object []\<rparr>"

definition RtmpPlayResPacket_get_size :: "RtmpPlayResPacket \<Rightarrow> int" where
  "RtmpPlayResPacket_get_size p = Amf0Size_str (command_name p) + Amf0Size_number + Amf0Size_null
     + Amf0Size_any (Some (play_desc p))"

definition RtmpPlayResPacket_encode_packet :: "RtmpPlayResPacket \<Rightarrow> (unit, Buffer) act" where
  "RtmpPlayResPacket_encode_packet p = seq (write_command p)
     (seq amf0_write_null (amf0_write_any (play_desc p)))"

record RtmpPausePacket = command +
  is_pause :: bool
  time_ms :: "64 word"

definition RtmpPausePacket_new :: RtmpPausePacket where
  "RtmpPausePacket_new = \<lparr>command_name = RTMP_AMF0_COMMAND_PAUSE, transaction_id = dbl_0,
     is_pause = True, time_ms = dbl_0\<rparr>"

definition RtmpPausePacket_decode :: "RtmpPausePacket \<Rightarrow> (RtmpPausePacket, Buffer) act" where
  "RtmpPausePacket_decode p =
     bind (read_command (named RTMP_AMF0_COMMAND_PAUSE) p) (\<lambda>p.
     seq amf0_read_null
    (bind amf0_read_boolean (\<lambda>pause.
     bind amf0_read_number (\<lambda>time.
     ret (p\<lparr>is_pause := pause, time_ms := time\<rparr>)))))"

subsection \<open>Streams: create, release, publish, close\<close>

definition RtmpCreateStreamPacket_new :: command where
  "RtmpCreateStreamPacket_new = \<lparr>command_name = RTMP_AMF0_COMMAND_CREATE_STREAM, transaction_id = dbl_2\<rparr>"

definition RtmpCreateStreamPacket_decode :: "command \<Rightarrow> (command, Buffer) act" where
  "RtmpCreateStreamPacket_decode p =
     bind (read_command (named RTMP_AMF0_COMMAND_CREATE_STREAM) p) (\<lambda>p. seq amf0_read_null (ret p))"

definition RtmpCreateStreamPacket_get_size :: "command \<Rightarrow> int" where
  "RtmpCreateStreamPacket_get_size p = Amf0Size_str (command_name p) + Amf0Size_number + Amf0Size_null"

definition RtmpCreateStreamPacket_encode_packet :: "command \<Rightarrow> (unit, Buffer) act" where
  "RtmpCreateStreamPacket_encode_packet p = seq (write_command p) amf0_write_null"

record RtmpCreateStreamResPacket = command +
  stream_id :: "64 word"

definition RtmpCreateStreamResPacket_new :: "64 word \<Rightarrow> 64 word \<Rightarrow> RtmpCreateStreamResPacket" where
  "RtmpCreateStreamResPacket_new tid sid = \<lparr>command_name = RTMP_AMF0_COMMAND_RESULT,
     transaction_id = tid, stream_id = sid\<rparr>"

definition RtmpCreateStreamResPacket_decode ::
    "RtmpCreateStreamResPacket \<Rightarrow> (RtmpCreateStreamResPacket, Buffer) act" where
  "RtmpCreateStreamResPacket_decode p =
     bind (read_command (named RTMP_AMF0_COMMAND_RESULT) p) (\<lambda>p.
     seq amf0_read_null (bind amf0_read_number (\<lambda>sid. ret (p\<lparr>stream_id := sid\<rparr>))))"

definition RtmpCreateStreamResPacket_get_size :: "RtmpCreateStreamResPacket \<Rightarrow> int" where
  "RtmpCreateStreamResPacket_get_size p =
     Amf0Size_str (command_name p) + Amf0Size_number + Amf0Size_null + Amf0Size_number"

definition RtmpCreateStreamResPacket_encode_packet :: "RtmpCreateStreamResPacket \<Rightarrow> (unit, Buffer) act" where
  "RtmpCreateStreamResPacket_encode_packet p = seq (write_command p)
     (seq amf0_write_null (amf0_write_number (stream_id p)))"

record RtmpFMLEStartPacket = command +
  fmle_stream_name :: bytes

definition RtmpFMLEStartPacket_new :: RtmpFMLEStartPacket where
  "RtmpFMLEStartPacket_new = \<lparr>command_name = RTMP_AMF0_COMMAND_RELEASE_STREAM, transaction_id = dbl_0,
     fmle_stream_name = []\<rparr>"

definition fmle_name :: "bytes \<Rightarrow> bool" where
  "fmle_name name \<longleftrightarrow> \<not> (name = [] \<or> name \<noteq> RTMP_AMF0_COMMAND_RELEASE_STREAM
     \<and> name \<noteq> RTMP_AMF0_COMMAND_FC_PUBLISH \<and> name \<noteq> RTMP_AMF0_COMMAND_UNPUBLISH)"

definition RtmpFMLEStartPacket_decode :: "RtmpFMLEStartPacket \<Rightarrow> (RtmpFMLEStartPacket, Buffer) act" where
  "RtmpFMLEStartPacket_decode p = bind (read_command fmle_name p) (\<lambda>p.
     seq amf0_read_null (bind (amf0_read_string (fmle_stream_name p)) (\<lambda>name.
     ret (p\<lparr>fmle_stream_name := name\<rparr>))))"

definition RtmpFMLEStartPacket_get_size :: "RtmpFMLEStartPacket \<Rightarrow> int" where
  "RtmpFMLEStartPacket_get_size p = Amf0Size_str (command_name p) + Amf0Size_number + Amf0Size_null
     + Amf0Size_str (fmle_stream_name p)"

definition RtmpFMLEStartPacket_encode_packet :: "RtmpFMLEStartPacket \<Rightarrow> (unit, Buffer) act" where
  "RtmpFMLEStartPacket_encode_packet p = seq (write_command p)
     (seq amf0_write_null (amf0_write_string (fmle_stream_name p)))"

definition create_release_stream :: "bytes \<Rightarrow> RtmpFMLEStartPacket" where
  "create_release_stream stream = RtmpFMLEStartPacket_new
     \<lparr>command_name := RTMP_AMF0_COMMAND_RELEASE_STREAM, transaction_id := dbl_2, fmle_stream_name := stream\<rparr>"

definition create_FC_publish :: "bytes \<Rightarrow> RtmpFMLEStartPacket" where
  "create_FC_publish stream = RtmpFMLEStartPacket_new
     \<lparr>command_name := RTMP_AMF0_COMMAND_FC_PUBLISH, transaction_id := dbl_3, fmle_stream_name := stream\<rparr>"

definition RtmpFMLEStartResPacket_new :: "64 word \<Rightarrow> command" where
  "RtmpFMLEStartResPacket_new tid = \<lparr>command_name = RTMP_AMF0_COMMAND_RESULT, transaction_id = tid\<rparr>"

definition RtmpFMLEStartResPacket_decode :: "command \<Rightarrow> (command, Buffer) act" where
  "RtmpFMLEStartResPacket_decode p = bind (read_command (named RTMP_AMF0_COMMAND_RESULT) p) (\<lambda>p.
     seq amf0_read_null (seq amf0_read_undefined (ret p)))"

definition RtmpFMLEStartResPacket_get_size :: "command \<Rightarrow> int" where
  "RtmpFMLEStartResPacket_get_size p =
     Amf0Size_str (command_name p) + Amf0Size_number + Amf0Size_null + Amf0Size_undefined"

definition RtmpFMLEStartResPacket_encode_packet :: "command \<Rightarrow> (unit, Buffer) act" where
  "RtmpFMLEStartResPacket_encode_packet p = seq (write_command p)
     (seq amf0_write_null amf0_write_undefined)"

record RtmpPublishPacket = command +
  publish_stream_name :: bytes
  publish_type :: bytes

definition RtmpPublishPacket_new :: RtmpPublishPacket where
  "RtmpPublishPacket_new = \<lparr>command_name = RTMP_AMF0_COMMAND_PUBLISH, transaction_id = dbl_0,
     publish_stream_name = [], publish_type = lit ''live''\<rparr>"

definition RtmpPublishPacket_decode :: "RtmpPublishPacket \<Rightarrow> (RtmpPublishPacket, Buffer) act" where
  "RtmpPublishPacket_decode p = bind (read_command (named RTMP_AMF0_COMMAND_PUBLISH) p) (\<lambda>p.
     seq amf0_read_null
    (bind (amf0_read_string (publish_stream_name p)) (\<lambda>name.
     bind read_empty (\<lambda>empty.
     bind (if empty then ret (publish_type p) else amf0_read_string (publish_type p)) (\<lambda>type.
     ret (p\<lparr>publish_stream_name := name, publish_type := type\<rparr>))))))"

definition RtmpPublishPacket_get_size :: "RtmpPublishPacket \<Rightarrow> int" where
  "RtmpPublishPacket_get_size p = Amf0Size_str (command_name p) + Amf0Size_number + Amf0Size_null
     + Amf0Size_str (publish_stream_name p) + Amf0Size_str (publish_type p)"

definition RtmpPublishPacket_encode_packet :: "RtmpPublishPacket \<Rightarrow> (unit, Buffer) act" where
  "RtmpPublishPacket_encode_packet p = seq (write_command p)
     (seq amf0_write_null
     (seq (amf0_write_string (publish_stream_name p)) (amf0_write_string (publish_type p))))"

definition RtmpCloseStreamPacket_new :: command where
  "RtmpCloseStreamPacket_new = \<lparr>command_name = RTMP_AMF0_COMMAND_CLOSE_STREAM, transaction_id = dbl_0\<rparr>"

definition RtmpCloseStreamPacket_decode :: "command \<Rightarrow> (command, Buffer) act" where
  "RtmpCloseStreamPacket_decode p =
     bind (read_command (\<lambda>name. True) p) (\<lambda>p. seq amf0_read_null (ret p))"

end
