(* ===== verification/Rtmp_Messages.thy ===== *)
theory Rtmp_Messages
  imports Rtmp_Packets
begin

text \<open>
  The rest of the packet classes of \<open>src/protocol/rtmp/rtmp_stack.cpp\<close> (status, metadata,
  bandwidth test, calls, protocol and user control) and the virtual functions over all of them.
\<close>

section \<open>Status and metadata\<close>

record RtmpOnStatusCallPacket = command +
  status_data :: amf0
  on_status_str :: bytes

definition RtmpOnStatusCallPacket_new :: RtmpOnStatusCallPacket where
  "RtmpOnStatusCallPacket_new = \<lparr>command_name = RTMP_AMF0_COMMAND_ON_STATUS, transaction_id = dbl_0,
     status_data = Amf0Object [], on_status_str = []\<rparr>"

fun Amf0Object_get_property :: "bytes \<Rightarrow> amf0 \<Rightarrow> amf0 option" where
  "Amf0Object_get_property name (Amf0Object ps) = hash_get_property name ps"
| "Amf0Object_get_property name (Amf0EcmaArray c ps) = hash_get_property name ps"
| "Amf0Object_get_property name v = None"

text \<open>\<open>status_content->is_string()\<close> is called on the result of \<open>get_property\<close>, null or not.\<close>

definition RtmpOnStatusCallPacket_decode ::
    "nat \<Rightarrow> RtmpOnStatusCallPacket \<Rightarrow> (RtmpOnStatusCallPacket, Buffer) act" where
  "RtmpOnStatusCallPacket_decode n p =
     bind (read_command (named RTMP_AMF0_COMMAND_ON_STATUS) p) (\<lambda>p.
     seq (check (dbl_eq (transaction_id p) dbl_0) error_rtmp_amf0_decode)
    (seq amf0_read_null
    (bind (amf0_read_body (amf0_read_any n) n (status_data p)) (\<lambda>data.
     case Amf0Object_get_property (lit ''code'') data of
       None \<Rightarrow> crash Null_Deref
     | Some status \<Rightarrow>
         if is_string status
         then bind (to_str status) (\<lambda>s. ret (p\<lparr>status_data := data, on_status_str := s\<rparr>))
         else ret (p\<lparr>status_data := data\<rparr>)))))"

definition RtmpOnStatusCallPacket_get_size :: "RtmpOnStatusCallPacket \<Rightarrow> int" where
  "RtmpOnStatusCallPacket_get_size p = Amf0Size_str (command_name p) + Amf0Size_number + Amf0Size_null
     + Amf0Size_any (Some (status_data p))"

definition RtmpOnStatusCallPacket_encode_packet :: "RtmpOnStatusCallPacket \<Rightarrow> (unit, Buffer) act" where
  "RtmpOnStatusCallPacket_encode_packet p = seq (write_command p)
     (seq amf0_write_null (amf0_write_any (status_data p)))"

record RtmpOnMetaDataPacket =
  meta_name :: bytes
  metadata :: amf0

definition RtmpOnMetaDataPacket_new :: RtmpOnMetaDataPacket where
  "RtmpOnMetaDataPacket_new = \<lparr>meta_name = lit ''onMetaData'', metadata = Amf0Object []\<rparr>"

text \<open>An ecma array is copied into the object property by property.\<close>

fun assign_metadata :: "amf0 \<Rightarrow> amf0 \<Rightarrow> amf0" where
  "assign_metadata (Amf0Object ps) old = Amf0Object ps"
| "assign_metadata (Amf0EcmaArray c ps) old =
     foldl (\<lambda>obj p. Amf0Object_set (fst p) (amf0_copy (snd p)) obj) old ps"
| "assign_metadata v old = old"

definition RtmpOnMetaDataPacket_decode ::
    "nat \<Rightarrow> RtmpOnMetaDataPacket \<Rightarrow> (RtmpOnMetaDataPacket, Buffer) act" where
  "RtmpOnMetaDataPacket_decode n p = bind (amf0_read_string (meta_name p)) (\<lambda>name.
     bind (if name = lit ''@setDataFrame'' then amf0_read_string name else ret name) (\<lambda>name.
     bind (amf0_read_any n) (\<lambda>any.
     ret (p\<lparr>meta_name := name, metadata := assign_metadata any (metadata p)\<rparr>))))"

definition RtmpOnMetaDataPacket_get_size :: "RtmpOnMetaDataPacket \<Rightarrow> int" where
  "RtmpOnMetaDataPacket_get_size p = Amf0Size_str (meta_name p) + Amf0Size_any (Some (metadata p))"

definition RtmpOnMetaDataPacket_encode_packet :: "RtmpOnMetaDataPacket \<Rightarrow> (unit, Buffer) act" where
  "RtmpOnMetaDataPacket_encode_packet p =
     seq (amf0_write_string (meta_name p)) (amf0_write_any (metadata p))"

text \<open>\<open>RtmpOnCustomAmfDataPacket::decode\<close> reads the name only.\<close>

definition RtmpOnCustomAmfDataPacket_decode :: "bytes \<Rightarrow> (bytes, Buffer) act" where
  "RtmpOnCustomAmfDataPacket_decode name = amf0_read_string name"

section \<open>The bandwidth test\<close>

record RtmpBandwidthPacket = command +
  bandwidth_data :: amf0

definition RtmpBandwidthPacket_new :: RtmpBandwidthPacket where
  "RtmpBandwidthPacket_new = \<lparr>command_name = RTMP_AMF0_COMMAND_ON_STATUS, transaction_id = dbl_0,
     bandwidth_data = Amf0Object []\<rparr>"

abbreviation (input) BW_STOP_PLAY where "BW_STOP_PLAY \<equiv> lit ''onSrsBandCheckStopPlayBytes''"
abbreviation (input) BW_START_PUBLISH where "BW_START_PUBLISH \<equiv> lit ''onSrsBandCheckStartPublishBytes''"
abbreviation (input) BW_FINISHED where "BW_FINISHED \<equiv> lit ''onSrsBandCheckFinished''"

definition is_stop_play :: "RtmpBandwidthPacket \<Rightarrow> bool" where
  "is_stop_play p \<longleftrightarrow> command_name p = BW_STOP_PLAY"
definition is_start_publish :: "RtmpBandwidthPacket \<Rightarrow> bool" where
  "is_start_publish p \<longleftrightarrow> command_name p = BW_START_PUBLISH"
definition is_finish :: "RtmpBandwidthPacket \<Rightarrow> bool" where
  "is_finish p \<longleftrightarrow> command_name p = BW_FINISHED"

definition set_command :: "bytes \<Rightarrow> RtmpBandwidthPacket \<Rightarrow> RtmpBandwidthPacket" where
  "set_command command p = p\<lparr>command_name := command\<rparr>"

text \<open>
  The other commands of the test, what the code asks of a packet, and the packets it makes.  A packet of
  the two data commands is made but never asked for.
\<close>

datatype bw_command = Start_Play | Starting_Play | Stop_Play | Stopped_Play
  | Start_Publish | Starting_Publish | Stop_Publish | Stopped_Publish
  | Finished | Final | Playing | Publishing

fun bw_name :: "bw_command \<Rightarrow> bytes" where
  "bw_name Start_Play = lit ''onSrsBandCheckStartPlayBytes''"
| "bw_name Starting_Play = lit ''onSrsBandCheckStartingPlayBytes''"
| "bw_name Stop_Play = BW_STOP_PLAY"
| "bw_name Stopped_Play = lit ''onSrsBandCheckStoppedPlayBytes''"
| "bw_name Start_Publish = BW_START_PUBLISH"
| "bw_name Starting_Publish = lit ''onSrsBandCheckStartingPublishBytes''"
| "bw_name Stop_Publish = lit ''onSrsBandCheckStopPublishBytes''"
| "bw_name Stopped_Publish = lit ''onSrsBandCheckStoppedPublishBytes''"
| "bw_name Finished = BW_FINISHED"
| "bw_name Final = lit ''finalClientPacket''"
| "bw_name Playing = lit ''onSrsBandCheckPlaying''"
| "bw_name Publishing = lit ''onSrsBandCheckPublishing''"

definition is_bw :: "bw_command \<Rightarrow> RtmpBandwidthPacket \<Rightarrow> bool" where
  "is_bw c p \<longleftrightarrow> command_name p = bw_name c"

definition create_bw :: "bw_command \<Rightarrow> RtmpBandwidthPacket" where
  "create_bw c = set_command (bw_name c) RtmpBandwidthPacket_new"

text \<open>A packet that was made for a command is taken for that command and for no other.\<close>

lemma is_bw_create: "is_bw c (create_bw d) \<longleftrightarrow> c = d"
  by (cases c; cases d) (simp_all add: is_bw_def create_bw_def set_command_def lit_def)

lemma is_bw_tests: "is_stop_play = is_bw Stop_Play" "is_start_publish = is_bw Start_Publish" "is_finish = is_bw Finished"
  by (simp_all add: fun_eq_iff is_stop_play_def is_start_publish_def is_finish_def is_bw_def)

definition RtmpBandwidthPacket_decode ::
    "nat \<Rightarrow> RtmpBandwidthPacket \<Rightarrow> (RtmpBandwidthPacket, Buffer) act" where
  "RtmpBandwidthPacket_decode n p = bind (read_command (\<lambda>name. True) p) (\<lambda>p.
     seq amf0_read_null
      (if is_stop_play p \<or> is_start_publish p \<or> is_finish p
       then bind (amf0_read_body (amf0_read_any n) n (bandwidth_data p)) (\<lambda>data.
              ret (p\<lparr>bandwidth_data := data\<rparr>))
       else ret p))"

definition RtmpBandwidthPacket_get_size :: "RtmpBandwidthPacket \<Rightarrow> int" where
  "RtmpBandwidthPacket_get_size p = Amf0Size_str (command_name p) + Amf0Size_number + Amf0Size_null
     + Amf0Size_any (Some (bandwidth_data p))"

definition RtmpBandwidthPacket_encode_packet :: "RtmpBandwidthPacket \<Rightarrow> (unit, Buffer) act" where
  "RtmpBandwidthPacket_encode_packet p = seq (write_command p)
     (seq amf0_write_null (amf0_write_any (bandwidth_data p)))"

section \<open>Calls\<close>

record RtmpCallPacket = command +
  call_object :: "amf0 option"
  call_arguments :: "amf0 option"

definition RtmpCallPacket_new :: RtmpCallPacket where
  "RtmpCallPacket_new = \<lparr>command_name = [], transaction_id = dbl_0, call_object = None,
     call_arguments = None\<rparr>"

definition RtmpCallPacket_decode :: "nat \<Rightarrow> RtmpCallPacket \<Rightarrow> (RtmpCallPacket, Buffer) act" where
  "RtmpCallPacket_decode n p = bind (read_command (\<lambda>name. name \<noteq> []) p) (\<lambda>p.
     bind discovery (\<lambda>obj.
     bind (amf0_read_body (amf0_read_any n) n obj) (\<lambda>obj.
     bind read_empty (\<lambda>empty.
       if empty then ret (p\<lparr>call_object := Some obj\<rparr>)
       else bind discovery (\<lambda>args.
            bind (amf0_read_body (amf0_read_any n) n args) (\<lambda>args.
            ret (p\<lparr>call_object := Some obj, call_arguments := Some args\<rparr>)))))))"

definition RtmpCallPacket_get_size :: "RtmpCallPacket \<Rightarrow> int" where
  "RtmpCallPacket_get_size p = Amf0Size_str (command_name p) + Amf0Size_number
     + Amf0Size_any (call_object p) + Amf0Size_any (call_arguments p)"

definition RtmpCallPacket_encode_packet :: "RtmpCallPacket \<Rightarrow> (unit, Buffer) act" where
  "RtmpCallPacket_encode_packet p = seq (write_command p)
     (seq (write_opt (call_object p)) (write_opt (call_arguments p)))"

record RtmpCallResPacket = command +
  res_object :: "amf0 option"
  res_response :: "amf0 option"

definition RtmpCallResPacket_new :: "64 word \<Rightarrow> RtmpCallResPacket" where
  "RtmpCallResPacket_new tid = \<lparr>command_name = RTMP_AMF0_COMMAND_RESULT, transaction_id = tid,
     res_object = None, res_response = None\<rparr>"

definition RtmpCallResPacket_get_size :: "RtmpCallResPacket \<Rightarrow> int" where
  "RtmpCallResPacket_get_size p = Amf0Size_str (command_name p) + Amf0Size_number
     + Amf0Size_any (res_object p) + Amf0Size_any (res_response p)"

definition RtmpCallResPacket_encode_packet :: "RtmpCallResPacket \<Rightarrow> (unit, Buffer) act" where
  "RtmpCallResPacket_encode_packet p = seq (write_command p)
     (seq (write_opt (res_object p)) (write_opt (res_response p)))"

section \<open>Protocol and user control\<close>

text \<open>Three packets hold one 32-bit number; the guard of the writers is \<open>read_require(4)\<close>.\<close>

definition RtmpSetWindowAckSizePacket_decode :: "32 word \<Rightarrow> (32 word, Buffer) act" where
  "RtmpSetWindowAckSizePacket_decode old = seq (guard_read 4 error_rtmp_message_decode) read_4bytes"

definition RtmpSetWindowAckSizePacket_get_size :: int where "RtmpSetWindowAckSizePacket_get_size = 4"

definition RtmpSetWindowAckSizePacket_encode_packet :: "32 word \<Rightarrow> (unit, Buffer) act" where
  "RtmpSetWindowAckSizePacket_encode_packet v =
     seq (guard_read 4 error_rtmp_message_encode) (write_4bytes v)"

definition RtmpSetChunkSizePacket_new :: "32 word" where "RtmpSetChunkSizePacket_new = 128"

definition RtmpSetChunkSizePacket_decode :: "32 word \<Rightarrow> (32 word, Buffer) act" where
  "RtmpSetChunkSizePacket_decode old = seq (guard_read 4 error_rtmp_message_decode) read_4bytes"

definition RtmpSetChunkSizePacket_get_size :: int where "RtmpSetChunkSizePacket_get_size = 4"

definition RtmpSetChunkSizePacket_encode_packet :: "32 word \<Rightarrow> (unit, Buffer) act" where
  "RtmpSetChunkSizePacket_encode_packet v =
     seq (guard_read 4 error_rtmp_message_encode) (write_4bytes v)"

definition RtmpAcknowledgementPacket_decode :: "32 word \<Rightarrow> (32 word, Buffer) act" where
  "RtmpAcknowledgementPacket_decode old = seq (guard_read 4 error_rtmp_message_decode) read_4bytes"

definition RtmpAcknowledgementPacket_get_size :: int where "RtmpAcknowledgementPacket_get_size = 4"

definition RtmpAcknowledgementPacket_encode_packet :: "32 word \<Rightarrow> (unit, Buffer) act" where
  "RtmpAcknowledgementPacket_encode_packet v =
     seq (guard_read 4 error_rtmp_message_encode) (write_4bytes v)"

record RtmpSetPeerBandwidthPacket =
  peer_bandwidth :: "32 word"
  peer_type :: byte

definition RtmpSetPeerBandwidthPacket_new :: RtmpSetPeerBandwidthPacket where
  "RtmpSetPeerBandwidthPacket_new = \<lparr>peer_bandwidth = 0, peer_type = 2\<rparr>"

definition RtmpSetPeerBandwidthPacket_get_size :: int where "RtmpSetPeerBandwidthPacket_get_size = 5"

definition RtmpSetPeerBandwidthPacket_encode_packet ::
    "RtmpSetPeerBandwidthPacket \<Rightarrow> (unit, Buffer) act" where
  "RtmpSetPeerBandwidthPacket_encode_packet p = seq (guard_read 5 error_rtmp_message_encode)
     (seq (write_4bytes (peer_bandwidth p)) (write_1byte (peer_type p)))"

record RtmpUserControlPacket =
  event_type :: "16 word"
  event_data :: "32 word"
  extra_data :: "32 word"

abbreviation (input) SrcPCUCSetBufferLength :: "16 word" where "SrcPCUCSetBufferLength \<equiv> 0x03"
abbreviation (input) SrcPCUCPingRequest :: "16 word" where "SrcPCUCPingRequest \<equiv> 0x06"
abbreviation (input) SrcPCUCPingResponse :: "16 word" where "SrcPCUCPingResponse \<equiv> 0x07"
abbreviation (input) SrcPCUCFmsEvent0 :: "16 word" where "SrcPCUCFmsEvent0 \<equiv> 0x1a"

definition RtmpUserControlPacket_new :: RtmpUserControlPacket where
  "RtmpUserControlPacket_new = \<lparr>event_type = 0, event_data = 0, extra_data = 0\<rparr>"

text \<open>An \<open>int8_t\<close> stored in an \<open>int32_t\<close> is sign-extended.\<close>

definition RtmpUserControlPacket_decode ::
    "RtmpUserControlPacket \<Rightarrow> (RtmpUserControlPacket, Buffer) act" where
  "RtmpUserControlPacket_decode p =
     bind (seq (guard_read 2 error_rtmp_message_decode) read_2bytes) (\<lambda>type.
     bind (if type = SrcPCUCFmsEvent0
           then bind (seq (guard_read 1 error_rtmp_message_decode) read_1byte) (\<lambda>v. ret (scast v))
           else seq (guard_read 4 error_rtmp_message_decode) read_4bytes) (\<lambda>data.
     bind (if type = SrcPCUCSetBufferLength
           then seq (guard_read 4 error_rtmp_message_encode) read_4bytes
           else ret (extra_data p)) (\<lambda>extra.
     ret (p\<lparr>event_type := type, event_data := data, extra_data := extra\<rparr>))))"

definition RtmpUserControlPacket_get_size :: "RtmpUserControlPacket \<Rightarrow> int" where
  "RtmpUserControlPacket_get_size p = 2 + (if event_type p = SrcPCUCFmsEvent0 then 1 else 4)
     + (if event_type p = SrcPCUCSetBufferLength then 4 else 0)"

definition RtmpUserControlPacket_encode_packet :: "RtmpUserControlPacket \<Rightarrow> (unit, Buffer) act" where
  "RtmpUserControlPacket_encode_packet p =
     seq (guard_read (RtmpUserControlPacket_get_size p) error_rtmp_message_encode)
    (seq (write_2bytes (event_type p))
    (seq (if event_type p = SrcPCUCFmsEvent0 then write_1byte (ucast (event_data p))
          else write_4bytes (event_data p))
         (if event_type p = SrcPCUCSetBufferLength then write_4bytes (extra_data p) else ret ())))"

section \<open>The class RtmpPacket\<close>

datatype rtmp_packet =
    ConnectApp RtmpConnectAppPacket
  | ConnectAppRes RtmpConnectAppResPacket
  | SetWindowAckSize "32 word"
  | Play RtmpPlayPacket
  | PlayRes RtmpPlayResPacket
  | SetChunkSize "32 word"
  | SetPeerBandwidth RtmpSetPeerBandwidthPacket
  | UserControl RtmpUserControlPacket
  | CreateStream command
  | CreateStreamRes RtmpCreateStreamResPacket
  | FMLEStart RtmpFMLEStartPacket
  | FMLEStartRes command
  | Publish RtmpPublishPacket
  | Pause RtmpPausePacket
  | OnStatusCall RtmpOnStatusCallPacket
  | OnMetaData RtmpOnMetaDataPacket
  | Bandwidth RtmpBandwidthPacket
  | CloseStream command
  | Call RtmpCallPacket
  | CallRes RtmpCallResPacket
  | OnCustomAmfData bytes
  | Acknowledgement "32 word"

fun get_prefer_cid :: "rtmp_packet \<Rightarrow> int" where
  "get_prefer_cid (ConnectApp p) = RTMP_CID_OverConnection"
| "get_prefer_cid (ConnectAppRes p) = RTMP_CID_OverConnection"
| "get_prefer_cid (SetWindowAckSize v) = RTMP_CID_ProtocolControl"
| "get_prefer_cid (Play p) = RTMP_CID_OverStream"
| "get_prefer_cid (PlayRes p) = RTMP_CID_OverStream"
| "get_prefer_cid (SetChunkSize v) = RTMP_CID_ProtocolControl"
| "get_prefer_cid (SetPeerBandwidth p) = RTMP_CID_ProtocolControl"
| "get_prefer_cid (UserControl p) = RTMP_CID_ProtocolControl"
| "get_prefer_cid (CreateStream p) = RTMP_CID_OverConnection"
| "get_prefer_cid (CreateStreamRes p) = RTMP_CID_OverConnection"
| "get_prefer_cid (FMLEStart p) = RTMP_CID_OverConnection"
| "get_prefer_cid (FMLEStartRes p) = RTMP_CID_OverConnection"
| "get_prefer_cid (Publish p) = RTMP_CID_OverStream"
| "get_prefer_cid (OnStatusCall p) = RTMP_CID_OverStream"
| "get_prefer_cid (OnMetaData p) = RTMP_CID_OverConnection2"
| "get_prefer_cid (Bandwidth p) = RTMP_CID_OverStream"
| "get_prefer_cid (Call p) = RTMP_CID_OverConnection"
| "get_prefer_cid (CallRes p) = RTMP_CID_OverConnection"
| "get_prefer_cid (Acknowledgement v) = RTMP_CID_ProtocolControl"
| "get_prefer_cid _ = 0"

fun get_message_type :: "rtmp_packet \<Rightarrow> byte" where
  "get_message_type (SetWindowAckSize v) = RTMP_MSG_WindowAcknowledgementSize"
| "get_message_type (SetChunkSize v) = RTMP_MSG_SetChunkSize"
| "get_message_type (SetPeerBandwidth p) = RTMP_MSG_SetPeerBandwidth"
| "get_message_type (UserControl p) = RTMP_MSG_UserControlMessage"
| "get_message_type (Acknowledgement v) = RTMP_MSG_Acknowledgement"
| "get_message_type (OnMetaData p) = RTMP_MSG_AMF0DataMessage"
| "get_message_type (Pause p) = 0"
| "get_message_type (CloseStream p) = 0"
| "get_message_type (OnCustomAmfData s) = 0"
| "get_message_type _ = RTMP_MSG_AMF0CommandMessage"

fun get_size :: "rtmp_packet \<Rightarrow> int" where
  "get_size (ConnectApp p) = RtmpConnectAppPacket_get_size p"
| "get_size (ConnectAppRes p) = RtmpConnectAppResPacket_get_size p"
| "get_size (SetWindowAckSize v) = RtmpSetWindowAckSizePacket_get_size"
| "get_size (Play p) = RtmpPlayPacket_get_size p"
| "get_size (PlayRes p) = RtmpPlayResPacket_get_size p"
| "get_size (SetChunkSize v) = RtmpSetChunkSizePacket_get_size"
| "get_size (SetPeerBandwidth p) = RtmpSetPeerBandwidthPacket_get_size"
| "get_size (UserControl p) = RtmpUserControlPacket_get_size p"
| "get_size (CreateStream p) = RtmpCreateStreamPacket_get_size p"
| "get_size (CreateStreamRes p) = RtmpCreateStreamResPacket_get_size p"
| "get_size (FMLEStart p) = RtmpFMLEStartPacket_get_size p"
| "get_size (FMLEStartRes p) = RtmpFMLEStartResPacket_get_size p"
| "get_size (Publish p) = RtmpPublishPacket_get_size p"
| "get_size (OnStatusCall p) = RtmpOnStatusCallPacket_get_size p"
| "get_size (OnMetaData p) = RtmpOnMetaDataPacket_get_size p"
| "get_size (Bandwidth p) = RtmpBandwidthPacket_get_size p"
| "get_size (Call p) = RtmpCallPacket_get_size p"
| "get_size (CallRes p) = RtmpCallResPacket_get_size p"
| "get_size (Acknowledgement v) = RtmpAcknowledgementPacket_get_size"
| "get_size _ = 0"

text \<open>\<open>RtmpPacket::encode_packet\<close>, what the classes without an override inherit, is an error.\<close>

fun encode_packet :: "rtmp_packet \<Rightarrow> (unit, Buffer) act" where
  "encode_packet (ConnectApp p) = RtmpConnectAppPacket_encode_packet p"
| "encode_packet (ConnectAppRes p) = RtmpConnectAppResPacket_encode_packet p"
| "encode_packet (SetWindowAckSize v) = RtmpSetWindowAckSizePacket_encode_packet v"
| "encode_packet (Play p) = RtmpPlayPacket_encode_packet p"
| "encode_packet (PlayRes p) = RtmpPlayResPacket_encode_packet p"
| "encode_packet (SetChunkSize v) = RtmpSetChunkSizePacket_encode_packet v"
| "encode_packet (SetPeerBandwidth p) = RtmpSetPeerBandwidthPacket_encode_packet p"
| "encode_packet (UserControl p) = RtmpUserControlPacket_encode_packet p"
| "encode_packet (CreateStream p) = RtmpCreateStreamPacket_encode_packet p"
| "encode_packet (CreateStreamRes p) = RtmpCreateStreamResPacket_encode_packet p"
| "encode_packet (FMLEStart p) = RtmpFMLEStartPacket_encode_packet p"
| "encode_packet (FMLEStartRes p) = RtmpFMLEStartResPacket_encode_packet p"
| "encode_packet (Publish p) = RtmpPublishPacket_encode_packet p"
| "encode_packet (OnStatusCall p) = RtmpOnStatusCallPacket_encode_packet p"
| "encode_packet (OnMetaData p) = RtmpOnMetaDataPacket_encode_packet p"
| "encode_packet (Bandwidth p) = RtmpBandwidthPacket_encode_packet p"
| "encode_packet (Call p) = RtmpCallPacket_encode_packet p"
| "encode_packet (CallRes p) = RtmpCallResPacket_encode_packet p"
| "encode_packet (Acknowledgement v) = RtmpAcknowledgementPacket_encode_packet v"
| "encode_packet _ = fail error_rtmp_packet_invalid"

definition wrap :: "('a \<Rightarrow> 'b) \<Rightarrow> ('a, 's) act \<Rightarrow> ('b, 's) act" where
  "wrap f m = bind m (\<lambda>x. ret (f x))"

fun packet_decode :: "nat \<Rightarrow> rtmp_packet \<Rightarrow> (rtmp_packet, Buffer) act" where
  "packet_decode n (ConnectApp p) = wrap ConnectApp (RtmpConnectAppPacket_decode n p)"
| "packet_decode n (ConnectAppRes p) = wrap ConnectAppRes (RtmpConnectAppResPacket_decode n p)"
| "packet_decode n (SetWindowAckSize v) = wrap SetWindowAckSize (RtmpSetWindowAckSizePacket_decode v)"
| "packet_decode n (Play p) = wrap Play (RtmpPlayPacket_decode n p)"
| "packet_decode n (SetChunkSize v) = wrap SetChunkSize (RtmpSetChunkSizePacket_decode v)"
| "packet_decode n (UserControl p) = wrap UserControl (RtmpUserControlPacket_decode p)"
| "packet_decode n (CreateStream p) = wrap CreateStream (RtmpCreateStreamPacket_decode p)"
| "packet_decode n (CreateStreamRes p) = wrap CreateStreamRes (RtmpCreateStreamResPacket_decode p)"
| "packet_decode n (FMLEStart p) = wrap FMLEStart (RtmpFMLEStartPacket_decode p)"
| "packet_decode n (FMLEStartRes p) = wrap FMLEStartRes (RtmpFMLEStartResPacket_decode p)"
| "packet_decode n (Publish p) = wrap Publish (RtmpPublishPacket_decode p)"
| "packet_decode n (Pause p) = wrap Pause (RtmpPausePacket_decode p)"
| "packet_decode n (OnStatusCall p) = wrap OnStatusCall (RtmpOnStatusCallPacket_decode n p)"
| "packet_decode n (OnMetaData p) = wrap OnMetaData (RtmpOnMetaDataPacket_decode n p)"
| "packet_decode n (Bandwidth p) = wrap Bandwidth (RtmpBandwidthPacket_decode n p)"
| "packet_decode n (CloseStream p) = wrap CloseStream (RtmpCloseStreamPacket_decode p)"
| "packet_decode n (Call p) = wrap Call (RtmpCallPacket_decode n p)"
| "packet_decode n (OnCustomAmfData s) = wrap OnCustomAmfData (RtmpOnCustomAmfDataPacket_decode s)"
| "packet_decode n (Acknowledgement v) = wrap Acknowledgement (RtmpAcknowledgementPacket_decode v)"
| "packet_decode n _ = fail error_rtmp_packet_invalid"

text \<open>
  \<open>RtmpPacket::encode(size, payload)\<close>.  \<open>size\<close> is what the caller passes in; the block is only
  allocated when it is positive, otherwise the buffer has no memory behind it.  After a success
  the function ends without a \<open>return\<close>, which is undefined behaviour.
\<close>

definition encode :: "bytes \<Rightarrow> int \<Rightarrow> rtmp_packet \<Rightarrow> (int \<times> bytes, unit) outcome" where
  "encode fresh sz p =
     (let wanted_size = get_size p;
          wanted_payload = (if 0 < sz then take (nat wanted_size) fresh else [])
      in case encode_packet p (Buffer_new wanted_payload wanted_size) of
           Done v b \<Rightarrow> Crash No_Return
         | Fail e b \<Rightarrow> Fail e ()
         | Crash q \<Rightarrow> Crash q)"

end
