(* ===== verification/Rtmp_Packet_Props.thy ===== *)
theory Rtmp_Packet_Props
  imports Rtmp_Packet_Facts
begin

text \<open>The properties of the RTMP packets: sizes, safe decoding, round trips, and what they break.\<close>

section \<open>Packets that are read back\<close>


definition short :: "bytes \<Rightarrow> bool" where
  "short s \<longleftrightarrow> length s < 2 ^ 15"


lemma reads_string:
  assumes "short s" "s \<noteq> [] \<or> old = []"
  shows "reads (amf0_read_string old) (enc_string s) s"
  unfolding reads_def
proof (intro allI impI)
  fix b ys assume b: "wf_buffer b" "content b = enc_string s @ ys"
  then have "take (Suc (length (enc_utf8 s))) (content b) = RTMP_AMF0_String # enc_utf8 s"
    by (simp add: enc_string_def)
  from skip_marker [OF b(1) this] b assms
  show "amf0_read_string old b = Done s (skip (length (enc_string s)) b)"
    by (simp add: amf0_read_string_def act_simps amf0_read_utf8_eq short_def)
qed

lemmas reads_number = number.codec_reads [OF TrueI]
lemmas reads_null = null.codec_reads [OF TrueI, folded enc_null_def]


lemma reads_command:
  assumes "accept (command_name q)" "short (command_name q)" "command_name q \<noteq> []"
  shows "reads (read_command accept p) (enc_command q)
    (p\<lparr>command_name := command_name q, transaction_id := transaction_id q\<rparr>)"
  unfolding read_command_def enc_command_def
  by (rule reads_bind, rule reads_string [OF assms(2)], simp add: assms(3), rule reads_check,
      simp add: assms(1), rule reads_bind_last, rule reads_number, rule reads_ret)












lemma enc_string_not_Nil [simp]: "enc_string s \<noteq> []"
  by (simp add: enc_string_def)





section \<open>Properties\<close>



text \<open>
  C10: decoding a packet of any class but \<open>onStatus\<close> from arbitrary bytes ends with a packet or an
  error code, inside the data and without a failed assertion.
\<close>

lemma packet_decode_safe:
  assumes "wf_buffer b" "readable b < n" "\<forall>q. p \<noteq> OnStatusCall q"
  shows "(\<exists>q j. packet_decode n p b = Done q (skip j b) \<and> j \<le> readable b)
    \<or> (\<exists>e j. packet_decode n p b = Fail e (skip j b) \<and> j \<le> readable b)"
  using readerD [OF packet_decode_reader [of n p] assms(1)] assms(2,3) by fastforce

lemma packet_decode_safe_witness:
  "\<exists>j\<le>7. (\<exists>q. packet_decode 8 (Call RtmpCallPacket_new) seven_zeros = Done q (skip j seven_zeros))
    \<or> (\<exists>e. packet_decode 8 (Call RtmpCallPacket_new) seven_zeros = Fail e (skip j seven_zeros))"
  using packet_decode_safe [of seven_zeros 8 "Call RtmpCallPacket_new"]
  by (auto simp: seven_zeros_facts)



text \<open>
  \<open>RtmpPacket::encode\<close> never delivers a payload: whatever the packet and the size passed in,
  it ends with an error, because the new buffer has nothing to read and the writers ask for it.
\<close>

lemma encode_never_succeeds:
  "\<exists>e. encode fresh sz p = Fail e ()
     \<and> e \<in> {error_rtmp_amf0_encode, error_rtmp_message_encode, error_rtmp_packet_invalid}"
  by (rule encode_fails)

text \<open>
  A peer can crash a client with an \<open>onStatus\<close> whose object has no \<open>code\<close>: the null result of
  \<open>get_property\<close> is dereferenced.
\<close>

lemma on_status_null_deref:
  assumes "wf_buffer b" "0 < n"
    "content b = enc_string (lit ''onStatus'') @ enc_number dbl_0 @ enc_null @ [RTMP_AMF0_Object]"
  shows "packet_decode n (OnStatusCall RtmpOnStatusCallPacket_new) b = Crash Null_Deref"
proof -
  let ?p = "RtmpOnStatusCallPacket_new"
  obtain m where n: "n = Suc m" using assms(2) by (cases n) auto
  have "read_command (named (lit ''onStatus'')) ?p b = Done ?p (skip 20 b)"
  proof -
    have "reads (read_command (named (lit ''onStatus'')) ?p) (enc_command ?p) ?p"
      using reads_command [of "named (lit ''onStatus'')" ?p ?p]
      by (simp add: RtmpOnStatusCallPacket_new_def named_def short_def lit_def)
    moreover have "content b = enc_command ?p @ enc_null @ [RTMP_AMF0_Object]"
      using assms(3) by (simp add: enc_command_def RtmpOnStatusCallPacket_new_def)
    ultimately show ?thesis
      using assms(1) by (simp add: reads_def RtmpOnStatusCallPacket_new_def lit_def)
  qed
  moreover have "amf0_read_null (skip 20 b) = Done () (skip 21 b)"
    using assms reads_null by (simp add: reads_def enc_null_def readable_def lit_def)
  moreover have "read_marker RTMP_AMF0_Object (skip 21 b) = Done () (skip 22 b)"
    using assms(1) assms(3) read_marker_front [of "skip 21 b" RTMP_AMF0_Object]
    by (simp add: readable_def lit_def enc_null_def)
  moreover have "read_empty (skip 22 b) = Done True (skip 22 b)"
    using assms by (simp add: act_simps readable_def lit_def)
  ultimately show ?thesis
    by (simp add: n RtmpOnStatusCallPacket_decode_def wrap_def act_simps RtmpOnStatusCallPacket_new_def
        Amf0Object_read_def dbl_eq_def dbl_nan_def dbl_0_def)
qed

lemma on_status_null_deref_witness:
  "packet_decode 9 (OnStatusCall RtmpOnStatusCallPacket_new)
     (push (enc_string (lit ''onStatus'') @ enc_number dbl_0 @ enc_null @ [RTMP_AMF0_Object])
       (Buffer_new (replicate 64 0) 64)) = Crash Null_Deref"
  using on_status_null_deref [of "push (enc_string (lit ''onStatus'') @ enc_number dbl_0 @ enc_null
      @ [RTMP_AMF0_Object]) (Buffer_new (replicate 64 0) 64)" 9] by (simp add: lit_def)

text \<open>
  An empty command name passes for the expected one.  An empty AMF0 string leaves the variable
  as the constructor set it, so the check that the name is not empty sees the default.
\<close>

lemma empty_name_accepted:
  assumes "wf_buffer b" "content b = enc_string [] @ enc_number t @ ys" "accept (command_name p)"
  shows "read_command accept p b = Done (p\<lparr>transaction_id := t\<rparr>) (skip 12 b)"
proof -
  have "take (Suc 2) (content b) = RTMP_AMF0_String # be_bytes 2 (0 :: 16 word)"
    using assms(2) by (simp add: enc_string_def enc_utf8_def)
  note M = skip_marker [OF assms(1) this]
  have "2 \<le> readable (skip 1 b)" using take_content_length [OF M(2)] by simp
  moreover have "3 \<le> readable b" using assms(2) by (simp add: readable_def)
  ultimately have "amf0_read_string (command_name p) b = Done (command_name p) (skip 3 b)"
    using M assms(1) amf0_read_utf8_negative [of "skip 1 b" "command_name p"]
    by (simp add: amf0_read_string_def act_simps)
  moreover have "amf0_read_number (skip 3 b) = Done t (skip 12 b)"
    using reads_number [of t] assms by (simp add: reads_def readable_def)
  ultimately show ?thesis using assms(3) by (simp add: read_command_def act_simps)
qed

lemma empty_name_accepted_witness:
  "read_command (named (lit ''connect'')) RtmpConnectAppPacket_new
     (push (enc_string [] @ enc_number dbl_1) (Buffer_new (replicate 64 0) 64))
   = Done RtmpConnectAppPacket_new (skip 12 (push (enc_string [] @ enc_number dbl_1) (Buffer_new (replicate 64 0) 64)))"
  using empty_name_accepted [of "push (enc_string [] @ enc_number dbl_1) (Buffer_new (replicate 64 0) 64)"
      dbl_1 "[]" "named (lit ''connect'')" RtmpConnectAppPacket_new]
  by (simp add: RtmpConnectAppPacket_new_def named_def lit_def)

end
