(* ===== verification/Io_Buffer.thy ===== *)
theory Io_Buffer
  imports Stream_Codec
begin

text \<open>
  \<open>IOBuffer\<close> of \<open>src/base/io/io_buffer.cpp\<close>: a connection read through a \<open>Buffer\<close>.  The
  connection is an \<open>IReader\<close>, an interface: the model takes its \<open>read\<close> as a parameter, a function
  of the number of bytes asked for and of a state of its own, that gives the value the call returns
  and the bytes it stores; what the code relies on is \<open>stream_reader\<close> below, and \<open>Tcp_Conn\<close> is
  the one the program uses.
\<close>

type_synonym 'r reader = "int \<Rightarrow> 'r \<Rightarrow> (int \<times> bytes) \<times> 'r"

section \<open>The code\<close>

record 'r IOBuffer =
  io_cache :: Buffer
  io_no_cache :: bool
  io_reader :: 'r

definition IOBuffer_new :: "'r \<Rightarrow> Buffer \<Rightarrow> 'r IOBuffer" where
  "IOBuffer_new r b = \<lparr>io_cache = b, io_no_cache = False, io_reader = r\<rparr>"

text \<open>A call of the buffer, and one whose error code is dropped.\<close>

definition on_cache :: "('a, Buffer) act \<Rightarrow> ('a, 'r IOBuffer) act" where
  "on_cache m s = (case m (io_cache s) of
     Done v b \<Rightarrow> Done v (s\<lparr>io_cache := b\<rparr>)
   | Fail e b \<Rightarrow> Fail e (s\<lparr>io_cache := b\<rparr>)
   | Crash q \<Rightarrow> Crash q)"

definition or_else :: "('a, 's) act \<Rightarrow> 'a \<Rightarrow> ('a, 's) act" where
  "or_else m x s = (case m s of Done v t \<Rightarrow> Done v t | Fail e t \<Rightarrow> Done x t | Crash q \<Rightarrow> Crash q)"

text \<open>
  \<open>read_from_cache(dst, len)\<close> stores bytes in \<open>dst\<close> and the number of them in \<open>len\<close>: the result is
  the new \<open>len\<close> and the bytes.
\<close>

definition read_from_cache :: "int \<Rightarrow> (int \<times> bytes, 'r IOBuffer) act" where
  "read_from_cache len = bind (on_cache read_left) (\<lambda>cache_size.
     if 0 < cache_size then
       (if len \<le> cache_size
        then bind (or_else (on_cache (read_bytes len)) []) (\<lambda>dst. ret (len, dst))
        else bind (or_else (on_cache (read_bytes cache_size)) []) (\<lambda>dst. ret (cache_size, dst)))
     else ret (0, []))"

definition IOBuffer_read_bytes :: "'r reader \<Rightarrow> int \<Rightarrow> (int \<times> bytes, 'r IOBuffer) act" where
  "IOBuffer_read_bytes rd len = bind (read_from_cache len) (\<lambda>(read_size, dst). \<lambda>s.
     if io_no_cache s then
       (case rd (len - read_size) (io_reader s) of
          ((k, xs), r) \<Rightarrow> Done (read_size + k, dst @ xs) (s\<lparr>io_reader := r\<rparr>))
     else
       (let need_read_size = len - read_size in
        if need_read_size = 0 then Done (read_size, dst) s
        else bind (on_cache continuous_write_left) (\<lambda>left. \<lambda>s.
          case rd left (io_reader s) of ((k, xs), r) \<Rightarrow>
            seq (on_cache (\<lambda>b. mem_write (wpos b) xs b))
           (if k < 0 then ret (k, dst)
            else seq (ignore (on_cache (seek_write k)))
                (bind (read_from_cache need_read_size) (\<lambda>(n, ys).
                   ret (read_size + n, dst @ ys)))) (s\<lparr>io_reader := r\<rparr>)) s))"

definition IOBuffer_write_bytes :: "bytes \<Rightarrow> (int, 'r IOBuffer) act" where
  "IOBuffer_write_bytes src = ret 0"

definition set_no_cache :: "'r IOBuffer \<Rightarrow> 'r IOBuffer" where
  "set_no_cache s = s\<lparr>io_no_cache := True\<rparr>"

definition IOBuffer_seek_read :: "int \<Rightarrow> (unit, 'r IOBuffer) act" where
  "IOBuffer_seek_read len = on_cache (seek_read len)"

definition IOBuffer_seek_write :: "int \<Rightarrow> (unit, 'r IOBuffer) act" where
  "IOBuffer_seek_write len = on_cache (seek_write len)"

section \<open>Symbolic runs\<close>

lemma on_cache_run [act_simps]:
  "m (io_cache s) = Done v b \<Longrightarrow> on_cache m s = Done v (s\<lparr>io_cache := b\<rparr>)"
  "m (io_cache s) = Fail e b \<Longrightarrow> on_cache m s = Fail e (s\<lparr>io_cache := b\<rparr>)"
  "m (io_cache s) = Crash q \<Longrightarrow> on_cache m s = Crash q"
  by (simp_all add: on_cache_def)

lemma or_else_run [act_simps]:
  "m s = Done v t \<Longrightarrow> or_else m x s = Done v t" "m s = Fail e t \<Longrightarrow> or_else m x s = Done x t"
  "m s = Crash q \<Longrightarrow> or_else m x s = Crash q"
  by (simp_all add: or_else_def)

lemma read_from_cache_eq:
  assumes "wf_buffer (io_cache s)" "0 < len"
  shows "read_from_cache len s
    = Done (int (min (nat len) (readable (io_cache s))), take (nat len) (content (io_cache s)))
        (s\<lparr>io_cache := skip (min (nat len) (readable (io_cache s))) (io_cache s)\<rparr>)"
proof -
  consider "readable (io_cache s) = 0" | "0 < readable (io_cache s)" "len \<le> int (readable (io_cache s))"
    | "0 < readable (io_cache s)" "int (readable (io_cache s)) < len" by linarith
  then show ?thesis
  proof cases
    case 1
    with assms show ?thesis by (simp add: read_from_cache_def act_simps readable_def)
  next
    case 2
    then have "min (nat len) (readable (io_cache s)) = nat len" by simp
    with 2 assms show ?thesis by (simp add: read_from_cache_def act_simps)
  next
    case 3
    with assms show ?thesis
      by (simp add: read_from_cache_def act_simps min_def) (simp add: readable_def)
  qed
qed

lemma read_all_cache:
  assumes "wf_buffer (io_cache s)" "int (readable (io_cache s)) < len"
  shows "read_from_cache len s = Done (int (readable (io_cache s)), content (io_cache s))
    (s\<lparr>io_cache := skip (readable (io_cache s)) (io_cache s)\<rparr>)"
proof -
  have "min (nat len) (readable (io_cache s)) = readable (io_cache s)"
    "take (nat len) (content (io_cache s)) = content (io_cache s)"
    using assms(2) by (simp_all add: readable_def)
  then show ?thesis using read_from_cache_eq [OF assms(1), of len] assms(2) by simp
qed

text \<open>What \<open>memcpy\<close> to \<open>wcurrent()\<close> and \<open>seek_write\<close> do together: append the bytes read.\<close>

lemma continuous_write_left_eq [act_simps]:
  assumes "wf_buffer b"
  shows "continuous_write_left b = Done (if rpos b \<le> wpos b then min (buf_size b - wpos b) (int (room b))
     else int (room b)) b"
  using assms by (simp add: continuous_write_left_def act_simps)

lemma direct_write:
  assumes "wf_buffer b" "xs \<noteq> []" "int (length xs) \<le> int (room b)" "wpos b + int (length xs) \<le> buf_size b"
    "io_cache s = b"
  shows "seq (on_cache (\<lambda>b. mem_write (wpos b) xs b)) (ignore (on_cache (seek_write (int (length xs)))))
      s = Done () (s\<lparr>io_cache := push xs b\<rparr>)"
proof -
  note B = wf_bounds [OF assms(1)]
  let ?m = "take (nat (wpos b)) (buf b) @ xs @ drop (nat (wpos b) + length xs) (buf b)"
  have lm: "length ?m = length (buf b)" using B assms(4) by auto
  have wf: "wf_buffer (b\<lparr>buf := ?m\<rparr>)" by (rule wf_buf [OF assms(1) lm])
  have room: "room (b\<lparr>buf := ?m\<rparr>) = room b" using content_buf [OF lm] by (simp add: room_def)
  have "seek_write (int (length xs)) (b\<lparr>buf := ?m\<rparr>) = Done () (push xs b)"
    using seek_write_eq [OF wf, of "int (length xs)"] assms room B push_segment [of b xs] by simp
  moreover have "mem_write (wpos b) xs b = Done () (b\<lparr>buf := ?m\<rparr>)"
    using B assms(4) by (simp add: mem_write_def)
  ultimately show ?thesis using assms(5) by (simp add: act_simps)
qed

text \<open>The free space at the write position is free, and does not wrap around.\<close>

lemma continuous_fits:
  assumes "wf_buffer b" "int n \<le> (if rpos b \<le> wpos b then min (buf_size b - wpos b) (int (room b)) else int (room b))"
  shows "n \<le> room b" "wpos b + int n \<le> buf_size b"
proof -
  have "int (room b) < rpos b - wpos b" if "wpos b < rpos b"
    using that wf_bounds [OF assms(1)] by (simp add: room_def content_def)
  with assms wf_bounds [OF assms(1)] show "n \<le> room b" "wpos b + int n \<le> buf_size b"
    by (auto split: if_splits)
qed

section \<open>One read\<close>

lemma read_bytes_enough:
  assumes "wf_buffer (io_cache s)" "0 < len" "len \<le> int (readable (io_cache s))" "\<not> io_no_cache s"
  shows "IOBuffer_read_bytes rd len s = Done (len, take (nat len) (content (io_cache s)))
    (s\<lparr>io_cache := skip (nat len) (io_cache s)\<rparr>)"
proof -
  have "min (nat len) (readable (io_cache s)) = nat len" using assms(3) by simp
  with assms read_from_cache_eq [OF assms(1,2)] show ?thesis
    by (simp add: IOBuffer_read_bytes_def bind_Done Let_def)
qed

lemma read_bytes_more:
  assumes "wf_buffer (io_cache s)" "int (readable (io_cache s)) < len" "\<not> io_no_cache s"
    "left = (let b = skip (readable (io_cache s)) (io_cache s) in
       if rpos b \<le> wpos b then min (buf_size b - wpos b) (int (room b)) else int (room b))"
    "rd left (io_reader s) = ((int (length xs), xs), r)" "int (length xs) \<le> left"
  shows "IOBuffer_read_bytes rd len s =
    Done (int (min (nat len) (readable (io_cache s) + length xs)), take (nat len) (content (io_cache s) @ xs))
      (s\<lparr>io_cache := skip (min (nat len - readable (io_cache s)) (length xs))
          (push xs (skip (readable (io_cache s)) (io_cache s))), io_reader := r\<rparr>)"
proof -
  let ?k = "readable (io_cache s)" and ?b = "skip (readable (io_cache s)) (io_cache s)"
  have b: "wf_buffer ?b" "content ?b = []" using assms(1) by (simp_all add: readable_def)
  have fits: "length xs \<le> room ?b" "wpos ?b + int (length xs) \<le> buf_size ?b"
    using continuous_fits [OF b(1), of "length xs"] assms(4,6) by (simp_all add: Let_def del: skip_sel room_skip)
  have first: "read_from_cache len s = Done (int ?k, content (io_cache s)) (s\<lparr>io_cache := ?b\<rparr>)"
    by (rule read_all_cache [OF assms(1,2)])
  let ?s = "s\<lparr>io_cache := ?b, io_reader := r\<rparr>"
  have put: "seq (on_cache (\<lambda>b. mem_write (wpos b) xs b))
      (ignore (on_cache (seek_write (int (length xs))))) ?s = Done () (?s\<lparr>io_cache := push xs ?b\<rparr>)"
  proof (cases "xs = []")
    case True
    have "mem_write (wpos ?b) [] ?b = Done () ?b"
      using wf_bounds [OF b(1)] by (simp add: mem_write_def)
    with True b(1) show ?thesis by (simp add: act_simps)
  next
    case False
    show ?thesis by (rule direct_write [OF b(1) False _ fits(2)]) (use fits(1) in simp_all)
  qed
  have wf': "wf_buffer (push xs ?b)" "content (push xs ?b) = xs" "readable (push xs ?b) = length xs"
    using b fits by (simp_all add: readable_def)
  have second: "read_from_cache (len - int ?k) (?s\<lparr>io_cache := push xs ?b\<rparr>)
      = Done (int (min (nat len - ?k) (length xs)), take (nat len - ?k) xs)
        (?s\<lparr>io_cache := skip (min (nat len - ?k) (length xs)) (push xs ?b)\<rparr>)"
    using read_from_cache_eq [of "?s\<lparr>io_cache := push xs ?b\<rparr>" "len - int ?k"] wf' assms(2)
    by (simp add: nat_diff_distrib)
  from put obtain s2 where s2: "on_cache (\<lambda>b. mem_write (wpos b) xs b) ?s = Done () s2"
      "ignore (on_cache (seek_write (int (length xs)))) s2 = Done () (?s\<lparr>io_cache := push xs ?b\<rparr>)"
    by (auto simp: seq_Done_iff)
  have cwl: "on_cache continuous_write_left (s\<lparr>io_cache := ?b\<rparr>) = Done left (s\<lparr>io_cache := ?b\<rparr>)"
    using assms(4) b(1) by (simp add: act_simps Let_def)
  have total: "int ?k + int (min (nat len - ?k) (length xs)) = int (min (nat len) (?k + length xs))"
    "content (io_cache s) @ take (nat len - ?k) xs = take (nat len) (content (io_cache s) @ xs)"
    using assms(2) by (simp_all add: readable_def)
  show ?thesis
    using assms(2,3,5) first s2 second total
    by (simp add: IOBuffer_read_bytes_def bind_Done Let_def cwl seq_Done ret_run)
qed

lemma read_bytes_error:
  assumes "wf_buffer (io_cache s)" "int (readable (io_cache s)) < len" "\<not> io_no_cache s"
    "left = (let b = skip (readable (io_cache s)) (io_cache s) in
       if rpos b \<le> wpos b then min (buf_size b - wpos b) (int (room b)) else int (room b))"
    "rd left (io_reader s) = ((e, []), r)" "e < 0"
  shows "IOBuffer_read_bytes rd len s = Done (e, content (io_cache s))
    (s\<lparr>io_cache := skip (readable (io_cache s)) (io_cache s), io_reader := r\<rparr>)"
proof -
  let ?k = "readable (io_cache s)" and ?b = "skip (readable (io_cache s)) (io_cache s)"
  have b: "wf_buffer ?b" using assms(1) by (simp add: readable_def)
  have first: "read_from_cache len s = Done (int ?k, content (io_cache s)) (s\<lparr>io_cache := ?b\<rparr>)"
    by (rule read_all_cache [OF assms(1,2)])
  let ?s = "s\<lparr>io_cache := ?b, io_reader := r\<rparr>"
  have "on_cache continuous_write_left (s\<lparr>io_cache := ?b\<rparr>) = Done left (s\<lparr>io_cache := ?b\<rparr>)"
    using assms(4) b by (simp add: act_simps Let_def)
  moreover have "on_cache (\<lambda>b. mem_write (wpos b) [] b) ?s = Done () ?s"
    using wf_bounds [OF b] by (simp add: act_simps mem_write_def)
  ultimately show ?thesis
    using assms(2,3,5,6) first
    by (simp add: IOBuffer_read_bytes_def bind_Done Let_def seq_Done ret_run)
qed

section \<open>A connection as a stream\<close>

text \<open>
  What the code relies on: a reader hands out the bytes of a stream in their order, \<open>pending\<close> are
  those it still has, and returns their number; an error is negative and takes none.
\<close>

definition stream_reader :: "'r reader \<Rightarrow> ('r \<Rightarrow> bytes) \<Rightarrow> bool" where
  "stream_reader rd pending \<longleftrightarrow> (\<forall>n r. case rd n r of ((k, xs), r') \<Rightarrow>
     (if k < 0 then xs = [] else k = int (length xs) \<and> k \<le> max n 0) \<and> pending r = xs @ pending r')"

text \<open>All that has still to be read, and a series of reads with what each returned.\<close>

definition unread :: "('r \<Rightarrow> bytes) \<Rightarrow> 'r IOBuffer \<Rightarrow> bytes" where
  "unread pending s = content (io_cache s) @ pending (io_reader s)"

fun read_series :: "'r reader \<Rightarrow> int list \<Rightarrow> ((int \<times> bytes) list, 'r IOBuffer) act" where
  "read_series rd [] = ret []"
| "read_series rd (len # lens) = bind (IOBuffer_read_bytes rd len) (\<lambda>x.
     bind (read_series rd lens) (\<lambda>xs. ret (x # xs)))"

lemma read_bytes_step:
  assumes "stream_reader rd pending" "wf_buffer (io_cache s)" "\<not> io_no_cache s" "0 < len"
  obtains n dst s' where "IOBuffer_read_bytes rd len s = Done (n, dst) s'"
    "wf_buffer (io_cache s')" "\<not> io_no_cache s'" "unread pending s = dst @ unread pending s'"
    "n < 0 \<or> n = int (length dst) \<and> n \<le> len"
proof (cases "len \<le> int (readable (io_cache s))")
  case True
  show thesis
    by (rule that [OF read_bytes_enough [OF assms(2,4) True assms(3)]])
      (use assms True in \<open>simp_all add: unread_def readable_def\<close>)
next
  case False
  then have lt: "int (readable (io_cache s)) < len" by simp
  let ?b = "skip (readable (io_cache s)) (io_cache s)"
  have b: "wf_buffer ?b" "content ?b = []" using assms(2) by (simp_all add: readable_def)
  define left where left: "left = (let b = ?b in
    if rpos b \<le> wpos b then min (buf_size b - wpos b) (int (room b)) else int (room b))"
  obtain k xs r where rd: "rd left (io_reader s) = ((k, xs), r)" by (metis prod.exhaust)
  have "case rd left (io_reader s) of ((k, xs), r') \<Rightarrow>
      (if k < 0 then xs = [] else k = int (length xs) \<and> k \<le> max left 0) \<and> pending (io_reader s) = xs @ pending r'"
    using assms(1) by (simp add: stream_reader_def)
  with rd have sr: "if k < 0 then xs = [] else k = int (length xs) \<and> k \<le> max left 0"
      "pending (io_reader s) = xs @ pending r" by simp_all
  show thesis
  proof (cases "k < 0")
    case True
    with sr rd have rd': "rd left (io_reader s) = ((k, []), r)" by simp
    show thesis
      by (rule that [OF read_bytes_error [of s len left rd, OF assms(2) lt assms(3) left rd' True]])
        (use b True sr assms in \<open>simp_all add: unread_def\<close>)
  next
    case False
    with sr have k: "k = int (length xs)" "k \<le> max left 0" by simp_all
    have "0 \<le> left" using wf_bounds [OF b(1)] by (simp add: left Let_def)
    with k have fit: "int (length xs) \<le> left" by simp
    have room: "length xs \<le> room ?b"
      using continuous_fits(1) [OF b(1), of "length xs"] fit by (simp add: left Let_def)
    show thesis
      by (rule that [OF read_bytes_more [of s len left rd, OF assms(2) lt assms(3) left rd [unfolded k(1)] fit]])
        (use b room sr(2) lt assms(2,3) in \<open>auto simp: unread_def readable_def min_def nat_diff_distrib\<close>)
  qed
qed

lemma read_series_stream:
  assumes "stream_reader rd pending" "wf_buffer (io_cache s)" "\<not> io_no_cache s" "\<forall>len\<in>set lens. 0 < len"
  shows "\<exists>results s'. read_series rd lens s = Done results s' \<and> length results = length lens
    \<and> unread pending s = concat (map snd results) @ unread pending s'
    \<and> list_all2 (\<lambda>len (n, dst). n < 0 \<or> n = int (length dst) \<and> n \<le> len) lens results"
  using assms(2-4)
proof (induction lens arbitrary: s)
  case Nil
  then show ?case by (simp add: ret_run)
next
  case (Cons len lens)
  from Cons.prems obtain n dst t where 1: "IOBuffer_read_bytes rd len s = Done (n, dst) t"
    "wf_buffer (io_cache t)" "\<not> io_no_cache t" "unread pending s = dst @ unread pending t"
    "n < 0 \<or> n = int (length dst) \<and> n \<le> len"
    by (auto elim: read_bytes_step [OF assms(1)])
  from Cons.IH [OF 1(2,3)] Cons.prems obtain results u where 2: "read_series rd lens t = Done results u"
    "length results = length lens" "unread pending t = concat (map snd results) @ unread pending u"
    "list_all2 (\<lambda>len (n, dst). n < 0 \<or> n = int (length dst) \<and> n \<le> len) lens results" by auto
  show ?case
    by (rule exI [of _ "(n, dst) # results"], rule exI [of _ u])
      (use 1 2 in \<open>simp add: bind_Done ret_run\<close>)
qed

end
