(* ===== verification/Tcp_Conn.thy ===== *)
theory Tcp_Conn
  imports Io_Buffer
begin

text \<open>
  \<open>TcpStreamConn\<close> of \<open>src/transport/tmss_trans_tcp.cpp\<close>, the connection below the
  \<open>IOBuffer\<close>, and \<open>IClient::init\<close>, which puts one over the other.  The socket is a file
  descriptor of the State Threads library, which is not part of the sources: its calls are the
  fields of \<open>st_ops\<close>, functions on a state \<open>'k\<close> of the descriptor.
\<close>

record 'k st_ops =
  st_read :: "int \<Rightarrow> 'k \<Rightarrow> (int \<times> bytes) \<times> 'k"
  st_write :: "bytes \<Rightarrow> 'k \<Rightarrow> int \<times> 'k"
  st_writev :: "bytes list \<Rightarrow> 'k \<Rightarrow> int \<times> 'k"
  st_netfd_close :: "'k \<Rightarrow> int \<times> 'k"
  st_tcp_connect :: "'k \<Rightarrow> int \<times> 'k"

abbreviation (input) error_socket_already_closed :: int where "error_socket_already_closed \<equiv> 10009"

section \<open>The code\<close>

record 'k TcpStreamConn =
  client_fd :: 'k
  is_connected :: bool
  recv_bytes :: "64 word"
  send_bytes :: "64 word"

definition TcpStreamConn_new :: "'k \<Rightarrow> bool \<Rightarrow> 'k TcpStreamConn" where
  "TcpStreamConn_new fd not_null =
     \<lparr>client_fd = fd, is_connected = not_null, recv_bytes = 0, send_bytes = 0\<rparr>"

definition TcpStreamConn_read :: "'k st_ops \<Rightarrow> 'k TcpStreamConn reader" where
  "TcpStreamConn_read ops n c =
     (if \<not> is_connected c then ((error_socket_already_closed, []), c)
      else case st_read ops n (client_fd c) of ((r, xs), fd) \<Rightarrow>
        let c = c\<lparr>client_fd := fd\<rparr> in
        if r < 0 then ((r, xs), c) else ((r, xs), c\<lparr>recv_bytes := recv_bytes c + of_int r\<rparr>))"

definition TcpStreamConn_read_fully :: "int \<Rightarrow> 'k TcpStreamConn \<Rightarrow> (int \<times> bytes) \<times> 'k TcpStreamConn" where
  "TcpStreamConn_read_fully n c = ((0, []), c)"

definition TcpStreamConn_write :: "'k st_ops \<Rightarrow> bytes \<Rightarrow> 'k TcpStreamConn \<Rightarrow> int \<times> 'k TcpStreamConn" where
  "TcpStreamConn_write ops xs c =
     (if \<not> is_connected c then (error_socket_already_closed, c)
      else case st_write ops xs (client_fd c) of (r, fd) \<Rightarrow>
        let c = c\<lparr>client_fd := fd\<rparr> in
        if r < 0 then (r, c) else (r, c\<lparr>send_bytes := send_bytes c + of_int r\<rparr>))"

definition TcpStreamConn_writev ::
    "'k st_ops \<Rightarrow> bytes list \<Rightarrow> 'k TcpStreamConn \<Rightarrow> int \<times> 'k TcpStreamConn" where
  "TcpStreamConn_writev ops iov c =
     (if \<not> is_connected c then (error_socket_already_closed, c)
      else case st_writev ops iov (client_fd c) of (r, fd) \<Rightarrow>
        let c = c\<lparr>client_fd := fd\<rparr> in
        if r < 0 then (r, c) else (r, c\<lparr>send_bytes := send_bytes c + of_int r\<rparr>))"

definition TcpStreamConn_connect :: "'k st_ops \<Rightarrow> 'k TcpStreamConn \<Rightarrow> int \<times> 'k TcpStreamConn" where
  "TcpStreamConn_connect ops c = (case st_tcp_connect ops (client_fd c) of (r, fd) \<Rightarrow>
     let c = c\<lparr>client_fd := fd\<rparr> in if r \<noteq> 0 then (r, c) else (r, c\<lparr>is_connected := True\<rparr>))"

definition TcpStreamConn_close :: "'k st_ops \<Rightarrow> 'k TcpStreamConn \<Rightarrow> int \<times> 'k TcpStreamConn" where
  "TcpStreamConn_close ops c =
     (if \<not> is_connected c then (0, c)
      else case st_netfd_close ops (client_fd c) of (r, fd) \<Rightarrow>
        let c = c\<lparr>client_fd := fd\<rparr> in if r \<noteq> 0 then (r, c) else (r, c\<lparr>is_connected := False\<rparr>))"

text \<open>\<open>mem\<close> is the memory \<open>new char[in_buf_size]\<close> returns, which is not initialised.\<close>

definition in_buf_size :: int where "in_buf_size = 1024 * 16"

definition IClient_init :: "bytes \<Rightarrow> 'k TcpStreamConn \<Rightarrow> 'k TcpStreamConn IOBuffer" where
  "IClient_init mem conn = IOBuffer_new conn (Buffer_new (take (nat in_buf_size) mem) in_buf_size)"

section \<open>What it relies on, and what it gives\<close>

text \<open>The library's \<open>st_read\<close>: at most as many bytes as asked for, the count returned, or -1.\<close>

definition st_read_ok :: "'k st_ops \<Rightarrow> ('k \<Rightarrow> bytes) \<Rightarrow> bool" where
  "st_read_ok ops pending \<longleftrightarrow> stream_reader (st_read ops) pending"

lemma connected_reader:
  assumes "st_read_ok ops pending" "is_connected c"
  shows "case TcpStreamConn_read ops n c of ((k, xs), c') \<Rightarrow>
      (if k < 0 then xs = [] else k = int (length xs) \<and> k \<le> max n 0)
    \<and> pending (client_fd c) = xs @ pending (client_fd c') \<and> is_connected c'
    \<and> (k < 0 \<longrightarrow> recv_bytes c' = recv_bytes c)
    \<and> recv_bytes c' = recv_bytes c + of_nat (length xs)"
proof -
  obtain k xs fd where r: "st_read ops n (client_fd c) = ((k, xs), fd)" by (metis prod.exhaust)
  have "case st_read ops n (client_fd c) of ((k, xs), r') \<Rightarrow>
      (if k < 0 then xs = [] else k = int (length xs) \<and> k \<le> max n 0) \<and> pending (client_fd c) = xs @ pending r'"
    using assms(1) by (simp add: st_read_ok_def stream_reader_def)
  with r assms(2) show ?thesis by (auto simp: TcpStreamConn_read_def Let_def split: if_splits)
qed

lemma close_read:
  assumes "TcpStreamConn_close ops c = (0, c')"
  shows "TcpStreamConn_read ops n c' = ((error_socket_already_closed, []), c')"
  using assms by (auto simp: TcpStreamConn_close_def TcpStreamConn_read_def Let_def split: if_splits prod.splits)

text \<open>
  A reader that returns \<open>k\<close> and stores nothing: the next \<open>k\<close> bytes of the cache's memory, whatever
  they are, become readable.
\<close>

lemma phantom_read:
  assumes b: "wf_buffer b" and s: "io_cache s = b" "\<not> io_no_cache s"
    and e: "readable b = 0" "rpos b = 0" "wpos b = 0" and k: "0 < k" "k \<le> buf_size b - 1"
    and rd: "\<forall>n. fst (rd n (io_reader s)) = (k, [])" and len: "0 < len" "len \<le> k"
  shows "\<exists>s'. IOBuffer_read_bytes rd len s = Done (len, take (nat len) (buf b)) s'"
proof -
  note B = wf_bounds [OF b]
  have room: "int (room b) = buf_size b - 1" using readable_plus_room [OF b] e by simp
  have first: "read_from_cache len s = Done (0, []) s"
    using read_all_cache [of s len] b s e len by (simp add: readable_def skip_def)
  define b' where "b' = b\<lparr>wpos := k\<rparr>"
  have wf: "wf_buffer b'" using b k e B by (simp add: b'_def wf_buffer_def)
  have sw: "seek_write k b = Done () b'"
    using seek_write_eq [OF b, of k] k room e B by (simp add: b'_def)
  have content: "content b' = take (nat k) (buf b)"
    using B e k by (simp add: b'_def content_def)
  have read: "readable b' = nat k" using content B k e by (simp add: readable_def)
  obtain left where cwl: "continuous_write_left b = Done left b"
    using continuous_write_left_eq [OF b] by blast
  obtain r where r: "rd left (io_reader s) = ((k, []), r)" using rd by (metis prod.collapse)
  let ?s = "s\<lparr>io_reader := r\<rparr>" and ?t = "s\<lparr>io_reader := r, io_cache := b'\<rparr>"
  have put: "on_cache (\<lambda>b. mem_write (wpos b) [] b) ?s = Done () ?s"
    "ignore (on_cache (seek_write k)) ?s = Done () ?t"
    using B s(1) sw by (simp_all add: act_simps mem_write_def)
  have "min (nat len) (readable b') = nat len" "int (nat len) = len" "take (nat len) (content b') = take (nat len) (buf b)"
    using read content len by (simp_all add: min_def)
  then have second: "read_from_cache len ?t = Done (len, take (nat len) (buf b)) (?t\<lparr>io_cache := skip (nat len) b'\<rparr>)"
    using read_from_cache_eq [of ?t len] wf len by simp
  have "on_cache continuous_write_left s = Done left s" using cwl s(1) by (simp add: act_simps)
  then show ?thesis
    using first put second r s(2) len k
    by (simp add: IOBuffer_read_bytes_def bind_Done Let_def seq_Done ret_run)
qed

end
