(* ===== verification/Io_Props.thy ===== *)
theory Io_Props
  imports Tcp_Conn
begin

text \<open>The properties of \<open>IOBuffer\<close>: it delivers a stream; what it does when the connection fails.\<close>





text \<open>
  A connection error loses the cached bytes.  When the cache holds fewer bytes than asked for
  and the connection reports an error, the call returns the error code, and the bytes it had taken
  from the cache are gone from it: the caller, who sees only the code, cannot read them again.
\<close>

lemma io_error_drops_cache:
  assumes "wf_buffer (io_cache s)" "int (readable (io_cache s)) < len" "\<not> io_no_cache s"
    "\<forall>n. fst (rd n (io_reader s)) = (e, [])" "e < 0"
  shows "\<exists>s'. IOBuffer_read_bytes rd len s = Done (e, content (io_cache s)) s' \<and> content (io_cache s') = []"
proof -
  let ?b = "skip (readable (io_cache s)) (io_cache s)"
  define left where left: "left = (let b = ?b in
    if rpos b \<le> wpos b then min (buf_size b - wpos b) (int (room b)) else int (room b))"
  have "rd left (io_reader s) = ((e, []), snd (rd left (io_reader s)))"
    using assms(4) by (simp add: prod_eq_iff)
  from read_bytes_error [of s len left rd, OF assms(1,2,3) left this assms(5)] assms(1) show ?thesis
    by (simp add: readable_def)
qed

lemma io_error_drops_cache_witness:
  "\<exists>s'. IOBuffer_read_bytes (\<lambda>_ r. ((-1, []), r)) 8
      (IOBuffer_new () (push [1, 2, 3] (Buffer_new (replicate 9 0) 9)))
    = Done (-1, [1, 2, 3]) s' \<and> content (io_cache s') = []"
  using io_error_drops_cache [of "IOBuffer_new () (push [1, 2, 3] (Buffer_new (replicate 9 0) 9))" 8
      "\<lambda>_ r. ((-1, []), r)" "-1"]
  by (simp add: IOBuffer_new_def readable_def)

text \<open>
  A closed connection is read as data.  \<open>TcpStreamConn::read\<close> answers with the positive code
  10009 once the connection is closed, and \<open>IOBuffer\<close> takes it for the number of bytes stored: a
  client that reads then gets as many bytes as it asked for, all of them whatever the memory of its
  buffer happened to hold.
\<close>

lemma closed_connection_garbage:
  assumes "TcpStreamConn_close ops c = (0, c')" "in_buf_size \<le> int (length mem)" "0 < len" "len \<le> 10009"
  shows "\<exists>s'. IOBuffer_read_bytes (TcpStreamConn_read ops) len (IClient_init mem c')
    = Done (len, take (nat len) mem) s'"
proof -
  define b where "b = Buffer_new (take (nat in_buf_size) mem) in_buf_size"
  have wf: "wf_buffer b" using assms(2) by (simp add: b_def wf_buffer_def Buffer_new_def in_buf_size_def)
  have sel: "io_cache (IClient_init mem c') = b" "\<not> io_no_cache (IClient_init mem c')"
    "rpos b = 0" "wpos b = 0" "buf_size b = 16384" "buf b = take 16384 mem"
    by (simp_all add: b_def IClient_init_def IOBuffer_new_def Buffer_new_def in_buf_size_def)
  then have empty: "readable b = 0" by (simp add: readable_def content_def)
  have "take (nat len) (take 16384 mem) = take (nat len) mem" using assms(4) by (simp add: min_absorb1)
  then show ?thesis
    using phantom_read [OF wf sel(1,2) empty sel(3,4), of error_socket_already_closed
        "TcpStreamConn_read ops" len] sel(5,6) assms(3,4) close_read [OF assms(1)]
    by (simp add: IClient_init_def IOBuffer_new_def del: take_take)
qed

text \<open>A socket on which every call succeeds without doing anything, for the example.\<close>

definition idle_ops :: "unit st_ops" where
  "idle_ops = \<lparr>st_read = \<lambda>n k. ((0, []), k), st_write = \<lambda>xs k. (0, k), st_writev = \<lambda>xs k. (0, k),
     st_netfd_close = \<lambda>k. (0, k), st_tcp_connect = \<lambda>k. (0, k)\<rparr>"

lemma closed_connection_garbage_witness:
  "\<exists>s'. IOBuffer_read_bytes (TcpStreamConn_read idle_ops) 4
      (IClient_init (replicate 16384 7) (snd (TcpStreamConn_close idle_ops (TcpStreamConn_new () True))))
    = Done (4, replicate 4 7) s'"
  using closed_connection_garbage [of idle_ops "TcpStreamConn_new () True"
      "(TcpStreamConn_new () True)\<lparr>is_connected := False\<rparr>" "replicate 16384 7" 4]
  by (simp add: TcpStreamConn_close_def TcpStreamConn_new_def idle_ops_def in_buf_size_def)

end
