(* ===== verification/Rtmp_Chunk.thy ===== *)
theory Rtmp_Chunk
  imports Rtmp_Messages
begin

text \<open>
  The RTMP chunk layer: messages and chunk streams of \<open>rtmp_message.cpp\<close>, the chunk headers
  \<open>chunk_header_c0\<close>, \<open>chunk_header_c3\<close> and the parts of \<open>rtmp_stack.cpp\<close> that read chunks.

  The functions that read work on a chunk stream and on what lies below the protocol handler, the
  fields of \<open>host\<close>: \<open>io_buffer->read_bytes\<close> (its result and the bytes it stores), \<open>io_buffer->
  seek_read\<close>, \<open>conn->writev\<close>, \<open>conn->get_recv_bytes\<close>, and the memory \<open>new char[n]\<close> returns,
  which is not initialised and does not end where the block does.
\<close>

record 'io host =
  host_read :: "int \<Rightarrow> (int \<times> bytes, 'io) act"
  host_seek_read :: "int \<Rightarrow> (unit, 'io) act"
  host_writev :: "bytes list \<Rightarrow> 'io \<Rightarrow> int \<times> 'io"
  host_recv_bytes :: "'io \<Rightarrow> 64 word"
  host_new :: "int \<Rightarrow> bytes"

abbreviation (input) error_rtmp_no_request :: int where "error_rtmp_no_request \<equiv> 14103"
abbreviation (input) error_rtmp_chunk_start :: int where "error_rtmp_chunk_start \<equiv> 14104"
abbreviation (input) error_rtmp_packet_size :: int where "error_rtmp_packet_size \<equiv> 14105"
abbreviation (input) error_rtmp_chunk_size :: int where "error_rtmp_chunk_size \<equiv> 14108"
abbreviation (input) error_tag_type_invalid :: int where "error_tag_type_invalid \<equiv> 14200"
abbreviation (input) error_buffer_not_enough :: int where "error_buffer_not_enough \<equiv> 12003"

abbreviation (input) RTMP_MSG_AudioMessage :: byte where "RTMP_MSG_AudioMessage \<equiv> 8"
abbreviation (input) RTMP_MSG_VideoMessage :: byte where "RTMP_MSG_VideoMessage \<equiv> 9"
abbreviation (input) RTMP_MSG_AggregateMessage :: byte where "RTMP_MSG_AggregateMessage \<equiv> 22"
abbreviation (input) FLV_MSG_HeaderMessage :: byte where "FLV_MSG_HeaderMessage \<equiv> 0x61"
abbreviation (input) RTMP_CID_Video :: int where "RTMP_CID_Video \<equiv> 6"
abbreviation (input) RTMP_CID_Audio :: int where "RTMP_CID_Audio \<equiv> 7"
abbreviation (input) CodecFlvTagAudio :: byte where "CodecFlvTagAudio \<equiv> 8"
abbreviation (input) CodecFlvTagVideo :: byte where "CodecFlvTagVideo \<equiv> 9"
abbreviation (input) CodecFlvTagScript :: byte where "CodecFlvTagScript \<equiv> 18"

section \<open>Message headers\<close>

text \<open>
  \<open>payload_length\<close> and \<open>perfer_cid\<close> are \<open>int32_t\<close> and \<open>int\<close>, of which the code only
  forms sums that stay far below their range (\<open>payload_length\<close> is read from 3 bytes).
\<close>

record MessageHeader =
  hdr_seq :: "64 word"
  hdr_code :: int
  hdr_duration :: "64 word"
  timestamp_delta :: "32 word"
  payload_length :: int
  message_type :: byte
  hdr_stream_id :: "32 word"
  timestamp :: "64 word"
  perfer_cid :: int
  tencent_metadata :: bool
  is_custom_amfdata :: bool

definition MessageHeader_new :: MessageHeader where
  "MessageHeader_new = \<lparr>hdr_seq = 0, hdr_code = 0, hdr_duration = dbl_0, timestamp_delta = 0,
     payload_length = 0, message_type = 0, hdr_stream_id = 0, timestamp = 0,
     perfer_cid = RTMP_CID_OverConnection, tencent_metadata = False, is_custom_amfdata = False\<rparr>"

definition is_audio :: "MessageHeader \<Rightarrow> bool" where
  "is_audio h \<longleftrightarrow> message_type h = RTMP_MSG_AudioMessage"

definition is_video :: "MessageHeader \<Rightarrow> bool" where
  "is_video h \<longleftrightarrow> message_type h = RTMP_MSG_VideoMessage"

definition is_amf0_command :: "MessageHeader \<Rightarrow> bool" where
  "is_amf0_command h \<longleftrightarrow> message_type h = RTMP_MSG_AMF0CommandMessage"

definition is_amf0_data :: "MessageHeader \<Rightarrow> bool" where
  "is_amf0_data h \<longleftrightarrow> message_type h = RTMP_MSG_AMF0DataMessage"

definition is_amf3_command :: "MessageHeader \<Rightarrow> bool" where
  "is_amf3_command h \<longleftrightarrow> message_type h = RTMP_MSG_AMF3CommandMessage"

definition is_amf3_data :: "MessageHeader \<Rightarrow> bool" where
  "is_amf3_data h \<longleftrightarrow> message_type h = RTMP_MSG_AMF3DataMessage"

definition is_window_ackledgement_size :: "MessageHeader \<Rightarrow> bool" where
  "is_window_ackledgement_size h \<longleftrightarrow> message_type h = RTMP_MSG_WindowAcknowledgementSize"

definition is_ackledgement :: "MessageHeader \<Rightarrow> bool" where
  "is_ackledgement h \<longleftrightarrow> message_type h = RTMP_MSG_Acknowledgement"

definition is_set_chunk_size :: "MessageHeader \<Rightarrow> bool" where
  "is_set_chunk_size h \<longleftrightarrow> message_type h = RTMP_MSG_SetChunkSize"

definition is_user_control_message :: "MessageHeader \<Rightarrow> bool" where
  "is_user_control_message h \<longleftrightarrow> message_type h = RTMP_MSG_UserControlMessage"

definition is_set_peer_bandwidth :: "MessageHeader \<Rightarrow> bool" where
  "is_set_peer_bandwidth h \<longleftrightarrow> message_type h = RTMP_MSG_SetPeerBandwidth"

definition is_aggregate :: "MessageHeader \<Rightarrow> bool" where
  "is_aggregate h \<longleftrightarrow> message_type h = RTMP_MSG_AggregateMessage"

definition is_flv_header :: "MessageHeader \<Rightarrow> bool" where
  "is_flv_header h \<longleftrightarrow> message_type h = FLV_MSG_HeaderMessage"

definition initialize_amf0_script :: "int \<Rightarrow> int \<Rightarrow> MessageHeader \<Rightarrow> MessageHeader" where
  "initialize_amf0_script sz stream h = h\<lparr>message_type := RTMP_MSG_AMF0DataMessage, payload_length := sz,
     timestamp_delta := 0, timestamp := 0, hdr_stream_id := of_int stream,
     perfer_cid := RTMP_CID_OverConnection2\<rparr>"

definition initialize_audio :: "int \<Rightarrow> 32 word \<Rightarrow> int \<Rightarrow> MessageHeader \<Rightarrow> MessageHeader" where
  "initialize_audio sz time stream h = h\<lparr>message_type := RTMP_MSG_AudioMessage, payload_length := sz,
     timestamp_delta := time, timestamp := ucast time, hdr_stream_id := of_int stream,
     perfer_cid := RTMP_CID_Audio\<rparr>"

definition initialize_video :: "int \<Rightarrow> 32 word \<Rightarrow> int \<Rightarrow> MessageHeader \<Rightarrow> MessageHeader" where
  "initialize_video sz time stream h = h\<lparr>message_type := RTMP_MSG_VideoMessage, payload_length := sz,
     timestamp_delta := time, timestamp := ucast time, hdr_stream_id := of_int stream,
     perfer_cid := RTMP_CID_Video\<rparr>"

section \<open>Messages\<close>

text \<open>
  The block \<open>payload\<close> points to: one of the message's own, from \<open>new char[]\<close>, or the one its
  user passed in.  The message deletes either when it gets another one.
\<close>

datatype block = Owned (memory: bytes) | Passed_In (memory: bytes)

record RtmpMessage =
  header :: MessageHeader
  msg_size :: int
  payload :: "block option"

definition RtmpMessage_new :: RtmpMessage where
  "RtmpMessage_new = \<lparr>header = MessageHeader_new, msg_size = 0, payload = None\<rparr>"

definition create_payload :: "bytes \<Rightarrow> int \<Rightarrow> RtmpMessage \<Rightarrow> RtmpMessage" where
  "create_payload fresh n m = m\<lparr>payload := Some (Owned (take (nat n) fresh))\<rparr>"

definition RtmpMessage_create :: "byte \<Rightarrow> 64 word \<Rightarrow> block option \<Rightarrow> int \<Rightarrow> (unit, RtmpMessage) act" where
  "RtmpMessage_create type time p n =
     bind (if type = CodecFlvTagAudio then ret (RTMP_MSG_AudioMessage, RTMP_CID_Audio)
           else if type = CodecFlvTagVideo then ret (RTMP_MSG_VideoMessage, RTMP_CID_Video)
           else if type = CodecFlvTagScript then ret (RTMP_MSG_AMF0DataMessage, RTMP_CID_OverConnection2)
           else fail error_tag_type_invalid) (\<lambda>(tag_type, cid). \<lambda>m.
     Done () (m\<lparr>header := (header m)\<lparr>message_type := tag_type, payload_length := n, timestamp := time,
                  perfer_cid := cid\<rparr>, msg_size := n, payload := p\<rparr>))"

text \<open>
  \<open>set_payload(buf)\<close>: \<open>freepa(payload)\<close> first.  When the block to delete is \<open>buf\<close> itself, the
  message goes on with a deleted block.
\<close>

definition set_payload :: "bytes \<Rightarrow> (unit, RtmpMessage) act" where
  "set_payload b m = (case payload m of
     Some (Passed_In mem) \<Rightarrow> Crash Bad_Free
   | _ \<Rightarrow> Done () (m\<lparr>payload := Some (Passed_In b)\<rparr>))"

record RtmpChunkStream =
  cs_fmt :: int
  cs_cid :: int
  cs_header :: MessageHeader
  extended_timestamp :: bool
  cs_msg :: "RtmpMessage option"
  msg_count :: int
  extend_time :: "32 word"

definition RtmpChunkStream_new :: "int \<Rightarrow> RtmpChunkStream" where
  "RtmpChunkStream_new i = \<lparr>cs_fmt = 0, cs_cid = i, cs_header = MessageHeader_new,
     extended_timestamp = False, cs_msg = None, msg_count = 0, extend_time = 0\<rparr>"

section \<open>Chunk headers\<close>

abbreviation (input) RTMP_EXTENDED_TIMESTAMP :: "32 word" where "RTMP_EXTENDED_TIMESTAMP \<equiv> 0xFFFFFF"
abbreviation (input) TMSS_CONSTS_RTMP_MAX_FMT0_HEADER_SIZE :: int where
  "TMSS_CONSTS_RTMP_MAX_FMT0_HEADER_SIZE \<equiv> 16"
abbreviation (input) TMSS_CONSTS_RTMP_MAX_FMT3_HEADER_SIZE :: int where
  "TMSS_CONSTS_RTMP_MAX_FMT3_HEADER_SIZE \<equiv> 5"

definition le_bytes :: "nat \<Rightarrow> 'a::len word \<Rightarrow> bytes" where
  "le_bytes n v = rev (be_bytes n v)"

text \<open>What the functions write to \<open>cache\<close>; the size they return is its length.\<close>

definition chunk_header_c0 ::
    "int \<Rightarrow> 32 word \<Rightarrow> int \<Rightarrow> byte \<Rightarrow> 32 word \<Rightarrow> int \<Rightarrow> bytes" where
  "chunk_header_c0 prefer time len type stream nb_cache =
     (if nb_cache < TMSS_CONSTS_RTMP_MAX_FMT0_HEADER_SIZE then []
      else [and (of_int prefer) 0x3F]
         @ (if time < RTMP_EXTENDED_TIMESTAMP then be_bytes 3 time else [0xFF, 0xFF, 0xFF])
         @ be_bytes 3 (of_int len :: 32 word)
         @ [type]
         @ le_bytes 4 stream
         @ (if RTMP_EXTENDED_TIMESTAMP \<le> time then be_bytes 4 time else []))"

definition chunk_header_c3 :: "int \<Rightarrow> 32 word \<Rightarrow> int \<Rightarrow> bytes" where
  "chunk_header_c3 prefer time nb_cache =
     (if nb_cache < TMSS_CONSTS_RTMP_MAX_FMT3_HEADER_SIZE then []
      else [or 0xC0 (and (of_int prefer) 0x3F)]
         @ (if RTMP_EXTENDED_TIMESTAMP \<le> time then be_bytes 4 time else []))"

section \<open>Reading a chunk\<close>

text \<open>A read into a block: the bytes stored replace the first ones of what the block held.\<close>

definition fill :: "bytes \<Rightarrow> bytes \<Rightarrow> bytes" where
  "fill dst block = dst @ drop (length dst) block"

text \<open>\<open>if ((ret = io_buffer->read_bytes(p, n)) != error_success) return ret;\<close>\<close>

definition read_exact :: "'io host \<Rightarrow> int \<Rightarrow> (bytes, 'io) act" where
  "read_exact h n = bind (host_read h n) (\<lambda>(r, dst). if r \<noteq> 0 then fail r else ret dst)"

definition read_basic_header :: "'io host \<Rightarrow> (int \<times> int, 'io) act" where
  "read_basic_header h = bind (read_exact h 1) (\<lambda>dst.
     let b0 = fill dst [0, 0, 0, 0] ! 0; cid = and b0 0x3F; fmt = uint (drop_bit 6 b0) in
     if 1 < cid then ret (fmt, uint cid)
     else if cid = 0 then bind (read_exact h 1) (\<lambda>dst.
       let b = fill dst [0, 0, 0] in ret (fmt, 64 + uint (b ! 0)))
     else bind (read_exact h 2) (\<lambda>dst.
       let b = fill dst [0, 0, 0] in ret (fmt, 64 + uint (b ! 0) + uint (b ! 1) * 256)))"

text \<open>The state of a chunk stream and of what is below the handler.\<close>

definition on_io :: "('a, 'io) act \<Rightarrow> ('a, RtmpChunkStream \<times> 'io) act" where
  "on_io m = (\<lambda>(c, w). case m w of Done v w' \<Rightarrow> Done v (c, w') | Fail e w' \<Rightarrow> Fail e (c, w') | Crash q \<Rightarrow> Crash q)"

definition get_chunk :: "(RtmpChunkStream, RtmpChunkStream \<times> 'io) act" where
  "get_chunk = (\<lambda>(c, w). Done c (c, w))"

definition put_chunk :: "RtmpChunkStream \<Rightarrow> (unit, RtmpChunkStream \<times> 'io) act" where
  "put_chunk c = (\<lambda>(_, w). Done () (c, w))"

definition set_header :: "(MessageHeader \<Rightarrow> MessageHeader) \<Rightarrow> RtmpChunkStream \<Rightarrow> RtmpChunkStream" where
  "set_header f c = c\<lparr>cs_header := f (cs_header c)\<rparr>"

definition mh_size :: "int \<Rightarrow> int" where
  "mh_size fmt = [11, 7, 3, 0] ! nat fmt"

text \<open>The timestamp field of a chunk of type 0, 1 or 2, at the start of \<open>data\<close>.\<close>

definition parse_timestamp :: "int \<Rightarrow> bytes \<Rightarrow> RtmpChunkStream \<Rightarrow> RtmpChunkStream" where
  "parse_timestamp fmt data c =
     (let c = set_header (timestamp_delta_update (\<lambda>_. be_word (take 3 data))) c;
          delta = timestamp_delta (cs_header c);
          c = c\<lparr>extended_timestamp := sint RTMP_EXTENDED_TIMESTAMP \<le> sint delta\<rparr>
      in if extended_timestamp c then c
         else (if fmt = 0 then set_header (\<lambda>h. h\<lparr>timestamp := scast delta, timestamp_delta := 0\<rparr>) c
               else set_header (\<lambda>h. h\<lparr>timestamp := timestamp h + scast delta\<rparr>) c)\<lparr>extend_time := 0\<rparr>)"

text \<open>The length, type and stream of a chunk of type 0 or 1, after the timestamp.\<close>

definition parse_message :: "int \<Rightarrow> bool \<Rightarrow> bytes \<Rightarrow> RtmpChunkStream \<Rightarrow> int + RtmpChunkStream" where
  "parse_message fmt is_first data c =
     (let len = uint (be_word (take 3 (drop 3 data)) :: 32 word) in
      if \<not> is_first \<and> payload_length (cs_header c) \<noteq> len then Inl error_rtmp_packet_size
      else let c = set_header (\<lambda>h. h\<lparr>payload_length := len, message_type := data ! 6\<rparr>) c in
        Inr (if fmt = 0
             then set_header (\<lambda>h. h\<lparr>hdr_stream_id := be_word (rev (take 4 (drop 7 data)))\<rparr>) c
             else c))"

text \<open>
  The extended timestamp: the four bytes at \<open>pos\<close>, the end of the message header.  The second
  result is whether \<open>seek_read(-4)\<close> is called.
\<close>

definition parse_extended :: "bool \<Rightarrow> int \<Rightarrow> bool \<Rightarrow> 32 word \<Rightarrow> RtmpChunkStream \<Rightarrow> RtmpChunkStream \<times> bool" where
  "parse_extended fix_rtmp_timestamp fmt is_first time c =
     (let h = cs_header c in
      if \<not> fix_rtmp_timestamp then
        let chunk_timestamp = ucast (timestamp h) :: 32 word in
        if \<not> is_first \<and> 0 < chunk_timestamp \<and> chunk_timestamp \<noteq> time
        then (c\<lparr>extend_time := time\<rparr>, True)
        else (set_header (\<lambda>h. h\<lparr>timestamp := ucast time\<rparr>) c\<lparr>extend_time := time\<rparr>, False)
      else
        let chunk_timestamp = extend_time c in
        if \<not> is_first \<and> 0 < chunk_timestamp \<and> chunk_timestamp \<noteq> time
        then (c\<lparr>extend_time := time\<rparr>, True)
        else if \<not> is_first then (c\<lparr>extend_time := time\<rparr>, False)
        else ((if fmt = 2 \<or> fmt = 1
               then set_header (\<lambda>h. h\<lparr>timestamp := ucast (ucast (timestamp h) + time), timestamp_delta := time\<rparr>) c
               else if fmt = 3
               then set_header (\<lambda>h. h\<lparr>timestamp := ucast (ucast (timestamp h) + time)\<rparr>) c
               else set_header (\<lambda>h. h\<lparr>timestamp := ucast time, timestamp_delta := 0\<rparr>) c)
              \<lparr>extend_time := time\<rparr>, False))"

text \<open>
  \<open>read_message_header\<close>.  \<open>data\<close> is the block of \<open>mh_size\<close> bytes the header is read into and
  what lies behind it: the four bytes of an extended timestamp are taken from there.
\<close>

definition read_message :: "int \<Rightarrow> bool \<Rightarrow> bytes \<Rightarrow> RtmpChunkStream \<Rightarrow> (RtmpChunkStream, RtmpChunkStream \<times> 'io) act" where
  "read_message fmt is_first data c =
     (if fmt \<le> 1 then (case parse_message fmt is_first data c of Inl e \<Rightarrow> fail e | Inr d \<Rightarrow> ret d) else ret c)"

definition read_extended ::
    "'io host \<Rightarrow> bool \<Rightarrow> int \<Rightarrow> bool \<Rightarrow> bytes \<Rightarrow> RtmpChunkStream \<Rightarrow> (RtmpChunkStream, RtmpChunkStream \<times> 'io) act" where
  "read_extended h fix_rtmp_timestamp fmt is_first data c =
     (if extended_timestamp c
      then (case parse_extended fix_rtmp_timestamp fmt is_first
                (be_word (take 4 (drop (nat (mh_size fmt)) data))) c of
              (d, back) \<Rightarrow> if back then seq (ignore (on_io (host_seek_read h (-4)))) (ret d) else ret d)
      else ret c)"

definition finish_header :: "RtmpChunkStream \<Rightarrow> (unit, RtmpChunkStream \<times> 'io) act" where
  "finish_header c =
     (let c = set_header (\<lambda>h. h\<lparr>timestamp := and (timestamp h) 0xFFFFFFFF\<rparr>) c in
      seq (put_chunk c)
     (seq (assertion (0 \<le> payload_length (cs_header c)))
     (put_chunk (c\<lparr>cs_msg := map_option (\<lambda>m. m\<lparr>header := cs_header c\<rparr>) (cs_msg c),
                  msg_count := msg_count c + 1\<rparr>))))"

definition update_timestamp :: "int \<Rightarrow> bool \<Rightarrow> bytes \<Rightarrow> RtmpChunkStream \<Rightarrow> RtmpChunkStream" where
  "update_timestamp fmt is_first data c =
     (if fmt \<le> 2 then parse_timestamp fmt data c
      else if is_first \<and> \<not> extended_timestamp c
      then set_header (\<lambda>h. h\<lparr>timestamp := timestamp h + scast (timestamp_delta h)\<rparr>) c
      else c)"

definition read_message_header :: "'io host \<Rightarrow> bool \<Rightarrow> int \<Rightarrow> (unit, RtmpChunkStream \<times> 'io) act" where
  "read_message_header h fix_rtmp_timestamp fmt = bind get_chunk (\<lambda>c.
     let is_first = (cs_msg c = None) in
     seq (check (\<not> (msg_count c = 0 \<and> fmt \<noteq> 0 \<and> fmt \<noteq> 1)) error_rtmp_chunk_start)
    (seq (check (\<not> (\<not> is_first \<and> fmt = 0)) error_rtmp_chunk_start)
    (let c = (if is_first then c\<lparr>cs_msg := Some RtmpMessage_new\<rparr> else c) in
     seq (put_chunk c)
    (bind (if 0 < mh_size fmt then on_io (read_exact h (mh_size fmt)) else ret []) (\<lambda>dst.
     let data = fill dst (host_new h (mh_size fmt)); c = update_timestamp fmt is_first data c in
     seq (put_chunk c)
    (bind (read_message fmt is_first data c) (\<lambda>c.
     bind (read_extended h fix_rtmp_timestamp fmt is_first data c) finish_header)))))))"

text \<open>
  \<open>read_message_payload\<close>.  The read asks for \<open>n\<close> bytes at an offset of the block, which must have
  room for them.  What a failing read has stored is beyond \<open>size\<close> and not kept by the model.
\<close>

definition overwrite :: "int \<Rightarrow> bytes \<Rightarrow> bytes \<Rightarrow> bytes" where
  "overwrite off xs mem = take (nat off) mem @ fill xs (drop (nat off) mem)"

fun block_put :: "int \<Rightarrow> bytes \<Rightarrow> block \<Rightarrow> block" where
  "block_put off xs (Owned mem) = Owned (overwrite off xs mem)"
| "block_put off xs (Passed_In mem) = Passed_In (overwrite off xs mem)"

definition read_message_payload ::
    "'io host \<Rightarrow> int \<Rightarrow> (RtmpMessage option, RtmpChunkStream \<times> 'io) act" where
  "read_message_payload h in_chunk_size = bind get_chunk (\<lambda>c.
     let len = payload_length (cs_header c) in
     if len \<le> 0 then seq (put_chunk (c\<lparr>cs_msg := None\<rparr>)) (ret (cs_msg c))
     else case cs_msg c of None \<Rightarrow> crash Null_Deref | Some m \<Rightarrow>
       let n = min (len - msg_size m) in_chunk_size;
           m = (if payload m = None then create_payload (host_new h len) len m else m) in
       seq (put_chunk (c\<lparr>cs_msg := Some m\<rparr>))
      (if int (length (memory (the (payload m)))) < msg_size m + n then crash Out_Of_Bounds
       else bind (on_io (read_exact h n)) (\<lambda>dst.
         let m = m\<lparr>payload := map_option (block_put (msg_size m) dst) (payload m),
                   msg_size := msg_size m + n\<rparr> in
         if len = msg_size m then seq (put_chunk (c\<lparr>cs_msg := None\<rparr>)) (ret (Some m))
         else seq (put_chunk (c\<lparr>cs_msg := Some m\<rparr>)) (ret None))))"

end
