(* ===== verification/Rtmp_Protocol.thy ===== *)
theory Rtmp_Protocol
  imports Rtmp_Chunk Tcp_Conn
begin

text \<open>
  \<open>RtmpProtocolHandler\<close> of \<open>rtmp_stack.cpp\<close>: sending packets in chunks, receiving chunks that are
  interlaced, decoding messages, answering acknowledgements and pings.  \<open>world\<close> is what lies below
  the handler, the state of the \<open>host\<close>.
\<close>

section \<open>State\<close>

record AckWindowSize =
  window :: "32 word"
  nb_recv_bytes :: "64 word"
  sequence_number :: "32 word"

definition AckWindowSize_new :: AckWindowSize where
  "AckWindowSize_new = \<lparr>window = 0, nb_recv_bytes = 0, sequence_number = 0\<rparr>"

record 'io RtmpProtocolHandler =
  world :: 'io
  fix_rtmp_timestamp :: bool
  cs_cache :: "RtmpChunkStream list"
  chunk_streams :: "int \<Rightarrow> RtmpChunkStream option"
  in_chunk_size :: int
  out_chunk_size :: int
  requests :: "(64 word \<times> bytes) list"
  in_ack_size :: AckWindowSize
  out_ack_size :: AckWindowSize
  in_buffer_length :: "32 word"
  auto_response_when_recv :: bool
  manual_response_queue :: "rtmp_packet list"

abbreviation (input) TMSS_PERF_CHUNK_STREAM_CACHE :: int where "TMSS_PERF_CHUNK_STREAM_CACHE \<equiv> 16"

definition fresh_chunk :: "int \<Rightarrow> RtmpChunkStream" where
  "fresh_chunk i = set_header (\<lambda>h. h\<lparr>perfer_cid := i\<rparr>) (RtmpChunkStream_new i)"

text \<open>
  The constructor leaves four members without a value: \<open>raw\<close> is what they hold.
\<close>

definition RtmpProtocolHandler_new :: "'io \<Rightarrow> bool \<Rightarrow> int \<times> int \<times> 32 word \<times> bool \<Rightarrow> 'io RtmpProtocolHandler" where
  "RtmpProtocolHandler_new io fix_timestamp raw = (case raw of (ics, ocs, ibl, auto_resp) \<Rightarrow>
     \<lparr>world = io, fix_rtmp_timestamp = fix_timestamp,
      cs_cache = map fresh_chunk [0 .. TMSS_PERF_CHUNK_STREAM_CACHE - 1],
      chunk_streams = (\<lambda>_. None), in_chunk_size = ics, out_chunk_size = ocs, requests = [],
      in_ack_size = AckWindowSize_new, out_ack_size = AckWindowSize_new, in_buffer_length = ibl,
      auto_response_when_recv = auto_resp, manual_response_queue = []\<rparr>)"

text \<open>
  \<open>std::map<double, std::string>\<close>: a list sorted by \<open><\<close> of doubles.  \<open>find\<close> takes the first key
  that is not less, and compares it the other way round.
\<close>

definition dbl_key :: "64 word \<Rightarrow> int" where
  "dbl_key x = (if bit x 63 then - uint (take_bit 63 x) else uint (take_bit 63 x))"

definition dbl_less :: "64 word \<Rightarrow> 64 word \<Rightarrow> bool" where
  "dbl_less x y \<longleftrightarrow> \<not> dbl_nan x \<and> \<not> dbl_nan y \<and> dbl_key x < dbl_key y"

definition map_find :: "64 word \<Rightarrow> (64 word \<times> bytes) list \<Rightarrow> bytes option" where
  "map_find k m = (case dropWhile (\<lambda>(k', v). dbl_less k' k) m of
     [] \<Rightarrow> None | (k', v) # _ \<Rightarrow> if dbl_less k k' then None else Some v)"

definition map_set :: "64 word \<Rightarrow> bytes \<Rightarrow> (64 word \<times> bytes) list \<Rightarrow> (64 word \<times> bytes) list" where
  "map_set k v m = takeWhile (\<lambda>(k', v). dbl_less k' k) m
     @ (case dropWhile (\<lambda>(k', v). dbl_less k' k) m of
          [] \<Rightarrow> [(k, v)]
        | (k', v') # r \<Rightarrow> if dbl_less k k' then (k, v) # (k', v') # r else (k', v) # r)"

section \<open>Sending\<close>

definition on_world :: "('a, 'io) act \<Rightarrow> ('a, 'io RtmpProtocolHandler) act" where
  "on_world m = (\<lambda>s. case m (world s) of
     Done v w \<Rightarrow> Done v (s\<lparr>world := w\<rparr>) | Fail e w \<Rightarrow> Fail e (s\<lparr>world := w\<rparr>) | Crash q \<Rightarrow> Crash q)"

definition writev :: "'io host \<Rightarrow> bytes list \<Rightarrow> (unit, 'io) act" where
  "writev h iov = (\<lambda>w. case host_writev h iov w of (r, w) \<Rightarrow> if r \<noteq> 0 then Fail r w else Done () w)"

text \<open>
  The loop of \<open>send_packet\<close> that cuts the payload into chunks, \<open>pos\<close> is \<open>p - payload\<close>.  It makes
  no progress when \<open>out_chunk_size\<close> is not positive, hence the fuel.
\<close>

fun send_chunks :: "'io host \<Rightarrow> nat \<Rightarrow> MessageHeader \<Rightarrow> int \<Rightarrow> bytes \<Rightarrow> int \<Rightarrow> (unit, 'io) act" where
  "send_chunks h 0 hdr out data pos = crash No_Fuel"
| "send_chunks h (Suc k) hdr out data pos =
     (if pos < int (length data) then
        (let nbh = (if pos = 0
                    then chunk_header_c0 (perfer_cid hdr) (ucast (timestamp hdr)) (payload_length hdr)
                           (message_type hdr) (hdr_stream_id hdr) 16
                    else chunk_header_c3 (perfer_cid hdr) (ucast (timestamp hdr)) 16);
             payload_size = min (int (length data) - pos) out
         in if payload_size < 0 then crash Out_Of_Bounds
            else seq (writev h [nbh, take (nat payload_size) (drop (nat pos) data)])
                     (send_chunks h k hdr out data (pos + payload_size)))
      else ret ())"

definition packet_header :: "rtmp_packet \<Rightarrow> int \<Rightarrow> int \<Rightarrow> MessageHeader" where
  "packet_header pkt sz streamid = MessageHeader_new\<lparr>payload_length := sz,
     message_type := get_message_type pkt, hdr_stream_id := of_int streamid,
     perfer_cid := get_prefer_cid pkt\<rparr>"

text \<open>What \<open>send_packet\<close> remembers of the packet it has sent.\<close>

fun sent_packet :: "rtmp_packet \<Rightarrow> 'io RtmpProtocolHandler \<Rightarrow> 'io RtmpProtocolHandler" where
  "sent_packet (SetChunkSize v) s = s\<lparr>out_chunk_size := sint v\<rparr>"
| "sent_packet (SetWindowAckSize v) s = s\<lparr>out_ack_size := (out_ack_size s)\<lparr>window := v\<rparr>\<rparr>"
| "sent_packet (ConnectApp p) s = s\<lparr>requests := map_set (transaction_id p) (command_name p) (requests s)\<rparr>"
| "sent_packet (CreateStream p) s = s\<lparr>requests := map_set (transaction_id p) (command_name p) (requests s)\<rparr>"
| "sent_packet (FMLEStart p) s = s\<lparr>requests := map_set (transaction_id p) (command_name p) (requests s)\<rparr>"
| "sent_packet pkt s = s"

text \<open>The rest of \<open>send_packet\<close> once the packet is encoded.\<close>

definition send_payload ::
    "'io host \<Rightarrow> nat \<Rightarrow> rtmp_packet \<Rightarrow> int \<Rightarrow> bytes \<Rightarrow> (unit, 'io RtmpProtocolHandler) act" where
  "send_payload h k pkt streamid data = (\<lambda>s.
     seq (on_world (send_chunks h k (packet_header pkt (int (length data)) streamid)
            (out_chunk_size s) data 0))
         (\<lambda>s. Done () (sent_packet pkt s)) s)"

text \<open>A null packet is dereferenced before the check for it.\<close>

definition send_packet ::
    "'io host \<Rightarrow> nat \<Rightarrow> rtmp_packet option \<Rightarrow> int \<Rightarrow> (unit, 'io RtmpProtocolHandler) act" where
  "send_packet h k p streamid = (case p of None \<Rightarrow> crash Null_Deref | Some pkt \<Rightarrow> (\<lambda>s.
     case encode (host_new h (get_size pkt)) 0 pkt of
       Crash q \<Rightarrow> Crash q
     | Fail e u \<Rightarrow> Fail e s
     | Done (n, data) u \<Rightarrow>
         if n \<le> 0 \<or> data = [] then Done () s else send_payload h k pkt streamid data s))"

section \<open>Receiving chunks\<close>

definition chunk_of :: "int \<Rightarrow> 'io RtmpProtocolHandler \<Rightarrow> RtmpChunkStream" where
  "chunk_of i s = (if i < TMSS_PERF_CHUNK_STREAM_CACHE then cs_cache s ! nat i
     else case chunk_streams s i of Some c \<Rightarrow> c | None \<Rightarrow> fresh_chunk i)"

definition store_chunk :: "int \<Rightarrow> RtmpChunkStream \<Rightarrow> 'io RtmpProtocolHandler \<Rightarrow> 'io RtmpProtocolHandler" where
  "store_chunk i c s = (if i < TMSS_PERF_CHUNK_STREAM_CACHE then s\<lparr>cs_cache := (cs_cache s)[nat i := c]\<rparr>
     else s\<lparr>chunk_streams := (chunk_streams s)(i := Some c)\<rparr>)"

definition on_chunk :: "int \<Rightarrow> ('a, RtmpChunkStream \<times> 'io) act \<Rightarrow> ('a, 'io RtmpProtocolHandler) act" where
  "on_chunk i m = (\<lambda>s. case m (chunk_of i s, world s) of
     Done v (c, w) \<Rightarrow> Done v (store_chunk i c s\<lparr>world := w\<rparr>)
   | Fail e (c, w) \<Rightarrow> Fail e (store_chunk i c s\<lparr>world := w\<rparr>)
   | Crash q \<Rightarrow> Crash q)"

text \<open>\<open>chunk->msg->set_payload(recv_buf)\<close> and the check of the size.\<close>

definition use_buffer :: "bytes \<Rightarrow> int \<Rightarrow> (unit, RtmpChunkStream \<times> 'io) act" where
  "use_buffer recv_buf recv_size = bind get_chunk (\<lambda>c.
     case cs_msg c of None \<Rightarrow> crash Null_Deref | Some m \<Rightarrow>
       (case set_payload recv_buf m of
          Crash q \<Rightarrow> crash q | Fail e m' \<Rightarrow> fail e
        | Done u m' \<Rightarrow>
            seq (put_chunk (c\<lparr>cs_msg := Some m'\<rparr>))
                (check (payload_length (cs_header c) \<le> recv_size) error_buffer_not_enough)))"

definition recv_interlaced_message ::
    "'io host \<Rightarrow> (bytes \<times> int) option \<Rightarrow> (RtmpMessage option, 'io RtmpProtocolHandler) act" where
  "recv_interlaced_message h recv =
     bind (on_world (read_basic_header h)) (\<lambda>(fmt, i).
     seq (assertion (0 \<le> i)) (\<lambda>s. on_chunk i
       (seq (read_message_header h (fix_rtmp_timestamp s) fmt)
       (seq (case recv of Some (recv_buf, recv_size) \<Rightarrow>
                if 0 < recv_size then use_buffer recv_buf recv_size else ret ()
              | None \<Rightarrow> ret ())
            (read_message_payload h (in_chunk_size s)))) s))"

section \<open>Decoding\<close>

text \<open>The \<open>RtmpPacket\<close> a pointer may hold: none, one of the base class, one of a class with data.\<close>

datatype decoded = No_Packet | Base_Packet | Packet rtmp_packet

definition decode_as :: "nat \<Rightarrow> rtmp_packet \<Rightarrow> (decoded, Buffer) act" where
  "decode_as n p = bind (packet_decode n p) (\<lambda>p. ret (Packet p))"

definition bw_commands :: "bytes list" where
  "bw_commands = map lit [''onSrsBandCheckFinished'', ''onSrsBandCheckPlaying'', ''onSrsBandCheckPublishing'',
     ''onSrsBandCheckStartingPlayBytes'', ''onSrsBandCheckStartingPublishBytes'',
     ''onSrsBandCheckStartPlayBytes'', ''onSrsBandCheckStartPublishBytes'',
     ''onSrsBandCheckStoppedPlayBytes'', ''onSrsBandCheckStopPlayBytes'',
     ''onSrsBandCheckStopPublishBytes'', ''onSrsBandCheckStoppedPublishBytes'', ''finalClientPacket'']"

definition do_decode_command :: "nat \<Rightarrow> MessageHeader \<Rightarrow> bytes \<Rightarrow> (decoded, Buffer) act" where
  "do_decode_command n hdr command =
    (if command = RTMP_AMF0_COMMAND_CONNECT then decode_as n (ConnectApp RtmpConnectAppPacket_new)
     else if command = RTMP_AMF0_COMMAND_CREATE_STREAM then decode_as n (CreateStream RtmpCreateStreamPacket_new)
     else if command = RTMP_AMF0_COMMAND_PLAY then decode_as n (Play RtmpPlayPacket_new)
     else if command = RTMP_AMF0_COMMAND_PAUSE then decode_as n (Pause RtmpPausePacket_new)
     else if command = RTMP_AMF0_COMMAND_RELEASE_STREAM then decode_as n (FMLEStart RtmpFMLEStartPacket_new)
     else if command = RTMP_AMF0_COMMAND_FC_PUBLISH then decode_as n (FMLEStart RtmpFMLEStartPacket_new)
     else if command = RTMP_AMF0_COMMAND_PUBLISH then decode_as n (Publish RtmpPublishPacket_new)
     else if command = RTMP_AMF0_COMMAND_UNPUBLISH then decode_as n (FMLEStart RtmpFMLEStartPacket_new)
     else if command = RTMP_AMF0_COMMAND_ON_STATUS
     then or_else (decode_as n (OnStatusCall RtmpOnStatusCallPacket_new)) Base_Packet
     else if command = lit ''@setDataFrame'' \<or> command = lit ''onMetaData''
     then decode_as n (OnMetaData RtmpOnMetaDataPacket_new)
     else if command \<in> set bw_commands then decode_as n (Bandwidth RtmpBandwidthPacket_new)
     else if command = RTMP_AMF0_COMMAND_CLOSE_STREAM then decode_as n (CloseStream RtmpCloseStreamPacket_new)
     else if is_amf0_command hdr \<or> is_amf3_command hdr then decode_as n (Call RtmpCallPacket_new)
     else if is_amf0_data hdr \<or> is_amf3_data hdr
     then or_else (decode_as n (OnCustomAmfData [])) Base_Packet
     else ret No_Packet)"

text \<open>\<open>stream->reset()\<close> and, for AMF3, \<open>stream->seek_read(1)\<close>, whose result is dropped.\<close>

definition restart_decode :: "MessageHeader \<Rightarrow> (unit, Buffer) act" where
  "restart_decode hdr = seq Ring_Buffer.reset
     (if is_amf3_command hdr then ignore (seek_read 1) else ret ())"

definition decode_result :: "nat \<Rightarrow> MessageHeader \<Rightarrow> (64 word \<times> bytes) list \<Rightarrow> (decoded, Buffer) act" where
  "decode_result n hdr reqs = bind amf0_read_number (\<lambda>transactionId.
     seq (restart_decode hdr)
     (case map_find transactionId reqs of
        None \<Rightarrow> fail error_rtmp_no_request
      | Some request_name \<Rightarrow>
          if request_name = RTMP_AMF0_COMMAND_CONNECT
          then decode_as n (ConnectAppRes RtmpConnectAppResPacket_new)
          else if request_name = RTMP_AMF0_COMMAND_CREATE_STREAM
          then decode_as n (CreateStreamRes (RtmpCreateStreamResPacket_new dbl_0 dbl_0))
          else if request_name = RTMP_AMF0_COMMAND_RELEASE_STREAM
            \<or> request_name = RTMP_AMF0_COMMAND_FC_PUBLISH \<or> request_name = RTMP_AMF0_COMMAND_UNPUBLISH
          then decode_as n (FMLEStartRes (RtmpFMLEStartResPacket_new dbl_0))
          else fail error_rtmp_no_request))"

definition do_decode_message :: "nat \<Rightarrow> MessageHeader \<Rightarrow> (64 word \<times> bytes) list \<Rightarrow> (decoded, Buffer) act" where
  "do_decode_message n hdr reqs =
    (if is_amf0_command hdr \<or> is_amf3_command hdr \<or> is_amf0_data hdr \<or> is_amf3_data hdr then
       seq (if is_amf3_command hdr
            then bind (read_require 1) (\<lambda>r. if r then ignore (seek_read 1) else ret ()) else ret ())
      (bind (amf0_read_string []) (\<lambda>command.
       if command = RTMP_AMF0_COMMAND_RESULT \<or> command = RTMP_AMF0_COMMAND_ERROR
       then decode_result n hdr reqs
       else seq (restart_decode hdr)
           (bind (do_decode_command n hdr command) (\<lambda>_. ret Base_Packet))))
     else if is_user_control_message hdr then decode_as n (UserControl RtmpUserControlPacket_new)
     else if is_window_ackledgement_size hdr then decode_as n (SetWindowAckSize 0)
     else if is_set_chunk_size hdr then decode_as n (SetChunkSize RtmpSetChunkSizePacket_new)
     else ret No_Packet)"

section \<open>Answering\<close>

definition reply :: "'io host \<Rightarrow> nat \<Rightarrow> rtmp_packet \<Rightarrow> (unit, 'io RtmpProtocolHandler) act" where
  "reply h k pkt = (\<lambda>s.
     if \<not> auto_response_when_recv s
     then Done () (s\<lparr>manual_response_queue := manual_response_queue s @ [pkt]\<rparr>)
     else send_packet h k (Some pkt) 0 s)"

definition response_acknowledgement_message :: "'io host \<Rightarrow> nat \<Rightarrow> (unit, 'io RtmpProtocolHandler) act" where
  "response_acknowledgement_message h k = (\<lambda>s.
     let a = in_ack_size s; got = host_recv_bytes h (world s);
         delta = ucast (got - nb_recv_bytes a) :: 32 word in
     if window a = 0 then Done () s
     else if delta < window a div 2 then Done () s
     else
       let seq_no = (if 0xF0000000 < sequence_number a + delta then delta else sequence_number a + delta)
       in reply h k (Acknowledgement seq_no)
            (s\<lparr>in_ack_size := a\<lparr>nb_recv_bytes := got, sequence_number := seq_no\<rparr>\<rparr>))"

definition response_ping_message :: "'io host \<Rightarrow> nat \<Rightarrow> 32 word \<Rightarrow> (unit, 'io RtmpProtocolHandler) act" where
  "response_ping_message h k time = reply h k (UserControl
     (RtmpUserControlPacket_new\<lparr>event_type := SrcPCUCPingResponse, event_data := time\<rparr>))"

abbreviation (input) TMSS_CONSTS_RTMP_MIN_CHUNK_SIZE :: int where "TMSS_CONSTS_RTMP_MIN_CHUNK_SIZE \<equiv> 128"

definition apply_control :: "'io host \<Rightarrow> nat \<Rightarrow> byte \<Rightarrow> decoded \<Rightarrow> (unit, 'io RtmpProtocolHandler) act" where
  "apply_control h k type d =
    (if type = RTMP_MSG_WindowAcknowledgementSize then
       (case d of Packet (SetWindowAckSize v) \<Rightarrow> (\<lambda>s.
          if 0 < sint v then Done () (s\<lparr>in_ack_size := (in_ack_size s)\<lparr>window := v\<rparr>\<rparr>) else Done () s)
        | _ \<Rightarrow> crash Assert_Failed)
     else if type = RTMP_MSG_SetChunkSize then
       (case d of Packet (SetChunkSize v) \<Rightarrow>
          seq (check (TMSS_CONSTS_RTMP_MIN_CHUNK_SIZE \<le> sint v) error_rtmp_chunk_size)
              (\<lambda>s. Done () (s\<lparr>in_chunk_size := sint v\<rparr>))
        | _ \<Rightarrow> crash Assert_Failed)
     else if type = RTMP_MSG_UserControlMessage then
       (case d of Packet (UserControl p) \<Rightarrow> (\<lambda>s.
          let s = (if event_type p = SrcPCUCSetBufferLength then s\<lparr>in_buffer_length := extra_data p\<rparr> else s) in
          if event_type p = SrcPCUCPingRequest then response_ping_message h k (event_data p) s else Done () s)
        | _ \<Rightarrow> crash Assert_Failed)
     else ret ())"

text \<open>\<open>Buffer stream(msg->payload, msg->size)\<close> starts with nothing to read.\<close>

definition on_recv_message ::
    "'io host \<Rightarrow> nat \<Rightarrow> nat \<Rightarrow> RtmpMessage \<Rightarrow> (decoded, 'io RtmpProtocolHandler) act" where
  "on_recv_message h k n m = (let type = message_type (header m) in
     seq (response_acknowledgement_message h k)
     (if type = RTMP_MSG_SetChunkSize \<or> type = RTMP_MSG_UserControlMessage
        \<or> type = RTMP_MSG_WindowAcknowledgementSize then (\<lambda>s.
        case do_decode_message n (header m) (requests s)
               (Buffer_new (case payload m of None \<Rightarrow> [] | Some b \<Rightarrow> memory b) (msg_size m)) of
          Crash q \<Rightarrow> Crash q
        | Fail e b \<Rightarrow> Fail e s
        | Done d b \<Rightarrow> seq (assertion (d \<noteq> No_Packet)) (seq (apply_control h k type d) (ret d)) s)
      else ret No_Packet))"

section \<open>The receive loops\<close>

text \<open>The first argument of type \<open>nat\<close> bounds the number of chunks, the others are as above.\<close>

fun recv_packet :: "nat \<Rightarrow> 'io host \<Rightarrow> nat \<Rightarrow> nat \<Rightarrow> (decoded, 'io RtmpProtocolHandler) act" where
  "recv_packet 0 h k n = crash No_Fuel"
| "recv_packet (Suc j) h k n = bind (recv_interlaced_message h None) (\<lambda>msg.
     case msg of None \<Rightarrow> recv_packet j h k n
     | Some m \<Rightarrow> if msg_size m \<le> 0 \<or> payload_length (header m) \<le> 0 then recv_packet j h k n
                 else on_recv_message h k n m)"

text \<open>\<open>recv_message\<close> returns the size; the block the caller passed in holds the message.\<close>

fun recv_message :: "nat \<Rightarrow> 'io host \<Rightarrow> nat \<Rightarrow> nat \<Rightarrow> bytes \<Rightarrow> int \<Rightarrow> (int \<times> block option, 'io RtmpProtocolHandler) act" where
  "recv_message 0 h k n recv_buf recv_size = crash No_Fuel"
| "recv_message (Suc j) h k n recv_buf recv_size =
     bind (recv_interlaced_message h (Some (recv_buf, recv_size))) (\<lambda>msg.
     case msg of None \<Rightarrow> recv_message j h k n recv_buf recv_size
     | Some m \<Rightarrow> if msg_size m \<le> 0 \<or> payload_length (header m) \<le> 0
                 then recv_message j h k n recv_buf recv_size
                 else bind (on_recv_message h k n m) (\<lambda>d. ret (msg_size m, payload m)))"

definition send_message :: "bytes \<Rightarrow> int \<Rightarrow> (unit, 'io RtmpProtocolHandler) act" where
  "send_message xs n = ret ()"

text \<open>\<open>expect_packet<T>\<close>: \<open>is_T\<close> is the dynamic cast.\<close>

fun expect_packet :: "nat \<Rightarrow> 'io host \<Rightarrow> nat \<Rightarrow> nat \<Rightarrow> (rtmp_packet \<Rightarrow> bool)
    \<Rightarrow> (rtmp_packet, 'io RtmpProtocolHandler) act" where
  "expect_packet 0 h k n is_T = crash No_Fuel"
| "expect_packet (Suc j) h k n is_T = bind (recv_packet (Suc j) h k n) (\<lambda>d.
     case d of Packet p \<Rightarrow> if is_T p then ret p else expect_packet j h k n is_T
     | _ \<Rightarrow> expect_packet j h k n is_T)"

section \<open>What the handler stands on\<close>

text \<open>
  The handler of the program: \<open>io_buffer\<close> is a member that nothing assigns, so it is null; and what
  it would be with the \<open>IOBuffer\<close> of \<open>IClient::init\<close>.
\<close>

definition handler_host :: "'k st_ops \<Rightarrow> (int \<Rightarrow> bytes) \<Rightarrow> 'k TcpStreamConn host" where
  "handler_host ops new = \<lparr>host_read = \<lambda>n. crash Null_Deref, host_seek_read = \<lambda>n. crash Null_Deref,
     host_writev = TcpStreamConn_writev ops, host_recv_bytes = recv_bytes, host_new = new\<rparr>"

definition buffered_host :: "'k st_ops \<Rightarrow> (int \<Rightarrow> bytes) \<Rightarrow> 'k TcpStreamConn IOBuffer host" where
  "buffered_host ops new = \<lparr>host_read = IOBuffer_read_bytes (TcpStreamConn_read ops),
     host_seek_read = IOBuffer_seek_read,
     host_writev = (\<lambda>iov s. case TcpStreamConn_writev ops iov (io_reader s) of (r, c) \<Rightarrow> (r, s\<lparr>io_reader := c\<rparr>)),
     host_recv_bytes = (\<lambda>s. recv_bytes (io_reader s)), host_new = new\<rparr>"

end
