(* ===== verification/Rtmp_Chunk_Facts.thy ===== *)
theory Rtmp_Chunk_Facts
  imports Rtmp_Protocol
begin

text \<open>
  Facts on chunks: how a payload is cut, what the headers say, and what reading a chunk does when
  the bytes below are delivered as they are asked for.
\<close>

section \<open>Pieces of a payload\<close>

function pieces :: "nat \<Rightarrow> 'a list \<Rightarrow> 'a list list" where
  "pieces n xs = (if xs = [] \<or> n = 0 then [] else take n xs # pieces n (drop n xs))"
  by pat_completeness auto
termination by (relation "measure (\<lambda>(n, xs). length xs)") auto

declare pieces.simps [simp del]

lemma pieces_Nil [simp]: "pieces n [] = []"
  by (simp add: pieces.simps)

lemma pieces_Cons: "xs \<noteq> [] \<Longrightarrow> 0 < n \<Longrightarrow> pieces n xs = take n xs # pieces n (drop n xs)"
  by (subst pieces.simps) simp

lemma concat_pieces: "0 < n \<Longrightarrow> concat (pieces n xs) = xs"
  by (induction n xs rule: pieces.induct) (subst pieces.simps, simp)

lemma pieces_bound: "p \<in> set (pieces n xs) \<Longrightarrow> p \<noteq> [] \<and> length p \<le> n"
  by (induction n xs rule: pieces.induct) (subst (asm) (2) pieces.simps, auto split: if_splits)

lemma pieces_eq_Nil: "0 < n \<Longrightarrow> pieces n xs = [] \<longleftrightarrow> xs = []"
  by (subst pieces.simps) simp

section \<open>Sending\<close>

text \<open>What is written for a message: the first piece behind a full header, the others behind a short one.\<close>

definition chunk_iovs :: "MessageHeader \<Rightarrow> nat \<Rightarrow> bytes \<Rightarrow> bytes list list" where
  "chunk_iovs hdr out xs = (case pieces out xs of [] \<Rightarrow> []
   | p # ps \<Rightarrow> [chunk_header_c0 (perfer_cid hdr) (ucast (timestamp hdr)) (payload_length hdr)
        (message_type hdr) (hdr_stream_id hdr) 16, p]
      # map (\<lambda>q. [chunk_header_c3 (perfer_cid hdr) (ucast (timestamp hdr)) 16, q]) ps)"

lemma send_rest:
  assumes "0 < out" "0 < pos" "pos \<le> int (length xs)" "length (pieces (nat out) (drop (nat pos) xs)) < k"
  shows "send_chunks h k hdr out xs pos w = for_each (writev h)
    (map (\<lambda>q. [chunk_header_c3 (perfer_cid hdr) (ucast (timestamp hdr)) 16, q])
      (pieces (nat out) (drop (nat pos) xs))) w"
  using assms(2-)
proof (induction k arbitrary: pos w)
  case 0
  then show ?case by simp
next
  case (Suc k)
  show ?case
  proof (cases "pos < int (length xs)")
    case False
    with Suc.prems show ?thesis by (simp add: ret_run)
  next
    case True
    define n where "n = min (int (length xs) - pos) out"
    let ?tl = "drop (nat pos) xs"
    have n: "0 < n" "n \<le> int (length xs) - pos" "take (nat n) ?tl = take (nat out) ?tl"
      "drop (nat n) ?tl = drop (nat out) ?tl"
      using assms(1) True by (auto simp: n_def min_def nat_diff_distrib)
    have "pieces (nat out) ?tl = take (nat out) ?tl # pieces (nat out) (drop (nat out) ?tl)"
      using assms(1) True Suc.prems by (intro pieces_Cons) auto
    moreover have "drop (nat (pos + n)) xs = drop (nat n) ?tl"
      using n Suc.prems by (simp add: nat_add_distrib add.commute)
    moreover have "send_chunks h k hdr out xs (pos + n) w' = for_each (writev h)
      (map (\<lambda>q. [chunk_header_c3 (perfer_cid hdr) (ucast (timestamp hdr)) 16, q])
        (pieces (nat out) (drop (nat (pos + n)) xs))) w'" for w'
      using Suc.IH [of "pos + n"] Suc.prems n calculation by simp
    ultimately show ?thesis
      using True n Suc.prems by (simp add: n_def [symmetric] Let_def seq_def bind_def split: outcome.splits)
  qed
qed

lemma send_all:
  assumes "0 < out" "length (pieces (nat out) xs) < k"
  shows "send_chunks h k hdr out xs 0 w = for_each (writev h) (chunk_iovs hdr (nat out) xs) w"
proof (cases "xs = []")
  case True
  with assms(2) show ?thesis by (cases k) (simp_all add: chunk_iovs_def ret_run)
next
  case False
  from assms(2) obtain j where k: "k = Suc j" by (cases k) auto
  define n where "n = min (int (length xs)) out"
  have n: "0 < n" "n \<le> int (length xs)" "take (nat n) xs = take (nat out) xs" "drop (nat n) xs = drop (nat out) xs"
    using assms(1) False by (auto simp: n_def min_def)
  have p: "pieces (nat out) xs = take (nat out) xs # pieces (nat out) (drop (nat out) xs)"
    using assms(1) False by (intro pieces_Cons) auto
  have "send_chunks h j hdr out xs n w' = for_each (writev h)
      (map (\<lambda>q. [chunk_header_c3 (perfer_cid hdr) (ucast (timestamp hdr)) 16, q])
        (pieces (nat out) (drop (nat out) xs))) w'" for w'
    using send_rest [OF assms(1) n(1,2), of j] n(4) p assms(2) k by simp
  with n p k False show ?thesis
    by (simp add: chunk_iovs_def n_def [symmetric] Let_def seq_def bind_def split: outcome.splits)
qed

lemma send_stuck: "xs \<noteq> [] \<Longrightarrow> \<forall>iov w. fst (host_writev h iov w) = 0 \<Longrightarrow>
  send_chunks h k hdr 0 xs 0 w = Crash No_Fuel"
proof (induction k arbitrary: w)
  case 0
  show ?case by (simp add: crash_run)
next
  case (Suc k)
  then show ?case by (simp add: Let_def seq_def bind_def writev_def prod_eq_iff split: prod.splits)
qed

section \<open>Headers\<close>

lemma chunk_header_c0_short:
  assumes "time < 0xFFFFFF"
  shows "chunk_header_c0 prefer time len type stream 16 = [and (of_int prefer) 0x3F]
    @ (be_bytes 3 time @ be_bytes 3 (of_int len :: 32 word) @ [type] @ le_bytes 4 stream)"
  using assms by (auto simp: chunk_header_c0_def)

lemma chunk_header_c3_short:
  assumes "time < 0xFFFFFF"
  shows "chunk_header_c3 prefer time 16 = [or 0xC0 (and (of_int prefer) 0x3F)]"
  using assms by (auto simp: chunk_header_c3_def)

lemma length_chunk_header_c0: "length (chunk_header_c0 prefer time len type stream 16)
    = (if 0xFFFFFF \<le> time then 16 else 12)"
  by (auto simp: chunk_header_c0_def le_bytes_def)

lemma length_chunk_header_c3: "length (chunk_header_c3 prefer time 16) = (if 0xFFFFFF \<le> time then 5 else 1)"
  by (auto simp: chunk_header_c3_def)

lemma cid_bytes_all:
  "list_all (\<lambda>i. uint (and (and (of_int i) 0x3F) 0x3F :: byte) = i
     \<and> drop_bit 6 (and (of_int i) 0x3F :: byte) = 0
     \<and> and (or 0xC0 (and (of_int i) 0x3F)) 0x3F = (and (of_int i) 0x3F :: byte)
     \<and> uint (drop_bit 6 (or 0xC0 (and (of_int i) 0x3F) :: byte)) = 3) [0..63]"
  by code_simp

lemma cid_bytes:
  assumes "0 \<le> i" "i < 64"
  shows "uint (and (of_int i) 0x3F :: byte) = i" "drop_bit 6 (and (of_int i) 0x3F :: byte) = 0"
    "and (or 0xC0 (and (of_int i) 0x3F)) 0x3F = (and (of_int i) 0x3F :: byte)"
    "uint (drop_bit 6 (or 0xC0 (and (of_int i) 0x3F) :: byte)) = 3"
proof -
  have "i \<in> set [0..63]" using assms by simp
  with cid_bytes_all show "uint (and (of_int i) 0x3F :: byte) = i" "drop_bit 6 (and (of_int i) 0x3F :: byte) = 0"
    "and (or 0xC0 (and (of_int i) 0x3F)) 0x3F = (and (of_int i) 0x3F :: byte)"
    "uint (drop_bit 6 (or 0xC0 (and (of_int i) 0x3F) :: byte)) = 3"
    unfolding list_all_iff by (auto simp: and.assoc)
qed

section \<open>A host that delivers\<close>

text \<open>
  What the receiving code is written for: a read returns 0 and stores all the bytes asked for, the
  next ones of \<open>rest\<close>.
\<close>

definition delivers_all :: "'io host \<Rightarrow> ('io \<Rightarrow> bytes) \<Rightarrow> bool" where
  "delivers_all h rest \<longleftrightarrow> (\<forall>n w. 0 \<le> n \<and> nat n \<le> length (rest w) \<longrightarrow>
     (\<exists>w'. host_read h n w = Done (0, take (nat n) (rest w)) w' \<and> rest w' = drop (nat n) (rest w)))"

definition roomy :: "'io host \<Rightarrow> bool" where
  "roomy h \<longleftrightarrow> (\<forall>n. nat n \<le> length (host_new h n))"

lemma read_exact_delivers:
  assumes "delivers_all h rest" "rest w = xs @ later" "n = int (length xs)"
  obtains w' where "read_exact h n w = Done xs w'" "rest w' = later"
proof -
  from assms obtain w' where "host_read h n w = Done (0, xs) w'" "rest w' = later"
    unfolding delivers_all_def by (metis append_eq_conv_conj le_add1 length_append nat_int of_nat_0_le_iff)
  then show thesis by (intro that [of w']) (simp_all add: read_exact_def act_simps)
qed

lemma basic_header_c0:
  assumes "delivers_all h rest" "2 \<le> i" "i < 64" "rest w = [and (of_int i) 0x3F] @ later"
  obtains w' where "read_basic_header h w = Done (0, i) w'" "rest w' = later"
proof -
  from read_exact_delivers [OF assms(1,4), of 1] obtain w' where
    r: "read_exact h 1 w = Done [and (of_int i) 0x3F] w'" "rest w' = later" by auto
  have i: "uint (and (of_int i) 0x3F :: byte) = i" "drop_bit 6 (and (of_int i) 0x3F :: byte) = 0"
    "(1 :: byte) < and (of_int i) 0x3F"
    using cid_bytes [of i] assms(2,3) by (auto simp: word_less_def)
  with r show thesis
    by (intro that [of w']) (simp_all add: read_basic_header_def act_simps fill_def Let_def and.assoc)
qed

lemma basic_header_c3:
  assumes "delivers_all h rest" "2 \<le> i" "i < 64" "rest w = [or 0xC0 (and (of_int i) 0x3F)] @ later"
  obtains w' where "read_basic_header h w = Done (3, i) w'" "rest w' = later"
proof -
  from read_exact_delivers [OF assms(1,4), of 1] obtain w' where
    r: "read_exact h 1 w = Done [or 0xC0 (and (of_int i) 0x3F)] w'" "rest w' = later" by auto
  have "uint (and (of_int i) 0x3F :: byte) = i" "(1 :: byte) < and (of_int i) 0x3F"
    using cid_bytes [of i] assms(2,3) by (auto simp: word_less_def)
  with r cid_bytes(3,4) [of i] assms(2,3) show thesis
    by (intro that [of w']) (simp_all add: read_basic_header_def act_simps fill_def Let_def)
qed

section \<open>Headers read\<close>

lemma sint_small: "(t :: 32 word) < 0x80000000 \<Longrightarrow> sint t = uint t"
  by (simp add: sint_uint word_less_def signed_take_bit_int_eq_self_iff) (smt (verit) unsigned_greater_eq)

lemma be_word_3: "(t :: 32 word) < 0xFFFFFF \<Longrightarrow> be_word (be_bytes 3 t) = t"
proof -
  assume "t < 0xFFFFFF"
  then have "uint t < 2 ^ 24" by (simp add: word_less_def)
  then show ?thesis by (simp add: be_word_be_bytes_take word_uint_eq_iff take_bit_int_eq_self unsigned_take_bit_eq)
qed

lemma be_word_len:
  assumes "0 \<le> len" "len < 2 ^ 24"
  shows "uint (be_word (be_bytes 3 (of_int len :: 32 word)) :: 32 word) = len"
  using assms by (simp add: be_word_be_bytes_take unsigned_take_bit_eq take_bit_int_eq_self unsigned_of_int)

lemma mask_ucast: "and (ucast (t :: 32 word)) 0xFFFFFFFF = (ucast t :: 64 word)"
proof -
  have "(0xFFFFFFFF :: 64 word) = mask 32" by (simp add: mask_eq_exp_minus_1)
  moreover have "and (ucast t) (mask 32) = (ucast t :: 64 word)"
    by (rule bit_eqI) (auto simp: bit_simps dest: bit_imp_le_length)
  ultimately show ?thesis by simp
qed

lemma stamp_mask: "and (scast t) 0xFFFFFFFF = (ucast t :: 64 word)" if "(t :: 32 word) < 0xFFFFFF"
proof -
  have "sint t = uint t" using that by (intro sint_small) (auto simp: word_less_def)
  then have "(scast t :: 64 word) = ucast t" by (simp add: word_of_int_eq_iff signed_def unsigned_def)
  then show ?thesis by (simp add: mask_ucast)
qed

definition new_header :: "32 word \<Rightarrow> int \<Rightarrow> byte \<Rightarrow> 32 word \<Rightarrow> MessageHeader \<Rightarrow> MessageHeader" where
  "new_header t len type sid h = h\<lparr>timestamp_delta := 0, payload_length := len, message_type := type,
     hdr_stream_id := sid, timestamp := ucast t\<rparr>"

lemma length_le_bytes [simp]: "length (le_bytes n v) = n" "rev (le_bytes n v) = be_bytes n v"
  by (simp_all add: le_bytes_def)

lemma header_c0:
  assumes "delivers_all h rest" "cs_msg c = None" "t < 0xFFFFFF" "0 \<le> len" "len < 2 ^ 24"
    "rest w = (be_bytes 3 t @ be_bytes 3 (of_int len :: 32 word) @ [type] @ le_bytes 4 sid) @ later"
  obtains w' where "read_message_header h fx 0 (c, w) = Done () (c\<lparr>extended_timestamp := False, extend_time := 0,
      cs_header := new_header t len type sid (cs_header c),
      cs_msg := Some (RtmpMessage_new\<lparr>header := new_header t len type sid (cs_header c)\<rparr>),
      msg_count := msg_count c + 1\<rparr>, w')" "rest w' = later"
proof -
  let ?d = "be_bytes 3 t @ be_bytes 3 (of_int len :: 32 word) @ [type] @ le_bytes 4 sid"
  from read_exact_delivers [OF assms(1,6), of 11] obtain w' where
    r: "read_exact h 11 w = Done ?d w'" "rest w' = later" by (auto simp: le_bytes_def)
  have ext: "\<not> 0xFFFFFF \<le> sint t" using assms(3) sint_small [of t] by (auto simp: word_less_def)
  have d: "take 3 (?d @ xs) = be_bytes 3 t" "take 3 (drop 3 (?d @ xs)) = be_bytes 3 (of_int len :: 32 word)"
    "(be_bytes 3 t @ be_bytes 3 (of_int len :: 32 word) @ type # xs) ! 6 = type" "rev (take 4 (le_bytes 4 sid)) = be_bytes 4 sid" for xs
    by (simp_all add: nth_append)
  show thesis
    using assms(2,4,5) r ext be_word_3 [OF assms(3)] be_word_len [OF assms(4,5)] stamp_mask [OF assms(3)]
    by (intro that [of w'])
      (simp_all add: read_message_header_def read_message_def read_extended_def finish_header_def update_timestamp_def get_chunk_def put_chunk_def on_io_def act_simps mh_size_def
        Let_def fill_def d parse_timestamp_def parse_message_def set_header_def new_header_def
        be_word_be_bytes RtmpMessage_new_def del: be_bytes.simps)
qed

lemma header_c3:
  assumes "cs_msg c = Some m" "\<not> extended_timestamp c" "0 \<le> payload_length (cs_header c)" "msg_count c \<noteq> 0"
    "and (timestamp (cs_header c)) 0xFFFFFFFF = timestamp (cs_header c)"
  shows "read_message_header h fx 3 (c, w)
    = Done () (c\<lparr>cs_msg := Some (m\<lparr>header := cs_header c\<rparr>), msg_count := msg_count c + 1\<rparr>, w)"
proof -
  have [simp]: "set_header (\<lambda>h. h\<lparr>timestamp := timestamp (cs_header c)\<rparr>) c = c"
    by (simp add: set_header_def)
  show ?thesis using assms
    by (simp add: read_message_header_def read_message_def read_extended_def finish_header_def update_timestamp_def get_chunk_def put_chunk_def on_io_def act_simps mh_size_def
        Let_def set_header_def)
qed

section \<open>Chunks read\<close>

text \<open>A message of \<open>len\<close> bytes of which \<open>got\<close> have come in.\<close>

fun block_holds :: "nat \<Rightarrow> bytes \<Rightarrow> block option \<Rightarrow> bool" where
  "block_holds len got None \<longleftrightarrow> got = []"
| "block_holds len got (Some (Owned mem)) \<longleftrightarrow> length mem = len \<and> take (length got) mem = got"
| "block_holds len got (Some (Passed_In mem)) \<longleftrightarrow> False"

definition holds :: "int \<Rightarrow> bytes \<Rightarrow> RtmpMessage \<Rightarrow> bool" where
  "holds len got m \<longleftrightarrow> msg_size m = int (length got) \<and> int (length got) \<le> len \<and> block_holds (nat len) got (payload m)"

lemma overwrite_extends:
  assumes "take (length got) mem = got" "length got + length xs \<le> length mem"
  shows "length (overwrite (int (length got)) xs mem) = length mem"
    "take (length got + length xs) (overwrite (int (length got)) xs mem) = got @ xs"
  using assms by (simp_all add: overwrite_def fill_def min_def)

definition with_block :: "'io host \<Rightarrow> int \<Rightarrow> RtmpMessage \<Rightarrow> RtmpMessage" where
  "with_block h len m = (if payload m = None then create_payload (host_new h len) len m else m)"

definition add_bytes :: "int \<Rightarrow> bytes \<Rightarrow> RtmpMessage \<Rightarrow> RtmpMessage" where
  "add_bytes n xs m = m\<lparr>payload := map_option (block_put (msg_size m) xs) (payload m), msg_size := msg_size m + n\<rparr>"

lemma read_message_payload_run:
  assumes "cs_msg c = Some m" "0 < payload_length (cs_header c)"
    "n = min (payload_length (cs_header c) - msg_size m) out" "m1 = with_block h (payload_length (cs_header c)) m"
    "msg_size m1 + n \<le> int (length (memory (the (payload m1))))"
  shows "read_message_payload h out (c, w) = (case read_exact h n w of
      Done xs w' \<Rightarrow>
        if payload_length (cs_header c) = msg_size m1 + n
        then Done (Some (add_bytes n xs m1)) (c\<lparr>cs_msg := None\<rparr>, w')
        else Done None (c\<lparr>cs_msg := Some (add_bytes n xs m1)\<rparr>, w')
    | Fail e w' \<Rightarrow> Fail e (c\<lparr>cs_msg := Some m1\<rparr>, w') | Crash q \<Rightarrow> Crash q)"
proof -
  have pos: "\<not> payload_length (cs_header c) \<le> 0"
    and room: "\<not> int (length (memory (the (payload m1)))) < msg_size m1 + n"
    using assms(2,5) by simp_all
  have "read_message_payload h out (c, w) = seq (put_chunk (c\<lparr>cs_msg := Some m1\<rparr>))
      (if int (length (memory (the (payload m1)))) < msg_size m1 + n then crash Out_Of_Bounds
       else bind (on_io (read_exact h n)) (\<lambda>dst.
         if payload_length (cs_header c) = msg_size (add_bytes n dst m1)
         then seq (put_chunk (c\<lparr>cs_msg := None\<rparr>)) (ret (Some (add_bytes n dst m1)))
         else seq (put_chunk (c\<lparr>cs_msg := Some (add_bytes n dst m1)\<rparr>)) (ret None))) (c, w)"
    using assms(1) pos
    unfolding read_message_payload_def get_chunk_def assms(3,4) with_block_def [symmetric] add_bytes_def
    by (simp add: bind_def Let_def)
  also have "\<dots> = (case read_exact h n w of
      Done xs w' \<Rightarrow>
        if payload_length (cs_header c) = msg_size m1 + n
        then Done (Some (add_bytes n xs m1)) (c\<lparr>cs_msg := None\<rparr>, w')
        else Done None (c\<lparr>cs_msg := Some (add_bytes n xs m1)\<rparr>, w')
    | Fail e w' \<Rightarrow> Fail e (c\<lparr>cs_msg := Some m1\<rparr>, w') | Crash q \<Rightarrow> Crash q)"
    unfolding if_not_P [OF room]
    by (auto simp: seq_def bind_def on_io_def put_chunk_def ret_def add_bytes_def split: outcome.splits)
  finally show ?thesis .
qed

lemma payload_step:
  assumes "delivers_all h rest" "roomy h" "cs_msg c = Some m" "payload_length (cs_header c) = len"
    "holds len got m" "int (length got) < len" "0 < out" "rest w = p @ later"
    "int (length p) = min (len - int (length got)) out"
  obtains m' w' where "holds len (got @ p) m'" "header m' = header m" "rest w' = later" "payload m' \<noteq> None"
    "read_message_payload h out (c, w) =
      (if int (length (got @ p)) = len then Done (Some m') (c\<lparr>cs_msg := None\<rparr>, w')
       else Done None (c\<lparr>cs_msg := Some m'\<rparr>, w'))"
proof -
  from read_exact_delivers [OF assms(1,8,9) [folded assms(9)]] obtain w' where
    r: "read_exact h (min (len - int (length got)) out) w = Done p w'" "rest w' = later" by (metis assms(9))
  define m1 where "m1 = with_block h len m"
  have m1: "msg_size m1 = int (length got)" "header m1 = header m"
    using assms(5) by (simp_all add: m1_def holds_def create_payload_def with_block_def)
  have "\<exists>mem. payload m1 = Some (Owned mem) \<and> length mem = nat len \<and> take (length got) mem = got"
    using assms(2,5) by (cases "payload m"; cases "the (payload m)")
      (auto simp: m1_def holds_def create_payload_def roomy_def with_block_def)
  then obtain mem where mem: "payload m1 = Some (Owned mem)" "length mem = nat len" "take (length got) mem = got" by blast
  have fits: "length got + length p \<le> length mem" using assms(6,7,9) mem(2) by linarith
  define m2 where "m2 = add_bytes (int (length p)) p m1"
  have "holds len (got @ p) m2" "header m2 = header m" "payload m2 \<noteq> None"
    using overwrite_extends [OF mem(3) fits] mem(1,2) fits m1 assms(6)
    by (auto simp: holds_def m2_def add_bytes_def)
  moreover have "read_message_payload h out (c, w) =
      (if int (length (got @ p)) = len then Done (Some m2) (c\<lparr>cs_msg := None\<rparr>, w')
       else Done None (c\<lparr>cs_msg := Some m2\<rparr>, w'))"
  proof -
    have n: "int (length p) = min (payload_length (cs_header c) - msg_size m) out"
      using assms(4,5,9) by (simp add: holds_def)
    have room: "msg_size m1 + int (length p) \<le> int (length (memory (the (payload m1))))"
      using mem(1) fits m1(1) by simp
    show ?thesis
      using read_message_payload_run [OF assms(3) _ n m1_def [folded assms(4)] room, of w] r(1) assms(4,6,9) m1(1)
      by (auto simp: m2_def)
  qed
  ultimately show thesis using r(2) by (intro that)
qed

lemma chunk_of_store [simp]:
  "0 \<le> i \<Longrightarrow> length (cs_cache s) = 16 \<Longrightarrow> chunk_of i (store_chunk i c s) = c"
  by (auto simp: chunk_of_def store_chunk_def)

lemma chunk_of_world [simp]: "chunk_of i (s\<lparr>world := w\<rparr>) = chunk_of i s"
  by (simp add: chunk_of_def)

lemma store_chunk_sel [simp]:
  "length (cs_cache (store_chunk i c s)) = length (cs_cache s)"
  "in_chunk_size (store_chunk i c s) = in_chunk_size s" "world (store_chunk i c s) = world s"
  "fix_rtmp_timestamp (store_chunk i c s) = fix_rtmp_timestamp s"
  by (simp_all add: store_chunk_def)

lemma recv_interlaced_run:
  assumes "read_basic_header h (world s) = Done (f, i) w1" "0 \<le> i"
    "read_message_header h (fix_rtmp_timestamp s) f (chunk_of i s, w1) = Done () (c2, w2)"
    "read_message_payload h (in_chunk_size s) (c2, w2) = Done v (c3, w3)"
  shows "recv_interlaced_message h None s = Done v ((store_chunk i c3 (s\<lparr>world := w1\<rparr>))\<lparr>world := w3\<rparr>)"
  using assms
  by (simp add: recv_interlaced_message_def on_world_def on_chunk_def act_simps)

text \<open>Chunk stream \<open>i\<close> has \<open>got\<close> of the \<open>len\<close> bytes of a message with header \<open>hdr\<close>.\<close>

definition receiving :: "'io RtmpProtocolHandler \<Rightarrow> int \<Rightarrow> MessageHeader \<Rightarrow> bytes \<Rightarrow> bool" where
  "receiving s i hdr got \<longleftrightarrow> (\<exists>m. cs_msg (chunk_of i s) = Some m \<and> payload m \<noteq> None
     \<and> holds (payload_length hdr) got m) \<and> cs_header (chunk_of i s) = hdr
     \<and> \<not> extended_timestamp (chunk_of i s) \<and> 0 < msg_count (chunk_of i s)"

definition received :: "RtmpMessage \<Rightarrow> MessageHeader \<Rightarrow> bytes \<Rightarrow> bool" where
  "received m hdr xs \<longleftrightarrow> header m = hdr \<and> payload m = Some (Owned xs) \<and> msg_size m = int (length xs)"

lemma holds_all: "holds len got m \<Longrightarrow> int (length got) = len \<Longrightarrow> payload m \<noteq> None \<Longrightarrow>
    payload m = Some (Owned got) \<and> msg_size m = int (length got)"
  by (cases "payload m"; cases "the (payload m)") (auto simp: holds_def)

lemma recv_c3:
  assumes "delivers_all h rest" "roomy h" "2 \<le> i" "i < 64" "length (cs_cache s) = 16"
    "receiving s i hdr got" "0 < in_chunk_size s" "int (length got) < payload_length hdr"
    "and (timestamp hdr) 0xFFFFFFFF = timestamp hdr"
    "int (length p) = min (payload_length hdr - int (length got)) (in_chunk_size s)"
    "rest (world s) = [or 0xC0 (and (of_int i) 0x3F)] @ p @ later"
  obtains v s' where "recv_interlaced_message h None s = Done v s'" "rest (world s') = later"
    "length (cs_cache s') = 16" "in_chunk_size s' = in_chunk_size s"
    "if int (length (got @ p)) = payload_length hdr
     then cs_msg (chunk_of i s') = None \<and> (\<exists>m. v = Some m \<and> received m hdr (got @ p))
     else v = None \<and> receiving s' i hdr (got @ p)"
proof -
  let ?c = "chunk_of i s"
  from basic_header_c3 [OF assms(1,3,4,11)] obtain w1 where
    b: "read_basic_header h (world s) = Done (3, i) w1" "rest w1 = p @ later" by blast
  from assms(6) obtain m where m: "cs_msg ?c = Some m" "holds (payload_length hdr) got m" "cs_header ?c = hdr"
    "\<not> extended_timestamp ?c" "0 < msg_count ?c" by (auto simp: receiving_def)
  define c2 where "c2 = ?c\<lparr>cs_msg := Some (m\<lparr>header := hdr\<rparr>), msg_count := msg_count ?c + 1\<rparr>"
  have rh: "read_message_header h (fix_rtmp_timestamp s) 3 (?c, w1) = Done () (c2, w1)"
    using header_c3 [OF m(1,4)] m(3,5) assms(8,9) by (simp add: c2_def)
  have c2: "cs_msg c2 = Some (m\<lparr>header := hdr\<rparr>)" "payload_length (cs_header c2) = payload_length hdr"
    "cs_header c2 = hdr" "holds (payload_length hdr) got (m\<lparr>header := hdr\<rparr>)"
    using m by (simp_all add: c2_def holds_def)
  obtain m' w' where p: "holds (payload_length hdr) (got @ p) m'" "header m' = hdr" "rest w' = later" "payload m' \<noteq> None"
    "read_message_payload h (in_chunk_size s) (c2, w1) =
      (if int (length (got @ p)) = payload_length hdr then Done (Some m') (c2\<lparr>cs_msg := None\<rparr>, w')
       else Done None (c2\<lparr>cs_msg := Some m'\<rparr>, w'))"
    using payload_step [OF assms(1,2) c2(1,2,4) assms(8,7) b(2) assms(10)] by auto
  show thesis
  proof (cases "int (length (got @ p)) = payload_length hdr")
    case True
    with p(5) have rp: "read_message_payload h (in_chunk_size s) (c2, w1) = Done (Some m') (c2\<lparr>cs_msg := None\<rparr>, w')" by simp
    show thesis
      by (rule that [OF recv_interlaced_run [OF b(1) _ rh rp]])
        (use assms(3,5) True p holds_all [OF p(1) True p(4)] in \<open>auto simp: received_def\<close>)
  next
    case False
    with p(5) have rp: "read_message_payload h (in_chunk_size s) (c2, w1) = Done None (c2\<lparr>cs_msg := Some m'\<rparr>, w')" by simp
    show thesis
      by (rule that [OF recv_interlaced_run [OF b(1) _ rh rp]])
        (use assms(3,5) False p m c2 in \<open>auto simp: receiving_def c2_def\<close>)
  qed
qed

lemma recv_c0:
  assumes "delivers_all h rest" "roomy h" "2 \<le> i" "i < 64" "length (cs_cache s) = 16"
    "cs_msg (chunk_of i s) = None" "0 < in_chunk_size s" "t < 0xFFFFFF" "0 < len" "len < 2 ^ 24"
    "int (length p) = min len (in_chunk_size s)"
    "rest (world s) = chunk_header_c0 i t len type sid 16 @ p @ later"
    "hdr = new_header t len type sid (cs_header (chunk_of i s))" "0 \<le> msg_count (chunk_of i s)"
  obtains v s' where "recv_interlaced_message h None s = Done v s'" "rest (world s') = later"
    "length (cs_cache s') = 16" "in_chunk_size s' = in_chunk_size s"
    "if int (length p) = len
     then cs_msg (chunk_of i s') = None \<and> (\<exists>m. v = Some m \<and> received m hdr p)
     else v = None \<and> receiving s' i hdr p"
proof -
  let ?c = "chunk_of i s"
  have r: "rest (world s) = [and (of_int i) 0x3F] @ (be_bytes 3 t @ be_bytes 3 (of_int len :: 32 word)
      @ [type] @ le_bytes 4 sid) @ p @ later"
    using assms(12) chunk_header_c0_short [OF assms(8)] by simp
  from basic_header_c0 [OF assms(1,3,4) r] obtain w1 where
    b: "read_basic_header h (world s) = Done (0, i) w1" "rest w1 = (be_bytes 3 t @ be_bytes 3 (of_int len :: 32 word)
      @ [type] @ le_bytes 4 sid) @ p @ later" by blast
  define m where "m = RtmpMessage_new\<lparr>header := hdr\<rparr>"
  define c2 where "c2 = ?c\<lparr>extended_timestamp := False, extend_time := 0, cs_header := hdr,
      cs_msg := Some m, msg_count := msg_count ?c + 1\<rparr>"
  from header_c0 [OF assms(1,6,8) _ assms(10) b(2), of "fix_rtmp_timestamp s"] assms(9,13) obtain w2 where
    rh: "read_message_header h (fix_rtmp_timestamp s) 0 (?c, w1) = Done () (c2, w2)" "rest w2 = p @ later"
    by (auto simp: c2_def m_def)
  have len: "payload_length hdr = len" by (simp add: assms(13) new_header_def)
  have c2: "cs_msg c2 = Some m" "payload_length (cs_header c2) = len" "cs_header c2 = hdr" "holds len [] m"
    "header m = hdr"
    using assms(9) len by (simp_all add: c2_def m_def holds_def RtmpMessage_new_def)
  obtain m' w' where p: "holds len p m'" "header m' = hdr" "rest w' = later" "payload m' \<noteq> None"
    "read_message_payload h (in_chunk_size s) (c2, w2) =
      (if int (length p) = len then Done (Some m') (c2\<lparr>cs_msg := None\<rparr>, w')
       else Done None (c2\<lparr>cs_msg := Some m'\<rparr>, w'))"
    using payload_step [OF assms(1,2) c2(1,2,4) _ assms(7) rh(2)] assms(9,11) c2(5) by auto
  show thesis
  proof (cases "int (length p) = len")
    case True
    with p(5) have rp: "read_message_payload h (in_chunk_size s) (c2, w2) = Done (Some m') (c2\<lparr>cs_msg := None\<rparr>, w')" by simp
    show thesis
      by (rule that [OF recv_interlaced_run [OF b(1) _ rh(1) rp]])
        (use assms(3,5) True p holds_all [OF p(1) True p(4)] in \<open>auto simp: received_def\<close>)
  next
    case False
    with p(5) have rp: "read_message_payload h (in_chunk_size s) (c2, w2) = Done None (c2\<lparr>cs_msg := Some m'\<rparr>, w')" by simp
    show thesis
      by (rule that [OF recv_interlaced_run [OF b(1) _ rh(1) rp]])
        (use assms(3,5,14) False p c2 len in \<open>auto simp: receiving_def c2_def\<close>)
  qed
qed

section \<open>Messages reassembled\<close>

lemma recv_packet_step:
  assumes "recv_interlaced_message h None s = Done v s'"
  shows "v = None \<Longrightarrow> recv_packet (Suc j) h k n s = recv_packet j h k n s'"
    "v = Some m \<Longrightarrow> 0 < msg_size m \<Longrightarrow> 0 < payload_length (header m) \<Longrightarrow>
      recv_packet (Suc j) h k n s = on_recv_message h k n m s'"
  using assms by (simp_all add: act_simps)

lemma recv_rest:
  assumes "delivers_all h rest" "roomy h" "2 \<le> i" "i < 64" "0 < out"
    "and (timestamp hdr) 0xFFFFFFFF = timestamp hdr" "payload_length hdr = int (length xs)"
  shows "length (cs_cache s) = 16 \<Longrightarrow> in_chunk_size s = out \<Longrightarrow> receiving s i hdr got \<Longrightarrow>
    got @ ys = xs \<Longrightarrow> ys \<noteq> [] \<Longrightarrow> length (pieces (nat out) ys) \<le> j \<Longrightarrow>
    rest (world s) = concat (map (\<lambda>q. [or 0xC0 (and (of_int i) 0x3F)] @ q) (pieces (nat out) ys)) @ later \<Longrightarrow>
    \<exists>s' m. recv_packet j h k n s = on_recv_message h k n m s' \<and> received m hdr xs
      \<and> rest (world s') = later \<and> cs_msg (chunk_of i s') = None"
proof (induction j arbitrary: s got ys)
  case 0
  with assms(5) show ?case by (simp add: pieces_eq_Nil)
next
  case (Suc j)
  define p where "p = take (nat out) ys"
  have ps: "pieces (nat out) ys = p # pieces (nat out) (drop (nat out) ys)"
    using assms(5) Suc.prems(5) by (simp add: pieces_Cons p_def)
  have p: "int (length p) = min (payload_length hdr - int (length got)) (in_chunk_size s)" "p \<noteq> []"
    using assms(5,7) Suc.prems(2,4,5) by (auto simp: p_def min_def)
  have lt: "int (length got) < payload_length hdr" using Suc.prems(4,5) assms(7) by auto
  have "rest (world s) = [or 0xC0 (and (of_int i) 0x3F)] @ p
      @ (concat (map (\<lambda>q. [or 0xC0 (and (of_int i) 0x3F)] @ q) (pieces (nat out) (drop (nat out) ys))) @ later)"
    using Suc.prems(7) ps by simp
  from recv_c3 [OF assms(1-4) Suc.prems(1,3) _ lt assms(6) p(1) this] assms(5) Suc.prems(2)
  obtain v s' where v: "recv_interlaced_message h None s = Done v s'"
    "rest (world s') = concat (map (\<lambda>q. [or 0xC0 (and (of_int i) 0x3F)] @ q) (pieces (nat out) (drop (nat out) ys))) @ later"
    "length (cs_cache s') = 16" "in_chunk_size s' = out"
    "if int (length (got @ p)) = payload_length hdr
     then cs_msg (chunk_of i s') = None \<and> (\<exists>m. v = Some m \<and> received m hdr (got @ p))
     else v = None \<and> receiving s' i hdr (got @ p)" by auto
  show ?case
  proof (cases "int (length (got @ p)) = payload_length hdr")
    case True
    have whole: "drop (nat out) ys = []" "got @ p = xs"
    proof -
      have "length p = length ys" using True Suc.prems(4) assms(7) by auto
      then have "length ys \<le> nat out" by (auto simp: p_def min_def split: if_splits)
      then show "drop (nat out) ys = []" "got @ p = xs" using Suc.prems(4) by (simp_all add: p_def)
    qed
    from v(5) True obtain m where m: "v = Some m" "received m hdr xs" "cs_msg (chunk_of i s') = None"
      using whole by auto
    have "0 < msg_size m" "0 < payload_length (header m)"
      using m(2) lt assms(7) p(2) whole(2) by (auto simp: received_def)
    with recv_packet_step(2) [OF v(1) m(1)] m v(2) whole(1) show ?thesis by (intro exI [of _ s'] exI [of _ m]) simp
  next
    case False
    with v(5) have r: "v = None" "receiving s' i hdr (got @ p)" by simp_all
    have t: "(got @ p) @ drop (nat out) ys = xs" using Suc.prems(4) by (simp add: p_def)
    with False assms(7) have "drop (nat out) ys \<noteq> []" by auto
    moreover have "length (pieces (nat out) (drop (nat out) ys)) \<le> j" using Suc.prems(6) ps by simp
    ultimately show ?thesis
      using Suc.IH [OF v(3,4) r(2) t _ _ v(2)] recv_packet_step(1) [OF v(1) r(1)] by simp
  qed
qed

lemma recv_all:
  assumes "delivers_all h rest" "roomy h" "2 \<le> perfer_cid hdr" "perfer_cid hdr < 64" "0 < in_chunk_size s"
    "length (cs_cache s) = 16" "cs_msg (chunk_of (perfer_cid hdr) s) = None" "0 \<le> msg_count (chunk_of (perfer_cid hdr) s)"
    "(ucast (timestamp hdr) :: 32 word) < 0xFFFFFF" "payload_length hdr = int (length xs)" "xs \<noteq> []"
    "length xs < 2 ^ 24" "length (pieces (nat (in_chunk_size s)) xs) \<le> j"
    "rest (world s) = concat (concat (chunk_iovs hdr (nat (in_chunk_size s)) xs)) @ later"
  shows "\<exists>s' m. recv_packet j h k n s = on_recv_message h k n m s'
    \<and> received m (new_header (ucast (timestamp hdr)) (payload_length hdr) (message_type hdr) (hdr_stream_id hdr)
         (cs_header (chunk_of (perfer_cid hdr) s))) xs
    \<and> rest (world s') = later \<and> cs_msg (chunk_of (perfer_cid hdr) s') = None"
proof -
  define out where "out = in_chunk_size s"
  define i where "i = perfer_cid hdr"
  define t where "t = (ucast (timestamp hdr) :: 32 word)"
  define new where "new = new_header t (payload_length hdr) (message_type hdr) (hdr_stream_id hdr) (cs_header (chunk_of i s))"
  define p where "p = take (nat out) xs"
  have ps: "pieces (nat out) xs = p # pieces (nat out) (drop (nat out) xs)"
    using assms(5,11) by (simp add: pieces_Cons p_def out_def)
  have p: "int (length p) = min (payload_length hdr) (in_chunk_size s)" "p \<noteq> []"
    using assms(5,10,11) by (auto simp: p_def min_def out_def)
  let ?rest = "concat (map (\<lambda>q. [or 0xC0 (and (of_int i) 0x3F)] @ q) (pieces (nat out) (drop (nat out) xs)))"
  have c3: "chunk_header_c3 i t 16 = [or 0xC0 (and (of_int i) 0x3F)]"
    using assms(9) by (intro chunk_header_c3_short) (simp add: t_def)
  have "concat (concat (map (\<lambda>q. [chunk_header_c3 i t 16, q]) qs))
      = concat (map (\<lambda>q. [or 0xC0 (and (of_int i) 0x3F)] @ q) qs)" for qs
    by (induction qs) (simp_all add: c3)
  then have st: "rest (world s) = chunk_header_c0 i t (payload_length hdr) (message_type hdr) (hdr_stream_id hdr) 16
      @ p @ (?rest @ later)"
    using assms(14) ps by (simp add: chunk_iovs_def i_def t_def out_def)
  have len: "0 < payload_length hdr" "payload_length hdr < 2 ^ 24" using assms(10-12) by simp_all
  obtain v s' where v: "recv_interlaced_message h None s = Done v s'" "rest (world s') = ?rest @ later"
    "length (cs_cache s') = 16" "in_chunk_size s' = out"
    "if int (length p) = payload_length hdr
     then cs_msg (chunk_of i s') = None \<and> (\<exists>m. v = Some m \<and> received m new p)
     else v = None \<and> receiving s' i new p"
    using recv_c0 [OF assms(1,2) _ _ assms(6) _ assms(5) _ len p(1) st, of new] assms(3,4,7,8,9)
    unfolding out_def i_def t_def new_def by blast
  have new: "payload_length new = int (length xs)" "and (timestamp new) 0xFFFFFFFF = timestamp new"
    using assms(10) stamp_mask [of t] assms(9) by (simp_all add: new_def new_header_def t_def mask_ucast)
  obtain l where j: "j = Suc l" using assms(13) ps by (cases j) (auto simp: out_def)
  show ?thesis
  proof (cases "int (length p) = payload_length hdr")
    case True
    then have whole: "p = xs" "drop (nat out) xs = []" using assms(10) by (auto simp: p_def)
    with v(5) True obtain m where m: "v = Some m" "received m new xs" "cs_msg (chunk_of i s') = None" by auto
    then have "0 < msg_size m" "0 < payload_length (header m)"
      using assms(11) new(1) by (auto simp: received_def)
    with recv_packet_step(2) [OF v(1) m(1)] m v(2) whole(2) j show ?thesis
      unfolding new_def i_def t_def by (intro exI [of _ s'] exI [of _ m]) simp
  next
    case False
    with v(5) have r: "v = None" "receiving s' i new p" by simp_all
    have "drop (nat out) xs \<noteq> []" using False assms(10) by (auto simp: p_def)
    moreover have "length (pieces (nat out) (drop (nat out) xs)) \<le> l" using assms(13) ps j by (simp add: out_def)
    moreover have "p @ drop (nat out) xs = xs" by (simp add: p_def)
    ultimately have "\<exists>s'' m. recv_packet l h k n s' = on_recv_message h k n m s'' \<and> received m new xs
      \<and> rest (world s'') = later \<and> cs_msg (chunk_of i s'') = None"
      using recv_rest [OF assms(1,2) _ _ _ new(2,1) v(3,4) r(2) _ _ _ v(2)] assms(3,4,5) by (simp add: i_def out_def)
    then show ?thesis
      using recv_packet_step(1) [OF v(1) r(1)] j unfolding new_def i_def t_def by simp
  qed
qed

end
