(* ===== verification/Act_Hoare.thy ===== *)
theory Act_Hoare
  imports Tmss_Base
begin

text \<open>
  A Hoare logic of the calls of the program, for invariants: \<open>triple P m Q E\<close> says that \<open>m\<close>,
  started where \<open>P\<close> holds, does not crash, ends in \<open>Q\<close> when it returns a value and in \<open>E\<close> when it
  returns an error code.
\<close>

definition triple :: "('s \<Rightarrow> bool) \<Rightarrow> ('a, 's) act \<Rightarrow> ('a \<Rightarrow> 's \<Rightarrow> bool) \<Rightarrow> ('s \<Rightarrow> bool) \<Rightarrow> bool" where
  "triple P m Q E \<longleftrightarrow> (\<forall>s. P s \<longrightarrow> (case m s of Done v t \<Rightarrow> Q v t | Fail e t \<Rightarrow> E t | Crash q \<Rightarrow> False))"

lemma triple_weaken:
  assumes "triple P' m Q' E'" "\<And>s. P s \<Longrightarrow> P' s" "\<And>v s. Q' v s \<Longrightarrow> Q v s" "\<And>s. E' s \<Longrightarrow> E s"
  shows "triple P m Q E"
  using assms unfolding triple_def by (fastforce split: outcome.splits)

lemma triple_bind:
  "triple P m R E \<Longrightarrow> (\<And>v. triple (R v) (f v) Q E) \<Longrightarrow> triple P (bind m f) Q E"
  unfolding triple_def bind_def by (fastforce split: outcome.splits)

lemma triple_seq:
  "triple P m (\<lambda>_. R) E \<Longrightarrow> triple R n Q E \<Longrightarrow> triple P (seq m n) Q E"
  unfolding seq_def by (rule triple_bind)

lemma triple_ret: "(\<And>s. P s \<Longrightarrow> Q v s) \<Longrightarrow> triple P (ret v) Q E"
  by (simp add: triple_def ret_def)

lemma triple_fail: "(\<And>s. P s \<Longrightarrow> E s) \<Longrightarrow> triple P (fail e) Q E"
  by (simp add: triple_def fail_def)

lemma triple_check: "(\<And>s. P s \<Longrightarrow> E s) \<Longrightarrow> triple P (check p e) (\<lambda>_ s. p \<and> P s) E"
  by (simp add: triple_def check_def ret_def fail_def)

lemma triple_assertion: "(\<And>s. P s \<Longrightarrow> p) \<Longrightarrow> triple P (assertion p) (\<lambda>_. P) E"
  by (simp add: triple_def assertion_def ret_def)

lemma triple_ignore: "triple P m (\<lambda>_. R) R \<Longrightarrow> triple P (ignore m) (\<lambda>_. R) E"
  unfolding triple_def ignore_def by (fastforce split: outcome.splits)

lemma triple_if:
  "(p \<Longrightarrow> triple P m Q E) \<Longrightarrow> (\<not> p \<Longrightarrow> triple P n Q E) \<Longrightarrow> triple P (if p then m else n) Q E"
  by simp

lemma triple_and_pure: "(p \<Longrightarrow> triple P m Q E) \<Longrightarrow> triple (\<lambda>s. p \<and> P s) m Q E"
  by (auto simp: triple_def)

lemma triple_state: "(\<And>t. P t \<Longrightarrow> triple (\<lambda>s. s = t) m Q E) \<Longrightarrow> triple P m Q E"
  by (auto simp: triple_def)

lemma triple_elim:
  assumes "triple P m Q E" "P s"
  obtains v t where "m s = Done v t" "Q v t" | e t where "m s = Fail e t" "E t"
  using assms unfolding triple_def by (cases "m s") fastforce+

end
