(* ===== verification/Rtmp_Chunk_Safe.thy ===== *)
theory Rtmp_Chunk_Safe
  imports Rtmp_Chunk_Facts Act_Hoare
begin

text \<open>
  The invariant of the receiver, and that receiving a chunk keeps it and stays inside the blocks,
  whatever the peer sends and however the reads below end.
\<close>

section \<open>Invariants of the receiver\<close>

text \<open>What the receiver needs of its host: no crash, and no read of more than was asked for.\<close>

definition host_ok :: "'io host \<Rightarrow> bool" where
  "host_ok h \<longleftrightarrow> (\<forall>n w. case host_read h n w of Done (r, xs) w' \<Rightarrow> int (length xs) \<le> max n 0
       | Fail e w' \<Rightarrow> True | Crash q \<Rightarrow> False)
     \<and> (\<forall>n w. case host_seek_read h n w of Crash q \<Rightarrow> False | _ \<Rightarrow> True) \<and> roomy h"

text \<open>
  A chunk stream: its message length is a value of three bytes; a message in progress that has a
  block has one of exactly that length, and less of it filled.
\<close>

fun msg_ok :: "int \<Rightarrow> int \<Rightarrow> block option \<Rightarrow> bool" where
  "msg_ok len got None \<longleftrightarrow> got = 0"
| "msg_ok len got (Some (Owned mem)) \<longleftrightarrow> int (length mem) = len \<and> 0 \<le> got \<and> got < len"
| "msg_ok len got (Some (Passed_In mem)) \<longleftrightarrow> False"

definition chunk_ok :: "RtmpChunkStream \<Rightarrow> bool" where
  "chunk_ok c \<longleftrightarrow> 0 \<le> payload_length (cs_header c) \<and> payload_length (cs_header c) < 2 ^ 24 \<and> 0 \<le> msg_count c
     \<and> (\<forall>m. cs_msg c = Some m \<longrightarrow> msg_ok (payload_length (cs_header c)) (msg_size m) (payload m))"

definition handler_ok :: "'io RtmpProtocolHandler \<Rightarrow> bool" where
  "handler_ok s \<longleftrightarrow> length (cs_cache s) = 16 \<and> (\<forall>c \<in> set (cs_cache s). chunk_ok c)
     \<and> (\<forall>i c. chunk_streams s i = Some c \<longrightarrow> chunk_ok c) \<and> 0 < in_chunk_size s"

lemma chunk_ok_new [simp]: "chunk_ok (fresh_chunk i)"
  by (simp add: chunk_ok_def fresh_chunk_def set_header_def RtmpChunkStream_new_def MessageHeader_new_def)

lemma chunk_ok_of: "handler_ok s \<Longrightarrow> 0 \<le> i \<Longrightarrow> chunk_ok (chunk_of i s)"
  by (auto simp: handler_ok_def chunk_of_def split: option.splits)

lemma handler_ok_store: "handler_ok s \<Longrightarrow> chunk_ok c \<Longrightarrow> handler_ok (store_chunk i c s)"
  using set_update_subset_insert [of "cs_cache s" "nat i" c]
  by (auto simp: handler_ok_def store_chunk_def)

lemma handler_ok_world [simp]: "handler_ok (s\<lparr>world := w\<rparr>) \<longleftrightarrow> handler_ok s"
  by (simp add: handler_ok_def)

lemma triple_read_exact: "host_ok h \<Longrightarrow> triple (\<lambda>_. True) (read_exact h n) (\<lambda>xs _. int (length xs) \<le> max n 0) (\<lambda>_. True)"
  unfolding triple_def read_exact_def bind_def host_ok_def
  by (auto simp: ret_def fail_def split: outcome.splits) (metis (mono_tags, lifting) case_prod_conv outcome.simps(10))

text \<open>The parts of a chunk stream the invariant is about.\<close>

definition same_msg :: "RtmpChunkStream \<Rightarrow> RtmpChunkStream \<Rightarrow> bool" where
  "same_msg c d \<longleftrightarrow> payload_length (cs_header d) = payload_length (cs_header c) \<and> cs_msg d = cs_msg c
     \<and> msg_count d = msg_count c"

lemma same_msg_ok: "same_msg c d \<Longrightarrow> chunk_ok c \<Longrightarrow> chunk_ok d"
  by (simp add: same_msg_def chunk_ok_def)

lemma parse_timestamp_same: "same_msg c (parse_timestamp fmt data c)"
  by (simp add: parse_timestamp_def same_msg_def set_header_def Let_def)

lemma parse_extended_same: "parse_extended fx fmt is_first time c = (d, back) \<Longrightarrow> same_msg c d"
  by (auto simp: parse_extended_def same_msg_def set_header_def Let_def split: if_splits)

lemma parse_message_ok:
  assumes "parse_message fmt is_first data c = Inr d" "chunk_ok c" "is_first \<Longrightarrow> cs_msg c = Some RtmpMessage_new"
  shows "chunk_ok d \<and> cs_msg d = cs_msg c \<and> msg_count d = msg_count c"
proof -
  let ?len = "uint (be_word (take 3 (drop 3 data)) :: 32 word)"
  have "?len < 2 ^ 24"
  proof -
    have "be_word (take 3 (drop 3 data)) = take_bit 24 (be_word (take 3 (drop 3 data)) :: 32 word)"
      by (rule be_word_short) simp
    then have "?len = take_bit 24 (uint (be_word (take 3 (drop 3 data)) :: 32 word))"
      by (metis unsigned_take_bit_eq)
    then show ?thesis by (metis take_bit_int_less_exp)
  qed
  with assms show ?thesis
    by (auto simp: parse_message_def set_header_def chunk_ok_def RtmpMessage_new_def Let_def split: if_splits)
qed

text \<open>Rules for the steps on a chunk stream: the assertions say which stream it is.\<close>

definition at :: "RtmpChunkStream \<Rightarrow> RtmpChunkStream \<times> 'io \<Rightarrow> bool" where
  "at c s \<longleftrightarrow> fst s = c"

definition chunk_fine :: "RtmpChunkStream \<times> 'io \<Rightarrow> bool" where
  "chunk_fine s \<longleftrightarrow> chunk_ok (fst s)"

lemma triple_get_chunk:
  "(\<And>c. chunk_ok c \<Longrightarrow> triple (at c) (f c) Q E) \<Longrightarrow> triple chunk_fine (bind get_chunk f) Q E"
  by (auto simp: triple_def at_def chunk_fine_def get_chunk_def bind_def)

lemma triple_put_chunk: "triple P (put_chunk c) (\<lambda>_. at c) E"
  by (auto simp: triple_def at_def put_chunk_def)

lemma triple_on_io:
  assumes "triple (\<lambda>_. True) m (\<lambda>v _. R v) (\<lambda>_. True)" "chunk_ok c"
  shows "triple (at c) (on_io m) (\<lambda>v s. R v \<and> at c s) chunk_fine"
  using assms unfolding triple_def on_io_def at_def chunk_fine_def
  by (auto split: outcome.splits prod.splits)

lemma at_fine: "chunk_ok c \<Longrightarrow> at c s \<Longrightarrow> chunk_fine s"
  by (simp add: at_def chunk_fine_def)

lemma triple_seek: "host_ok h \<Longrightarrow> triple (\<lambda>_. True) (host_seek_read h n) (\<lambda>_ _. True) (\<lambda>_. True)"
  by (auto simp: triple_def host_ok_def split: outcome.splits)

lemma at_check:
  "chunk_ok c \<Longrightarrow> (p \<Longrightarrow> triple (at c) m Q chunk_fine) \<Longrightarrow> triple (at c) (seq (check p e) m) Q chunk_fine"
  by (auto simp: triple_def seq_def bind_def check_def ret_def fail_def at_fine)

lemma at_put: "triple (at c) m Q E \<Longrightarrow> triple P (seq (put_chunk c) m) Q E"
  by (rule triple_seq [OF triple_put_chunk])

lemma at_ret: "triple P (f d) Q E \<Longrightarrow> triple P (bind (ret d) f) Q E"
  by (simp add: triple_def bind_def ret_def)

lemma at_fail: "chunk_ok c \<Longrightarrow> triple (at c) (bind (fail e) f) Q chunk_fine"
  by (auto simp: triple_def bind_def fail_def at_fine)

lemma at_io:
  assumes "triple (\<lambda>_. True) m (\<lambda>v _. R v) (\<lambda>_. True)" "chunk_ok c"
    "\<And>v. R v \<Longrightarrow> triple (at c) (f v) Q chunk_fine"
  shows "triple (at c) (bind (on_io m) f) Q chunk_fine"
  by (rule triple_bind [OF triple_on_io [OF assms(1,2)]]) (rule triple_and_pure, rule assms(3))

lemma at_ignore_io:
  assumes "triple (\<lambda>_. True) m (\<lambda>_ _. True) (\<lambda>_. True)" "triple (\<lambda>_. True) n Q E"
  shows "triple (\<lambda>_. True) (seq (ignore (on_io m)) n) Q E"
proof (rule triple_seq [OF _ assms(2)], rule triple_ignore)
  show "triple (\<lambda>_. True) (on_io m) (\<lambda>_ _. True) (\<lambda>_. True)"
    using assms(1) unfolding triple_def on_io_def by (fastforce split: outcome.splits prod.splits)
qed

lemma at_header:
  assumes "triple (\<lambda>_. True) m (\<lambda>v _. R v) (\<lambda>_. True)" "chunk_ok c"
    "\<And>v. triple (at c) (f v) Q chunk_fine"
  shows "triple (at c) (bind (if p then on_io m else ret x) f) Q chunk_fine"
  using at_io [OF assms(1,2)] assms(3) by (auto intro: at_ret)

lemma bind_seq_assoc: "bind (seq m (ret d)) f = seq m (f d)"
  by (rule ext) (simp add: seq_def bind_def ret_def split: outcome.splits)

lemma finish_header_ok:
  "chunk_ok c \<Longrightarrow> cs_msg c \<noteq> None \<Longrightarrow>
    triple P (finish_header c) (\<lambda>_ s. chunk_fine s \<and> cs_msg (fst s) \<noteq> None) chunk_fine"
  by (auto simp: finish_header_def triple_def put_chunk_def seq_def bind_def assertion_def ret_def chunk_fine_def
      chunk_ok_def set_header_def Let_def)

lemma read_extended_ok:
  assumes h: "host_ok h" and c: "chunk_ok c" "cs_msg c \<noteq> None"
  shows "triple (\<lambda>_. True) (bind (read_extended h fx fmt b data c) finish_header)
    (\<lambda>_ s. chunk_fine s \<and> cs_msg (fst s) \<noteq> None) chunk_fine"
proof (cases "extended_timestamp c")
  case False
  with finish_header_ok [OF c] show ?thesis by (auto simp: read_extended_def intro: at_ret)
next
  case True
  obtain d bk where d: "parse_extended fx fmt b (be_word (take 4 (drop (nat (mh_size fmt)) data))) c = (d, bk)"
    by fastforce
  then have "chunk_ok d" "cs_msg d \<noteq> None"
    using parse_extended_same [OF d] c same_msg_ok by (auto simp: same_msg_def)
  with True d show ?thesis
    by (auto simp: bind_seq_assoc read_extended_def simp del: not_None_eq
        intro!: at_ret at_ignore_io triple_seek [OF h] finish_header_ok)
qed

lemma read_message_ok:
  assumes h: "host_ok h" and c: "chunk_ok c" "cs_msg c \<noteq> None" "b \<Longrightarrow> cs_msg c = Some RtmpMessage_new"
  shows "triple (at c) (bind (read_message fmt b data c) (\<lambda>c. bind (read_extended h fx fmt b data c) finish_header))
    (\<lambda>_ s. chunk_fine s \<and> cs_msg (fst s) \<noteq> None) chunk_fine"
proof (cases "fmt \<le> 1")
  case False
  with triple_weaken [OF read_extended_ok [OF h c(1,2)]] show ?thesis by (auto simp: read_message_def intro!: at_ret)
next
  case True
  show ?thesis
  proof (cases "parse_message fmt b data c")
    case (Inl e)
    with True c show ?thesis by (auto simp: read_message_def intro: at_fail)
  next
    case (Inr d)
    with parse_message_ok [OF Inr c(1,3)] c(2) have d: "chunk_ok d" "cs_msg d \<noteq> None" by auto
    from triple_weaken [OF read_extended_ok [OF h d]]
    show ?thesis using True Inr by (auto simp: read_message_def intro!: at_ret)
  qed
qed

lemma update_timestamp_same: "same_msg c (update_timestamp fmt b data c)"
  using parse_timestamp_same [of c fmt data] by (auto simp: update_timestamp_def same_msg_def set_header_def)

lemma read_message_header_ok:
  assumes h: "host_ok h"
  shows "triple chunk_fine (read_message_header h fx fmt) (\<lambda>_ s. chunk_fine s \<and> cs_msg (fst s) \<noteq> None) chunk_fine"
  unfolding read_message_header_def Let_def
proof (rule triple_get_chunk, goal_cases)
  case (1 c)
  define c1 where "c1 = (if cs_msg c = None then c\<lparr>cs_msg := Some RtmpMessage_new\<rparr> else c)"
  have c1: "chunk_ok c1" "cs_msg c1 \<noteq> None" "cs_msg c = None \<Longrightarrow> cs_msg c1 = Some RtmpMessage_new"
    using 1 by (auto simp: c1_def chunk_ok_def RtmpMessage_new_def)
  have upd: "chunk_ok (update_timestamp fmt b data c1)" "cs_msg (update_timestamp fmt b data c1) = cs_msg c1" for b data
    using same_msg_ok [OF update_timestamp_same c1(1)] update_timestamp_same [of c1 fmt b data]
    by (simp_all add: same_msg_def)
  show ?case
    unfolding c1_def [symmetric]
    by (intro at_check at_put 1 at_header [OF triple_read_exact [OF h]] read_message_ok [OF h] upd c1)
       (use upd c1 in auto)
qed

text \<open>What a complete message looks like.\<close>

definition whole :: "RtmpMessage \<Rightarrow> bool" where
  "whole m \<longleftrightarrow> 0 < msg_size m \<longrightarrow>
     (\<exists>mem. payload m = Some (Owned mem) \<and> int (length mem) = msg_size m) \<and> msg_size m < 2 ^ 24"

lemma msg_ok_block:
  assumes "msg_ok len got p" "p \<noteq> None"
  obtains mem where "p = Some (Owned mem)" "int (length mem) = len" "0 \<le> got" "got < len"
  using assms by (cases p; cases "the p") auto

lemma length_overwrite:
  "0 \<le> off \<Longrightarrow> nat off + length xs \<le> length mem \<Longrightarrow> length (overwrite off xs mem) = length mem"
  by (simp add: overwrite_def fill_def)

lemma read_message_payload_ok:
  fixes h :: "'io host"
  assumes h: "host_ok h" and out: "0 < out"
  shows "triple (\<lambda>s. chunk_fine s \<and> cs_msg (fst s) \<noteq> None) (read_message_payload h out)
    (\<lambda>v s. chunk_fine s \<and> (\<forall>m. v = Some m \<longrightarrow> whole m)) chunk_fine"
proof (rule triple_state, clarify)
  fix c m and w :: 'io assume fine: "chunk_fine (c, w)" and m: "cs_msg (fst (c, w)) = Some m"
  then have c: "chunk_ok c" "cs_msg c = Some m" by (simp_all add: chunk_fine_def)
  show "triple (\<lambda>s. s = (c, w)) (read_message_payload h out) (\<lambda>v s. chunk_fine s \<and> (\<forall>m. v = Some m \<longrightarrow> whole m)) chunk_fine"
  proof (cases "0 < payload_length (cs_header c)")
    case False
    with c have "msg_size m \<le> 0" by (cases "payload m"; cases "the (payload m)") (auto simp: chunk_ok_def)
    with False c show ?thesis
      by (auto simp: triple_def read_message_payload_def get_chunk_def put_chunk_def act_simps chunk_fine_def
          chunk_ok_def whole_def Let_def)
  next
    case True
    define len where "len = payload_length (cs_header c)"
    define m1 where "m1 = with_block h len m"
    have "msg_ok len (msg_size m) (payload m)" using c by (simp add: chunk_ok_def len_def)
    moreover have "int (length (take (nat len) (host_new h len))) = len"
    proof -
      have "nat len \<le> length (host_new h len)" using h by (simp add: host_ok_def roomy_def)
      with True show ?thesis by (simp add: len_def min_absorb2)
    qed
    ultimately have "msg_ok len (msg_size m1) (payload m1)" "payload m1 \<noteq> None" "msg_size m1 = msg_size m"
      using True by (auto simp: m1_def with_block_def create_payload_def len_def)
    then obtain mem where mem: "payload m1 = Some (Owned mem)" "int (length mem) = len"
      "0 \<le> msg_size m1" "msg_size m1 < len" "msg_size m1 = msg_size m" by (metis msg_ok_block)
    define n where "n = min (len - msg_size m) out"
    have n: "0 < n" "msg_size m1 + n \<le> len" using mem out by (auto simp: n_def)
    have run: "read_message_payload h out (c, w) = (case read_exact h n w of
      Done xs w' \<Rightarrow>
        if len = msg_size m1 + n
        then Done (Some (add_bytes n xs m1)) (c\<lparr>cs_msg := None\<rparr>, w')
        else Done None (c\<lparr>cs_msg := Some (add_bytes n xs m1)\<rparr>, w')
    | Fail e w' \<Rightarrow> Fail e (c\<lparr>cs_msg := Some m1\<rparr>, w') | Crash q \<Rightarrow> Crash q)"
      unfolding len_def
      by (rule read_message_payload_run [OF c(2) True]) (use mem n in \<open>simp_all add: n_def m1_def len_def\<close>)
    have keep: "chunk_ok (c\<lparr>cs_msg := Some m1\<rparr>)" "chunk_ok (c\<lparr>cs_msg := None\<rparr>)"
      using c(1) mem by (simp_all add: chunk_ok_def len_def)
    have add: "payload (add_bytes n xs m1) = Some (Owned (overwrite (msg_size m1) xs mem))"
      "int (length (overwrite (msg_size m1) xs mem)) = len" "msg_size (add_bytes n xs m1) = msg_size m1 + n"
      if "int (length xs) \<le> max n 0" for xs
      using that mem n length_overwrite [of "msg_size m1" xs mem] by (auto simp: add_bytes_def)
    have fin: "case read_message_payload h out (c, w) of
        Done v s \<Rightarrow> chunk_fine s \<and> (\<forall>m. v = Some m \<longrightarrow> whole m) | Fail e s \<Rightarrow> chunk_fine s | Crash q \<Rightarrow> False"
      unfolding run
    proof (rule triple_elim [OF triple_read_exact [OF h, of n], of w], goal_cases)
      case (2 xs w')
      then show ?case using keep add [of xs] c(1) mem n
        by (auto simp: chunk_fine_def chunk_ok_def whole_def len_def)
    qed (use keep in \<open>simp_all add: chunk_fine_def\<close>)
    then show ?thesis by (simp add: triple_def)
  qed
qed

lemma read_basic_header_ok:
  assumes "host_ok h"
  shows "triple (\<lambda>_. True) (read_basic_header h) (\<lambda>v _. 0 \<le> snd v) (\<lambda>_. True)"
  unfolding read_basic_header_def Let_def
  by (intro triple_bind [OF triple_weaken [OF triple_read_exact [OF assms]]] triple_if triple_ret) auto

lemma triple_on_world:
  assumes "triple (\<lambda>_. True) m (\<lambda>v _. R v) (\<lambda>_. True)"
  shows "triple handler_ok (on_world m) (\<lambda>v s. R v \<and> handler_ok s) handler_ok"
  using assms unfolding triple_def on_world_def by (fastforce split: outcome.splits)

lemma triple_on_chunk:
  fixes m :: "('a, RtmpChunkStream \<times> 'io) act"
  assumes "triple chunk_fine m (\<lambda>v s. chunk_fine s \<and> R v) chunk_fine" "0 \<le> i"
  shows "triple handler_ok (on_chunk i m) (\<lambda>v s. handler_ok s \<and> R v) handler_ok"
  unfolding triple_def
proof (intro allI impI)
  fix s :: "'io RtmpProtocolHandler" assume s: "handler_ok s"
  then have "chunk_fine (chunk_of i s, world s)"
    using assms(2) by (simp add: chunk_fine_def chunk_ok_of)
  from triple_elim [OF assms(1) this] show "case on_chunk i m s of Done v t \<Rightarrow> handler_ok t \<and> R v
      | Fail e t \<Rightarrow> handler_ok t | Crash q \<Rightarrow> False"
    using s by cases (auto simp: on_chunk_def chunk_fine_def handler_ok_store)
qed

lemma recv_interlaced_ok:
  fixes h :: "'io host"
  assumes "host_ok h"
  shows "triple handler_ok (recv_interlaced_message h None) (\<lambda>v s. handler_ok s \<and> (\<forall>m. v = Some m \<longrightarrow> whole m)) handler_ok"
proof -
  have "triple handler_ok (\<lambda>s. on_chunk i (seq (read_message_header h (fix_rtmp_timestamp s) fmt)
       (seq (ret ()) (read_message_payload h (in_chunk_size s)))) s)
      (\<lambda>v s. handler_ok s \<and> (\<forall>m. v = Some m \<longrightarrow> whole m)) handler_ok" if "0 \<le> i" for i fmt
  proof (rule triple_state)
    fix t :: "'io RtmpProtocolHandler" assume t: "handler_ok t"
    then have out: "0 < in_chunk_size t" by (simp add: handler_ok_def)
    have "triple handler_ok (on_chunk i (seq (read_message_header h (fix_rtmp_timestamp t) fmt)
       (seq (ret ()) (read_message_payload h (in_chunk_size t)))))
      (\<lambda>v s. handler_ok s \<and> (\<forall>m. v = Some m \<longrightarrow> whole m)) handler_ok"
    proof (rule triple_on_chunk [OF _ that], rule triple_seq [OF read_message_header_ok [OF assms]])
      show "triple (\<lambda>s. chunk_fine s \<and> cs_msg (fst s) \<noteq> None)
          (seq (ret ()) (read_message_payload h (in_chunk_size t)))
          (\<lambda>v s. chunk_fine s \<and> (\<forall>m. v = Some m \<longrightarrow> whole m)) chunk_fine"
        using read_message_payload_ok [OF assms out] by (simp add: triple_def act_simps)
    qed
    with t show "triple (\<lambda>s. s = t) (\<lambda>s. on_chunk i (seq (read_message_header h (fix_rtmp_timestamp s) fmt)
       (seq (ret ()) (read_message_payload h (in_chunk_size s)))) s)
      (\<lambda>v s. handler_ok s \<and> (\<forall>m. v = Some m \<longrightarrow> whole m)) handler_ok"
      by (auto simp: triple_def)
  qed
  note body = this
  show ?thesis
    unfolding recv_interlaced_message_def
  proof (rule triple_bind [OF triple_on_world [OF read_basic_header_ok [OF assms]]], clarify, rule triple_and_pure)
    fix fmt i :: int assume "0 \<le> snd (fmt, i)"
    then have i: "0 \<le> i" by simp
    show "triple handler_ok (seq (assertion (0 \<le> i)) (\<lambda>s. on_chunk i
        (seq (read_message_header h (fix_rtmp_timestamp s) fmt)
        (seq (case None of Some (recv_buf, recv_size) \<Rightarrow>
                 if 0 < recv_size then use_buffer recv_buf recv_size else ret ()
               | None \<Rightarrow> ret ())
             (read_message_payload h (in_chunk_size s)))) s))
       (\<lambda>v s. handler_ok s \<and> (\<forall>m. v = Some m \<longrightarrow> whole m)) handler_ok"
      using body [OF i] by (intro triple_seq [OF triple_assertion]) (simp_all add: i)
  qed
qed

end
