(* ===== verification/Rtmp_Protocol_Facts.thy ===== *)
theory Rtmp_Protocol_Facts
  imports Rtmp_Chunk_Safe Rtmp_Packet_Facts
begin

text \<open>
  Facts on the protocol handler: what decoding gives on a stream with nothing to read, what the
  answers change, and that the receive loops keep the invariant of the receiver.
\<close>

section \<open>Decoding\<close>

lemma amf0_read_string_empty [act_simps]:
  "wf_buffer b \<Longrightarrow> readable b = 0 \<Longrightarrow> amf0_read_string s b = Fail error_rtmp_amf0_decode b"
  by (simp add: amf0_read_string_def read_marker_def act_simps)

lemma read_command_empty [act_simps]:
  "wf_buffer b \<Longrightarrow> readable b = 0 \<Longrightarrow> read_command acc p b = Fail error_rtmp_amf0_decode b"
  by (simp add: read_command_def act_simps)

lemma packet_decode_empty: "wf_buffer b \<Longrightarrow> readable b = 0 \<Longrightarrow> \<exists>e. packet_decode n p b = Fail e b"
  by (cases p) (simp_all add: wrap_def act_simps packet_decoders RtmpOnStatusCallPacket_decode_def)

lemma decode_as_empty: "wf_buffer b \<Longrightarrow> readable b = 0 \<Longrightarrow> \<exists>e. decode_as n p b = Fail e b"
  using packet_decode_empty [of b n p] by (auto simp: decode_as_def act_simps)

lemma reset_wf: "wf_buffer b \<Longrightarrow> wf_buffer (b\<lparr>rpos := 0, wpos := 0\<rparr>) \<and> readable (b\<lparr>rpos := 0, wpos := 0\<rparr>) = 0"
  by (auto simp: wf_buffer_def readable_def content_def)

lemma restart_decode_eq:
  assumes "wf_buffer b"
  shows "restart_decode hdr b = Done () (b\<lparr>rpos := 0, wpos := 0\<rparr>)"
  using reset_wf [OF assms] by (auto simp: restart_decode_def Ring_Buffer.reset_def act_simps)

lemma do_decode_command_empty:
  assumes "wf_buffer b" "readable b = 0"
  shows "(\<exists>e. do_decode_command n hdr command b = Fail e b) \<or> do_decode_command n hdr command b = Done Base_Packet b
    \<or> do_decode_command n hdr command b = Done No_Packet b"
proof -
  obtain e where e: "\<And>p. decode_as n p b = Fail (e p) b" using decode_as_empty [OF assms, of n] by metis
  show ?thesis by (simp add: do_decode_command_def e or_else_def ret_run)
qed

lemma reader_outcome:
  assumes "reader (readable b) k m" "wf_buffer b"
  obtains v b' where "m b = Done v b'" "wf_buffer b'" | e b' where "m b = Fail e b'" "wf_buffer b'"
proof -
  have "case m b of Done v s \<Rightarrow> \<exists>j. k \<le> j \<and> j \<le> readable b \<and> s = skip j b
      | Fail e s \<Rightarrow> \<exists>j. j \<le> readable b \<and> s = skip j b | Crash q \<Rightarrow> False"
    using assms by (simp add: reader_def)
  with that assms(2) show thesis by (cases "m b") auto
qed

lemma decode_result_fails:
  assumes "wf_buffer b"
  shows "decode_result n hdr reqs b \<noteq> Done d b''"
proof (rule reader_outcome [OF reader_number assms])
  fix v b' assume b': "amf0_read_number b = Done v b'" "wf_buffer b'"
  note z = reset_wf [OF b'(2)]
  obtain e where e: "\<And>p. decode_as n p (b'\<lparr>rpos := 0, wpos := 0\<rparr>) = Fail (e p) (b'\<lparr>rpos := 0, wpos := 0\<rparr>)"
    using decode_as_empty [of "b'\<lparr>rpos := 0, wpos := 0\<rparr>" n] z by metis
  show ?thesis
    using b' restart_decode_eq [OF b'(2)] e
    by (auto simp: decode_result_def act_simps split: option.splits)
next
  fix e b' assume "amf0_read_number b = Fail e b'"
  then show ?thesis by (simp add: decode_result_def act_simps)
qed

lemma do_decode_message_commands:
  assumes "wf_buffer b" "is_amf0_command hdr \<or> is_amf3_command hdr \<or> is_amf0_data hdr \<or> is_amf3_data hdr"
    "do_decode_message n hdr reqs b = Done d b''"
  shows "d = Base_Packet"
proof -
  have "\<exists>b1. wf_buffer b1 \<and> (if is_amf3_command hdr
      then bind (read_require 1) (\<lambda>r. if r then ignore (seek_read 1) else ret ()) else ret ()) b = Done () b1"
    using assms(1) by (cases "1 \<le> readable b") (auto simp: act_simps)
  then obtain b1 where b1: "wf_buffer b1" "(if is_amf3_command hdr
      then bind (read_require 1) (\<lambda>r. if r then ignore (seek_read 1) else ret ()) else ret ()) b = Done () b1" by blast
  have run: "do_decode_message n hdr reqs b = bind (amf0_read_string []) (\<lambda>command.
       if command = RTMP_AMF0_COMMAND_RESULT \<or> command = RTMP_AMF0_COMMAND_ERROR
       then decode_result n hdr reqs
       else seq (restart_decode hdr)
           (bind (do_decode_command n hdr command) (\<lambda>_. ret Base_Packet))) b1"
    using assms(2) b1(2) by (simp add: do_decode_message_def seq_Done)
  show ?thesis
  proof (rule reader_outcome [OF reader_string b1(1), of "[]"])
    fix command b2 assume b2: "amf0_read_string [] b1 = Done command b2" "wf_buffer b2"
    have "do_decode_message n hdr reqs b = (if command = RTMP_AMF0_COMMAND_RESULT \<or> command = RTMP_AMF0_COMMAND_ERROR
       then decode_result n hdr reqs
       else seq (restart_decode hdr)
           (bind (do_decode_command n hdr command) (\<lambda>_. ret Base_Packet))) b2"
      unfolding run by (rule bind_Done [where m = "amf0_read_string []", OF b2(1)])
    with assms(3) decode_result_fails [OF b2(2)] show ?thesis
      by (auto simp: seq_Done_iff bind_Done_iff ret_run split: if_splits)
  next
    fix e b2 assume "amf0_read_string [] b1 = Fail e b2"
    with run assms(3) show ?thesis by (simp add: bind_Fail)
  qed
qed

lemma control_decode:
  assumes "whole m" "0 < msg_size m" "message_type (header m) = RTMP_MSG_SetChunkSize
     \<or> message_type (header m) = RTMP_MSG_UserControlMessage
     \<or> message_type (header m) = RTMP_MSG_WindowAcknowledgementSize"
  shows "do_decode_message n (header m) reqs
      (Buffer_new (case payload m of None \<Rightarrow> [] | Some b \<Rightarrow> memory b) (msg_size m))
    = Fail error_rtmp_message_decode (Buffer_new (case payload m of None \<Rightarrow> [] | Some b \<Rightarrow> memory b) (msg_size m))"
proof -
  define b where "b = Buffer_new (case payload m of None \<Rightarrow> [] | Some b \<Rightarrow> memory b) (msg_size m)"
  have b: "wf_buffer b" "readable b = 0"
    using assms(1,2) by (auto simp: b_def wf_buffer_def Buffer_new_def readable_def content_def whole_def)
  show ?thesis
    using assms(3) b unfolding b_def [symmetric]
    by (auto simp: do_decode_message_def is_amf0_command_def is_amf3_command_def is_amf0_data_def
        is_amf3_data_def is_user_control_message_def is_window_ackledgement_size_def is_set_chunk_size_def
        decode_as_def wrap_def act_simps RtmpUserControlPacket_decode_def RtmpSetWindowAckSizePacket_decode_def
        RtmpSetChunkSizePacket_decode_def)
qed

section \<open>Answers\<close>

text \<open>What the receiving side leaves alone.\<close>

definition same_settings :: "'io RtmpProtocolHandler \<Rightarrow> 'io RtmpProtocolHandler \<Rightarrow> bool" where
  "same_settings s t \<longleftrightarrow> cs_cache t = cs_cache s \<and> chunk_streams t = chunk_streams s
     \<and> in_chunk_size t = in_chunk_size s \<and> out_chunk_size t = out_chunk_size s
     \<and> in_buffer_length t = in_buffer_length s \<and> window (in_ack_size t) = window (in_ack_size s)
     \<and> requests t = requests s \<and> world t = world s"

lemma send_packet_fails: "\<exists>e. send_packet h k (Some p) sid s = Fail e s \<and> e \<noteq> 0"
  using encode_fails [of "host_new h (get_size p)" 0 p] by (auto simp: send_packet_def)

lemma reply_cases:
  "(\<exists>e. reply h k p s = Fail e s \<and> e \<noteq> 0) \<or> reply h k p s = Done () (s\<lparr>manual_response_queue := manual_response_queue s @ [p]\<rparr>)"
  using send_packet_fails [of h k p 0 s] by (auto simp: reply_def)

definition ack_delta :: "'io host \<Rightarrow> 'io RtmpProtocolHandler \<Rightarrow> 32 word" where
  "ack_delta h s = ucast (host_recv_bytes h (world s) - nb_recv_bytes (in_ack_size s))"

definition next_seq :: "32 word \<Rightarrow> 32 word \<Rightarrow> 32 word" where
  "next_seq q d = (if 0xF0000000 < q + d then d else q + d)"

definition acked :: "'io host \<Rightarrow> 'io RtmpProtocolHandler \<Rightarrow> 'io RtmpProtocolHandler" where
  "acked h s = s\<lparr>in_ack_size := (in_ack_size s)\<lparr>nb_recv_bytes := host_recv_bytes h (world s),
     sequence_number := next_seq (sequence_number (in_ack_size s)) (ack_delta h s)\<rparr>\<rparr>"

lemma response_ack_eq: "response_acknowledgement_message h k s =
    (if window (in_ack_size s) = 0 \<or> ack_delta h s < window (in_ack_size s) div 2 then Done () s
     else reply h k (Acknowledgement (next_seq (sequence_number (in_ack_size s)) (ack_delta h s))) (acked h s))"
  by (simp add: response_acknowledgement_message_def Let_def ack_delta_def next_seq_def acked_def)

lemma response_ack_cases:
  "\<exists>s'. same_settings s s' \<and> (response_acknowledgement_message h k s = Done () s'
    \<or> (\<exists>e. response_acknowledgement_message h k s = Fail e s' \<and> e \<noteq> 0))"
proof -
  let ?p = "Acknowledgement (next_seq (sequence_number (in_ack_size s)) (ack_delta h s))" and ?t = "acked h s"
  have same: "same_settings s s" "same_settings s ?t"
    "same_settings s (?t\<lparr>manual_response_queue := manual_response_queue ?t @ [?p]\<rparr>)"
    by (simp_all add: same_settings_def acked_def)
  show ?thesis
  proof (cases "window (in_ack_size s) = 0 \<or> ack_delta h s < window (in_ack_size s) div 2")
    case True
    with same(1) show ?thesis unfolding response_ack_eq by auto
  next
    case False
    then have run: "response_acknowledgement_message h k s = reply h k ?p ?t"
      unfolding response_ack_eq by (rule if_not_P)
    from reply_cases [of h k ?p ?t] same(2,3) show ?thesis unfolding run by blast
  qed
qed

lemma on_recv_message_cases:
  assumes "whole m" "0 < msg_size m"
  shows "\<exists>s'. same_settings s s' \<and>
    ((\<exists>e. on_recv_message h k n m s = Fail e s')
     \<or> on_recv_message h k n m s = Done No_Packet s' \<and> \<not> (message_type (header m) = RTMP_MSG_SetChunkSize
          \<or> message_type (header m) = RTMP_MSG_UserControlMessage
          \<or> message_type (header m) = RTMP_MSG_WindowAcknowledgementSize))"
proof -
  from response_ack_cases [of s h k] obtain s' where s': "same_settings s s'"
    "response_acknowledgement_message h k s = Done () s'
     \<or> (\<exists>e. response_acknowledgement_message h k s = Fail e s' \<and> e \<noteq> 0)" by blast
  show ?thesis
    using s' control_decode [OF assms, of n "requests s'"]
    by (intro exI [of _ s']) (auto simp: on_recv_message_def act_simps Let_def)
qed

lemma handler_ok_same: "same_settings s t \<Longrightarrow> handler_ok s \<Longrightarrow> handler_ok t"
  by (simp add: same_settings_def handler_ok_def)

lemma recv_packet_ok:
  assumes "host_ok h" "handler_ok s"
  shows "case recv_packet j h k n s of Done d s' \<Rightarrow> handler_ok s' \<and> d = No_Packet
    | Fail e s' \<Rightarrow> handler_ok s' | Crash q \<Rightarrow> q = No_Fuel"
  using assms(2)
proof (induction j arbitrary: s)
  case 0
  show ?case by (simp add: crash_run)
next
  case (Suc j)
  from triple_elim [OF recv_interlaced_ok [OF assms(1)] Suc.prems] show ?case
  proof cases
    case (1 v t)
    show ?thesis
    proof (cases "\<exists>m. v = Some m \<and> 0 < msg_size m \<and> 0 < payload_length (header m)")
      case True
      then obtain m where m: "v = Some m" "0 < msg_size m" "0 < payload_length (header m)" by blast
      from on_recv_message_cases [of m t h k n] 1(2) m obtain s' where s': "same_settings t s'"
        "(\<exists>e. on_recv_message h k n m t = Fail e s') \<or> on_recv_message h k n m t = Done No_Packet s'" by blast
      with 1 recv_packet_step(2) [OF 1(1) m(1,2,3)] handler_ok_same [OF s'(1)] show ?thesis by auto
    next
      case False
      then have "recv_packet (Suc j) h k n s = recv_packet j h k n t"
        using 1(1) by (cases v) (auto simp: act_simps not_less)
      with Suc.IH [of t] 1(2) show ?thesis by simp
    qed
  next
    case (2 e t)
    then show ?thesis by (simp add: act_simps)
  qed
qed

lemma expect_packet_none:
  assumes "host_ok h" "handler_ok s"
  shows "case expect_packet j h k n is_T s of Done d s' \<Rightarrow> False | Fail e s' \<Rightarrow> handler_ok s' | Crash q \<Rightarrow> q = No_Fuel"
  using assms(2)
proof (induction j arbitrary: s)
  case 0
  show ?case by (simp add: crash_run)
next
  case (Suc j)
  show ?case
  proof (cases "recv_packet (Suc j) h k n s")
    case (Done d t)
    with recv_packet_ok [OF assms(1) Suc.prems, of "Suc j" k n] have "d = No_Packet" "handler_ok t" by simp_all
    with Done Suc.IH [of t] show ?thesis by (simp add: act_simps del: recv_packet.simps)
  qed (use recv_packet_ok [OF assms(1) Suc.prems, of "Suc j" k n] in
      \<open>simp_all add: act_simps del: recv_packet.simps\<close>)
qed

section \<open>Acknowledgements\<close>

lemma response_ack_run:
  assumes "window (in_ack_size s) \<noteq> 0" "window (in_ack_size s) div 2 \<le> ack_delta h s"
  shows "\<exists>s'. ((\<exists>e. response_acknowledgement_message h k s = Fail e s') \<or> response_acknowledgement_message h k s = Done () s')
    \<and> in_ack_size s' = in_ack_size (acked h s) \<and> world s' = world s"
proof -
  let ?p = "Acknowledgement (next_seq (sequence_number (in_ack_size s)) (ack_delta h s))" and ?t = "acked h s"
  have "\<not> (window (in_ack_size s) = 0 \<or> ack_delta h s < window (in_ack_size s) div 2)"
    using assms by (simp add: not_less)
  then have run: "response_acknowledgement_message h k s = reply h k ?p ?t"
    unfolding response_ack_eq by (rule if_not_P)
  have "world ?t = world s" by (simp add: acked_def)
  with reply_cases [of h k ?p ?t] show ?thesis unfolding run by fastforce
qed

section \<open>The connection below\<close>

text \<open>Over the program's own \<open>IOBuffer\<close>, a read that succeeds is an error code to the handler.\<close>

lemma read_exact_buffered:
  assumes "wf_buffer (io_cache w)" "\<not> io_no_cache w" "0 < n" "n \<le> int (readable (io_cache w))"
  shows "read_exact (buffered_host ops new) n w = Fail n (w\<lparr>io_cache := skip (nat n) (io_cache w)\<rparr>)"
  using read_bytes_enough [OF assms(1,3,4,2)] assms(3)
  by (simp add: read_exact_def buffered_host_def act_simps)

lemma recv_interlaced_buffered:
  assumes "wf_buffer (io_cache (world s))" "\<not> io_no_cache (world s)" "0 < readable (io_cache (world s))"
  shows "recv_interlaced_message (buffered_host ops new) recv s
    = Fail 1 (s\<lparr>world := (world s)\<lparr>io_cache := skip 1 (io_cache (world s))\<rparr>\<rparr>)"
  using read_exact_buffered [OF assms(1,2), of 1] assms(3)
  by (simp add: recv_interlaced_message_def read_basic_header_def on_world_def act_simps)

text \<open>The same for sending: \<open>writev\<close> returns the number of bytes.\<close>

lemma send_chunks_tcp:
  assumes "is_connected w" "\<And>iov k. 0 < fst (st_writev ops iov k)" "xs \<noteq> []" "0 < out"
  shows "\<exists>w'. send_chunks (handler_host ops new) (Suc k) hdr out xs 0 w
      = Fail (fst (st_writev ops [chunk_header_c0 (perfer_cid hdr) (ucast (timestamp hdr)) (payload_length hdr)
           (message_type hdr) (hdr_stream_id hdr) 16, take (nat out) xs] (client_fd w))) w'"
proof -
  let ?iov = "[chunk_header_c0 (perfer_cid hdr) (ucast (timestamp hdr)) (payload_length hdr)
           (message_type hdr) (hdr_stream_id hdr) 16, take (nat out) xs]"
  obtain r fd where r: "st_writev ops ?iov (client_fd w) = (r, fd)" by fastforce
  with assms(2) [of ?iov "client_fd w"] have pos: "0 < r" by simp
  have n: "take (nat (min (int (length xs)) out)) xs = take (nat out) xs" "\<not> min (int (length xs)) out < 0"
    using assms(4) by (simp_all add: min_def)
  have "\<exists>w'. writev (handler_host ops new) ?iov w = Fail r w'"
    using r pos assms(1) by (simp add: writev_def handler_host_def TcpStreamConn_writev_def Let_def)
  with assms(3) n r show ?thesis by (auto simp: Let_def seq_Fail)
qed

section \<open>Extended timestamps\<close>

lemma header_extended:
  assumes "delivers_all h rest" "cs_msg c = None" "0 \<le> len" "len < 2 ^ 24" "host_new h 11 = mem"
    "rest w = ([0xFF, 0xFF, 0xFF] @ be_bytes 3 (of_int len :: 32 word) @ [type] @ le_bytes 4 sid) @ later"
  obtains w' c' where "read_message_header h fx 0 (c, w) = Done () (c', w')" "rest w' = later"
    "timestamp (cs_header c') = ucast (be_word (take 4 (drop 11 mem)) :: 32 word)"
proof -
  let ?d = "[0xFF, 0xFF, 0xFF] @ be_bytes 3 (of_int len :: 32 word) @ [type] @ le_bytes 4 sid"
  from read_exact_delivers [OF assms(1,6), of 11] obtain w' where
    r: "read_exact h 11 w = Done ?d w'" "rest w' = later" by auto
  have ff: "be_word [0xFF, 0xFF, 0xFF] = (0xFFFFFF :: 32 word)" by code_simp
  have d: "(0xFF # 0xFF # 0xFF # be_bytes 3 (of_int len :: 32 word) @ type # xs) ! 6 = type"
    "rev (take 4 (le_bytes 4 sid)) = be_bytes 4 sid" for xs
    by (simp_all add: nth_append)
  have "\<exists>c'. read_message_header h fx 0 (c, w) = Done () (c', w')
      \<and> timestamp (cs_header c') = ucast (be_word (take 4 (drop 11 mem)) :: 32 word)"
    using assms(2-4) r ff be_word_len [OF assms(3,4)]
    by (cases fx) (simp_all add: read_message_header_def read_message_def read_extended_def finish_header_def
        update_timestamp_def get_chunk_def put_chunk_def on_io_def act_simps mh_size_def
        Let_def fill_def d parse_timestamp_def parse_message_def set_header_def parse_extended_def
        RtmpMessage_new_def mask_ucast assms(5) del: be_bytes.simps be_word.simps)
  with r(2) that show thesis by blast
qed

section \<open>The caller's buffer\<close>

lemma use_buffer_run:
  assumes "cs_msg c = Some m"
  shows "payload m = None \<Longrightarrow> payload_length (cs_header c) \<le> n \<Longrightarrow>
      use_buffer b n (c, w) = Done () (c\<lparr>cs_msg := Some (m\<lparr>payload := Some (Passed_In b)\<rparr>)\<rparr>, w)"
    "payload m = Some (Passed_In b') \<Longrightarrow> use_buffer b n (c, w) = Crash Bad_Free"
  using assms by (simp_all add: use_buffer_def get_chunk_def put_chunk_def set_payload_def act_simps)

lemma recv_with_buffer:
  assumes "read_basic_header h (world s) = Done (f, i) w1" "0 \<le> i" "0 < n"
    "read_message_header h (fix_rtmp_timestamp s) f (chunk_of i s, w1) = Done () (c2, w2)"
  shows "use_buffer b n (c2, w2) = Crash q \<Longrightarrow> recv_interlaced_message h (Some (b, n)) s = Crash q"
    "use_buffer b n (c2, w2) = Done () (c3, w3) \<Longrightarrow>
      read_message_payload h (in_chunk_size s) (c3, w3) = Done v (c4, w4) \<Longrightarrow>
      recv_interlaced_message h (Some (b, n)) s = Done v ((store_chunk i c4 (s\<lparr>world := w1\<rparr>))\<lparr>world := w4\<rparr>)"
  using assms
  by (simp_all add: recv_interlaced_message_def on_world_def on_chunk_def act_simps)

text \<open>The second chunk of a message received into the caller's buffer.\<close>

lemma recv_message_second_chunk:
  assumes "delivers_all h rest" "2 \<le> i" "i < 64" "length (cs_cache s) = 16" "cs_msg (chunk_of i s) = None"
    "0 \<le> msg_count (chunk_of i s)" "t < 0xFFFFFF" "0 < in_chunk_size s" "in_chunk_size s < len" "len < 2 ^ 24"
    "len \<le> n" "n \<le> int (length b)" "int (length p) = in_chunk_size s"
    "rest (world s) = chunk_header_c0 i t len type sid 16 @ p @ [or 0xC0 (and (of_int i) 0x3F)] @ later"
  shows "recv_message (Suc (Suc j)) h k l b n s = Crash Bad_Free"
proof -
  let ?c = "chunk_of i s" and ?hdr = "new_header t len type sid (cs_header (chunk_of i s))"
  let ?tail = "p @ [or 0xC0 (and (of_int i) 0x3F)] @ later"
  have r: "rest (world s) = [and (of_int i) 0x3F] @ (be_bytes 3 t @ be_bytes 3 (of_int len :: 32 word)
      @ [type] @ le_bytes 4 sid) @ ?tail"
    using assms(14) chunk_header_c0_short [OF assms(7)] by simp
  from basic_header_c0 [OF assms(1-3) r] obtain w1 where
    b1: "read_basic_header h (world s) = Done (0, i) w1" "rest w1 = (be_bytes 3 t @ be_bytes 3 (of_int len :: 32 word)
      @ [type] @ le_bytes 4 sid) @ ?tail" by blast
  define m where "m = RtmpMessage_new\<lparr>header := ?hdr\<rparr>"
  define c2 where "c2 = ?c\<lparr>extended_timestamp := False, extend_time := 0, cs_header := ?hdr,
      cs_msg := Some m, msg_count := msg_count ?c + 1\<rparr>"
  from header_c0 [OF assms(1,5,7) _ assms(10) b1(2), of "fix_rtmp_timestamp s"] assms(8,9) obtain w2 where
    h1: "read_message_header h (fix_rtmp_timestamp s) 0 (?c, w1) = Done () (c2, w2)" "rest w2 = ?tail"
    by (auto simp: c2_def m_def)
  define m3 where "m3 = m\<lparr>payload := Some (Passed_In b)\<rparr>"
  define c3 where "c3 = c2\<lparr>cs_msg := Some m3\<rparr>"
  have u1: "use_buffer b n (c2, w2) = Done () (c3, w2)"
    unfolding c3_def m3_def using assms(11)
    by (intro use_buffer_run(1)) (simp_all add: c2_def m_def RtmpMessage_new_def new_header_def)
  from read_exact_delivers [OF assms(1) h1(2), of "in_chunk_size s"] assms(13) obtain w3 where
    x: "read_exact h (in_chunk_size s) w2 = Done p w3" "rest w3 = [or 0xC0 (and (of_int i) 0x3F)] @ later" by auto
  define c4 where "c4 = c3\<lparr>cs_msg := Some (add_bytes (in_chunk_size s) p m3)\<rparr>"
  have c3: "cs_msg c3 = Some m3" "payload_length (cs_header c3) = len" "with_block h len m3 = m3"
    "msg_size m3 = 0" "payload m3 = Some (Passed_In b)"
    by (simp_all add: c3_def m3_def c2_def m_def new_header_def with_block_def RtmpMessage_new_def)
  have pl: "read_message_payload h (in_chunk_size s) (c3, w2) = Done None (c4, w3)"
    using read_message_payload_run [OF c3(1), of "in_chunk_size s" "in_chunk_size s" m3 h w2] c3 x(1)
      assms(8,9,11,12) by (simp add: c4_def)
  define s1 where "s1 = (store_chunk i c4 (s\<lparr>world := w1\<rparr>))\<lparr>world := w3\<rparr>"
  have first: "recv_interlaced_message h (Some (b, n)) s = Done None s1"
    unfolding s1_def by (rule recv_with_buffer(2) [OF b1(1) _ _ h1(1) u1 pl]) (use assms(2,8,9,11) in auto)
  have s1: "chunk_of i s1 = c4" "world s1 = w3" using assms(2,4) by (simp_all add: s1_def)
  from basic_header_c3 [OF assms(1-3), of "world s1"] x(2) s1(2) obtain w5 where
    b2: "read_basic_header h (world s1) = Done (3, i) w5" by blast
  have c4: "cs_msg c4 = Some (add_bytes (in_chunk_size s) p m3)" "\<not> extended_timestamp c4" "cs_header c4 = ?hdr"
    "msg_count c4 = msg_count ?c + 1"
    by (simp_all add: c4_def c3_def c2_def)
  obtain c6 m6 where h2: "read_message_header h (fix_rtmp_timestamp s1) 3 (chunk_of i s1, w5) = Done () (c6, w5)"
    "cs_msg c6 = Some m6" "payload m6 = Some (Passed_In (overwrite 0 p b))"
    using header_c3 [OF c4(1,2), of h "fix_rtmp_timestamp s1" w5] c4 c3(4,5) assms(6,8,9) mask_ucast [of t] s1(1)
    by (auto simp: new_header_def add_bytes_def)
  have "recv_interlaced_message h (Some (b, n)) s1 = Crash Bad_Free"
    by (rule recv_with_buffer(1) [OF b2 _ _ h2(1) use_buffer_run(2) [OF h2(2,3)]]) (use assms(2,8,9,11) in auto)
  with first show ?thesis by (simp add: act_simps)
qed

end
