(* ===== verification/Rtmp_Protocol_Props.thy ===== *)
theory Rtmp_Protocol_Props
  imports Rtmp_Protocol_Facts
begin

text \<open>The properties of the RTMP chunk layer and of the protocol handler.\<close>

section \<open>Sending and receiving chunks\<close>

text \<open>A host that logs what is written, and a pipe: a list of bytes, for the examples.\<close>

definition logs :: "'io host \<Rightarrow> ('io \<Rightarrow> bytes) \<Rightarrow> bool" where
  "logs g written \<longleftrightarrow> (\<forall>iov w. fst (host_writev g iov w) = 0
     \<and> written (snd (host_writev g iov w)) = written w @ concat iov)"


definition pipe :: "bytes host" where
  "pipe = \<lparr>host_read = \<lambda>n w. if nat n \<le> length w then Done (0, take (nat n) w) (drop (nat n) w) else Fail 10008 w,
     host_seek_read = \<lambda>n. ret (), host_writev = \<lambda>iov w. (0, w @ concat iov), host_recv_bytes = \<lambda>w. 0,
     host_new = \<lambda>n. replicate (nat n + 4) 0\<rparr>"

lemma pipe_host: "logs pipe (\<lambda>w. w)" "delivers_all pipe (\<lambda>w. w)" "roomy pipe" "host_ok pipe"
  by (auto simp: pipe_def logs_def delivers_all_def roomy_def host_ok_def ret_def)


lemma handler_ok_new: "0 < ics \<Longrightarrow> handler_ok (RtmpProtocolHandler_new io fx (ics, ocs, ibl, a))"
  by (auto simp: handler_ok_def RtmpProtocolHandler_new_def)





text \<open>
  With a chunk size of zero, a value \<open>out_chunk_size\<close> may have because the constructor does not
  set it, the loop writes headers for ever: no number of rounds is enough.
\<close>

lemma send_chunks_diverges:
  assumes "xs \<noteq> []" "\<forall>iov w. fst (host_writev h iov w) = 0"
  shows "send_chunks h k hdr 0 xs 0 w = Crash No_Fuel"
  using assms by (rule send_stuck)

lemma send_chunks_diverges_witness: "\<forall>k. send_chunks pipe k MessageHeader_new 0 [7] 0 [] = Crash No_Fuel"
  using send_chunks_diverges [of "[7]" pipe _ MessageHeader_new "[]"] by (simp add: pipe_def)

section \<open>The receiver is safe\<close>





text \<open>
  C30: no packet is ever received.  Control messages are refused, and for all other messages the
  packet pointer stays null, so \<open>expect_packet\<close>, with which the client waits for the answers of the
  server, never returns a packet, whatever arrives and whichever class is asked for.
\<close>

lemma expect_packet_never:
  assumes "host_ok h" "handler_ok s"
  shows "expect_packet j h k n is_T s \<noteq> Done p s' \<and> recv_packet j h k n s \<noteq> Done (Packet p) s'"
  using expect_packet_none [OF assms, of j k n is_T] recv_packet_ok [OF assms, of j k n] by auto

lemma expect_packet_never_witness:
  "\<forall>p s'. expect_packet 3 pipe 2 2 (\<lambda>p. True) (RtmpProtocolHandler_new [2, 9] False (128, 128, 0, True)) \<noteq> Done p s'"
  using expect_packet_never [OF pipe_host(4) handler_ok_new, of 128] by simp

text \<open>
  The control messages of the peer have no effect.  A set-chunk-size, acknowledgement-size or
  user-control message always ends in a decoding error, because the buffer made around its payload
  has nothing to read; chunk sizes, ack window and buffer length stay as they were.
\<close>

lemma control_messages_refused:
  assumes "whole m" "0 < msg_size m" "message_type (header m) = RTMP_MSG_SetChunkSize
     \<or> message_type (header m) = RTMP_MSG_UserControlMessage
     \<or> message_type (header m) = RTMP_MSG_WindowAcknowledgementSize"
  shows "\<exists>e s'. on_recv_message h k n m s = Fail e s' \<and> in_chunk_size s' = in_chunk_size s
    \<and> window (in_ack_size s') = window (in_ack_size s) \<and> in_buffer_length s' = in_buffer_length s"
  using on_recv_message_cases [OF assms(1,2), of s h k n] assms(3) unfolding same_settings_def by metis

lemma control_messages_refused_witness:
  "\<exists>e s'. on_recv_message pipe 1 1 \<lparr>header = MessageHeader_new\<lparr>message_type := 1\<rparr>, msg_size = 4,
      payload = Some (Owned [0, 0, 16, 0])\<rparr> (RtmpProtocolHandler_new [] False (128, 128, 0, True)) = Fail e s'"
  using control_messages_refused [of "\<lparr>header = MessageHeader_new\<lparr>message_type := 1\<rparr>, msg_size = 4,
      payload = Some (Owned [0, 0, 16, 0])\<rparr>" pipe 1 1 "RtmpProtocolHandler_new [] False (128, 128, 0, True)"]
  by (auto simp: whole_def)

text \<open>
  C36: a command or data message is never decoded into its packet, even from a stream that holds it:
  \<open>stream->reset()\<close> is meant to go back to the start but empties the buffer, so decoding fails; where
  the code ignores that, or the command is unknown, a packet of the base class is all it gives.
\<close>

lemma commands_never_decoded:
  assumes "wf_buffer b" "is_amf0_command hdr \<or> is_amf3_command hdr \<or> is_amf0_data hdr \<or> is_amf3_data hdr"
  shows "do_decode_message n hdr reqs b \<noteq> Done (Packet p) b'"
  using do_decode_message_commands [OF assms] by blast

lemma commands_never_decoded_witness:
  "\<forall>p b'. do_decode_message 9 (MessageHeader_new\<lparr>message_type := 20\<rparr>) []
    (push (enc_string (lit ''play'')) (Buffer_new (replicate 64 0) 64)) \<noteq> Done (Packet p) b'"
  using commands_never_decoded [of "push (enc_string (lit ''play'')) (Buffer_new (replicate 64 0) 64)"
      "MessageHeader_new\<lparr>message_type := 20\<rparr>"]
  by (simp add: is_amf0_command_def enc_string_def enc_utf8_def lit_def)

section \<open>The handler and its connection\<close>

text \<open>
  The handler of the program cannot receive.  Its member \<open>io_buffer\<close> is never assigned, so the
  first read of every receive function dereferences a null pointer.
\<close>

lemma receive_dereferences_null:
  "recv_packet (Suc j) (handler_host ops new) k n s = Crash Null_Deref
    \<and> recv_message (Suc j) (handler_host ops new) k n recv_buf recv_size s = Crash Null_Deref
    \<and> expect_packet (Suc j) (handler_host ops new) k n is_T s = Crash Null_Deref"
  by (simp add: recv_interlaced_message_def read_basic_header_def read_exact_def handler_host_def on_world_def
      bind_def crash_def)

text \<open>
  With the \<open>IOBuffer\<close> of the client below it, the handler still cannot receive: \<open>read_bytes\<close>
  returns the number of bytes, the handler compares it with \<open>error_success\<close>, so the first byte that
  is there makes every receive function return the error 1, and the byte is gone.
\<close>

lemma received_byte_is_error:
  assumes "wf_buffer (io_cache (world s))" "\<not> io_no_cache (world s)" "0 < readable (io_cache (world s))"
  shows "\<exists>s'. recv_packet (Suc j) (buffered_host ops new) k n s = Fail 1 s'
    \<and> recv_message (Suc j) (buffered_host ops new) k n recv_buf recv_size s = Fail 1 s'
    \<and> content (io_cache (world s')) = tl (content (io_cache (world s)))"
  using recv_interlaced_buffered [OF assms, of ops new] assms
  by (simp add: bind_Fail drop_Suc)

text \<open>A socket that takes everything and has nothing, for the examples.\<close>

definition sink_ops :: "unit st_ops" where
  "sink_ops = \<lparr>st_read = \<lambda>n k. ((0, []), k), st_write = \<lambda>xs k. (int (length xs), k),
     st_writev = \<lambda>iov k. (1 + int (length (concat iov)), k), st_netfd_close = \<lambda>k. (0, k),
     st_tcp_connect = \<lambda>k. (0, k)\<rparr>"

lemma world_new [simp]: "world (RtmpProtocolHandler_new io fx raw) = io"
  by (simp add: RtmpProtocolHandler_new_def split: prod.splits)

lemma received_byte_is_error_witness:
  "\<exists>s'. recv_packet (Suc 0) (buffered_host sink_ops (\<lambda>n. [])) 1 1
      (RtmpProtocolHandler_new (IOBuffer_new (TcpStreamConn_new () True) (push [3, 0] (Buffer_new (replicate 9 0) 9)))
        False (128, 128, 0, True)) = Fail 1 s'"
proof -
  let ?s = "RtmpProtocolHandler_new (IOBuffer_new (TcpStreamConn_new () True)
      (push [3, 0] (Buffer_new (replicate 9 0) 9))) False (128, 128, 0, True)"
  have "wf_buffer (io_cache (world ?s))" "\<not> io_no_cache (world ?s)" "0 < readable (io_cache (world ?s))"
    by (simp_all add: IOBuffer_new_def readable_def)
  from received_byte_is_error [OF this, of 0 sink_ops "\<lambda>n. []" 1 1] show ?thesis by blast
qed

text \<open>
  And it cannot send: \<open>writev\<close> returns the number of bytes written, which the loop takes for an
  error, so it stops behind the first chunk, with that number as its error code.
\<close>

lemma sent_chunk_is_error:
  assumes "is_connected (world s)" "\<And>iov k. 0 < fst (st_writev ops iov k)" "xs \<noteq> []" "0 < out_chunk_size s"
  shows "\<exists>e s'. send_payload (handler_host ops new) (Suc k) pkt streamid xs s = Fail e s' \<and> 0 < e"
proof -
  from send_chunks_tcp [OF assms, of new k "packet_header pkt (int (length xs)) streamid"] assms(2) obtain e w' where
    "send_chunks (handler_host ops new) (Suc k) (packet_header pkt (int (length xs)) streamid)
      (out_chunk_size s) xs 0 (world s) = Fail e w'" "0 < e" by blast
  then show ?thesis by (simp add: send_payload_def on_world_def act_simps del: send_chunks.simps)
qed

lemma sent_chunk_is_error_witness:
  "\<exists>e s'. send_payload (handler_host sink_ops (\<lambda>n. [])) (Suc 0) (SetChunkSize 128) 0 [0, 0, 0, 128]
      (RtmpProtocolHandler_new (TcpStreamConn_new () True) False (128, 128, 0, True)) = Fail e s' \<and> 0 < e"
  by (rule sent_chunk_is_error) (simp_all add: sink_ops_def RtmpProtocolHandler_new_def TcpStreamConn_new_def)

text \<open>
  An extended timestamp is not read from the connection.  The four bytes are taken from behind
  the block of eleven that holds the message header, whatever the memory has there, and those of the
  stream are left to be taken for the payload.
\<close>

lemma extended_timestamp_from_heap:
  assumes "delivers_all h rest" "cs_msg c = None" "0 \<le> len" "len < 2 ^ 24"
    "rest w = ([0xFF, 0xFF, 0xFF] @ be_bytes 3 (of_int len :: 32 word) @ [type] @ le_bytes 4 (sid :: 32 word)) @ be_bytes 4 time @ later"
  shows "\<exists>c' w'. read_message_header h fx 0 (c, w) = Done () (c', w') \<and> rest w' = be_bytes 4 time @ later
    \<and> timestamp (cs_header c') = ucast (be_word (take 4 (drop 11 (host_new h 11))) :: 32 word)"
  using header_extended [OF assms(1-4) refl assms(5)] by metis

lemma extended_timestamp_from_heap_witness:
  "\<exists>c' w'. read_message_header pipe False 0 (fresh_chunk 4, [0xFF, 0xFF, 0xFF, 0, 0, 9, 8, 1, 0, 0, 0, 1, 2, 3, 4, 7])
    = Done () (c', w') \<and> w' = [1, 2, 3, 4, 7] \<and> timestamp (cs_header c') = 0"
proof -
  have bytes: "be_bytes 3 (9 :: 32 word) = [0, 0, 9]" "be_bytes 4 (1 :: 32 word) = [0, 0, 0, 1]"
    "be_bytes 4 (0x01020304 :: 32 word) = [1, 2, 3, 4]" by code_simp+
  have "cs_msg (fresh_chunk 4) = None" "be_word (take 4 (drop 11 (host_new pipe 11))) = (0 :: 32 word)"
    by (simp_all add: fresh_chunk_def RtmpChunkStream_new_def set_header_def pipe_def) code_simp
  with extended_timestamp_from_heap [OF pipe_host(2), of "fresh_chunk 4" 9 "[0xFF, 0xFF, 0xFF, 0, 0, 9, 8, 1, 0, 0, 0, 1, 2, 3, 4, 7]" 8 1
      "0x01020304 :: 32 word" "[7]" False] bytes
  show ?thesis by (simp add: le_bytes_def del: be_bytes.simps)
qed



text \<open>
  \<open>recv_message\<close> deletes the caller's buffer.  When a message comes in more than one chunk, the
  second one makes \<open>set_payload\<close> delete the block it is about to go on filling, the buffer the caller
  passed in.
\<close>

lemma recv_message_frees_buffer:
  assumes "delivers_all h rest" "2 \<le> i" "i < 64" "handler_ok s" "cs_msg (chunk_of i s) = None"
    "t < 0xFFFFFF" "in_chunk_size s < len" "len < 2 ^ 24" "len \<le> n" "n \<le> int (length b)"
    "int (length p) = in_chunk_size s"
    "rest (world s) = chunk_header_c0 i t len type sid 16 @ p @ [or 0xC0 (and (of_int i) 0x3F)] @ later"
  shows "recv_message (Suc (Suc j)) h k l b n s = Crash Bad_Free"
  by (rule recv_message_second_chunk [OF assms(1-3) _ assms(5) _ assms(6) _ assms(7-12)])
    (use assms(2,4) chunk_ok_of [OF assms(4), of i] in \<open>simp_all add: handler_ok_def chunk_ok_def\<close>)

lemma recv_message_frees_buffer_witness:
  "recv_message (Suc (Suc 0)) pipe 1 1 [0, 0, 0, 0] 4 (RtmpProtocolHandler_new
     (chunk_header_c0 7 0 4 9 1 16 @ [1, 2, 3] @ [or 0xC0 (and (of_int 7) 0x3F)] @ [4]) False (3, 3, 0, False))
   = Crash Bad_Free"
proof (rule recv_message_frees_buffer [OF pipe_host(2), where i = 7 and t = 0 and len = 4 and type = 9 and sid = 1
    and p = "[1, 2, 3]" and later = "[4]"])
  let ?s = "RtmpProtocolHandler_new (chunk_header_c0 7 0 4 9 1 16 @ [1, 2, 3] @ [or 0xC0 (and (of_int 7) 0x3F)] @ [4])
    False (3, 3, 0, False)"
  show "handler_ok ?s" by (simp add: handler_ok_new)
  show "cs_msg (chunk_of 7 ?s) = None"
    by (simp add: RtmpProtocolHandler_new_def chunk_of_def fresh_chunk_def set_header_def RtmpChunkStream_new_def
        upto_rec1 nth_Cons')
qed (simp_all add: RtmpProtocolHandler_new_def)

section \<open>The class of a decoded packet\<close>

lemma decode_as_wrap: "decode_as n (f v) b = Done d b' \<Longrightarrow> packet_decode n (f v) = wrap f m \<Longrightarrow> \<exists>w. d = Packet (f w)"
  by (auto simp: decode_as_def wrap_def bind_Done_iff ret_def)

lemma decode_result_typed:
  assumes "decode_result n hdr reqs b = Done d b'"
  shows "(\<exists>p. d = Packet (ConnectAppRes p)) \<or> (\<exists>p. d = Packet (CreateStreamRes p)) \<or> (\<exists>p. d = Packet (FMLEStartRes p))"
  using assms
  by (auto simp: decode_result_def bind_Done_iff seq_Done_iff fail_def split: option.splits if_splits
      dest!: decode_as_wrap [OF _ packet_decode.simps(2)] decode_as_wrap [OF _ packet_decode.simps(8)]
        decode_as_wrap [OF _ packet_decode.simps(10)])

text \<open>
  C12: The packet that decoding a message gives has the class its handling casts it to: a window size, a chunk
  size or a user control packet for those three types of messages, a response or an object of the
  base class for commands and data, and none for the other types.
\<close>

theorem decoded_packets_typed:
  assumes "do_decode_message n hdr reqs b = Done d b'"
  shows "(message_type hdr = RTMP_MSG_WindowAcknowledgementSize \<longrightarrow> (\<exists>v. d = Packet (SetWindowAckSize v)))
    \<and> (message_type hdr = RTMP_MSG_SetChunkSize \<longrightarrow> (\<exists>v. d = Packet (SetChunkSize v)))
    \<and> (message_type hdr = RTMP_MSG_UserControlMessage \<longrightarrow> (\<exists>p. d = Packet (UserControl p)))
    \<and> (is_amf0_command hdr \<or> is_amf3_command hdr \<or> is_amf0_data hdr \<or> is_amf3_data hdr \<longrightarrow> d = Base_Packet
        \<or> (\<exists>p. d = Packet (ConnectAppRes p)) \<or> (\<exists>p. d = Packet (CreateStreamRes p)) \<or> (\<exists>p. d = Packet (FMLEStartRes p)))
    \<and> (message_type hdr \<notin> {RTMP_MSG_WindowAcknowledgementSize, RTMP_MSG_SetChunkSize, RTMP_MSG_UserControlMessage}
        \<and> \<not> (is_amf0_command hdr \<or> is_amf3_command hdr \<or> is_amf0_data hdr \<or> is_amf3_data hdr) \<longrightarrow> d = No_Packet)"
proof (cases "is_amf0_command hdr \<or> is_amf3_command hdr \<or> is_amf0_data hdr \<or> is_amf3_data hdr")
  case True
  obtain command b1 where "(if command = RTMP_AMF0_COMMAND_RESULT \<or> command = RTMP_AMF0_COMMAND_ERROR
       then decode_result n hdr reqs
       else seq (restart_decode hdr) (bind (do_decode_command n hdr command) (\<lambda>_. ret Base_Packet))) b1 = Done d b'"
    using assms unfolding do_decode_message_def if_P [OF True] seq_Done_iff [of _ "bind _ _"] bind_Done_iff [of _ "\<lambda>command. if _ command then _ else _ command"]
    by blast
  then have "d = Base_Packet
        \<or> (\<exists>p. d = Packet (ConnectAppRes p)) \<or> (\<exists>p. d = Packet (CreateStreamRes p)) \<or> (\<exists>p. d = Packet (FMLEStartRes p))"
    using decode_result_typed [of n hdr reqs b1 d b']
    by (cases "command = RTMP_AMF0_COMMAND_RESULT \<or> command = RTMP_AMF0_COMMAND_ERROR")
      (auto simp: seq_Done_iff bind_Done_iff ret_def)
  with True show ?thesis
    by (auto simp: is_amf0_command_def is_amf3_command_def is_amf0_data_def is_amf3_data_def)
next
  case False
  with assms show ?thesis
    by (auto simp: do_decode_message_def is_user_control_message_def is_window_ackledgement_size_def
        is_set_chunk_size_def ret_def split: if_splits dest: decode_as_wrap [OF _ packet_decode.simps(3)]
          decode_as_wrap [OF _ packet_decode.simps(5)] decode_as_wrap [OF _ packet_decode.simps(6)])
qed

theorem decoded_packets_typed_witness:
  "\<exists>v b'. do_decode_message 1 (MessageHeader_new\<lparr>message_type := 5\<rparr>) [] (push [0, 0, 0, 9] (Buffer_new (replicate 8 0) 8))
     = Done (Packet (SetWindowAckSize v)) b'"
proof -
  let ?hdr = "MessageHeader_new\<lparr>message_type := 5\<rparr>" and ?b = "push [0, 0, 0, 9] (Buffer_new (replicate 8 0) 8)"
  obtain d b' where d: "do_decode_message 1 ?hdr [] ?b = Done d b'"
    by (simp add: do_decode_message_def is_amf0_command_def is_amf3_command_def is_amf0_data_def is_amf3_data_def
        is_user_control_message_def is_window_ackledgement_size_def decode_as_def wrap_def
        RtmpSetWindowAckSizePacket_decode_def read_require_def act_simps)
  from decoded_packets_typed [OF d] have "\<exists>v. d = Packet (SetWindowAckSize v)" by simp
  with d show ?thesis by blast
qed

end
