(* ===== verification/Cpp_String.thy ===== *)
theory Cpp_String
  imports Tmss_Base "HOL-Library.Sublist"
begin

text \<open>
  What the HTTP code uses of \<open>std::string\<close> and of the C library, and the string functions of
  \<open>src/base/util/util.cpp\<close>.  A result \<open>std::string::npos\<close> is \<open>None\<close>.
\<close>

section \<open>std::string\<close>

fun find_first :: "bytes \<Rightarrow> bytes \<Rightarrow> nat option" where
  "find_first p [] = (if p = [] then Some 0 else None)"
| "find_first p (c # cs) = (if prefix p (c # cs) then Some 0 else map_option Suc (find_first p cs))"

text \<open>\<open>s.find(p, pos)\<close>.\<close>

definition find_str :: "bytes \<Rightarrow> bytes \<Rightarrow> nat \<Rightarrow> nat option" where
  "find_str p s pos = (if length s < pos then None else map_option ((+) pos) (find_first p (drop pos s)))"

text \<open>\<open>s.find_last_of("c")\<close> for a string of one character.\<close>

primrec find_last_of :: "byte \<Rightarrow> bytes \<Rightarrow> nat option" where
  "find_last_of c [] = None"
| "find_last_of c (x # xs) = (case find_last_of c xs of Some i \<Rightarrow> Some (Suc i)
     | None \<Rightarrow> if x = c then Some 0 else None)"

text \<open>\<open>s.substr(pos, n)\<close> throws \<open>std::out_of_range\<close>, which nothing in the program catches.\<close>

definition substr :: "bytes \<Rightarrow> nat \<Rightarrow> int \<Rightarrow> (bytes, 's) act" where
  "substr s pos n = (if pos \<le> length s then ret (take (nat (min n (int (length s)))) (drop pos s))
     else crash Thrown)"

definition substr_from :: "bytes \<Rightarrow> nat \<Rightarrow> (bytes, 's) act" where
  "substr_from s pos = substr s pos (2 ^ 64 - 1)"

text \<open>Differences of \<open>size_t\<close> values and the cut of a \<open>size_t\<close> to \<open>unsigned int\<close>.\<close>

definition sz_minus :: "int \<Rightarrow> int \<Rightarrow> int" where
  "sz_minus a b = (a - b) mod 2 ^ 64"

definition uint32_of :: "int \<Rightarrow> nat" where
  "uint32_of n = nat (n mod 2 ^ 32)"

section \<open>Numbers in text\<close>

definition is_space :: "byte \<Rightarrow> bool" where
  "is_space c \<longleftrightarrow> c = 32 \<or> 9 \<le> c \<and> c \<le> 13"

definition is_digit :: "byte \<Rightarrow> bool" where
  "is_digit c \<longleftrightarrow> 48 \<le> c \<and> c \<le> 57"

definition number :: "nat \<Rightarrow> (byte \<Rightarrow> nat) \<Rightarrow> bytes \<Rightarrow> nat" where
  "number base val s = foldl (\<lambda>n c. n * base + val c) 0 s"

definition digit_val :: "byte \<Rightarrow> nat" where
  "digit_val c = unat (c - 48)"

text \<open>An optional sign.\<close>

fun sign :: "bytes \<Rightarrow> bool \<times> bytes" where
  "sign [] = (False, [])"
| "sign (c # cs) = (if c = 45 then (True, cs) else if c = 43 then (False, cs) else (False, c # cs))"

text \<open>
  \<open>atoll\<close>, and \<open>atoi\<close> as far as its low 32 bits go: the decimal number at the start, kept in the
  range of \<open>long\<close>.
\<close>

definition atoll :: "bytes \<Rightarrow> int" where
  "atoll s = (case sign (dropWhile is_space s) of (neg, t) \<Rightarrow>
     let n = int (number 10 digit_val (takeWhile is_digit t)) in
     if neg then max (- (2 ^ 63)) (- n) else min (2 ^ 63 - 1) n)"

text \<open>The conversion of such a value to \<open>unsigned int\<close>.\<close>

definition atou :: "bytes \<Rightarrow> nat" where
  "atou s = nat (atoll s mod 2 ^ 32)"

text \<open>\<open>sscanf(s, "%x", &v)\<close>: the number, if there is one.\<close>

definition is_xdigit :: "byte \<Rightarrow> bool" where
  "is_xdigit c \<longleftrightarrow> is_digit c \<or> 65 \<le> c \<and> c \<le> 70 \<or> 97 \<le> c \<and> c \<le> 102"

definition xdigit_val :: "byte \<Rightarrow> nat" where
  "xdigit_val c = (if is_digit c then unat (c - 48) else if c \<le> 70 then unat (c - 55) else unat (c - 87))"

fun hex_prefix :: "bytes \<Rightarrow> bytes" where
  "hex_prefix (a # b # cs) = (if a = 48 \<and> (b = 120 \<or> b = 88) then a # cs else a # b # cs)"
| "hex_prefix s = s"

definition scan_hex :: "bytes \<Rightarrow> nat option" where
  "scan_hex s = (case sign (dropWhile is_space s) of (neg, t) \<Rightarrow>
     let ds = takeWhile is_xdigit (hex_prefix t); n = min (2 ^ 64 - 1) (number 16 xdigit_val ds) in
     if ds = [] then None
     else Some (if neg then nat ((- int n) mod 2 ^ 32) else n mod 2 ^ 32))"

section \<open>util.cpp\<close>

fun decimal :: "nat \<Rightarrow> bytes" where
  "decimal n = (if n < 10 then [48 + of_nat n] else decimal (n div 10) @ [48 + of_nat (n mod 10)])"

declare decimal.simps [simp del]

definition GetStrFromUInt32 :: "32 word \<Rightarrow> bytes" where
  "GetStrFromUInt32 v = decimal (unat v)"

definition GetStrFromInt64 :: "64 word \<Rightarrow> bytes" where
  "GetStrFromInt64 v = (if sint v < 0 then 45 # decimal (nat (- sint v)) else decimal (nat (sint v)))"

text \<open>
  \<open>split_string\<close>: the loop gives up (\<open>None\<close>) when the fuel ends; with a separator that is not empty
  there is enough (\<open>split_string_joins\<close>), with the empty one the source never ends.
\<close>

primrec split_loop :: "nat \<Rightarrow> bytes \<Rightarrow> bytes \<Rightarrow> nat \<Rightarrow> bytes list option" where
  "split_loop 0 src sep old = None"
| "split_loop (Suc k) src sep old = (case find_str sep src old of
     Some new \<Rightarrow> map_option ((#) (take (new - old) (drop old src))) (split_loop k src sep (new + length sep))
   | None \<Rightarrow> if old \<le> length src then Some [drop old src] else Some [])"

definition split_string :: "bytes \<Rightarrow> bytes \<Rightarrow> bytes list \<Rightarrow> bytes list option" where
  "split_string src sep vec = (if length src = 0 then Some vec
     else map_option ((@) vec) (split_loop (length src + 2) src sep 0))"

text \<open>
  \<open>>>\<close> from a string stream to an integer between \<open>lo\<close> and \<open>hi\<close>: a stream that ends before its first
  character leaves the variable as it was; text that is no number gives 0, one out of range the bound.
\<close>

definition from_stream :: "int \<Rightarrow> int \<Rightarrow> int \<Rightarrow> bytes \<Rightarrow> int" where
  "from_stream lo hi var s = (let t = dropWhile is_space s in
     if t = [] then var
     else (case sign t of (neg, ds) \<Rightarrow>
       let n = int (number 10 digit_val (takeWhile is_digit ds)) in if neg then max lo (- n) else min hi n))"

definition GetInt64FromString :: "bytes \<Rightarrow> int" where
  "GetInt64FromString s = from_stream (- (2 ^ 63)) (2 ^ 63 - 1) 0 s"

text \<open>\<open>from_string<int>\<close> starts from an uninitialised variable, which holds \<open>junk\<close>.\<close>

definition from_string_int :: "int \<Rightarrow> bytes \<Rightarrow> int" where
  "from_string_int junk s = from_stream (- (2 ^ 31)) (2 ^ 31 - 1) junk s"

text \<open>\<open>split_int\<close>: the same loop as \<open>split_string\<close>; the variable of piece \<open>i\<close> holds \<open>junk i\<close>.\<close>

definition split_int :: "(nat \<Rightarrow> int) \<Rightarrow> bytes \<Rightarrow> bytes \<Rightarrow> int list \<Rightarrow> int list option" where
  "split_int junk src sep vec = map_option (\<lambda>ps. vec @ map (\<lambda>i. from_string_int (junk i) (ps ! i)) [0..<length ps])
     (split_string src sep [])"

definition tp_hex :: "byte \<Rightarrow> byte" where
  "tp_hex x = (if 9 < x then x - 10 + 65 else x + 48)"

definition from_hex :: "byte \<Rightarrow> byte" where
  "from_hex x = (if is_digit x then x - 48 else x - 65 + 10)"

text \<open>
  \<open>url_decode\<close>.  The position behind the last character holds a NUL that may be read; one further
  is out of bounds.
\<close>

fun url_decode :: "bytes \<Rightarrow> bytes option" where
  "url_decode [] = Some []"
| "url_decode (c # cs) =
    (if c = 37 then
       (case cs of
          h # l # rest \<Rightarrow> map_option ((#) (or (push_bit 4 (from_hex h)) (from_hex l))) (url_decode rest)
        | [h] \<Rightarrow> Some [or (push_bit 4 (from_hex h)) (from_hex 0)]
        | [] \<Rightarrow> None)
     else map_option ((#) (if c = 43 then 32 else c)) (url_decode cs))"

definition generate_tc_url :: "bytes \<Rightarrow> bytes \<Rightarrow> bytes \<Rightarrow> bytes \<Rightarrow> bytes \<Rightarrow> bytes" where
  "generate_tc_url ip vhost app port param =
     lit ''rtmp://'' @ (if vhost = lit ''__defaultVhost__'' then ip else vhost)
       @ (if port \<noteq> lit ''1935'' then lit '':'' @ port else []) @ lit ''/'' @ app @ param"

text \<open>A hexadecimal digit as \<open>%x\<close> writes it.\<close>

definition xd :: "byte \<Rightarrow> byte" where
  "xd x = (if x < 10 then x + 48 else x + 87)"

definition PrintBuffer :: "bytes \<Rightarrow> bytes" where
  "PrintBuffer buf = concat (map (\<lambda>c. [xd (drop_bit 4 c), xd (and c 15), 32]) buf)"

end
