(* ===== verification/Http_Stack.thy ===== *)
theory Http_Stack
  imports Cpp_String
begin

text \<open>
  \<open>CHttp\<close> of \<open>src/protocol/http/http_stack.cpp\<close>: requests and responses in text.  A member function
  that returns 0 or a length is \<open>Done\<close>, one that returns -1 is \<open>Fail (-1)\<close>; both keep what it stored
  in the members until then.
\<close>

record CHttp =
  http_method :: bytes
  http_url :: bytes
  query_string :: bytes
  http_data :: bytes
  content_len :: nat
  http_name :: bytes
  http_folder :: bytes
  http_path :: bytes
  forwarded_client_ip :: bytes
  request_host :: bytes
  http_ext :: bytes
  is_transcode :: bool
  response_status :: int

text \<open>The members are those of the class without the final underscore.  The constructor sets the status
  only; \<open>content_len\<close> and \<open>is_transcode\<close> hold what memory held.\<close>

definition CHttp_new :: "nat \<Rightarrow> bool \<Rightarrow> CHttp" where
  "CHttp_new len transcode = \<lparr>http_method = [], http_url = [], query_string = [], http_data = [], content_len = len,
     http_name = [], http_folder = [], http_path = [], forwarded_client_ip = [], request_host = [], http_ext = [],
     is_transcode = transcode, response_status = 0\<rparr>"

definition CRLF :: bytes where "CRLF = [13, 10]"

text \<open>\<open>if (found == std::string::npos) return -1;\<close>, and an assignment to members.\<close>

definition found_or_fail :: "nat option \<Rightarrow> (nat, 's) act" where
  "found_or_fail found = (case found of Some i \<Rightarrow> ret i | None \<Rightarrow> fail (-1))"

definition assign :: "('s \<Rightarrow> 's) \<Rightarrow> (unit, 's) act" where
  "assign f s = Done () (f s)"

section \<open>Requests\<close>

definition parsePostRequest :: "bytes \<Rightarrow> (unit, CHttp) act" where
  "parsePostRequest data =
     bind (found_or_fail (find_str (lit '' '') data 0)) (\<lambda>found.
     bind (substr data 0 (int found)) (\<lambda>method.
     seq (assign (http_method_update (\<lambda>_. method)))
    (seq (check (method = lit ''POST'') (-1))
    (let start = uint32_of (int found + 1) in
     bind (found_or_fail (find_str (lit '' '') data start)) (\<lambda>found.
     bind (substr data start (int found)) (\<lambda>url.
     seq (assign (http_url_update (\<lambda>_. url)))
    (bind (found_or_fail (find_str (lit ''Content-Length:'') data 0)) (\<lambda>found.
     let start = uint32_of (int found + 15) in
     bind (found_or_fail (find_str CRLF data 0)) (\<lambda>found.
     bind (substr data start (sz_minus (int found) (int start))) (\<lambda>str_len.
     seq (assign (content_len_update (\<lambda>_. atou str_len)))
    (bind (found_or_fail (find_str (CRLF @ CRLF) data 0)) (\<lambda>found.
     let start = uint32_of (int found + 4) in
     seq (\<lambda>s. check (\<not> length data < uint32_of (int start + int (content_len s))) (-1) s)
    (\<lambda>s. bind (substr data start (int (content_len s))) (\<lambda>d. assign (http_data_update (\<lambda>_. d))) s)))))))))))))"

text \<open>The value of a header: between its name and the end of the line, if both are there.\<close>

definition header_value :: "bytes \<Rightarrow> bytes \<Rightarrow> (bytes \<Rightarrow> (unit, CHttp) act) \<Rightarrow> (unit, CHttp) act" where
  "header_value key data store = (case find_str key data 0 of
     None \<Rightarrow> ret ()
   | Some found \<Rightarrow>
       (let start = uint32_of (int found + int (length key)) in
        case find_str CRLF data start of
          None \<Rightarrow> ret ()
        | Some end \<Rightarrow> bind (substr data start (sz_minus (int end) (int start))) store))"

definition split_path :: "(unit, CHttp) act" where
  "split_path s = (let path = http_path s in
     case find_last_of 47 path of
       None \<Rightarrow> Done () (s\<lparr>http_name := path, http_folder := []\<rparr>)
     | Some name_found \<Rightarrow>
         bind (substr path 1 (sz_minus (int name_found) 1)) (\<lambda>folder.
         bind (substr_from path (name_found + 1)) (\<lambda>name.
           assign (\<lambda>s. s\<lparr>http_folder := folder, http_name := name\<rparr>))) s)"

definition split_ext :: "(unit, CHttp) act" where
  "split_ext s = (let name = http_name s in
     case find_last_of 46 name of
       None \<Rightarrow> Done () (s\<lparr>http_ext := name\<rparr>)
     | Some ext_found \<Rightarrow> bind (substr_from name (ext_found + 1)) (\<lambda>ext. assign (http_ext_update (\<lambda>_. ext))) s)"

definition split_target :: "bytes \<Rightarrow> nat \<Rightarrow> nat \<Rightarrow> (unit, CHttp) act" where
  "split_target data path_found http_found = (case find_str (lit ''?'') data 0 of
     None \<Rightarrow> bind (substr data path_found (sz_minus (int http_found) (int path_found))) (\<lambda>path.
       assign (\<lambda>s. s\<lparr>http_path := path, query_string := []\<rparr>))
   | Some params_found \<Rightarrow>
       bind (substr data path_found (sz_minus (int params_found) (int path_found))) (\<lambda>path.
       seq (assign (http_path_update (\<lambda>_. path)))
      (let start = uint32_of (int params_found + 1) in
       bind (substr data start (sz_minus (int http_found) (int start))) (\<lambda>query.
         assign (query_string_update (\<lambda>_. query))))))"

text \<open>The result says whether it is a request for the cross-domain policy.\<close>

definition parseGetRequest :: "bytes \<Rightarrow> (bool, CHttp) act" where
  "parseGetRequest data =
     (if find_str (lit ''crossdomain.xml'') data 0 \<noteq> None then ret True
      else if find_str (lit ''<policy-file-request/>'') data 0 \<noteq> None then ret True
      else
        bind (found_or_fail (find_str (lit ''/'') data 0)) (\<lambda>path_found.
        seq (\<lambda>s. if http_method s = [] then bind (substr data 0 3) (\<lambda>m. assign (http_method_update (\<lambda>_. m))) s
                 else Done () s)
       (seq (\<lambda>s. check (http_method s = lit ''GET'') (-1) s)
       (bind (found_or_fail (find_str (lit '' HTTP'') data 0)) (\<lambda>http_found.
        seq (split_target data path_found http_found)
       (seq split_path
       (seq split_ext
       (seq (header_value (lit ''X-Forwarded-For: '') data (\<lambda>v. assign (forwarded_client_ip_update (\<lambda>_. v))))
       (seq (header_value (lit ''Host: '') data (\<lambda>v. assign (request_host_update (\<lambda>_. v))))
       (seq (assign (is_transcode_update (\<lambda>_. find_str (lit ''X-Codec: '') data 0 \<noteq> None)))
       (ret False)))))))))))"

definition CHttp_parse_request :: "bytes \<Rightarrow> (unit, CHttp) act" where
  "CHttp_parse_request data =
     bind (found_or_fail (find_str (lit '' '') data 0)) (\<lambda>found.
     bind (substr data 0 (int found)) (\<lambda>method.
     seq (assign (http_method_update (\<lambda>_. method)))
    (if method = lit ''POST'' then parsePostRequest data
     else if method = lit ''GET'' then bind (parseGetRequest data) (\<lambda>_. ret ())
     else fail (-1))))"

section \<open>Is a message complete?\<close>

definition checkHttpInputWithLength :: "bytes \<Rightarrow> (nat, CHttp) act" where
  "checkHttpInputWithLength data = (case find_str (lit ''Content-Length:'') data 0 of
     None \<Rightarrow> ret 0
   | Some found \<Rightarrow>
       (let start = uint32_of (int found + 15) in
        case find_str CRLF data start of
          None \<Rightarrow> ret 0
        | Some found \<Rightarrow>
            bind (substr data start (sz_minus (int found) (int start))) (\<lambda>str_len.
            seq (assign (content_len_update (\<lambda>_. atou str_len)))
           (case find_str (CRLF @ CRLF) data 0 of
              None \<Rightarrow> ret 0
            | Some found \<Rightarrow>
                (let start = uint32_of (int found + 4) in
                 (\<lambda>s. let total = uint32_of (int start + int (content_len s)) in
                      Done (if length data < total then 0 else total) s))))))"

definition checkHttpInputSimple :: "bytes \<Rightarrow> (nat, CHttp) act" where
  "checkHttpInputSimple data = (case find_str (CRLF @ CRLF) data 0 of
     None \<Rightarrow> ret 0 | Some found \<Rightarrow> ret (found + 4))"

definition checkRequest :: "bytes \<Rightarrow> (nat, CHttp) act" where
  "checkRequest data = (if find_str (lit ''Content-Length:'') data 0 = None
     then checkHttpInputSimple data else checkHttpInputWithLength data)"

definition checkResponse :: "bytes \<Rightarrow> (nat, CHttp) act" where
  "checkResponse data = (if find_str (lit ''Content-Length:'') data 0 = None
     then checkHttpInputSimple data else checkHttpInputWithLength data)"

section \<open>Messages that are built\<close>

definition buildResponse :: "bytes \<Rightarrow> bytes" where
  "buildResponse rsp_data =
     lit ''HTTP/1.1 200 OK'' @ CRLF @ lit ''Content-Type: text/plain'' @ CRLF
     @ lit ''Content-Length: '' @ GetStrFromUInt32 (of_nat (length rsp_data)) @ CRLF
     @ lit ''Connection: Keep-Alive'' @ CRLF @ CRLF @ rsp_data"

definition buildHttpGetRequest :: "bytes \<Rightarrow> bytes \<Rightarrow> bytes \<Rightarrow> bytes \<Rightarrow> bytes \<Rightarrow> bytes" where
  "buildHttpGetRequest param str_req host path name =
     str_req @ lit ''GET /'' @ path @ lit ''/'' @ name
     @ (if 0 < length param then lit ''?'' @ param else [])
     @ lit '' HTTP/1.1'' @ CRLF @ lit ''User-Agent: curl/7.15.1 (linux) OpenSSL/0.9.8a zlib/1.2.3 libidn/0.6.0''
     @ (if 0 < length host then CRLF @ lit ''Host: '' @ host else [])
     @ CRLF @ lit ''Accept: */*'' @ CRLF @ CRLF"

definition buildHttpPostRequest :: "bytes \<Rightarrow> bytes \<Rightarrow> bytes \<Rightarrow> bytes \<Rightarrow> bytes" where
  "buildHttpPostRequest req_data host path name =
     lit ''POST '' @ path @ name @ lit '' HTTP/1.1'' @ CRLF @ lit ''Host: '' @ host @ CRLF
     @ lit ''Content-Type: text/plain'' @ CRLF
     @ lit ''Content-Length: '' @ GetStrFromUInt32 (of_nat (length req_data)) @ CRLF @ CRLF @ req_data"

definition buildRawResponse :: "int \<Rightarrow> bytes" where
  "buildRawResponse code = (if code = 200
     then lit ''HTTP/1.1 200 OK'' @ CRLF @ lit ''Content-Type: text/plain'' @ CRLF
       @ lit ''Content-Length: 0'' @ CRLF @ lit ''Connection: Keep-Alive'' @ CRLF @ CRLF
     else if code = 404
     then lit ''HTTP/1.1 404 Not Found'' @ CRLF @ lit ''Content-Type: text/plain'' @ CRLF
       @ lit ''Content-Length: 0'' @ CRLF @ lit ''Connection: close'' @ CRLF @ CRLF
     else lit ''HTTP/1.1 403 Forbidden'' @ CRLF @ lit ''Content-Type: text/plain'' @ CRLF
       @ lit ''Content-Length: 0'' @ CRLF @ lit ''Connection: close'' @ CRLF @ CRLF)"

definition quoted :: "bytes \<Rightarrow> bytes" where
  "quoted s = 34 # s @ [34]"

definition DomainPolicy :: bytes where
  "DomainPolicy =
     lit ''HTTP/1.1 200 OK'' @ CRLF @ lit ''Content-Type: text/xml'' @ CRLF
     @ lit ''Last-Modified: Tue, 07 Apr 2010 14:37:56 GMT'' @ CRLF @ lit ''Accept-Ranges: bytes'' @ CRLF
     @ CRLF @ CRLF
     @ lit ''<?xml version='' @ quoted (lit ''1.0'') @ lit ''?>'' @ CRLF
     @ lit ''<cross-domain-policy>'' @ CRLF
     @ lit ''<allow-access-from domain='' @ quoted (lit ''*.qq.com'') @ lit '' secure='' @ quoted (lit ''false'') @ lit ''/>'' @ CRLF
     @ lit ''<allow-access-from domain='' @ quoted (lit ''qzonestyle.gtimg.cn'') @ lit '' secure='' @ quoted (lit ''false'') @ lit ''/>'' @ CRLF
     @ lit ''</cross-domain-policy>'' @ CRLF"

section \<open>Responses\<close>

text \<open>\<open>get_response_status\<close>: the status, kept once it was read; the result is -1 when there is none.\<close>

definition get_response_status :: "bytes \<Rightarrow> (int, CHttp) act" where
  "get_response_status data s =
     (if 0 < response_status s then Done (response_status s) s
      else if take 4 data \<noteq> lit ''HTTP'' then Done (-1) s
      else (case find_str (lit '' '') data 0 of
        None \<Rightarrow> Done (-1) s
      | Some found \<Rightarrow>
          (let start = uint32_of (int found + 1) in
           case find_str (lit '' '') data start of
             None \<Rightarrow> Done (-1) s
           | Some found \<Rightarrow>
               bind (substr data start (sz_minus (int found) (int start))) (\<lambda>str_len.
               (\<lambda>s. let status = sint (of_int (atoll str_len) :: 32 word)
                    in Done status (s\<lparr>response_status := status\<rparr>))) s)))"

text \<open>
  The body after a \<open>Transfer-Encoding: chunked\<close> header: the first chunk.  \<open>found\<close> is used without
  a check, so \<open>npos\<close> is a number here.
\<close>

definition parse_first_chunk :: "bytes \<Rightarrow> (unit, CHttp) act" where
  "parse_first_chunk data =
     bind (found_or_fail (find_str (lit ''Transfer-Encoding: chunked'') data 0)) (\<lambda>_.
     bind (found_or_fail (find_str (CRLF @ CRLF) data 0)) (\<lambda>found.
     let start = uint32_of (int found + 4);
         found = (case find_str CRLF data start of Some i \<Rightarrow> int i | None \<Rightarrow> 2 ^ 64 - 1) in
     bind (substr data start (sz_minus found (int start))) (\<lambda>str_len.
     seq (assign (\<lambda>s. case scan_hex (c_str str_len) of Some n \<Rightarrow> s\<lparr>content_len := n\<rparr> | None \<Rightarrow> s))
    (let start = uint32_of ((found + 2) mod 2 ^ 64) in
     seq (\<lambda>s. check (\<not> length data < uint32_of (int start + int (content_len s))) (-1) s)
    (\<lambda>s. bind (substr data start (int (content_len s))) (\<lambda>d. assign (http_data_update (\<lambda>_. d))) s)))))"

definition parse_with_length :: "bytes \<Rightarrow> (unit, CHttp) act" where
  "parse_with_length data =
     bind (found_or_fail (find_str (lit ''Content-Length:'') data 0)) (\<lambda>found.
     let start = uint32_of (int found + 15) in
     bind (found_or_fail (find_str CRLF data start)) (\<lambda>found.
     bind (substr data start (sz_minus (int found) (int start))) (\<lambda>str_len.
     seq (assign (content_len_update (\<lambda>_. atou str_len)))
    (bind (found_or_fail (find_str (CRLF @ CRLF) data 0)) (\<lambda>found.
     let start = uint32_of (int found + 4) in
     seq (\<lambda>s. check (\<not> length data < uint32_of (int start + int (content_len s))) (-1) s)
    (bind (substr_from data start) (\<lambda>d. assign (http_data_update (\<lambda>_. d)))))))))"

definition parseHttpResponse :: "bytes \<Rightarrow> (unit, CHttp) act" where
  "parseHttpResponse data =
     bind (get_response_status data) (\<lambda>_.
     if find_str (lit ''Content-Length: '') (c_str data) 0 \<noteq> None then parse_with_length data
     else if find_str (lit ''Transfer-Encoding: chunked'') (c_str data) 0 \<noteq> None then parse_first_chunk data
     else bind (found_or_fail (find_str (CRLF @ CRLF) data 0)) (\<lambda>found.
       let start = uint32_of (int found + 4) in
       bind (substr_from data start) (\<lambda>d. assign (http_data_update (\<lambda>_. d)))))"

end
