(* ===== verification/Http_Conn.thy ===== *)
theory Http_Conn
  imports Http_Stack Io_Buffer
begin

text \<open>
  HTTP over a connection: \<open>HttpParser\<close> (\<open>http_parser.cpp\<close>), the handler table and the loop of a server
  connection (\<open>http_server.cpp\<close>), and the request of a client (\<open>http_client.cpp\<close>).  The connection
  below, the user's handler and the demuxer are interfaces and so parameters, with a state of their
  own.  Loops over a connection have fuel; \<open>Http_Facts\<close> shows how much is enough.
\<close>

definition error_socket_closed :: int where "error_socket_closed = 10009"
definition error_socket_rd :: int where "error_socket_rd = 10004"
definition error_system_undefined :: int where "error_system_undefined = 10000"
definition error_system_handler_not_found :: int where "error_system_handler_not_found = 10001"
definition error_ingest_no_input :: int where "error_ingest_no_input = 13001"

section \<open>HttpParser\<close>

record HttpRequest =
  vhost :: bytes
  req_path :: bytes
  req_name :: bytes
  req_params :: bytes
  req_ext :: bytes
  req_is_transcode :: bool
  params_map :: "bytes \<Rightarrow> bytes option"

text \<open>One \<open>key=value\<close> of the query; the values are decoded, which may read out of bounds.\<close>

definition add_param :: "bytes \<Rightarrow> (unit, bytes \<Rightarrow> bytes option) act" where
  "add_param key_value m = (case split_string key_value (lit ''='') [] of
     None \<Rightarrow> Crash No_Fuel
   | Some kv \<Rightarrow>
       if length kv = 2 then
         (case url_decode (kv ! 1) of Some v \<Rightarrow> Done () (m(kv ! 0 \<mapsto> v)) | None \<Rightarrow> Crash Out_Of_Bounds)
       else Done () m)"

definition parse_params :: "bytes \<Rightarrow> (unit, bytes \<Rightarrow> bytes option) act" where
  "parse_params params m = (case split_string params (lit ''&'') [] of
     None \<Rightarrow> Crash No_Fuel | Some tmp_querys \<Rightarrow> for_each add_param tmp_querys m)"

text \<open>
  The reading loop.  \<open>buff\<close> is the array of 1024 bytes; every \<open>read\<close> stores at its start, with a NUL
  behind.  The result is the last value of \<open>read\<close>, the number of bytes read in all, and the array.
\<close>

primrec request_loop :: "nat \<Rightarrow> 'r reader \<Rightarrow> int \<Rightarrow> int \<Rightarrow> bytes \<Rightarrow> (int \<times> int \<times> bytes, CHttp \<times> 'r) act" where
  "request_loop 0 rd sz got buff = crash No_Fuel"
| "request_loop (Suc k) rd sz got buff = (\<lambda>(http, r).
     case rd (sz - 1) r of ((read_size, xs), r') \<Rightarrow>
       if read_size \<le> 0 then Done (read_size, got, xs @ drop (length xs) buff) (http, r')
       else if 1024 < read_size then Fail error_socket_rd (http, r')
       else if read_size = 1024 then Crash Out_Of_Bounds
       else
         (let buff = (xs @ drop (length xs) buff)[nat read_size := 0] in
          case checkRequest (c_str buff) http of
            Done n http' \<Rightarrow>
              if 0 < n then Done (read_size, got + read_size, buff) (http', r')
              else request_loop k rd (sz - read_size) (got + read_size) buff (http', r')
          | Fail e http' \<Rightarrow> Fail e (http', r')
          | Crash q \<Rightarrow> Crash q))"

text \<open>The request that is made from the text; what the parsing of it returns is dropped.\<close>

definition request_from :: "bytes \<Rightarrow> CHttp \<Rightarrow> (HttpRequest, 'r) act" where
  "request_from data http r = (case ignore (CHttp_parse_request data) http of
     Crash q \<Rightarrow> Crash q
   | Fail e http \<Rightarrow> Fail e r
   | Done _ http \<Rightarrow>
       (case parse_params (query_string http) (\<lambda>_. None) of
          Crash q \<Rightarrow> Crash q
        | Fail e m \<Rightarrow> Fail e r
        | Done _ m \<Rightarrow> Done \<lparr>vhost = request_host http, req_path = http_folder http,
            req_name = http_name http, req_params = query_string http, req_ext = http_ext http,
            req_is_transcode = is_transcode http, params_map = m\<rparr> r))"

definition HttpParser_parse_request :: "nat \<Rightarrow> 'r reader \<Rightarrow> bytes \<Rightarrow> CHttp \<Rightarrow> (HttpRequest, 'r) act" where
  "HttpParser_parse_request k rd mem http r = (case request_loop k rd 1024 0 mem (http, r) of
     Crash q \<Rightarrow> Crash q
   | Fail e (http, r) \<Rightarrow> Fail e r
   | Done (read_size, got, buff) (http, r) \<Rightarrow>
       if read_size < 0 then Fail error_socket_rd r
       else if read_size = 0 \<and> got = 0 then Fail error_socket_closed r
       else request_from (c_str buff) http r)"

section \<open>HttpMux\<close>

text \<open>\<open>std::map<int, ...>\<close>: a list in the order of the keys; \<open>insert\<close> does not replace.\<close>

fun level_insert :: "int \<Rightarrow> 'v \<Rightarrow> (int \<times> 'v) list \<Rightarrow> (int \<times> 'v) list" where
  "level_insert k v [] = [(k, v)]"
| "level_insert k v ((k', v') # ps) =
     (if k < k' then (k, v) # (k', v') # ps
      else if k = k' then (k', v') # ps else (k', v') # level_insert k v ps)"

record 'h HttpMux =
  level_handlers :: "(int \<times> bytes \<times> 'h option) list"
  last_level :: int

definition HttpMux_new :: "'h HttpMux" where
  "HttpMux_new = \<lparr>level_handlers = [], last_level = 0\<rparr>"

definition register_handler :: "bytes \<Rightarrow> int \<Rightarrow> 'h option \<Rightarrow> 'h HttpMux \<Rightarrow> 'h HttpMux" where
  "register_handler pattern level user_handler s =
     s\<lparr>level_handlers := level_insert (last_level s) (pattern, user_handler) (level_handlers s),
       last_level := last_level s + 1\<rparr>"

definition delete_handler :: "bytes \<Rightarrow> int \<Rightarrow> 'h HttpMux \<Rightarrow> 'h HttpMux" where
  "delete_handler pattern level s =
     s\<lparr>level_handlers := filter (\<lambda>(k, v). k \<noteq> level) (level_handlers s)\<rparr>"

text \<open>The handler that was passed in stays when no pattern matches.\<close>

definition get_handler :: "bytes \<Rightarrow> 'h option \<Rightarrow> ('h option, 'h HttpMux) act" where
  "get_handler pattern handler s =
     (if level_handlers s = [] then Fail error_system_handler_not_found s
      else Done (foldl (\<lambda>h (k, p, h'). if p = pattern then h' else h) handler (level_handlers s)) s)"

section \<open>A connection of the server\<close>

record ('h, 'w) http_env =
  env_read :: "'w reader"
  env_is_stop :: "'w \<Rightarrow> bool"
  env_set_stop :: "'w \<Rightarrow> 'w"
  env_no_timeout :: "'w \<Rightarrow> 'w"
  env_handle :: "'h \<Rightarrow> HttpRequest \<Rightarrow> 'w \<Rightarrow> int \<times> 'w"

text \<open>
  The loop of \<open>serve_http\<close>: it reads requests and drops them until the connection fails or stops.
  \<open>mem\<close> and \<open>http\<close> are the uninitialised variables of the parser.
\<close>

primrec serve_loop :: "nat \<Rightarrow> nat \<Rightarrow> ('h, 'w) http_env \<Rightarrow> bytes \<Rightarrow> CHttp \<Rightarrow> int \<Rightarrow> (int, 'w) act" where
  "serve_loop 0 k env mem http rc = crash No_Fuel"
| "serve_loop (Suc j) k env mem http rc = (\<lambda>w.
     if env_is_stop env w then Done rc w
     else (case HttpParser_parse_request k (env_read env) mem http w of
       Done req w \<Rightarrow> serve_loop j k env mem http 0 w
     | Fail e w \<Rightarrow> Done e w
     | Crash q \<Rightarrow> Crash q))"

definition serve_http :: "nat \<Rightarrow> nat \<Rightarrow> ('h, 'w) http_env \<Rightarrow> bytes \<Rightarrow> CHttp \<Rightarrow> 'h HttpMux \<Rightarrow> bool
    \<Rightarrow> HttpRequest \<Rightarrow> (int, 'w) act" where
  "serve_http j k env mem http mux server req w = (case get_handler (lit ''/'') None mux of
     Fail e _ \<Rightarrow> Fail e w
   | Crash q \<Rightarrow> Crash q
   | Done None _ \<Rightarrow> Fail error_system_handler_not_found w
   | Done (Some user_handler) _ \<Rightarrow>
       if \<not> server then Fail error_system_undefined w
       else
         (let w = env_no_timeout env (snd (env_handle env user_handler req w)) in
          case serve_loop j k env mem http 0 w of
            Done rc w \<Rightarrow>
              (let w = (if env_is_stop env w then w else env_set_stop env w) in
               if rc = 0 then Done 0 w else Fail rc w)
          | Fail e w \<Rightarrow> Fail e w
          | Crash q \<Rightarrow> Crash q))"

definition HttpConnHandler_cycle :: "nat \<Rightarrow> nat \<Rightarrow> ('h, 'w) http_env \<Rightarrow> bytes \<Rightarrow> CHttp \<Rightarrow> 'h HttpMux \<Rightarrow> bool
    \<Rightarrow> (int, 'w) act" where
  "HttpConnHandler_cycle j k env mem http mux server =
     bind (HttpParser_parse_request k (env_read env) mem http) (\<lambda>req.
       serve_http j k env mem http mux server req)"

section \<open>HttpClient\<close>

record 'w client_ops =
  cl_write :: "bytes \<Rightarrow> 'w \<Rightarrow> int \<times> 'w"
  cl_read_packet :: "'w reader"
  cl_on_ingest :: "int \<Rightarrow> bytes \<Rightarrow> 'w \<Rightarrow> 'w"

text \<open>The response is read byte by byte into an array of 1024 bytes that starts as zeros.\<close>

primrec response_loop :: "nat \<Rightarrow> 'w reader \<Rightarrow> bytes \<Rightarrow> int \<Rightarrow> int \<Rightarrow> (int \<times> int \<times> bytes, CHttp \<times> 'w) act" where
  "response_loop 0 rd response buffer_size got = crash No_Fuel"
| "response_loop (Suc k) rd response buffer_size got = (\<lambda>(http, w).
     case rd 1 w of ((once, xs), w') \<Rightarrow>
       (let response = take (nat got) response @ xs @ drop (nat got + length xs) response in
        if once \<le> 0 then Done (once, got, response) (http, w')
        else if buffer_size - once \<le> 0 then Fail error_socket_rd (http, w')
        else (case checkResponse (c_str response) http of
            Done n http' \<Rightarrow>
              if 0 < n then Done (once, got + once, response) (http', w')
              else response_loop k rd response (buffer_size - once) (got + once) (http', w')
          | Fail e http' \<Rightarrow> Fail e (http', w')
          | Crash q \<Rightarrow> Crash q)))"

definition HttpClient_request :: "nat \<Rightarrow> 'w client_ops \<Rightarrow> CHttp \<Rightarrow> bytes \<Rightarrow> bytes \<Rightarrow> bytes \<Rightarrow> bytes \<Rightarrow> (unit, 'w) act" where
  "HttpClient_request k ops http origin_host origin_path stream param w =
     (case cl_write ops (buildHttpGetRequest param [] origin_host origin_path stream) w of (rc, w) \<Rightarrow>
      if rc < 0 then Fail rc w
      else (case response_loop k (cl_read_packet ops) (replicate 1024 0) 1024 0 (http, w) of
        Crash q \<Rightarrow> Crash q
      | Fail e (http, w) \<Rightarrow> Fail e w
      | Done (once, got, response) (http, w) \<Rightarrow>
          if once < 0 then Fail error_socket_rd w
          else if once = 0 \<and> got = 0 then Fail error_socket_closed w
          else
            (let first_packet = take (nat got) response in
             case bind (ignore (parseHttpResponse first_packet)) (\<lambda>_. get_response_status first_packet) http of
               Crash q \<Rightarrow> Crash q
             | Fail e http \<Rightarrow> Fail e w
             | Done status http \<Rightarrow>
                 if status \<noteq> 200 then Fail error_ingest_no_input w
                 else Done () (cl_on_ingest ops (sint (of_nat (content_len http) :: 32 word)) (http_data http) w))))"

definition HttpClient_read_data :: "'r reader \<Rightarrow> int \<Rightarrow> (int \<times> bytes, 'r IOBuffer) act" where
  "HttpClient_read_data rd sz = IOBuffer_read_bytes rd sz"

definition HttpClient_write_data :: "'w client_ops \<Rightarrow> bytes \<Rightarrow> 'w \<Rightarrow> int \<times> 'w" where
  "HttpClient_write_data ops src w = cl_write ops src w"

end
