(* ===== verification/Cpp_String_Facts.thy ===== *)
theory Cpp_String_Facts
  imports Cpp_String
begin

text \<open>Where a search stops, what a printed number reads back as, and how a split text is joined.\<close>

section \<open>Searching\<close>

lemma find_first_Some:
  "find_first p s = Some i \<longleftrightarrow> i \<le> length s \<and> prefix p (drop i s) \<and> (\<forall>j<i. \<not> prefix p (drop j s))"
proof (induction s arbitrary: i)
  case Nil
  then show ?case by (auto simp: prefix_def)
next
  case (Cons c s)
  show ?case
  proof (cases i)
    case 0
    then show ?thesis by (auto simp: less_Suc_eq_0_disj)
  next
    case (Suc j)
    with Cons.IH [of j] show ?thesis by (auto simp: less_Suc_eq_0_disj)
  qed
qed

lemma find_first_None: "find_first p s = None \<longleftrightarrow> \<not> sublist p s"
  by (induction s) (auto simp: sublist_Cons_right)

lemma prefix_drop_sublist: "prefix p (drop j xs) \<Longrightarrow> sublist p xs"
  by (metis append_take_drop_id prefixE sublist_appendI)

lemma find_first_sublist_None: "find_first p s = None \<Longrightarrow> sublist t s \<Longrightarrow> find_first p t = None"
  unfolding find_first_None by (blast intro: sublist_order.order_trans)

text \<open>A search passes over text without the first character of the pattern.\<close>

lemma find_first_skip:
  "c \<notin> set xs \<Longrightarrow> find_first (c # p) (xs @ ys) = map_option ((+) (length xs)) (find_first (c # p) ys)"
proof (induction xs)
  case Nil
  show ?case by (cases "find_first (c # p) ys") auto
next
  case (Cons x xs)
  then show ?case by (cases "find_first (c # p) ys") auto
qed

text \<open>It stops behind a text in which the pattern does not begin; for a fixed text this is a computation.\<close>

lemma find_first_here:
  assumes "find_first p (xs @ butlast p) = None"
  shows "find_first p (xs @ p @ ys) = Some (length xs)"
proof -
  have "\<not> prefix p (drop j (xs @ p @ ys))" if "j < length xs" for j
  proof
    assume "prefix p (drop j (xs @ p @ ys))"
    then have p: "prefix p (drop j xs @ p @ ys)" using that by simp
    have le: "length p \<le> length (drop j xs @ butlast p)" using that by simp
    have "drop j xs @ p @ ys = (drop j xs @ butlast p) @ drop (length p - 1) p @ ys"
      by (simp add: butlast_conv_take) 
    with p le have "prefix p (drop j xs @ butlast p)" by (metis append_prefixD prefix_def prefix_length_prefix)
    then obtain zs where "drop j xs @ butlast p = p @ zs" by (auto simp: prefix_def)
    then have "xs @ butlast p = take j xs @ p @ zs" using append_take_drop_id [of j xs] by (metis append.assoc)
    then have "sublist p (xs @ butlast p)" unfolding sublist_def by blast
    with assms show False by (simp add: find_first_None)
  qed
  then show ?thesis by (simp add: find_first_Some)
qed

text \<open>It passes a text without the pattern when the next character is not in the pattern.\<close>

lemma find_first_past:
  assumes "find_first p xs = None" "d \<notin> set p" "p \<noteq> []"
  shows "find_first p (xs @ d # ys) = map_option ((+) (Suc (length xs))) (find_first p ys)"
proof -
  have no: "\<not> prefix p (drop j (xs @ d # ys))" if "j < Suc (length xs)" for j
  proof
    assume "prefix p (drop j (xs @ d # ys))"
    then have p: "prefix p (drop j xs @ d # ys)" using that by simp
    then have "prefix p (drop j xs)"
    proof (cases "length p \<le> length (drop j xs)")
      case True
      with p show ?thesis by (metis append_eq_conv_conj prefixE prefixI prefix_length_prefix)
    next
      case False
      from p obtain zs where "p @ zs = drop j xs @ d # ys" by (metis prefixE)
      then have "p ! length (drop j xs) = d" using False by (metis linorder_not_le nth_append nth_append_length)
      with False assms(2) show ?thesis by (metis linorder_not_le nth_mem)
    qed
    then have "sublist p xs" by (rule prefix_drop_sublist)
    with assms(1) show False by (simp add: find_first_None)
  qed
  show ?thesis
  proof (cases "find_first p ys")
    case None
    then have "\<not> prefix p (drop j (xs @ d # ys))" for j
    proof (cases "j < Suc (length xs)")
      case False
      then obtain i where "j = Suc (length xs) + i" by (metis le_iff_add linorder_not_le)
      then have "drop j (xs @ d # ys) = drop i ys" by simp
      moreover have "\<not> prefix p (drop i ys)"
      proof
        assume "prefix p (drop i ys)"
        then have "sublist p ys" by (rule prefix_drop_sublist)
        with None show False by (simp add: find_first_None)
      qed
      ultimately show ?thesis by simp
    qed (use no in blast)
    then have "find_first p (xs @ d # ys) = None"
      by (metis find_first_Some option.exhaust)
    with None show ?thesis by simp
  next
    case (Some i)
    have "\<not> prefix p (drop j (xs @ d # ys))" if "j < Suc (length xs) + i" for j
    proof (cases "j < Suc (length xs)")
      case False
      then obtain k where "j = Suc (length xs) + k" by (metis le_iff_add linorder_not_le)
      with Some that show ?thesis by (simp add: find_first_Some)
    qed (use no in blast)
    moreover have "i \<le> length ys" "prefix p (drop i ys)" using Some by (simp_all add: find_first_Some)
    ultimately have "find_first p (xs @ d # ys) = Some (Suc (length xs) + i)"
      unfolding find_first_Some by simp
    with Some show ?thesis by simp
  qed
qed

lemma find_first_without: "c \<in> set p \<Longrightarrow> c \<notin> set xs \<Longrightarrow> find_first p xs = None"
  by (auto simp: find_first_None sublist_def)

lemma find_str_at:
  "find_str p (xs @ ys) (length xs) = map_option ((+) (length xs)) (find_first p ys)"
  by (simp add: find_str_def)

lemma find_str_0: "find_str p s 0 = find_first p s"
  by (cases "find_first p s") (simp_all add: find_str_def)

lemma find_last_of_None: "find_last_of c s = None \<longleftrightarrow> c \<notin> set s"
  by (induction s) (auto split: option.splits)

lemma find_last_of_append: "c \<notin> set ys \<Longrightarrow> find_last_of c (xs @ c # ys) = Some (length xs)"
  by (induction xs) (simp_all add: find_last_of_None [THEN iffD2])

lemma substr_run [act_simps]:
  "pos \<le> length s \<Longrightarrow> substr s pos n t = Done (take (nat n) (drop pos s)) t"
  by (simp add: substr_def ret_run min_def)

lemma substr_rest: "s = xs @ ys \<Longrightarrow> length s \<le> nat n \<Longrightarrow> substr s (length xs) n t = Done ys t"
  by (simp add: substr_run)

lemma substr_from_run [act_simps]:
  "pos \<le> length s \<Longrightarrow> length s < 2 ^ 64 \<Longrightarrow> substr_from s pos t = Done (drop pos s) t"
  by (simp add: substr_from_def substr_run)

lemma sz_minus_le [simp]: "b \<le> a \<Longrightarrow> a - b < 2 ^ 64 \<Longrightarrow> sz_minus a b = a - b"
  by (simp add: sz_minus_def)

lemma sz_minus_less:
  assumes "a < b" "b - a \<le> 2 ^ 64"
  shows "sz_minus a b = 2 ^ 64 + a - b"
proof -
  have "(2 ^ 64 + (a - b)) mod 2 ^ 64 = 2 ^ 64 + (a - b)" using assms by (intro mod_pos_pos_trivial) auto
  then show ?thesis by (simp add: sz_minus_def)
qed

lemma uint32_small [simp]: "0 \<le> n \<Longrightarrow> n < 2 ^ 32 \<Longrightarrow> uint32_of n = nat n"
  by (simp add: uint32_of_def)

section \<open>Numbers\<close>

lemma number_snoc: "number b v (s @ [c]) = number b v s * b + v c"
  by (simp add: number_def)

lemma digit_of_nat: "n < 10 \<Longrightarrow> is_digit (48 + of_nat n) \<and> digit_val (48 + of_nat n) = n"
  by (auto simp: is_digit_def digit_val_def unat_of_nat word_le_nat_alt unat_word_ariths)

lemma decimal_digits: "c \<in> set (decimal n) \<Longrightarrow> is_digit c"
proof (induction n rule: decimal.induct)
  case (1 n)
  then show ?case
    using digit_of_nat [of n] digit_of_nat [of "n mod 10"] by (simp add: decimal.simps [of n] split: if_splits) auto
qed

lemma number_decimal [simp]: "number 10 digit_val (decimal n) = n"
proof (induction n rule: decimal.induct)
  case (1 n)
  show ?case
  proof (cases "n < 10")
    case True
    then show ?thesis using digit_of_nat [of n] by (simp add: decimal.simps [of n] number_def)
  next
    case False
    then show ?thesis
      using 1 digit_of_nat [of "n mod 10"] by (simp add: decimal.simps [of n] number_snoc)
  qed
qed

lemma decimal_not_Nil [simp]: "decimal n \<noteq> []"
  by (simp add: decimal.simps [of n])

lemma length_decimal: "n < 10 ^ k \<Longrightarrow> 0 < k \<Longrightarrow> length (decimal n) \<le> k"
proof (induction k arbitrary: n)
  case (Suc k)
  show ?case
  proof (cases "n < 10")
    case False
    then have "0 < k" using Suc.prems(1) by (cases k) auto
    moreover have "n div 10 < 10 ^ k" using Suc.prems(1) by simp
    ultimately show ?thesis using Suc.IH [of "n div 10"] False by (simp add: decimal.simps [of n])
  qed (simp add: decimal.simps [of n])
qed simp

text \<open>A printed number is read back, with spaces before it and anything but a digit behind it.\<close>

lemma atoll_decimal:
  assumes "n < 2 ^ 63" "\<forall>c \<in> set sp. is_space c" "\<not> is_digit c"
  shows "atoll (sp @ decimal n @ c # rest) = int n" "atoll (sp @ decimal n) = int n"
proof -
  obtain d ds where d: "decimal n = d # ds" by (cases "decimal n") auto
  have "is_digit d" using decimal_digits [of d n] d by simp
  then have nd: "\<not> is_space d" "d \<noteq> 45" "d \<noteq> 43" by (auto simp: is_digit_def is_space_def word_le_nat_alt)
  have tw: "takeWhile is_digit (decimal n @ c # rest) = decimal n" "takeWhile is_digit (decimal n) = decimal n"
    using decimal_digits [of _ n] assms(3)
    by (simp_all add: takeWhile_append2 takeWhile_eq_all_conv)
  have dw: "dropWhile is_space (sp @ decimal n @ t) = decimal n @ t" for t
    using assms(2) nd(1) by (simp add: d)
  have sg: "sign (decimal n @ t) = (False, decimal n @ t)" for t using nd by (simp add: d)
  show "atoll (sp @ decimal n @ c # rest) = int n"
    using assms(1) unfolding atoll_def dw sg by (simp add: tw Let_def)
  show "atoll (sp @ decimal n) = int n"
    using assms(1) dw [of "[]"] sg [of "[]"] unfolding atoll_def by (simp add: tw Let_def)
qed

lemma atou_int: "atoll s = int n \<Longrightarrow> n < 2 ^ 32 \<Longrightarrow> atou s = n"
  by (simp add: atou_def)

text \<open>Reading a printed number back through a stream.\<close>

lemma from_stream_decimal:
  "from_stream lo hi var (decimal n) = min hi (int n)" "from_stream lo hi var (45 # decimal n) = max lo (- int n)"
proof -
  obtain d ds where d: "decimal n = d # ds" by (cases "decimal n") auto
  have dig: "is_digit c" if "c \<in> set (decimal n)" for c using that by (rule decimal_digits)
  then have "is_digit d" using d by simp
  then have n: "\<not> is_space d" "d \<noteq> 45" "d \<noteq> 43" by (auto simp: is_digit_def is_space_def word_le_nat_alt)
  have t: "takeWhile is_digit (decimal n) = decimal n" using dig by (simp add: takeWhile_eq_all_conv)
  from n d t show "from_stream lo hi var (decimal n) = min hi (int n)"
    by (simp add: from_stream_def) (metis number_decimal)
  show "from_stream lo hi var (45 # decimal n) = max lo (- int n)"
    using t by (simp add: from_stream_def is_space_def) (metis t number_decimal)
qed

lemma GetInt64_roundtrip: "GetInt64FromString (GetStrFromInt64 v) = sint v"
proof -
  have "- (2 ^ 63) \<le> sint v" "sint v < 2 ^ 63" using sint_greater_eq [of v] sint_less [of v] by simp_all
  then show ?thesis
    by (auto simp: GetInt64FromString_def GetStrFromInt64_def from_stream_decimal)
qed

section \<open>Splitting\<close>

fun join :: "bytes \<Rightarrow> bytes list \<Rightarrow> bytes" where
  "join sep [] = []"
| "join sep [x] = x"
| "join sep (x # y # xs) = x @ sep @ join sep (y # xs)"

lemma split_loop_joins:
  assumes "sep \<noteq> []"
  shows "old \<le> length src \<Longrightarrow> length src - old < k \<Longrightarrow>
    \<exists>xs. split_loop k src sep old = Some xs \<and> xs \<noteq> [] \<and> join sep xs = drop old src
      \<and> (\<forall>x \<in> set xs. \<not> sublist sep x)"
proof (induction k arbitrary: old)
  case 0
  then show ?case by simp
next
  case (Suc k)
  show ?case
  proof (cases "find_first sep (drop old src)")
    case None
    then have "\<not> sublist sep (drop old src)" by (simp add: find_first_None)
    with None show ?thesis using Suc.prems by (simp add: find_str_def)
  next
    case (Some i)
    let ?new = "old + i"
    from Some have i: "i \<le> length (drop old src)" "prefix sep (drop i (drop old src))"
      "\<forall>j<i. \<not> prefix sep (drop j (drop old src))" by (simp_all add: find_first_Some)
    from i(2) obtain zs where zs: "drop ?new src = sep @ zs" by (auto simp: prefix_def add.commute)
    from arg_cong [OF zs, of length] have len: "length src - ?new = length sep + length zs" by simp
    have "0 < length sep" using assms by simp
    with len Suc.prems have le: "?new + length sep \<le> length src" "length src - (?new + length sep) < k" by linarith+
    from Suc.IH [OF le] obtain xs where xs: "split_loop k src sep (?new + length sep) = Some xs" "xs \<noteq> []"
      "join sep xs = drop (?new + length sep) src" "\<forall>x \<in> set xs. \<not> sublist sep x" by blast
    have rest: "drop (?new + length sep) src = zs"
      using arg_cong [OF zs, of "drop (length sep)"] by (simp add: add.commute)
    have "\<not> sublist sep (take i (drop old src))"
    proof
      assume "sublist sep (take i (drop old src))"
      then obtain ps ss where ps: "take i (drop old src) = ps @ sep @ ss" by (auto simp: sublist_def)
      with assms have "length ps < i" by (metis append_eq_conv_conj append_self_conv2 i(1) length_append
            length_greater_0_conv length_take less_add_same_cancel1 min.absorb2 not_add_less1 add_gr_0 neq0_conv nat_less_le le_add1 append_is_Nil_conv)
      moreover have "drop old src = (ps @ sep @ ss) @ drop i (drop old src)"
        using ps append_take_drop_id [of i "drop old src"] by simp
      then have "prefix sep (drop (length ps) (drop old src))" by (metis append.assoc append_eq_conv_conj prefixI)
      ultimately show False using i(3) by blast
    qed
    moreover have "join sep (take i (drop old src) # xs) = drop old src"
    proof -
      have "join sep (take i (drop old src) # xs) = take i (drop old src) @ sep @ join sep xs"
        using xs(2) by (cases xs) auto
      also have "\<dots> = take i (drop old src) @ drop ?new src" by (simp add: xs(3) rest zs)
      also have "\<dots> = drop old src" using append_take_drop_id [of i "drop old src"] by (simp add: add.commute)
      finally show ?thesis .
    qed
    ultimately show ?thesis using Some Suc.prems xs by (simp add: find_str_def)
  qed
qed

end
