(* ===== verification/Http_Facts.thy ===== *)
theory Http_Facts
  imports Http_Conn Cpp_String_Facts
begin

text \<open>
  Messages with a \<open>Content-Length\<close> header: when they are complete, and what is parsed from them.
  The locale \<open>framed\<close> states what a message must look like; responses and POST requests as the program
  builds them are its instances.
\<close>

lemma assign_run [act_simps]: "assign f s = Done () (f s)"
  by (simp add: assign_def)

lemma found_or_fail_run [act_simps]: "found_or_fail (Some i) s = Done i s" "found_or_fail None s = Fail (-1) s"
  by (simp_all add: found_or_fail_def act_simps)

lemma checkRequest_eq: "checkRequest = checkResponse"
  by (simp add: fun_eq_iff checkRequest_def checkResponse_def)

lemma lit_append: "lit (s @ t) = lit s @ lit t"
  by (simp add: lit_def)

lemma c_str_append: "0 \<notin> set xs \<Longrightarrow> c_str (xs @ ys) = xs @ c_str ys"
  by (induction xs) (auto simp: c_str_def)

lemma decimal_no_char: "\<not> is_digit c \<Longrightarrow> c \<notin> set (decimal n)"
  using decimal_digits by blast

lemma not_digit [simp]: "\<not> is_digit 13" "\<not> is_digit 10" "\<not> is_digit 32" "\<not> is_digit 0"
  by (simp_all add: is_digit_def word_le_nat_alt)

section \<open>Messages with a length\<close>

abbreviation CL :: bytes where "CL \<equiv> lit ''Content-Length:''"
abbreviation CC :: bytes where "CC \<equiv> [13, 10, 13, 10]"

lemma length_CL [simp]: "length CL = 15" by (simp add: lit_def)

lemma find_CRLF_number: "find_first CRLF (32 # decimal n @ CRLF @ t) = Some (Suc (length (decimal n)))"
proof -
  have "13 \<notin> set (32 # decimal n)" using decimal_no_char [of 13 n] by simp
  from find_first_skip [OF this, of "[10]" "CRLF @ t"] show ?thesis by (simp add: CRLF_def)
qed

text \<open>A length that is found at \<open>start\<close> and ends at \<open>stop\<close>.\<close>

definition length_at :: "bytes \<Rightarrow> nat \<Rightarrow> nat \<Rightarrow> nat \<Rightarrow> bool" where
  "length_at data found stop n \<longleftrightarrow> find_str CL data 0 = Some found
     \<and> find_str CRLF data (uint32_of (int found + 15)) = Some stop
     \<and> uint32_of (int found + 15) \<le> length data
     \<and> atou (take (nat (sz_minus (int stop) (int (uint32_of (int found + 15))))) (drop (uint32_of (int found + 15)) data)) = n"

lemma check_length_at:
  assumes "length_at data found stop n"
  shows "checkResponse data h = (case find_str (CRLF @ CRLF) data 0 of None \<Rightarrow> Done 0 (h\<lparr>content_len := n\<rparr>)
     | Some i \<Rightarrow> (let total = uint32_of (int (uint32_of (int i + 4)) + int n) in
         Done (if length data < total then 0 else total) (h\<lparr>content_len := n\<rparr>)))"
proof -
  from assms show ?thesis
    unfolding length_at_def checkResponse_def checkHttpInputWithLength_def
    by (cases "find_str (CRLF @ CRLF) data 0") (simp_all add: Let_def act_simps)
qed

lemma parse_length_at:
  assumes "length_at data found stop n" "find_str (CRLF @ CRLF) data 0 = Some i" "uint32_of (int i + 4) = start"
    "uint32_of (int start + int n) \<le> length data" "start \<le> length data" "length data < 2 ^ 64"
  shows "parse_with_length data h = Done () (h\<lparr>content_len := n, http_data := drop start data\<rparr>)"
  using assms unfolding length_at_def parse_with_length_def
  by (simp add: Let_def act_simps)

locale framed =
  fixes before :: bytes and between :: bytes
  assumes first_CL: "find_first CL (before @ butlast CL) = None"
    and one_head: "find_first CC (before @ CL @ 32 # decimal n @ between @ butlast CC) = None"
    and line_end: "prefix CRLF (between @ CC)"
begin

definition head :: "nat \<Rightarrow> bytes" where
  "head n = before @ CL @ 32 # decimal n @ between @ CC"

lemma no_head_in_key: "find_first CC (before @ CL) = None"
  by (rule find_first_sublist_None [OF one_head [of 0]]) (auto simp: sublist_def intro: exI [of _ "[]"])

lemma find_CL: "find_str CL (before @ CL @ t) 0 = Some (length before)"
  by (simp add: find_str_0 find_first_here [OF first_CL])

lemma find_CC: "find_str (CRLF @ CRLF) (head n @ t) 0 = Some (length (head n) - 4)"
  using find_first_here [of CC "before @ CL @ 32 # decimal n @ between" t] one_head [of n]
  by (simp add: find_str_0 head_def CRLF_def)

lemma number_at:
  "find_str CRLF (before @ CL @ 32 # decimal n @ CRLF @ t) (length before + 15)
    = Some (length before + 16 + length (decimal n))"
proof -
  have "find_str CRLF ((before @ CL) @ 32 # decimal n @ CRLF @ t) (length (before @ CL))
    = Some (length (before @ CL) + Suc (length (decimal n)))"
    unfolding find_str_at find_CRLF_number by simp
  then show ?thesis by simp
qed

lemma head_line: "\<exists>t'. head n @ t = before @ CL @ 32 # decimal n @ CRLF @ t'"
proof -
  obtain zs where "between @ CC = CRLF @ zs" using line_end by (auto simp: prefix_def)
  then have "head n @ t = before @ CL @ 32 # decimal n @ (CRLF @ zs) @ t"
    unfolding head_def by (metis append.assoc append_Cons)
  then show ?thesis by auto
qed

text \<open>Up to the empty line, the checks read the length.\<close>

lemma content_length:
  assumes "n < 2 ^ 32" "length before < 2 ^ 31" "length (decimal n) < 2 ^ 31"
  shows "length_at (before @ CL @ 32 # decimal n @ CRLF @ t) (length before)
    (length before + 16 + length (decimal n)) n"
proof -
  have start: "uint32_of (int (length before) + 15) = length before + 15"
    using assms(2) by (simp add: nat_add_distrib)
  have len: "sz_minus (int (length before + 16 + length (decimal n))) (int (length before + 15))
      = int (Suc (length (decimal n)))"
    using assms(3) by simp
  have "atou (32 # decimal n) = n"
    using atoll_decimal(2) [of n "[32]" 0] assms(1) by (intro atou_int) (simp_all add: is_space_def)
  then show ?thesis
    unfolding length_at_def start find_CL number_at len nat_int by simp
qed

lemma check_complete:
  assumes "n = length body" "length (head n) + n < 2 ^ 31"
  shows "checkResponse (head n @ body) h = Done (length (head n @ body)) (h\<lparr>content_len := n\<rparr>)"
proof -
  obtain t where t: "head n @ body = before @ CL @ 32 # decimal n @ CRLF @ t" using head_line by blast
  have "length before + length (decimal n) + 4 \<le> length (head n)" by (simp add: head_def)
  with assms have b: "n < 2 ^ 32" "length before < 2 ^ 31" "length (decimal n) < 2 ^ 31" "4 \<le> length (head n)"
    by simp_all
  have "uint32_of (int (length (head n) - 4) + 4) = length (head n)"
    using assms(2) b(4) by (simp add: of_nat_diff)
  moreover have "uint32_of (int (length (head n)) + int n) = length (head n) + n"
    using assms(2) by (simp add: nat_add_distrib)
  ultimately show ?thesis
    using check_length_at [OF content_length [OF b(1-3), of t], of h] find_CC [of n body] assms(1) unfolding t [symmetric]
    by (simp add: Let_def)
qed

lemma check_incomplete:
  assumes "n = length body" "length (head n) + n < 2 ^ 31" "k < length (head n @ body)"
  shows "\<exists>h'. checkResponse (take k (head n @ body)) h = Done 0 h' \<and> response_status h' = response_status h"
proof -
  obtain t where t: "head n @ body = before @ CL @ 32 # decimal n @ CRLF @ t" using head_line by blast
  have "length before + length (decimal n) + 4 \<le> length (head n)" by (simp add: head_def)
  with assms have b: "n < 2 ^ 32" "length before < 2 ^ 31" "length (decimal n) < 2 ^ 31" "4 \<le> length (head n)"
    by simp_all
  consider "k < length before + 15" | "length before + 15 \<le> k" "k < length before + 18 + length (decimal n)"
    | "length before + 18 + length (decimal n) \<le> k" "k < length (head n)" | "length (head n) \<le> k" by linarith
  then show ?thesis
  proof cases
    case 1
    then have "take k (head n @ body) = take k (before @ CL)" by (simp add: t)
    then have "find_str (CRLF @ CRLF) (take k (head n @ body)) 0 = None"
      using find_first_sublist_None [OF no_head_in_key, of "take k (before @ CL)"]
      by (simp add: find_str_0 CRLF_def del: take_append)
    then have none: "find_str (CRLF @ CRLF) (take k (head n @ body)) 0 = None" .
    show ?thesis
    proof (cases "find_str CL (take k (head n @ body)) 0")
      case None
      with none show ?thesis by (simp add: checkResponse_def checkHttpInputSimple_def act_simps)
    next
      case (Some i)
      then have "sublist CL (take k (head n @ body))"
        by (metis find_first_None find_str_0 option.distinct(1))
      moreover have "take k (head n @ body) = take k (before @ butlast CL)"
        using 1 by (simp add: t butlast_conv_take)
      ultimately have "sublist CL (take k (before @ butlast CL))" by simp
      then have "sublist CL (before @ butlast CL)"
        by (rule sublist_order.order_trans [OF _ sublist_take])
      with first_CL show ?thesis by (simp add: find_first_None)
    qed
  next
    case 2
    then have tk: "take k (head n @ body) = before @ CL @ take (k - (length before + 15)) (32 # decimal n @ CRLF @ t)"
      by (simp add: t)
    let ?r = "take (k - (length before + 15)) (32 # decimal n @ CRLF @ t)"
    have "?r = take (k - (length before + 15)) (32 # decimal n @ [13])"
      using 2 by (auto simp: CRLF_def take_Cons' not_less) 
    then have "sublist ?r (32 # decimal n @ [13])" by (metis sublist_take)
    moreover have "find_first CRLF (32 # decimal n @ [13]) = None"
      using find_first_skip [of 13 "32 # decimal n" "[10]" "[13]"] decimal_no_char [of 13 n] by (simp add: CRLF_def)
    ultimately have "find_first CRLF ?r = None" by (blast intro: find_first_sublist_None)
    then have "find_str CRLF (before @ CL @ ?r) (length before + 15) = None"
      using find_str_at [of CRLF "before @ CL" ?r] by simp
    moreover have "uint32_of (int (length before) + 15) = length before + 15"
      using b(2) by (simp add: nat_add_distrib)
    ultimately show ?thesis
      unfolding tk checkResponse_def checkHttpInputWithLength_def find_CL by (simp add: Let_def act_simps)
  next
    case 3
    then have tk: "take k (head n @ body) = before @ CL @ 32 # decimal n @ CRLF @ take (k - (length before + 18 + length (decimal n))) t"
      unfolding t by (simp add: CRLF_def take_Cons' not_less ac_simps)
    have "sublist (take k (head n @ body)) (before @ CL @ 32 # decimal n @ between @ butlast CC)"
    proof -
      have "take k (head n @ body) = take k (before @ CL @ 32 # decimal n @ between @ butlast CC)"
        using 3(2) by (auto simp: head_def take_Cons' not_less)
      then show ?thesis by (metis sublist_take)
    qed
    then have "find_str (CRLF @ CRLF) (take k (head n @ body)) 0 = None"
      using find_first_sublist_None [OF one_head] by (simp add: find_str_0 CRLF_def)
    then show ?thesis unfolding tk using check_length_at [OF content_length [OF b(1-3)]] by (simp add: Let_def)
  next
    case 4
    then have tk: "take k (head n @ body) = head n @ take (k - length (head n)) body" by simp
    obtain t' where t': "head n @ take (k - length (head n)) body = before @ CL @ 32 # decimal n @ CRLF @ t'"
      using head_line by blast
    have "uint32_of (int (length (head n) - 4) + 4) = length (head n)"
      using assms(2) b(4) by (simp add: of_nat_diff)
    moreover have "uint32_of (int (length (head n)) + int n) = length (head n) + n"
      using assms(2) by (simp add: nat_add_distrib)
    ultimately show ?thesis
      using check_length_at [OF content_length [OF b(1-3), of t'], of h] find_CC [of n "take (k - length (head n)) body"] assms(1,3) 4
      unfolding tk t' [symmetric] by (auto simp: Let_def)
  qed
qed

text \<open>Parsing takes the body behind the empty line.\<close>

lemma parse_length:
  assumes "n = length body" "length (head n) + n < 2 ^ 31"
  shows "parse_with_length (head n @ body) h = Done () (h\<lparr>content_len := n, http_data := body\<rparr>)"
proof -
  obtain t where t: "head n @ body = before @ CL @ 32 # decimal n @ CRLF @ t" using head_line by blast
  have "length before + length (decimal n) + 4 \<le> length (head n)" by (simp add: head_def)
  with assms have b: "n < 2 ^ 32" "length before < 2 ^ 31" "length (decimal n) < 2 ^ 31" "4 \<le> length (head n)"
    by simp_all
  from content_length [OF b(1-3), of t] have l: "length_at (head n @ body) (length before)
    (length before + 16 + length (decimal n)) n" by (simp only: t)
  have start: "uint32_of (int (length (head n) - 4) + 4) = length (head n)"
    using assms(2) b(4) by (simp add: of_nat_diff)
  have "uint32_of (int (length (head n)) + int n) = length (head n) + n"
    using assms(2) by (simp add: nat_add_distrib)
  with parse_length_at [OF l find_CC start] assms show ?thesis by simp
qed

end

section \<open>Responses\<close>

definition response_between :: bytes where
  "response_between = CRLF @ lit ''Connection: Keep-Alive''"

definition response_before :: bytes where
  "response_before = lit ''HTTP/1.1 200 OK'' @ CRLF @ lit ''Content-Type: text/plain'' @ CRLF"

text \<open>The empty line is not found at the end of a line that another one follows.\<close>

lemma line_past:
  assumes "13 \<notin> set l" "c \<noteq> 13" "c \<noteq> 10"
  shows "find_first CC (l @ 13 # 10 # c # t) = map_option ((+) (length l + 3)) (find_first CC t)"
  using find_first_skip [OF assms(1), of "[10, 13, 10]" "[13, 10] @ c # t"]
    find_first_past [of CC "[13, 10]" c t] assms(2,3)
  by (cases "find_first CC t") simp_all

interpretation response: framed response_before response_between
proof
  show "find_first CL (response_before @ butlast CL) = None" by code_simp
  have rb: "response_between @ butlast CC = 13 # 10 # 67 # lit ''onnection: Keep-Alive'' @ [13, 10, 13]"
    by code_simp
  have "find_first CC (response_before @ CL) = None" "find_first CC (lit ''onnection: Keep-Alive'' @ [13, 10, 13]) = None"
    by code_simp+
  then show "find_first CC (response_before @ CL @ 32 # decimal n @ response_between @ butlast CC) = None" for n
    using find_first_past [of CC "response_before @ CL" 32 "decimal n @ response_between @ butlast CC"]
      line_past [of "decimal n" 67] decimal_no_char [of 13 n]
    unfolding rb by simp
  show "prefix CRLF (response_between @ CC)" by (simp add: response_between_def)
qed

lemma buildResponse_eq:
  assumes "length d < 2 ^ 32"
  shows "buildResponse d = response.head (length d) @ d"
proof -
  have "GetStrFromUInt32 (of_nat (length d)) = decimal (length d)"
    using assms by (simp add: GetStrFromUInt32_def unat_of_nat)
  moreover have "lit ''Content-Length: '' = CL @ [32]" by (simp add: lit_def)
  ultimately show ?thesis
    unfolding response.head_def by (simp add: buildResponse_def response_before_def response_between_def CRLF_def)
qed

lemma status_of_response:
  assumes "\<not> 0 < response_status h"
  shows "get_response_status (buildResponse d) h = Done 200 (h\<lparr>response_status := 200\<rparr>)"
proof -
  obtain t where t: "buildResponse d = lit ''HTTP/1.1'' @ 32 # lit ''200'' @ 32 # t"
    by (simp add: buildResponse_def lit_def)
  have free: "32 \<notin> set (lit ''HTTP/1.1'')" "32 \<notin> set (lit ''200'')" "lit '' '' = [32]"
    "length (lit ''HTTP/1.1'') = 8" "length (lit ''200'') = 3" by code_simp+
  have "find_str (lit '' '') (buildResponse d) 0 = Some 8"
    using find_first_skip [OF free(1), of "[]" "32 # lit ''200'' @ 32 # t"] by (simp add: find_str_0 t free)
  moreover have "find_str (lit '' '') (buildResponse d) 9 = Some 12"
    using find_str_at [of "lit '' ''" "lit ''HTTP/1.1'' @ [32]" "lit ''200'' @ 32 # t"]
      find_first_skip [OF free(2), of "[]" "32 # t"] by (simp add: t free)
  moreover have "substr (buildResponse d) 9 3 h = Done (lit ''200'') h"
    by (simp add: act_simps t free)
  moreover have "take 4 (buildResponse d) = lit ''HTTP''" "atoll (lit ''200'') = 200"
    by (simp add: t lit_def) code_simp
  ultimately show ?thesis using assms by (simp add: get_response_status_def Let_def act_simps)
qed

text \<open>A response of the program is parsed back: the status, the length and the body.\<close>

lemma parse_response:
  assumes "length (buildResponse d) < 2 ^ 31" "\<not> 0 < response_status h"
  shows "parseHttpResponse (buildResponse d) h
    = Done () (h\<lparr>response_status := 200, content_len := length d, http_data := d\<rparr>)"
proof -
  have "length d \<le> length (buildResponse d)" by (simp add: buildResponse_def)
  with assms have d: "length d < 2 ^ 32" by simp
  have "length (response.head (length d)) + length d < 2 ^ 31"
    using assms(1) by (simp add: buildResponse_eq [OF d])
  note parse = response.parse_length [OF refl this]
  have "find_first (lit ''Content-Length: '') (response_before @ butlast (lit ''Content-Length: '')) = None"
    "0 \<notin> set (response_before @ lit ''Content-Length: '')" by code_simp+
  note key = this
  obtain t where t: "buildResponse d = (response_before @ lit ''Content-Length: '') @ t"
    by (simp add: buildResponse_def response_before_def)
  have "find_str (lit ''Content-Length: '') (c_str (buildResponse d)) 0 = Some (length response_before)"
    using find_first_here [OF key(1)] unfolding t c_str_append [OF key(2)] by (simp add: find_str_0)
  then show ?thesis
    unfolding parseHttpResponse_def using status_of_response [OF assms(2), of d] parse
    by (simp add: act_simps buildResponse_eq [OF d])
qed

section \<open>The client\<close>

text \<open>A connection that delivers byte after byte.\<close>

definition delivers :: "'w reader \<Rightarrow> ('w \<Rightarrow> bytes) \<Rightarrow> bool" where
  "delivers rd rest \<longleftrightarrow> (\<forall>w b bs. rest w = b # bs \<longrightarrow> fst (rd 1 w) = (1, [b]) \<and> rest (snd (rd 1 w)) = bs)"

lemma response_step:
  assumes "rd 1 w = ((1, xs), w1)" "\<not> buffer_size - 1 \<le> 0"
    "take (nat got) response @ xs @ drop (nat got + length xs) response = r"
  shows "response_loop (Suc k) rd response buffer_size got (h, w) = (case checkResponse (c_str r) h of
      Done n h' \<Rightarrow> if 0 < n then Done (1, got + 1, r) (h', w1)
        else response_loop k rd r (buffer_size - 1) (got + 1) (h', w1)
    | Fail e h' \<Rightarrow> Fail e (h', w1) | Crash q \<Rightarrow> Crash q)"
  using assms(1,2) by (simp add: Let_def assms(3) [symmetric] split: outcome.split)

lemma response_loop_reads:
  assumes "delivers rd rest" "length resp < 1024" "0 \<notin> set resp"
    and incomplete: "\<And>k h. k < length resp \<Longrightarrow> \<exists>h'. checkResponse (take k resp) h = Done 0 h' \<and> response_status h' = response_status h"
    and complete: "\<And>h. \<exists>h'. checkResponse resp h = Done (length resp) h' \<and> response_status h' = response_status h"
  shows "i < length resp \<Longrightarrow> rest w = drop i resp @ later \<Longrightarrow> length resp - i \<le> k \<Longrightarrow>
    \<exists>h' w'. response_loop k rd (take i resp @ replicate (1024 - i) 0) (1024 - int i) (int i) (h, w)
      = Done (1, int (length resp), resp @ replicate (1024 - length resp) 0) (h', w')
      \<and> rest w' = later \<and> response_status h' = response_status h"
proof (induction k arbitrary: i h w)
  case 0
  then show ?case by simp
next
  case (Suc k)
  let ?b = "resp ! i"
  have dr: "drop i resp = ?b # drop (Suc i) resp" using Suc.prems(1) by (simp add: Cons_nth_drop_Suc)
  obtain w1 where w1: "rd 1 w = ((1, [?b]), w1)" "rest w1 = drop (Suc i) resp @ later"
    using assms(1) Suc.prems(2) unfolding delivers_def dr by (metis append_Cons prod.collapse)
  have store: "take (nat (int i)) (take i resp @ replicate (1024 - i) 0) @ [?b] @
      drop (nat (int i) + length [?b]) (take i resp @ replicate (1024 - i) 0)
    = take (Suc i) resp @ replicate (1024 - Suc i) 0"
    using Suc.prems(1) assms(2) by (simp add: take_Suc_conv_app_nth)
  have "0 \<notin> set (take (Suc i) resp)" using assms(3) by (meson in_set_takeD)
  then have str: "c_str (take (Suc i) resp @ replicate (1024 - Suc i) 0) = take (Suc i) resp"
    using Suc.prems(1) assms(2) by (simp add: c_str_append) (simp add: c_str_def Suc_diff_Suc [symmetric])
  have room: "\<not> 1024 - int i - 1 \<le> 0" using Suc.prems(1) assms(2) by simp
  show ?case
  proof (cases "Suc i = length resp")
    case True
    then have all: "take (Suc i) resp = resp" "int (length resp) = int i + 1" "1024 - Suc i = 1024 - length resp"
      by simp_all
    have "0 < length resp" using True by linarith
    from complete [of h] obtain h' where "checkResponse resp h = Done (length resp) h'"
      "response_status h' = response_status h" by blast
    then show ?thesis
      using response_step [of rd w "[?b]" w1 "1024 - int i" "int i" _ _ k h, OF w1(1) room store] w1(2) True
      unfolding str unfolding all using \<open>0 < length resp\<close> by (simp del: response_loop.simps)
  next
    case False
    with Suc.prems(1) have lt: "Suc i < length resp" by simp
    from incomplete [OF lt, of h] obtain h1 where h1: "checkResponse (take (Suc i) resp) h = Done 0 h1"
      "response_status h1 = response_status h" by blast
    have "length resp - Suc i \<le> k" using Suc.prems(3) by simp
    from Suc.IH [OF lt w1(2) this, of h1] response_step [of rd w "[?b]" w1 "1024 - int i" "int i" _ _ k h, OF w1(1) room store] h1 show ?thesis
      unfolding str by (simp add: algebra_simps)
  qed
qed

end
