(* ===== verification/Http_Requests.thy ===== *)
theory Http_Requests
  imports Http_Facts
begin

text \<open>What is parsed from a request as \<open>buildHttpGetRequest\<close> writes it, and from a query of encoded values.\<close>

section \<open>The request line and the headers\<close>

definition free_of :: "bytes \<Rightarrow> bytes \<Rightarrow> bool" where
  "free_of ds s \<longleftrightarrow> (\<forall>c \<in> set s. c \<notin> set ds)"

lemma free_of_append [simp]: "free_of ds (s @ t) \<longleftrightarrow> free_of ds s \<and> free_of ds t"
  by (auto simp: free_of_def)

lemma free_ofD: "free_of ds s \<Longrightarrow> c \<in> set ds \<Longrightarrow> c \<notin> set s"
  by (auto simp: free_of_def)

text \<open>What separates the parts of a request.\<close>

definition delims :: bytes where "delims = [0, 13, 32, 58, 60, 63]"

definition target :: "bytes \<Rightarrow> bytes \<Rightarrow> bytes \<Rightarrow> bytes" where
  "target path name param = path @ 47 # name @ (if param = [] then [] else 63 # param)"

definition user_agent :: bytes where
  "user_agent = lit ''User-Agent: curl/7.15.1 (linux) OpenSSL/0.9.8a zlib/1.2.3 libidn/0.6.0''"

definition request_line :: "bytes \<Rightarrow> bytes" where
  "request_line t = lit ''GET /'' @ t @ lit '' HTTP/1.1'' @ CRLF @ user_agent @ CRLF"

lemma build_get:
  assumes "host \<noteq> []"
  shows "buildHttpGetRequest param [] host path name
    = request_line (target path name param) @ lit ''Host: '' @ host @ CRLF @ lit ''Accept: */*'' @ CRLF @ CRLF"
  using assms by (simp add: buildHttpGetRequest_def request_line_def target_def user_agent_def lit_def CRLF_def)

lemma length_request_line: "length (request_line t) = length t + 88"
  by (simp add: request_line_def user_agent_def CRLF_def lit_def)

text \<open>A header name is not found before the headers: it has a colon, but no slash and no line feed.\<close>

lemma header_past_line:
  assumes "c \<notin> set (lit ''GET /'')" "c \<notin> set (user_agent @ CRLF)" "58 \<in> set (c # p)" "10 \<notin> set (c # p)" "58 \<notin> set t"
  shows "find_first (c # p) (request_line t @ r) = map_option ((+) (length (request_line t))) (find_first (c # p) r)"
proof -
  let ?l = "t @ lit '' HTTP/1.1'' @ [13]"
  have "58 \<notin> set ?l" using assms(5) by (simp add: lit_def)
  then have none: "find_first (c # p) ?l = None" by (rule find_first_without [OF assms(3)])
  have "request_line t @ r = lit ''GET /'' @ ?l @ 10 # (user_agent @ CRLF) @ r"
    by (simp add: request_line_def CRLF_def)
  moreover have "length (request_line t) = length (lit ''GET /'') + Suc (length ?l) + length (user_agent @ CRLF)"
    by (simp add: request_line_def CRLF_def)
  ultimately show ?thesis
    using find_first_skip [OF assms(1), of p "?l @ 10 # (user_agent @ CRLF) @ r"]
      find_first_past [OF none assms(4), of "(user_agent @ CRLF) @ r"] find_first_skip [OF assms(2), of p r]
    by (cases "find_first (c # p) r") simp_all
qed

lemma no_extra_header:
  assumes "58 \<notin> set t" "32 \<notin> set host" "58 \<in> set p" "32 \<in> set p" "10 \<notin> set p" "13 \<notin> set p"
  shows "find_first (88 # p) (request_line t @ lit ''Host: '' @ host @ CRLF @ lit ''Accept: */*'' @ CRLF @ CRLF) = None"
proof -
  have free: "88 \<notin> set (lit ''GET /'')" "88 \<notin> set (user_agent @ CRLF)" "88 \<notin> set (lit ''Host: '')"
    "88 \<notin> set (10 # lit ''Accept: */*'' @ CRLF @ CRLF)" by code_simp+
  have "find_first (88 # p) host = None" using assms(2,4) by (intro find_first_without [of 32]) auto
  from find_first_past [OF this, of 13 "10 # lit ''Accept: */*'' @ CRLF @ CRLF"] assms(6)
    find_first_skip [OF free(4), of p "[]"]
  have "find_first (88 # p) (host @ CRLF @ lit ''Accept: */*'' @ CRLF @ CRLF) = None" by (simp add: CRLF_def)
  with header_past_line [OF free(1,2), of p t] find_first_skip [OF free(3), of p] assms(1,3,5) show ?thesis by simp
qed

lemma host_header:
  assumes "58 \<notin> set t"
  shows "find_first (lit ''Host: '') (request_line t @ lit ''Host: '' @ r) = Some (length (request_line t))"
proof -
  have p: "lit ''Host: '' = 72 # lit ''ost: ''" by (simp add: lit_def)
  have "72 \<notin> set (lit ''GET /'')" "72 \<notin> set (user_agent @ CRLF)" "58 \<in> set (lit ''Host: '')" "10 \<notin> set (lit ''Host: '')"
    by code_simp+
  from header_past_line [OF this(1,2) _ _ assms, of "lit ''ost: ''" "lit ''Host: '' @ r"] this(3,4)
  show ?thesis unfolding p by simp
qed

lemma target_free: "free_of delims path \<Longrightarrow> free_of delims name \<Longrightarrow> free_of delims param \<Longrightarrow>
    free_of [0, 13, 32, 58, 60] (target path name param)"
  by (auto simp: target_def free_of_def delims_def)

lemma http_at:
  assumes "32 \<notin> set t"
  shows "find_first (lit '' HTTP'') (request_line t @ r) = Some (5 + length t)"
proof -
  have p: "lit '' HTTP'' = 32 # lit ''HTTP''" by (simp add: lit_def)
  have "find_first (lit '' HTTP'') (lit ''GET '') = None" "47 \<notin> set (lit '' HTTP'')" "lit '' HTTP'' \<noteq> []" by code_simp+
  note past = find_first_past [OF this, of "t @ lit '' HTTP'' @ lit ''/1.1'' @ CRLF @ user_agent @ CRLF @ r"]
  have "find_first (lit '' HTTP'') (t @ lit '' HTTP'' @ lit ''/1.1'' @ CRLF @ user_agent @ CRLF @ r) = Some (length t)"
    unfolding p using find_first_skip [OF assms, of "lit ''HTTP''" "32 # lit ''HTTP'' @ lit ''/1.1'' @ CRLF @ user_agent @ CRLF @ r"]
    by simp
  with past show ?thesis by (simp add: request_line_def lit_def)
qed

lemma question_at:
  assumes "63 \<notin> set path" "63 \<notin> set name" "63 \<notin> set host"
  shows "find_first (lit ''?'') (request_line (target path name param) @ lit ''Host: '' @ host @ CRLF @ lit ''Accept: */*'' @ CRLF @ CRLF)
    = (if param = [] then None else Some (6 + length path + length name))"
proof (cases "param = []")
  case True
  have "63 \<notin> set (lit ''GET /'' @ lit '' HTTP/1.1'' @ CRLF @ user_agent @ lit ''Host: '' @ lit ''Accept: */*'')" by code_simp
  with assms True have "63 \<notin> set (request_line (target path name param) @ lit ''Host: '' @ host @ CRLF @ lit ''Accept: */*'' @ CRLF @ CRLF)"
    by (simp add: request_line_def target_def)
  then show ?thesis using True find_first_without [of 63 "lit ''?''"] by (simp add: lit_def)
next
  case False
  have "63 \<notin> set (lit ''GET /'')" by code_simp
  then have free: "63 \<notin> set (lit ''GET /'' @ path @ 47 # name)" using assms by simp
  have len: "length (lit ''GET /'' @ path @ 47 # name) = 6 + length path + length name" by (simp add: lit_def)
  have "request_line (target path name param) @ r = (lit ''GET /'' @ path @ 47 # name) @ 63 # param @ lit '' HTTP/1.1'' @ CRLF @ user_agent @ CRLF @ r" for r
    using False by (simp add: request_line_def target_def)
  then show ?thesis using False find_first_skip [OF free, of "[]"] len by (simp add: lit_def)
qed

text \<open>No request for the cross-domain policy.\<close>

lemma not_crossdomain:
  assumes "\<not> sublist (lit ''crossdomain.xml'') t" "\<not> sublist (lit ''crossdomain.xml'') host"
  shows "find_first (lit ''crossdomain.xml'') (request_line t @ lit ''Host: '' @ host @ CRLF @ lit ''Accept: */*'' @ CRLF @ CRLF) = None"
proof -
  let ?p = "lit ''crossdomain.xml''"
  define l where "l = lit ''HTTP/1.1'' @ CRLF @ user_agent @ CRLF @ lit ''Host:''"
  have "find_first ?p (lit ''HTTP/1.1'' @ CRLF @ user_agent @ CRLF @ lit ''Host:'') = None" by code_simp
  then have l: "find_first ?p l = None" by (simp add: l_def)
  have "find_first ?p (lit ''GET '') = None" "find_first ?p (10 # lit ''Accept: */*'' @ CRLF @ CRLF) = None"
    "47 \<notin> set ?p" "32 \<notin> set ?p" "13 \<notin> set ?p" "?p \<noteq> []" by code_simp+
  note closed = this
  have "find_first ?p t = None" "find_first ?p host = None" using assms by (simp_all add: find_first_None)
  then have "find_first ?p (lit ''GET '' @ 47 # t @ 32 # l @ 32 # host @ 13 # 10 # lit ''Accept: */*'' @ CRLF @ CRLF) = None"
    using closed l by (simp add: find_first_past del: find_first.simps)
  then show ?thesis by (simp add: l_def request_line_def lit_def CRLF_def)
qed

section \<open>Parsing a request that was built\<close>

definition ext_of :: "bytes \<Rightarrow> bytes" where
  "ext_of name = (case find_last_of 46 name of None \<Rightarrow> name | Some i \<Rightarrow> drop (i + 1) name)"

lemma take_drop_mid: "length xs = i \<Longrightarrow> length ys = n \<Longrightarrow> take n (drop i (xs @ ys @ zs)) = ys"
  by simp

lemma substr_mid:
  "data = xs @ ys @ zs \<Longrightarrow> length xs = i \<Longrightarrow> n = int (length ys) \<Longrightarrow> substr data i n s = Done ys s"
  by (simp add: act_simps)

lemma split_target_run:
  assumes "data = lit ''GET '' @ (47 # target path name param) @ lit '' HTTP'' @ r" "length data < 2 ^ 31"
    "find_str (lit ''?'') data 0 = (if param = [] then None else Some (6 + length path + length name))"
  shows "split_target data 4 (5 + length (target path name param)) h
    = Done () (h\<lparr>http_path := 47 # path @ 47 # name, query_string := param\<rparr>)"
proof (cases "param = []")
  case True
  have "substr data 4 (int (5 + length path + Suc (length name)) - 4) h = Done (47 # path @ 47 # name) h"
    using True by (intro substr_mid [of _ "lit ''GET ''" _ "lit '' HTTP'' @ r"]) (simp_all add: assms(1) target_def lit_def)
  moreover have "length path + length name < 2 ^ 31" using assms(2) by (simp add: assms(1) target_def)
  ultimately show ?thesis using True assms(3) by (simp add: split_target_def act_simps target_def)
next
  case False
  have len: "length data = 12 + length path + length name + length param + length r"
    using False by (simp add: assms(1) target_def lit_def)
  have "substr data 4 (int (6 + length path + length name) - 4) h = Done (47 # path @ 47 # name) h" for h
    using False by (intro substr_mid [of _ "lit ''GET ''" _ "63 # param @ lit '' HTTP'' @ r"])
      (simp_all add: assms(1) target_def lit_def)
  moreover have "substr data (7 + length path + length name) (int (length param)) h = Done param h" for h
    using False by (intro substr_mid [of _ "lit ''GET '' @ 47 # path @ 47 # name @ [63]" _ "lit '' HTTP'' @ r"])
      (simp_all add: assms(1) target_def lit_def)
  moreover have "uint32_of (int (6 + length path + length name) + 1) = 7 + length path + length name"
    using assms(2) len by (simp add: nat_add_distrib)
  moreover have "length (target path name param) = 2 + length path + length name + length param"
    using False by (simp add: target_def)
  ultimately show ?thesis
    using False assms(2,3) len by (simp add: split_target_def act_simps Let_def)
qed

lemma split_path_run:
  assumes "http_path h = 47 # path @ 47 # name" "47 \<notin> set name" "length path + length name < 2 ^ 31"
  shows "split_path h = Done () (h\<lparr>http_folder := path, http_name := name\<rparr>)"
proof -
  have "find_last_of 47 (http_path h) = Some (Suc (length path))"
    using find_last_of_append [OF assms(2), of "47 # path"] by (simp add: assms(1))
  moreover have "substr (http_path h) 1 (int (length path)) h = Done path h"
    by (rule substr_mid [of _ "[47]" _ "47 # name"]) (simp_all add: assms(1))
  ultimately show ?thesis using assms by (simp add: split_path_def act_simps)
qed

lemma find_last_of_less: "find_last_of c s = Some i \<Longrightarrow> i < length s"
  by (induction s arbitrary: i) (auto split: option.splits if_splits)

lemma split_ext_run:
  assumes "length (http_name h) < 2 ^ 31"
  shows "split_ext h = Done () (h\<lparr>http_ext := ext_of (http_name h)\<rparr>)"
  using assms find_last_of_less [of 46 "http_name h"]
  by (cases "find_last_of 46 (http_name h)") (auto simp: split_ext_def ext_of_def act_simps)

lemma header_absent: "find_str key data 0 = None \<Longrightarrow> header_value key data store = ret ()"
  by (simp add: header_value_def)

lemma header_present:
  assumes "data = xs @ key @ v @ CRLF @ r" "find_str key data 0 = Some (length xs)" "13 \<notin> set v" "length data < 2 ^ 31"
  shows "header_value key data store h = store v h"
proof -
  have start: "uint32_of (int (length xs) + int (length key)) = length xs + length key"
    using assms(1,4) by (simp add: nat_add_distrib)
  have "find_first CRLF (v @ CRLF @ r) = Some (length v)"
    using find_first_skip [OF assms(3), of "[10]" "CRLF @ r"] by (simp add: CRLF_def)
  then have "find_str CRLF ((xs @ key) @ v @ CRLF @ r) (length (xs @ key)) = Some (length xs + length key + length v)"
    unfolding find_str_at by simp
  then have "find_str CRLF data (length xs + length key) = Some (length xs + length key + length v)"
    by (simp add: assms(1))
  moreover have "substr data (length xs + length key) (int (length v)) h = Done v h"
    by (rule substr_mid [of _ "xs @ key" _ "CRLF @ r"]) (simp_all add: assms(1))
  moreover have "sz_minus (int (length xs + length key + length v)) (int (length xs + length key)) = int (length v)"
    using assms(1,4) by simp
  ultimately show ?thesis using assms(2) start by (simp add: header_value_def Let_def act_simps)
qed

definition clean_request :: "bytes \<Rightarrow> bytes \<Rightarrow> bytes \<Rightarrow> bytes \<Rightarrow> bool" where
  "clean_request host path name param \<longleftrightarrow> host \<noteq> [] \<and> free_of [0, 13, 32, 60, 63] host
     \<and> free_of delims path \<and> free_of (47 # delims) name \<and> free_of delims param
     \<and> \<not> sublist (lit ''crossdomain.xml'') (target path name param) \<and> \<not> sublist (lit ''crossdomain.xml'') host
     \<and> \<not> sublist CL host"

lemma parse_built_request:
  assumes "clean_request host path name param" "length (buildHttpGetRequest param [] host path name) < 2 ^ 31"
  shows "CHttp_parse_request (buildHttpGetRequest param [] host path name) h = Done ()
    (h\<lparr>http_method := lit ''GET'', http_path := 47 # path @ 47 # name, query_string := param, http_folder := path,
      http_name := name, http_ext := ext_of name, request_host := host, is_transcode := False\<rparr>)"
proof -
  define t where "t = target path name param"
  define tail where "tail = host @ CRLF @ lit ''Accept: */*'' @ CRLF @ CRLF"
  define data where "data = request_line t @ lit ''Host: '' @ tail"
  from assms(1) have c: "free_of [0, 13, 32, 60, 63] host" "free_of delims path" "free_of (47 # delims) name"
    "free_of delims param" "host \<noteq> []"
    and cd: "\<not> sublist (lit ''crossdomain.xml'') t" "\<not> sublist (lit ''crossdomain.xml'') host"
    unfolding clean_request_def t_def by blast+
  have host: "host \<noteq> []" "13 \<notin> set host" "32 \<notin> set host" "60 \<notin> set host" "63 \<notin> set host"
    using c(5) by (simp_all add: free_ofD [OF c(1)])
  have path: "free_of delims path" "63 \<notin> set path" using c(2) by (simp_all add: free_ofD [OF c(2)] delims_def)
  have name: "free_of delims name" "63 \<notin> set name" "47 \<notin> set name"
    using c(3) by (simp_all add: free_ofD [OF c(3)] delims_def) (simp add: free_of_def)
  note param = c(4)
  have t: "13 \<notin> set t" "32 \<notin> set t" "58 \<notin> set t" "60 \<notin> set t"
    using target_free [OF path(1) name(1) param] by (auto simp: t_def free_of_def)
  have built: "buildHttpGetRequest param [] host path name = data"
    unfolding data_def tail_def t_def by (rule build_get [OF host(1)])
  have short: "length data < 2 ^ 31" using assms(2) built by simp
  obtain r where r: "data = lit ''GET '' @ (47 # t) @ lit '' HTTP'' @ r"
    by (simp add: data_def request_line_def lit_def)
  have get: "find_str (lit '' '') data 0 = Some 3" "substr data 0 3 h = Done (lit ''GET'') h"
    by (simp_all add: r find_str_0 lit_def act_simps)
  have slash: "find_str (lit ''/'') data 0 = Some 4" by (simp add: r find_str_0 lit_def)
  have "60 \<notin> set data"
  proof -
    have "60 \<notin> set (lit ''GET /'' @ lit '' HTTP/1.1'' @ CRLF @ user_agent @ lit ''Host: '' @ lit ''Accept: */*'')" by code_simp
    with t(4) host(4) show ?thesis by (simp add: data_def tail_def request_line_def)
  qed
  then have policy: "find_str (lit ''<policy-file-request/>'') data 0 = None"
    by (simp add: find_str_0 find_first_without [of 60] lit_def)
  have cross: "find_str (lit ''crossdomain.xml'') data 0 = None"
    unfolding find_str_0 data_def tail_def by (rule not_crossdomain [OF cd])
  have http: "find_str (lit '' HTTP'') data 0 = Some (5 + length t)"
    unfolding find_str_0 data_def by (rule http_at [OF t(2)])
  have quest: "find_str (lit ''?'') data 0 = (if param = [] then None else Some (6 + length path + length name))"
    unfolding find_str_0 data_def tail_def t_def by (rule question_at [OF path(2) name(2) host(5)])
  have x: "find_str (88 # p) data 0 = None" if "58 \<in> set p" "32 \<in> set p" "10 \<notin> set p" "13 \<notin> set p" for p
    unfolding find_str_0 data_def tail_def by (rule no_extra_header [OF t(3) host(3) that])
  have fwd: "find_str (lit ''X-Forwarded-For: '') data 0 = None"
    using x [of "lit ''-Forwarded-For: ''"] by (simp add: lit_def)
  have codec: "find_str (lit ''X-Codec: '') data 0 = None" using x [of "lit ''-Codec: ''"] by (simp add: lit_def)
  have "find_str (lit ''Host: '') data 0 = Some (length (request_line t))"
    unfolding find_str_0 data_def by (rule host_header [OF t(3)])
  from header_present [OF _ this host(2) short] have hosth: "header_value (lit ''Host: '') data store h = store host h" for store h
    by (simp add: data_def tail_def)
  have parts: "split_target data 4 (5 + length t) h = Done () (h\<lparr>http_path := 47 # path @ 47 # name, query_string := param\<rparr>)" for h
    using split_target_run [OF r [unfolded t_def] short quest] by (simp add: t_def)
  have small: "length path + length name < 2 ^ 31"
    using short by (simp add: r t_def target_def)
  have "length name < 2 ^ 31" using small by simp
  note name = name this
  have meth: "lit ''GET'' \<noteq> []" "lit ''GET'' \<noteq> lit ''POST''" by code_simp+
  define h1 where "h1 = h\<lparr>http_method := lit ''GET''\<rparr>"
  define h2 where "h2 = h1\<lparr>http_path := 47 # path @ 47 # name, query_string := param\<rparr>"
  define h3 where "h3 = h2\<lparr>http_folder := path, http_name := name\<rparr>"
  define h4 where "h4 = h3\<lparr>http_ext := ext_of name\<rparr>"
  have "http_method h1 = lit ''GET''" by (simp add: h1_def)
  moreover have "split_target data 4 (5 + length t) h1 = Done () h2" unfolding h2_def by (rule parts)
  moreover have "split_path h2 = Done () h3"
    unfolding h3_def by (rule split_path_run [OF _ name(3) small]) (simp add: h2_def)
  moreover have "split_ext h3 = Done () h4"
    unfolding h4_def using split_ext_run [of h3] name(4) by (simp add: h3_def)
  ultimately have "parseGetRequest data h1 = Done False (h4\<lparr>request_host := host, is_transcode := False\<rparr>)"
    unfolding parseGetRequest_def cross policy slash http codec header_absent [OF fwd]
    by (simp add: act_simps hosth meth)
  then show ?thesis
    unfolding built CHttp_parse_request_def get(1)
    by (simp add: act_simps get(2) meth h1_def [symmetric]) (simp add: h1_def h2_def h3_def h4_def)
qed

end
