(* ===== verification/Http_Query.thy ===== *)
theory Http_Query
  imports Http_Requests
begin

text \<open>The query of a request: values that are encoded, joined, split again and decoded.\<close>

section \<open>Encoded values\<close>

text \<open>The percent-encoding of RFC 3986, with \<open>+\<close> for a space; the digits are those of \<open>tp_hex\<close>.\<close>

definition unreserved :: "byte \<Rightarrow> bool" where
  "unreserved c \<longleftrightarrow> is_digit c \<or> 65 \<le> c \<and> c \<le> 90 \<or> 97 \<le> c \<and> c \<le> 122 \<or> c \<in> {45, 46, 95, 126}"

definition encode_char :: "byte \<Rightarrow> bytes" where
  "encode_char c = (if unreserved c then [c] else if c = 32 then [43]
     else [37, tp_hex (drop_bit 4 c), tp_hex (and c 15)])"

definition url_encode :: "bytes \<Rightarrow> bytes" where
  "url_encode s = concat (map encode_char s)"

text \<open>A property of the sixteen nibbles is checked on each.\<close>

lemma all_nibbles:
  assumes "list_all P (map (of_nat :: nat \<Rightarrow> byte) [0..<16])" "x \<le> (15 :: byte)"
  shows "P x"
proof -
  have "unat x < 16" using assms(2) by (simp add: word_le_nat_alt)
  moreover have "x = of_nat (unat x)" by simp
  ultimately have "x \<in> set (map of_nat [0..<16])" unfolding set_map by (metis atLeastLessThan_iff image_eqI set_upt zero_le)
  with assms(1) show ?thesis by (simp only: list_all_iff)
qed

lemma from_tp_hex: "x \<le> 15 \<Longrightarrow> from_hex (tp_hex x) = x"
  by (erule all_nibbles [rotated]) code_simp

lemma tp_hex_unreserved: "x \<le> 15 \<Longrightarrow> unreserved (tp_hex x)"
  by (erule all_nibbles [rotated]) code_simp

lemma nibbles: "or (push_bit 4 (drop_bit 4 c)) (and c 15) = (c :: byte)"
proof (rule bit_word_eqI)
  fix n assume "n < LENGTH(8)"
  have "bit (15 :: byte) n \<longleftrightarrow> n < 4"
  proof -
    have "bit (mask 4 :: byte) n \<longleftrightarrow> n < 4" using \<open>n < LENGTH(8)\<close> by (simp only: bit_mask_iff) auto
    then show ?thesis by (simp add: mask_eq_exp_minus_1)
  qed
  with \<open>n < LENGTH(8)\<close> show "bit (or (push_bit 4 (drop_bit 4 c)) (and c 15)) n = bit c n"
    by (auto simp: bit_simps)
qed

lemma nibble_le: "drop_bit 4 c \<le> (15 :: byte)" "and c 15 \<le> (15 :: byte)"
proof -
  have "unat c < 256" using unsigned_less [of c] by simp
  then have "unat c div 16 \<le> 15" by linarith
  then show "drop_bit 4 c \<le> (15 :: byte)"
    by (simp add: word_le_nat_alt drop_bit_eq_div unat_div)
  show "and c 15 \<le> (15 :: byte)" by (simp add: word_and_le1)
qed

lemma url_decode_char: "url_decode (encode_char c @ t) = map_option ((#) c) (url_decode t)"
proof -
  have "unreserved c \<Longrightarrow> c \<noteq> 37 \<and> c \<noteq> 43" by (auto simp: unreserved_def is_digit_def word_le_nat_alt)
  then show ?thesis by (simp add: encode_char_def from_tp_hex nibble_le nibbles)
qed

lemma url_decode_encode: "url_decode (url_encode s) = Some s"
  by (induction s) (simp_all add: url_encode_def url_decode_char)

lemma encoded_free:
  assumes "\<not> unreserved d" "d \<noteq> 43" "d \<noteq> 37"
  shows "d \<notin> set (url_encode s)"
proof -
  have "d \<notin> set (encode_char c)" for c
    using assms tp_hex_unreserved [OF nibble_le(1), of c] tp_hex_unreserved [OF nibble_le(2), of c] by (auto simp: encode_char_def)
  then show ?thesis by (simp add: url_encode_def)
qed

section \<open>Splitting what was joined\<close>

lemma find_sep: "c \<notin> set x \<Longrightarrow> find_str [c] (pre @ x @ c # t) (length pre) = Some (length pre + length x)"
  using find_first_skip [of c x "[]" "c # t"] by (simp add: find_str_at)

lemma find_no_sep: "c \<notin> set x \<Longrightarrow> find_str [c] (pre @ x) (length pre) = None"
  by (simp add: find_str_at find_first_without [of c])

lemma split_loop_join:
  "xs \<noteq> [] \<Longrightarrow> (\<And>x. x \<in> set xs \<Longrightarrow> c \<notin> set x) \<Longrightarrow> length xs \<le> k \<Longrightarrow>
    split_loop k (pre @ join [c] xs) [c] (length pre) = Some xs"
proof (induction "[c]" xs arbitrary: pre k rule: join.induct)
  case (2 x)
  then obtain j where "k = Suc j" by (cases k) auto
  with 2 show ?case by (simp add: find_no_sep)
next
  case (3 x y xs)
  then obtain j where j: "k = Suc j" by (cases k) auto
  have "split_loop j ((pre @ x @ [c]) @ join [c] (y # xs)) [c] (length (pre @ x @ [c])) = Some (y # xs)"
    using 3 j by (intro "3.hyps") auto
  moreover have "find_str [c] (pre @ x @ c # join [c] (y # xs)) (length pre) = Some (length pre + length x)"
    using "3.prems"(2) by (intro find_sep) simp
  ultimately show ?case by (simp add: j)
qed simp

lemma length_join: "length xs \<le> Suc (length (join [c] xs))"
  by (induction "[c]" xs rule: join.induct) auto

lemma split_join:
  assumes "join [c] xs \<noteq> []" "\<And>x. x \<in> set xs \<Longrightarrow> c \<notin> set x"
  shows "split_string (join [c] xs) [c] [] = Some xs"
proof -
  have "xs \<noteq> []" using assms(1) by auto
  moreover have "length xs \<le> length (join [c] xs) + 2" using length_join [of xs c] by simp
  ultimately show ?thesis
    using split_loop_join [of xs c "length (join [c] xs) + 2" "[]"] assms by (simp add: split_string_def)
qed

section \<open>The query\<close>

definition query :: "(bytes \<times> bytes) list \<Rightarrow> bytes" where
  "query kvs = join [38] (map (\<lambda>(k, v). k @ 61 # url_encode v) kvs)"

lemma add_param_pair:
  assumes "61 \<notin> set k"
  shows "add_param (k @ 61 # url_encode v) m = Done () (m(k \<mapsto> v))"
proof -
  have "61 \<notin> set (url_encode v)" by (rule encoded_free) (simp_all add: unreserved_def is_digit_def word_le_nat_alt)
  then have "split_string (join [61] [k, url_encode v]) [61] [] = Some [k, url_encode v]"
    using assms by (intro split_join) auto
  then show ?thesis by (simp add: add_param_def lit_def url_decode_encode)
qed

lemma add_params:
  "\<forall>(k, v) \<in> set kvs. 61 \<notin> set k \<Longrightarrow>
    for_each add_param (map (\<lambda>(k, v). k @ 61 # url_encode v) kvs) m = Done () (m ++ map_of (rev kvs))"
proof (induction kvs arbitrary: m)
  case Nil
  then show ?case by (simp add: ret_run)
next
  case (Cons kv kvs)
  obtain k v where kv: "kv = (k, v)" by (cases kv)
  with Cons.prems have "add_param (k @ 61 # url_encode v) m = Done () (m(k \<mapsto> v))" by (simp add: add_param_pair)
  with Cons kv show ?case by (simp add: seq_Done map_add_upd_left)
qed

lemma parse_params_query:
  assumes "\<forall>(k, v) \<in> set kvs. 61 \<notin> set k \<and> 38 \<notin> set k"
  shows "parse_params (query kvs) (\<lambda>_. None) = Done () (map_of (rev kvs))"
proof (cases "kvs = []")
  case True
  then show ?thesis by (simp add: parse_params_def query_def split_string_def ret_run)
next
  case False
  let ?xs = "map (\<lambda>(k, v). k @ 61 # url_encode v) kvs"
  have "38 \<notin> set (url_encode v)" for v by (rule encoded_free) (simp_all add: unreserved_def is_digit_def word_le_nat_alt)
  then have "\<And>x. x \<in> set ?xs \<Longrightarrow> 38 \<notin> set x" using assms by auto
  moreover have "join [38] ?xs \<noteq> []"
  proof -
    obtain kv r where "kvs = kv # r" using False by (cases kvs) auto
    then show ?thesis by (cases r) (auto split: prod.splits)
  qed
  ultimately have "split_string (query kvs) [38] [] = Some ?xs" unfolding query_def by (intro split_join)
  with add_params [of kvs "\<lambda>_. None"] assms show ?thesis
    by (auto simp: parse_params_def lit_def)
qed

end
