(* ===== verification/Http_Props.thy ===== *)
theory Http_Props
  imports Http_Query
begin

text \<open>The properties of the HTTP layer.\<close>

section \<open>Requests\<close>






text \<open>
  A request that comes in two reads is lost.  Every \<open>read\<close> stores at the start of the array, so
  when the first piece is not complete by itself, the request is made from the last piece alone.
\<close>

lemma http_request_split_lost:
  assumes "length mem = 1024" "a \<noteq> []" "b \<noteq> []" "length a + length b < 1023" "0 \<notin> set a" "0 \<notin> set b"
    "checkRequest a h = Done 0 h" "checkRequest b h = Done 0 h"
    "rd 1023 r = ((int (length a), a), r1)" "rd (1023 - int (length a)) r1 = ((int (length b), b), r2)"
    "rd (1023 - int (length a) - int (length b)) r2 = ((0, []), r3)"
  shows "HttpParser_parse_request (Suc (Suc (Suc n))) rd mem h r = request_from b h r3"
proof -
  have store: "c_str ((xs @ drop (length xs) m)[length xs := 0]) = xs" "length ((xs @ drop (length xs) m)[length xs := 0]) = 1024"
    if "length m = 1024" "length xs < 1024" "0 \<notin> set xs" for xs m :: bytes
  proof -
    have "(xs @ drop (length xs) m)[length xs := 0] = xs @ 0 # drop (Suc (length xs)) m"
      using that by (simp add: list_update_append Cons_nth_drop_Suc [symmetric])
    with that show "c_str ((xs @ drop (length xs) m)[length xs := 0]) = xs"
      by (simp add: c_str_append) (simp add: c_str_def)
  qed (use that in simp)
  define m1 where "m1 = (a @ drop (length a) mem)[length a := 0]"
  define m2 where "m2 = (b @ drop (length b) m1)[length b := 0]"
  have m1: "c_str m1 = a" "length m1 = 1024" using store [OF assms(1) _ assms(5)] assms(4) by (simp_all add: m1_def)
  have m2: "c_str m2 = b" using store(1) [OF m1(2) _ assms(6)] assms(4) by (simp add: m2_def)
  have "request_loop (Suc (Suc (Suc n))) rd 1024 0 mem (h, r)
    = request_loop (Suc (Suc n)) rd (1024 - int (length a)) (int (length a)) m1 (h, r1)"
    using assms(2,4,7,9) m1(1) by (simp add: Let_def m1_def del: request_loop.simps(2)) (simp add: Let_def m1_def)
  also have "\<dots> = request_loop (Suc n) rd (1024 - int (length a) - int (length b)) (int (length a) + int (length b)) m2 (h, r2)"
    using assms(3,4,8,10) m2 by (simp add: Let_def m2_def algebra_simps)
  also have "\<dots> = Done (0, int (length a) + int (length b), m2) (h, r3)"
    using assms(11) by (simp add: algebra_simps)
  finally have run: "request_loop (Suc (Suc (Suc n))) rd 1024 0 mem (h, r)
    = Done (0, int (length a) + int (length b), m2) (h, r3)" .
  have "0 < length a" using assms(2) by simp
  then have "int (length a) + int (length b) \<noteq> 0" by linarith
  then show ?thesis unfolding HttpParser_parse_request_def run by (simp add: m2)
qed

definition pieces_of :: "bytes list reader" where
  "pieces_of k r = (case r of xs # rest \<Rightarrow> ((int (length xs), xs), rest) | [] \<Rightarrow> ((0, []), []))"

lemma http_request_split_lost_witness:
  "HttpParser_parse_request 3 pieces_of (replicate 1024 7) (CHttp_new 0 False)
     [lit ''GET /live/s.flv HTTP/1.1'' @ CRLF @ lit ''Host: h'' @ CRLF, CRLF]
   = request_from CRLF (CHttp_new 0 False) []"
proof -
  let ?a = "lit ''GET /live/s.flv HTTP/1.1'' @ CRLF @ lit ''Host: h'' @ CRLF"
  have "checkRequest ?a (CHttp_new 0 False) = Done 0 (CHttp_new 0 False)"
    "checkRequest CRLF (CHttp_new 0 False) = Done 0 (CHttp_new 0 False)"
    "0 \<notin> set ?a" "0 \<notin> set CRLF" "CRLF \<noteq> []" "?a \<noteq> []" "length ?a + length CRLF < 1023" by code_simp+
  from http_request_split_lost [OF _ this(6,5,7,3,4,1,2), of "replicate 1024 7" pieces_of "[?a, CRLF]" "[CRLF]" "[]" "[]" 0]
  show ?thesis by (simp add: pieces_of_def numeral_3_eq_3)
qed

section \<open>Responses\<close>

lemma response_no_nul: "0 \<notin> set d \<Longrightarrow> 0 \<notin> set (buildResponse d)"
proof -
  have "0 \<notin> set (lit ''HTTP/1.1 200 OK'' @ CRLF @ lit ''Content-Type: text/plain'' @ lit ''Content-Length: '' @ lit ''Connection: Keep-Alive'')"
    by code_simp
  then show "0 \<notin> set d \<Longrightarrow> 0 \<notin> set (buildResponse d)"
    using decimal_no_char [of 0] by (simp add: buildResponse_def GetStrFromUInt32_def)
qed

lemma response_framed:
  assumes "length (buildResponse d) < 2 ^ 31"
  shows "checkResponse (buildResponse d) h = Done (length (buildResponse d)) (h\<lparr>content_len := length d\<rparr>)"
    "k < length (buildResponse d) \<Longrightarrow>
      \<exists>h'. checkResponse (take k (buildResponse d)) h = Done 0 h' \<and> response_status h' = response_status h"
proof -
  have "length d \<le> length (buildResponse d)" by (simp add: buildResponse_def)
  with assms have d: "length d < 2 ^ 32" by simp
  note eq = buildResponse_eq [OF d]
  have len: "length (response.head (length d)) + length d < 2 ^ 31" using assms by (simp add: eq)
  show "checkResponse (buildResponse d) h = Done (length (buildResponse d)) (h\<lparr>content_len := length d\<rparr>)"
    unfolding eq by (rule response.check_complete [OF refl len])
  show "k < length (buildResponse d) \<Longrightarrow>
      \<exists>h'. checkResponse (take k (buildResponse d)) h = Done 0 h' \<and> response_status h' = response_status h"
    unfolding eq by (rule response.check_incomplete [OF refl len])
qed




definition answering :: "bytes \<Rightarrow> bytes client_ops" where
  "answering answer = \<lparr>cl_write = \<lambda>xs w. (int (length xs), answer),
     cl_read_packet = \<lambda>n w. (case w of b # bs \<Rightarrow> ((1, [b]), bs) | [] \<Rightarrow> ((0, []), [])),
     cl_on_ingest = \<lambda>n d w. d @ w\<rparr>"

lemma answering_delivers: "delivers (cl_read_packet (answering a)) (\<lambda>w. w)"
  by (simp add: delivers_def answering_def)


lemma response_loop_overflow:
  assumes "delivers rd rest" "1024 \<le> length resp" "0 \<notin> set resp"
    and incomplete: "\<And>k h. k < length resp \<Longrightarrow> \<exists>h'. checkResponse (take k resp) h = Done 0 h' \<and> response_status h' = response_status h"
  shows "i < 1024 \<Longrightarrow> rest w = drop i resp @ later \<Longrightarrow> 1024 - i \<le> k \<Longrightarrow>
    \<exists>h' w'. response_loop k rd (take i resp @ replicate (1024 - i) 0) (1024 - int i) (int i) (h, w)
      = Fail error_socket_rd (h', w')"
proof (induction k arbitrary: i h w)
  case 0
  then show ?case by simp
next
  case (Suc k)
  let ?b = "resp ! i"
  have dr: "drop i resp = ?b # drop (Suc i) resp" using Suc.prems(1) assms(2) by (simp add: Cons_nth_drop_Suc)
  obtain w1 where w1: "rd 1 w = ((1, [?b]), w1)" "rest w1 = drop (Suc i) resp @ later"
    using assms(1) Suc.prems(2) unfolding delivers_def dr by (metis append_Cons prod.collapse)
  show ?case
  proof (cases "i = 1023")
    case True
    then show ?thesis using w1(1) by (simp add: Let_def)
  next
    case False
    then have lt: "Suc i < 1024" "Suc i < length resp" "1024 - Suc i \<le> k" using Suc.prems(1,3) assms(2) by simp_all
    have "take (nat (int i)) (take i resp @ replicate (1024 - i) 0) @ [?b] @
        drop (nat (int i) + length [?b]) (take i resp @ replicate (1024 - i) 0)
      = take (Suc i) resp @ replicate (1024 - Suc i) 0"
      using lt by (simp add: take_Suc_conv_app_nth)
    note step = response_step [of rd w "[?b]" w1 "1024 - int i" "int i" _ _ k h, OF w1(1) _ this]
    have "0 \<notin> set (take (Suc i) resp)" using assms(3) by (meson in_set_takeD)
    then have str: "c_str (take (Suc i) resp @ replicate (1024 - Suc i) 0) = take (Suc i) resp"
      using lt by (simp add: c_str_append) (simp add: c_str_def Suc_diff_Suc [symmetric])
    from incomplete [OF lt(2), of h] obtain h1 where "checkResponse (take (Suc i) resp) h = Done 0 h1" by blast
    with Suc.IH [OF lt(1) w1(2) lt(3), of h1] step lt show ?thesis
      unfolding str by (simp add: algebra_simps del: response_loop.simps)
  qed
qed

text \<open>
  A larger response is never accepted.  The whole response, its body included, has to fit in the
  array before the client goes on, so an answer of 1024 bytes or more ends in \<open>error_socket_read\<close>.
\<close>

lemma client_rejects_large:
  assumes "delivers (cl_read_packet ops) rest"
    "cl_write ops (buildHttpGetRequest param [] host path stream) w = (n, w1)" "0 \<le> n"
    "rest w1 = buildResponse d @ later" "0 \<notin> set d" "1024 \<le> length (buildResponse d)" "length (buildResponse d) < 2 ^ 31"
  shows "\<exists>w2. HttpClient_request (1024 + k) ops http host path stream param w = Fail error_socket_rd w2"
proof -
  from response_loop_overflow [OF assms(1,6) response_no_nul [OF assms(5)] response_framed(2) [OF assms(7)], of 0 w1 later "1024 + k" http]
    assms(4) obtain h' w2 where
    "response_loop (1024 + k) (cl_read_packet ops) (replicate 1024 0) 1024 0 (http, w1) = Fail error_socket_rd (h', w2)" by auto
  then show ?thesis using assms(2,3) by (simp add: HttpClient_request_def)
qed

lemma client_rejects_large_witness:
  "\<exists>w2. HttpClient_request 1024 (answering (buildResponse (replicate 1024 65))) (CHttp_new 0 False) (lit ''h'') (lit ''live'') (lit ''a'') [] []
    = Fail error_socket_rd w2"
proof -
  have "length (buildResponse (replicate 1024 65)) = 1024 + 91" by code_simp
  moreover have "0 \<notin> set (replicate 1024 (65 :: byte))" by simp
  ultimately show ?thesis
    using client_rejects_large [OF answering_delivers [of "buildResponse (replicate 1024 65)"], of "[]" "lit ''h''" "lit ''live''" "lit ''a''" "[]" _ _
      "replicate 1024 65" "[]" 0 "CHttp_new 0 False"]
    by (simp add: answering_def)
qed

section \<open>POST requests\<close>

definition post_before :: "bytes \<Rightarrow> bytes \<Rightarrow> bytes \<Rightarrow> bytes" where
  "post_before path name host = lit ''POST '' @ path @ name @ lit '' HTTP/1.1'' @ CRLF @ lit ''Host: '' @ host @ CRLF
     @ lit ''Content-Type: text/plain'' @ CRLF"

lemma post_framed:
  assumes "13 \<notin> set path" "13 \<notin> set name" "13 \<notin> set host" "58 \<notin> set path" "58 \<notin> set name" "\<not> sublist CL host"
  shows "framed (post_before path name host) []"
proof
  let ?l = "path @ name @ lit '' HTTP/1.1'' @ [13]"
  have p: "CL = 67 # lit ''ontent-Length:''" by (simp add: lit_def)
  have "67 \<notin> set (lit ''POST '')" "58 \<in> set CL" "10 \<notin> set CL" "13 \<notin> set CL" "67 \<notin> set (lit ''Host: '')"
    "58 \<notin> set (lit '' HTTP/1.1'' @ [13])" "find_first CL (10 # lit ''Content-Type: text/plain'' @ CRLF @ butlast CL) = None"
    by code_simp+
  note closed = this
  have "find_first CL ?l = None" by (rule find_first_without [OF closed(2)]) (use closed(6) assms in simp)
  note line = find_first_past [OF this closed(3)]
  have "find_first CL host = None" using assms(6) by (simp add: find_first_None)
  note hostl = find_first_past [OF this closed(4)]
  have "find_first CL (lit ''POST '' @ ?l @ 10 # lit ''Host: '' @ host @ 13 # 10 # lit ''Content-Type: text/plain'' @ CRLF @ butlast CL) = None"
    using closed(7) line hostl find_first_skip [OF closed(1), of "lit ''ontent-Length:''"]
      find_first_skip [OF closed(5), of "lit ''ontent-Length:''"] by (simp add: p)
  then show "find_first CL (post_before path name host @ butlast CL) = None"
    by (simp add: post_before_def CRLF_def)
next
  fix n
  have "13 \<notin> set (lit ''POST '' @ lit '' HTTP/1.1'' @ lit ''ost: '' @ lit ''ontent-Type: text/plain'' @ lit ''ontent-Length:'')"
    by code_simp
  with assms(1-3) decimal_no_char [of 13 n] have free: "13 \<notin> set (lit ''POST '' @ path @ name @ lit '' HTTP/1.1'')"
    "13 \<notin> set (lit ''ost: '' @ host)" "13 \<notin> set (lit ''ontent-Type: text/plain'')" "13 \<notin> set (lit ''ontent-Length:'' @ 32 # decimal n)"
    by simp_all
  have heads: "lit ''Host: '' = 72 # lit ''ost: ''" "lit ''Content-Type: text/plain'' = 67 # lit ''ontent-Type: text/plain''"
    "CL = 67 # lit ''ontent-Length:''" by (simp_all add: lit_def)
  have "find_first CC (13 # 10 # [13]) = None" by simp
  then have "find_first CC ((lit ''ontent-Length:'' @ 32 # decimal n) @ 13 # [10, 13]) = None"
    using find_first_skip [OF free(4), of "[10, 13, 10]" "[13, 10, 13]"] by simp
  then have "find_first CC ((lit ''POST '' @ path @ name @ lit '' HTTP/1.1'') @ 13 # 10 # 72 # (lit ''ost: '' @ host) @ 13 # 10 # 67 #
      lit ''ontent-Type: text/plain'' @ 13 # 10 # 67 # (lit ''ontent-Length:'' @ 32 # decimal n) @ 13 # [10, 13]) = None"
    using line_past [OF free(1), of 72] line_past [OF free(2), of 67] line_past [OF free(3), of 67] by simp
  then show "find_first CC (post_before path name host @ CL @ 32 # decimal n @ [] @ butlast CC) = None"
    by (simp add: post_before_def CRLF_def heads)
qed (simp add: CRLF_def)

text \<open>
  C34: a POST request that \<open>buildHttpPostRequest\<close> makes is parsed with its body and length, although
  the length is cut out from the end of the first line of the request, so that it runs to the end of
  the data; the address that is kept is five characters too long and takes \<open> HTTP\<close> along.
\<close>

lemma post_request_parsed:
  assumes "free_of [13, 32, 58] path" "free_of [13, 32, 58] name" "13 \<notin> set host" "\<not> sublist CL host"
    "length (buildHttpPostRequest d host path name) < 2 ^ 31"
  shows "CHttp_parse_request (buildHttpPostRequest d host path name) h = Done ()
    (h\<lparr>http_method := lit ''POST'', http_url := path @ name @ lit '' HTTP'', content_len := length d, http_data := d\<rparr>)"
proof -
  have c: "13 \<notin> set path" "13 \<notin> set name" "32 \<notin> set path" "32 \<notin> set name" "58 \<notin> set path" "58 \<notin> set name"
    using assms(1,2) by (auto simp: free_of_def)
  have fr: "framed (post_before path name host) []" by (rule post_framed [OF c(1,2) assms(3) c(5,6) assms(4)])
  define data where "data = buildHttpPostRequest d host path name"
  define b where "b = post_before path name host"
  define n where "n = length d"
  have small: "length data < 2 ^ 31" using assms(5) by (simp add: data_def)
  have "n < 2 ^ 31" using small by (simp add: data_def n_def buildHttpPostRequest_def)
  then have dec: "GetStrFromUInt32 (of_nat n) = decimal n" "n < 2 ^ 63" "n < 2 ^ 32"
    by (simp_all add: GetStrFromUInt32_def unat_of_nat)
  have head: "data = framed.head b [] n @ d"
    unfolding framed.head_def [OF fr [folded b_def]] using dec(1)
    by (simp add: data_def n_def b_def buildHttpPostRequest_def post_before_def CRLF_def) (simp add: lit_def)
  have CLs: "data = b @ CL @ 32 # decimal n @ CRLF @ CRLF @ d"
    unfolding head framed.head_def [OF fr [folded b_def]] by (simp add: CRLF_def)
  obtain r where r: "data = lit ''POST '' @ (path @ name @ lit '' HTTP'') @ r"
    by (simp add: data_def buildHttpPostRequest_def lit_def)
  have m: "find_str (lit '' '') data 0 = Some 4" "substr data 0 4 h = Done (lit ''POST'') h" for h :: CHttp
    by (simp_all add: r find_str_0 lit_def act_simps)
  have r2: "data = lit ''POST '' @ (path @ name) @ 32 # lit ''HTTP'' @ r" by (simp add: r lit_def)
  have five: "length (lit ''POST '') = 5" by code_simp
  have "32 \<notin> set (path @ name)" using c by simp
  then have "find_first (lit '' '') ((path @ name) @ 32 # lit ''HTTP'' @ r) = Some (length (path @ name))"
    using find_first_skip [of 32 "path @ name" "[]" "32 # lit ''HTTP'' @ r"] by (simp add: lit_def)
  then have u: "find_str (lit '' '') data 5 = Some (5 + length path + length name)"
    using find_str_at [of "lit '' ''" "lit ''POST ''" "(path @ name) @ 32 # lit ''HTTP'' @ r"] five unfolding r2 by simp
  have url: "substr data 5 (int (5 + length path + length name)) h = Done (path @ name @ lit '' HTTP'') h" for h :: CHttp
    by (rule substr_mid [OF r]) (simp_all add: lit_def)
  have fCL: "find_str CL data 0 = Some (length b)" unfolding CLs by (rule framed.find_CL [OF fr [folded b_def]])
  have start: "uint32_of (int (length b) + 15) = length b + 15" using small by (simp add: CLs nat_add_distrib)
  define l where "l = lit ''POST '' @ path @ name @ lit '' HTTP/1.1''"
  have "13 \<notin> set (lit ''POST '' @ lit '' HTTP/1.1'')" by code_simp
  then have l13: "13 \<notin> set l" using c by (simp add: l_def)
  obtain b' where b': "b = l @ CRLF @ b'" by (simp add: b_def post_before_def l_def)
  have fl: "find_str CRLF data 0 = Some (length l)"
    using find_first_skip [OF l13, of "[10]" "CRLF @ b' @ CL @ 32 # decimal n @ CRLF @ CRLF @ d"]
    by (simp add: find_str_0 CLs b' CRLF_def)
  have lb: "length l < length b" by (simp add: b' CRLF_def)
  have "sz_minus (int (length l)) (int (length b + 15)) = 2 ^ 64 + int (length l) - int (length b + 15)"
    using lb small by (intro sz_minus_less) (simp_all add: CLs)
  moreover have "length data \<le> nat (2 ^ 64 + int (length l) - int (length b + 15))" using small by (simp add: CLs)
  ultimately have len: "substr data (length b + 15) (sz_minus (int (length l)) (int (length b + 15))) h
      = Done (32 # decimal n @ CRLF @ CRLF @ d) h" for h :: CHttp
    using substr_rest [of data "b @ CL" "32 # decimal n @ CRLF @ CRLF @ d"] by (simp add: CLs)
  have num: "atou (32 # decimal n @ CRLF @ CRLF @ d) = n"
    using atoll_decimal(1) [of n "[32]" 13 "10 # CRLF @ d"] dec by (intro atou_int) (simp_all add: is_space_def CRLF_def)
  define e where "e = length (framed.head b [] n)"
  have e: "e + n = length data" "4 \<le> e"
    unfolding e_def framed.head_def [OF fr [folded b_def]] by (simp_all add: CLs n_def CRLF_def)
  obtain i where i: "find_str (CRLF @ CRLF) data 0 = Some i" "uint32_of (int i + 4) = e"
  proof (rule that)
    show "find_str (CRLF @ CRLF) data 0 = Some (e - 4)"
      unfolding head e_def by (rule framed.find_CC [OF fr [folded b_def]])
    show "uint32_of (int (e - 4) + 4) = e" using e small by (simp add: of_nat_diff)
  qed
  have body: "uint32_of (int e + int n) = length data" "substr data e (int n) h = Done d h" for h :: CHttp
    using e small by (simp_all add: nat_add_distrib) (simp add: head act_simps n_def e_def)
  obtain j where j: "find_str (lit '' '') data 5 = Some j" "\<And>h :: CHttp. substr data 5 (int j) h = Done (path @ name @ lit '' HTTP'') h"
    using u url by blast
  obtain p q where pq: "find_str CL data 0 = Some p" "uint32_of (int p + 15) = q"
    "\<And>h :: CHttp. substr data q (sz_minus (int (length l)) (int q)) h = Done (32 # decimal n @ CRLF @ CRLF @ d) h"
    using fCL start len by blast
  have "uint32_of 5 = 5" by simp
  moreover have "lit ''POST'' \<noteq> lit ''GET''" by code_simp
  ultimately show ?thesis
    unfolding CHttp_parse_request_def parsePostRequest_def data_def [symmetric] n_def [symmetric]
    by (simp add: act_simps m j pq fl num i body Let_def)
qed

lemma post_request_parsed_witness:
  "\<exists>h. CHttp_parse_request (buildHttpPostRequest (lit ''hi'') (lit ''h'') (lit ''/api/'') (lit ''x'')) (CHttp_new 0 False) = Done () h
    \<and> http_data h = lit ''hi'' \<and> content_len h = 2 \<and> http_url h = lit ''/api/x HTTP''"
proof -
  have "free_of [13, 32, 58] (lit ''/api/'')" "free_of [13, 32, 58] (lit ''x'')" "13 \<notin> set (lit ''h'')" "\<not> sublist CL (lit ''h'')"
    and "length (buildHttpPostRequest (lit ''hi'') (lit ''h'') (lit ''/api/'') (lit ''x'')) < 200" by code_simp+
  note clean = this(1-4) and len = this(5)
  have "length (buildHttpPostRequest (lit ''hi'') (lit ''h'') (lit ''/api/'') (lit ''x'')) < 2 ^ 31" using len by (rule less_trans) simp
  from post_request_parsed [OF clean this, of "CHttp_new 0 False"] show ?thesis by (simp add: lit_def)
qed

text \<open>
  A question mark behind the request line spoils a request without a query: the path then runs
  on to it, through the end of the line and the headers.
\<close>

lemma question_mark_in_header:
  assumes "data = lit ''GET '' @ 47 # t @ lit '' HTTP/1.1'' @ CRLF @ hs @ 63 # r" "63 \<notin> set t" "63 \<notin> set hs" "length data < 2 ^ 31"
  shows "\<exists>h'. split_target data 4 (5 + length t) h = Done () h' \<and> http_path h' = 47 # t @ lit '' HTTP/1.1'' @ CRLF @ hs"
proof -
  define x where "x = 47 # t @ lit '' HTTP/1.1'' @ CRLF @ hs"
  have data: "data = lit ''GET '' @ x @ 63 # r" and four: "length (lit ''GET '') = 4" and free: "63 \<notin> set (lit ''GET '' @ x)"
    using assms(2,3) by (simp_all add: assms(1) x_def lit_def CRLF_def)
  have q: "find_str (lit ''?'') data 0 = Some (4 + length x)"
    using find_first_skip [OF free, of "[]" "63 # r"] four by (simp add: data find_str_0 lit_def)
  have path: "substr data 4 (int (length x)) h = Done x h" for h :: CHttp
    by (rule substr_mid [OF data four refl])
  have start: "uint32_of (int (4 + length x) + 1) = 5 + length x" and len: "5 + length x \<le> length data"
    using assms(4) four by (simp_all add: data nat_add_distrib)
  have short: "length x < 2 ^ 31" using assms(4) by (simp add: data)
  have "\<exists>v. substr data (5 + length x) n h = Done v h" for n and h :: CHttp
    using len by (simp add: act_simps)
  then obtain v where "substr data (5 + length x) (sz_minus (int (5 + length t)) (int (5 + length x))) (h\<lparr>http_path := x\<rparr>)
    = Done v (h\<lparr>http_path := x\<rparr>)" by blast
  then have "split_target data 4 (5 + length t) h = Done () (h\<lparr>http_path := x, query_string := v\<rparr>)"
    using path [of h] start short by (simp add: split_target_def q act_simps Let_def)
  then show ?thesis by (auto simp: x_def)
qed

lemma question_mark_in_header_witness:
  "\<exists>h'. split_target (lit ''GET /a HTTP/1.1'' @ CRLF @ lit ''X: ?'') 4 6 (CHttp_new 0 False) = Done () h'
    \<and> http_path h' = lit ''/a HTTP/1.1'' @ CRLF @ lit ''X: ''"
proof -
  have "63 \<notin> set (lit ''a'')" "63 \<notin> set (lit ''X: '')" by code_simp+
  from question_mark_in_header [OF refl this, of "[]" "CHttp_new 0 False"] show ?thesis by (simp add: lit_def CRLF_def)
qed

section \<open>Texts\<close>

text \<open>
  \<open>split_string\<close> ends whenever the separator is not empty, and cuts a text into parts that joined
  together are the text and of which none holds the separator.
\<close>

lemma split_string_joins:
  assumes "sep \<noteq> []" "src \<noteq> []"
  shows "\<exists>xs. split_string src sep vec = Some (vec @ xs) \<and> join sep xs = src \<and> (\<forall>x \<in> set xs. \<not> sublist sep x)"
proof -
  from split_loop_joins [OF assms(1), of 0 src "length src + 2"] obtain xs where
    "split_loop (length src + 2) src sep 0 = Some xs" "join sep xs = src" "\<forall>x \<in> set xs. \<not> sublist sep x" by auto
  then show ?thesis using assms(2) unfolding split_string_def by (simp del: split_loop.simps)
qed

lemma split_string_joins_witness:
  "\<exists>xs. split_string (lit ''a&b&'') (lit ''&'') [] = Some ([] @ xs) \<and> join (lit ''&'') xs = lit ''a&b&''"
  using split_string_joins [of "lit ''&''" "lit ''a&b&''" "[]"] by (auto simp: lit_def)

text \<open>\<open>url_decode\<close> inverts percent-encoding, on all bytes.\<close>

lemma url_decode_inverse: "url_decode (url_encode s) = Some s"
  by (rule url_decode_encode)

section \<open>Handlers\<close>

lemma level_insert_last: "\<forall>(k', v') \<in> set ps. k' < k \<Longrightarrow> level_insert k v ps = ps @ [(k, v)]"
  by (induction ps) auto

definition mux_ok :: "'h HttpMux \<Rightarrow> bool" where
  "mux_ok s \<longleftrightarrow> (\<forall>(k, v) \<in> set (level_handlers s). k < last_level s)"

lemma register_handler_ok:
  "mux_ok s \<Longrightarrow> mux_ok (register_handler p l h s)
    \<and> map snd (level_handlers (register_handler p l h s)) = map snd (level_handlers s) @ [(p, h)]"
  by (auto simp: mux_ok_def register_handler_def level_insert_last)

lemma register_all:
  "mux_ok s \<Longrightarrow> mux_ok (fold (\<lambda>(p, l, h). register_handler p l h) regs s)
    \<and> map snd (level_handlers (fold (\<lambda>(p, l, h). register_handler p l h) regs s))
      = map snd (level_handlers s) @ map (\<lambda>(p, l, h). (p, h)) regs"
proof (induction regs arbitrary: s)
  case (Cons r regs)
  obtain p l h where r: "r = (p, l, h)" by (cases r)
  with Cons.IH [of "register_handler p l h s"] register_handler_ok [OF Cons.prems, of p l h] show ?case by simp
qed simp

lemma last_match:
  "foldl (\<lambda>h (k, p', h'). if p' = p then h' else h) h0 xs
    = (case filter (\<lambda>(p', h'). p' = p) (map snd xs) of [] \<Rightarrow> h0 | y # ys \<Rightarrow> snd (last (y # ys)))"
proof (induction xs rule: rev_induct)
  case (snoc x xs)
  obtain k p' h' where "x = (k, p', h')" by (cases x)
  with snoc show ?case by (cases "filter (\<lambda>(p', h'). p' = p) (map snd xs)") auto
qed simp

text \<open>
  The handler that serves a pattern is the one registered last for it.  The level that
  \<open>register_handler\<close> takes plays no part, and where nothing matches the lookup succeeds all the same
  and leaves the pointer as it was.
\<close>

lemma last_registered_serves:
  assumes "s = fold (\<lambda>(p, l, h). register_handler p l h) regs HttpMux_new"
  shows "get_handler p h0 s = (if regs = [] then Fail error_system_handler_not_found s
    else Done (case filter (\<lambda>(p', l, h). p' = p) regs of [] \<Rightarrow> h0 | r # rs \<Rightarrow> snd (snd (last (r # rs)))) s)"
proof -
  have new: "mux_ok HttpMux_new" "level_handlers HttpMux_new = []" by (simp_all add: mux_ok_def HttpMux_new_def)
  have s: "map snd (level_handlers s) = map (\<lambda>(p, l, h). (p, h)) regs"
    using register_all [OF new(1), of regs] new(2) by (simp add: assms)
  then have empty: "level_handlers s = [] \<longleftrightarrow> regs = []" by (metis map_is_Nil_conv)
  have "filter (\<lambda>(p', h'). p' = p) (map (\<lambda>(p, l, h). (p, h)) regs)
    = map (\<lambda>(p, l, h). (p, h)) (filter (\<lambda>(p', l, h). p' = p) regs)" by (induction regs) auto
  moreover have "snd (last (map (\<lambda>(p, l, h). (p, h)) rs)) = snd (snd (last rs))" if "rs \<noteq> []" for rs :: "(bytes \<times> int \<times> 'a option) list"
    using that by (simp add: last_map split: prod.splits)
  ultimately show ?thesis
    unfolding get_handler_def last_match s
    by (cases "filter (\<lambda>(p', l, h). p' = p) regs") (auto simp: empty split: prod.splits)
qed

lemma last_registered_serves_witness:
  "get_handler (lit ''/'') None (fold (\<lambda>(p, l, h). register_handler p l h)
      [(lit ''/'', 0, Some 1), (lit ''/api'', 0, Some 2), (lit ''/'', 100, Some (3 :: nat))] HttpMux_new)
    = Done (Some 3) (fold (\<lambda>(p, l, h). register_handler p l h)
      [(lit ''/'', 0, Some 1), (lit ''/api'', 0, Some 2), (lit ''/'', 100, Some 3)] HttpMux_new)"
  using last_registered_serves [OF refl, of "lit ''/''" None
      "[(lit ''/'', 0, Some 1), (lit ''/api'', 0, Some 2), (lit ''/'', 100, Some (3 :: nat))]"]
  by (simp add: lit_def)

end
