(* ===== verification/Std_Map.thy ===== *)
theory Std_Map
  imports Keyed_Store
begin

text \<open>
  \<open>std::map\<close> as the program uses it: an association list in ascending order of the keys, so
  that iteration and positions are those of the container.  It provides the contract
  \<open>keyed_store\<close>.
\<close>

type_synonym ('k, 'v) std_map = "('k \<times> 'v) list"

text \<open>\<open>m.find (k)\<close>, \<open>m.insert (make_pair (k, v))\<close> (which keeps an entry that is there),
  the assignment \<open>iter->second = v\<close> to an entry or \<open>m[k] = v\<close>, and \<open>m.erase (k)\<close>.\<close>

primrec std_find :: "'k \<Rightarrow> ('k, 'v) std_map \<Rightarrow> 'v option" where
  "std_find k [] = None"
| "std_find k (e # m) = (if fst e = k then Some (snd e) else std_find k m)"

primrec std_put :: "('k :: linorder) \<Rightarrow> 'v \<Rightarrow> ('k, 'v) std_map \<Rightarrow> ('k, 'v) std_map" where
  "std_put k v [] = [(k, v)]"
| "std_put k v (e # m) =
     (if k < fst e then (k, v) # e # m else if fst e = k then (k, v) # m else e # std_put k v m)"

definition std_insert :: "('k :: linorder) \<Rightarrow> 'v \<Rightarrow> ('k, 'v) std_map \<Rightarrow> ('k, 'v) std_map" where
  "std_insert k v m = (case std_find k m of None \<Rightarrow> std_put k v m | Some _ \<Rightarrow> m)"

definition std_erase :: "'k \<Rightarrow> ('k, 'v) std_map \<Rightarrow> ('k, 'v) std_map" where
  "std_erase k m = filter (\<lambda>e. fst e \<noteq> k) m"

definition std_inv :: "('k :: linorder, 'v) std_map \<Rightarrow> bool" where
  "std_inv m \<longleftrightarrow> sorted_wrt (<) (map fst m)"

lemma std_inv_simps [simp]:
  "std_inv []" "std_inv (e # m) \<longleftrightarrow> (\<forall>e' \<in> set m. fst e < fst e') \<and> std_inv m"
  by (auto simp: std_inv_def)

lemma std_find_notin: "k \<notin> fst ` set m \<Longrightarrow> std_find k m = None"
  by (induction m) auto

lemma std_find_put [simp]: "std_find k' (std_put k v m) = (if k' = k then Some v else std_find k' m)"
  by (induction m) auto

lemma set_std_put: "set (std_put k v m) \<subseteq> insert (k, v) (set m)"
  by (induction m) auto

lemma std_inv_put: "std_inv m \<Longrightarrow> std_inv (std_put k v m)"
proof (induction m)
  case (Cons e m)
  have "fst e < fst e'" if "fst e < k" "e' \<in> set (std_put k v m)" for e'
    using that Cons.prems set_std_put [of k v m] by auto
  with Cons show ?case by (auto dest: less_trans)
qed simp

lemma std_inv_filter: "std_inv m \<Longrightarrow> std_inv (filter P m)"
  by (induction m) auto

lemma std_find_erase [simp]: "std_find k' (std_erase k m) = (if k' = k then None else std_find k' m)"
  by (induction m) (auto simp: std_erase_def)

lemma std_inv_erase: "std_inv m \<Longrightarrow> std_inv (std_erase k m)"
  by (simp add: std_erase_def std_inv_filter)

interpretation std: keyed_store std_inv std_find std_put std_erase
  by unfold_locales (simp_all add: std_inv_put std_inv_erase)

lemma std_find_insert:
  "std_find k' (std_insert k v m) =
     (if k' = k \<and> std_find k m = None then Some v else std_find k' m)"
  by (simp add: std_insert_def split: option.splits)

lemma std_inv_insert: "std_inv m \<Longrightarrow> std_inv (std_insert k v m)"
  by (simp add: std_insert_def std_inv_put split: option.splits)

end
