(* ===== verification/File_Cache.thy ===== *)
theory File_Cache
  imports Std_Map "HOL-Library.List_Lexorder"
begin

text \<open>
  \<open>File\<close>, \<open>FileCache\<close> and \<open>FileInputHandler\<close> of \<open>src/base/cache/tmss_static.cpp\<close>: the cache
  of static files and the coroutine that fills one of them from the origin.

  \<open>file_data\<close> is the block \<open>char *data\<close> points to (\<open>None\<close> for \<open>nullptr\<close>); its length
  is the number of bytes allocated, which is not always \<open>size + 1\<close>.  \<open>heap i\<close> is byte \<open>i\<close>
  of a block that has just been allocated.  A \<open>new char[n]\<close> with \<open>n < 0\<close> throws.
\<close>

abbreviation (input) error_file_buffer_not_enough :: int where "error_file_buffer_not_enough \<equiv> 16001"
abbreviation (input) error_file_buffer_init_small :: int where "error_file_buffer_init_small \<equiv> 16003"
abbreviation (input) error_file_buffer_too_large :: int where "error_file_buffer_too_large \<equiv> 16004"

section \<open>One file\<close>

record File =
  file_data :: "bytes option"
  file_size :: int
  file_pos :: int
  file_name :: bytes
  total_length :: int
  update_time_ms :: int

definition File_new :: "bytes \<Rightarrow> File" where
  "File_new nm = \<lparr>file_data = None, file_size = 0, file_pos = 0, file_name = nm, total_length = 0,
     update_time_ms = 0\<rparr>"

definition fresh_block :: "(nat \<Rightarrow> byte) \<Rightarrow> int \<Rightarrow> bytes" where
  "fresh_block heap n = map heap [0..<nat n]"

definition File_copy :: "(nat \<Rightarrow> byte) \<Rightarrow> File \<Rightarrow> File" where
  "File_copy heap f = (File_new [])\<lparr>file_data := Some (fresh_block heap (file_size f)), file_size := file_size f\<rparr>"

definition complete :: "File \<Rightarrow> bool" where
  "complete f = (if 0 < total_length f then total_length f \<le> file_pos f else False)"

definition left_size :: "File \<Rightarrow> int" where
  "left_size f = file_size f - file_pos f"

text \<open>
  \<open>init_buffer\<close>.  When there is a block already, the new one is filled from it and dropped: only
  \<open>size\<close> changes.  The copy reads \<open>pos\<close> bytes of the old block.
\<close>

definition init_buffer :: "(nat \<Rightarrow> byte) \<Rightarrow> int \<Rightarrow> (unit, File) act" where
  "init_buffer heap new_size f =
     (if 1024 * 1024 * 1024 \<le> new_size then Fail error_file_buffer_too_large f
      else case file_data f of
        Some old \<Rightarrow>
          if new_size < file_size f then Fail error_file_buffer_init_small f
          else if new_size + 1 < 0 then Crash Thrown
          else if file_pos f < 0 \<or> int (length old) < file_pos f \<or> new_size + 1 < file_pos f then Crash Out_Of_Bounds
          else Done () (f\<lparr>file_size := new_size\<rparr>)
      | None \<Rightarrow>
          if new_size + 1 < 0 then Crash Thrown
          else Done () (f\<lparr>file_data := Some (fresh_block heap (new_size + 1)), file_size := new_size\<rparr>))"

text \<open>
  The size \<open>append\<close> asks for, \<open>16 * (Max (size, append_size) + 1)\<close>, is computed in an
  \<open>int\<close>: it wraps, as the arithmetic of the machine does.
\<close>

definition grown_size :: "int \<Rightarrow> int \<Rightarrow> int" where
  "grown_size sz append_size = sint (of_int (16 * (max sz append_size + 1)) :: 32 word)"

text \<open>\<open>memcpy (data, buffer, append_size)\<close>: to the start of the block.\<close>

definition copy_to_data :: "bytes \<Rightarrow> (unit, File) act" where
  "copy_to_data src f = (case file_data f of
     None \<Rightarrow> if src = [] then Done () f else Crash Null_Deref
   | Some block \<Rightarrow>
       if length src \<le> length block
       then Done () (f\<lparr>file_data := Some (src @ drop (length src) block)\<rparr>)
       else Crash Out_Of_Bounds)"

definition append_pos :: "int \<Rightarrow> (unit, File) act" where
  "append_pos n f = Done () (f\<lparr>file_pos := file_pos f + n\<rparr>)"

definition File_append :: "(nat \<Rightarrow> byte) \<Rightarrow> bytes \<Rightarrow> (unit, File) act" where
  "File_append heap src = (\<lambda>f. let append_size = int (length src) in
     seq (if left_size f < append_size
          then seq (ignore (init_buffer heap (grown_size (file_size f) append_size)))
                   (\<lambda>f. check (append_size \<le> left_size f) error_file_buffer_not_enough f)
          else ret ())
         (seq (copy_to_data src) (append_pos append_size)) f)"

text \<open>
  \<open>seek_range\<close> hands back the bytes copied; their number is the new \<open>wanted_size\<close>.  The call
  waits when there is nothing new, and \<open>wait\<close> is what the other coroutines make of the file
  meanwhile.
\<close>

definition copy_from_data :: "int \<Rightarrow> int \<Rightarrow> (bytes, File) act" where
  "copy_from_data offset n f =
     (if n < 0 then Crash Out_Of_Bounds
      else case file_data f of
        None \<Rightarrow> if n = 0 then Done [] f else Crash Null_Deref
      | Some block \<Rightarrow>
          if 0 \<le> offset \<and> offset + n \<le> int (length block)
          then Done (take (nat n) (drop (nat offset) block)) f else Crash Out_Of_Bounds)"

definition seek_range :: "(File \<Rightarrow> File) \<Rightarrow> int \<Rightarrow> int \<Rightarrow> (bytes, File) act" where
  "seek_range wait wanted_size offset f =
     (let f = (if file_pos f \<le> offset then wait f else f);
          n = (if file_pos f < wanted_size + offset then file_pos f - offset else wanted_size)
      in copy_from_data offset n f)"

section \<open>The cache\<close>

type_synonym FileCache = "(bytes, nat) std_map"

text \<open>Files are shared objects: the cache holds their addresses.\<close>

definition add_file :: "bytes \<Rightarrow> 'f \<Rightarrow> (bytes, 'f) std_map \<Rightarrow> (bytes, 'f) std_map" where
  "add_file nm file cache = (case std_find nm cache of
     None \<Rightarrow> std_insert nm file cache
   | Some _ \<Rightarrow> std_put nm file cache)"

definition get_file :: "bytes \<Rightarrow> (bytes, 'f) std_map \<Rightarrow> 'f option" where
  "get_file nm cache = std_find nm cache"

definition del_file :: "bytes \<Rightarrow> (bytes, 'f) std_map \<Rightarrow> (bytes, 'f) std_map" where
  "del_file nm cache = (case std_find nm cache of None \<Rightarrow> cache | Some _ \<Rightarrow> std_erase nm cache)"

definition clear_files :: "(bytes, 'f) std_map \<Rightarrow> (bytes, 'f) std_map" where
  "clear_files cache = []"

interpretation cache: keyed_store std_inv get_file add_file del_file
  by unfold_locales
    (auto simp: get_file_def add_file_def del_file_def std_inv_put std_inv_insert std_find_insert
      std.inv_delete split: option.splits)

section \<open>The coroutine that fills a file\<close>

datatype EInputType = EInputPublish | EInputOrigin

datatype EStatusSource = ESourceInit | ESourceStart

text \<open>
  What the loop meets in one round: the connection has been stopped, the demuxer fails, it has
  no packet, or it has one.
\<close>

datatype file_round = Conn_Stop | Demux_Error int | Demux_Null | Demux_Packet bytes

record FileInput =
  fi_type :: EInputType
  fi_status :: EStatusSource
  total_size :: int
  handle_size :: int
  the_file :: File

text \<open>
  The calls to the connection and to the client: the result of \<open>connect\<close>, of \<open>request\<close> (there
  is none while \<open>client\<close> is the null pointer), the demuxer's total length and the time.
\<close>

record file_origin =
  fo_connect :: int
  fo_request :: "int option"
  fo_total_length :: int
  fo_time :: int

definition set_file :: "(unit, File) act \<Rightarrow> (unit, FileInput) act" where
  "set_file m s = (case m (the_file s) of
     Done _ f \<Rightarrow> Done () (s\<lparr>the_file := f\<rparr>)
   | Fail e f \<Rightarrow> Fail e (s\<lparr>the_file := f\<rparr>)
   | Crash q \<Rightarrow> Crash q)"

definition start_origin :: "(nat \<Rightarrow> byte) \<Rightarrow> file_origin \<Rightarrow> (unit, FileInput) act" where
  "start_origin heap org s =
     (if fo_connect org \<noteq> 0 then Fail (fo_connect org) s
      else case fo_request org of
        None \<Rightarrow> Crash Null_Deref
      | Some rc \<Rightarrow>
          if rc \<noteq> 0 then Fail rc s
          else seq (\<lambda>s. Done () (s\<lparr>fi_status := ESourceStart, total_size := fo_total_length org\<rparr>))
                 (seq (\<lambda>s. ignore (set_file (init_buffer heap (total_size s))) s)
                      (\<lambda>s. Done () (s\<lparr>the_file := (the_file s)\<lparr>total_length := total_size s,
                         update_time_ms := fo_time org div 1000\<rparr>\<rparr>))) s)"

text \<open>
  The loop, over the rounds it has seen: \<open>Done True\<close> when it has left the loop, \<open>Done False\<close>
  while it waits for the next round.
\<close>

primrec file_rounds :: "(nat \<Rightarrow> byte) \<Rightarrow> file_round list \<Rightarrow> (bool, FileInput) act" where
  "file_rounds heap [] = ret False"
| "file_rounds heap (r # rs) = (case r of
     Conn_Stop \<Rightarrow> ret True
   | Demux_Error e \<Rightarrow> (\<lambda>s. Done True
       (if total_size s = 0
        then s\<lparr>total_size := handle_size s, the_file := (the_file s)\<lparr>total_length := handle_size s\<rparr>\<rparr>
        else s))
   | Demux_Null \<Rightarrow> ret True
   | Demux_Packet p \<Rightarrow>
       seq (\<lambda>s. Done () (s\<lparr>handle_size := handle_size s + int (length p)\<rparr>))
         (seq (ignore (set_file (File_append heap p)))
            (\<lambda>s. if 0 < total_size s \<and> total_size s \<le> handle_size s then Done True s
                 else file_rounds heap rs s)))"

text \<open>\<open>cycle\<close>: a failed start ends it with that error; the loop always ends with success.\<close>

definition FileInputHandler_cycle :: "(nat \<Rightarrow> byte) \<Rightarrow> file_origin \<Rightarrow> file_round list \<Rightarrow> (bool, FileInput) act" where
  "FileInputHandler_cycle heap org rounds = (\<lambda>s.
     seq (if fi_type s = EInputOrigin \<and> fi_status s = ESourceInit then start_origin heap org else ret ())
         (file_rounds heap rounds) s)"

definition FileInput_on_thread_stop :: "FileInput \<Rightarrow> FileInput" where
  "FileInput_on_thread_stop s = s\<lparr>fi_status := ESourceInit\<rparr>"

end
