(* ===== verification/Handlers.thy ===== *)
theory Handlers
  imports File_Cache
begin

text \<open>
  \<open>PacketQueue\<close> (\<open>src/base/cache/tmss_cache.cpp\<close>) and its two subclasses with a coroutine each:
  \<open>InputHandler\<close> (\<open>tmss_input.cpp\<close>), which fills the queue from a demuxer, and
  \<open>OutputHandler\<close> (\<open>tmss_output.cpp\<close>), which empties it into a muxer.

  The objects behind a handler's pointers (connection, client, muxer, demuxer) answer through
  parameters: a list of rounds for a loop, a result for a single call.  A member
  \<open>in_client :: bool\<close> says whether the pointer is set; a call through an unset one is
  \<open>Crash Null_Deref\<close>.  While a coroutine waits, the others may change its object: such a wait
  takes a function that says what they did.
\<close>

section \<open>Packet queues\<close>

abbreviation (input) error_queue_is_empty :: int where "error_queue_is_empty \<equiv> 13101"
abbreviation (input) error_ingest_no_client :: int where "error_ingest_no_client \<equiv> 13002"

record Packet =
  pkt_buffer :: bytes
  pkt_timestamp :: int
  pkt_key_frame :: bool

definition get_packet_size :: "Packet \<Rightarrow> int" where
  "get_packet_size p = int (length (pkt_buffer p))"

record Frame =
  frame_buffer :: bytes
  frame_timestamp :: int

record PacketQueue =
  pkt_queue :: "Packet list"
  frame_queue :: "Frame list"
  max_queue_size :: int

definition PacketQueue_new :: "int \<Rightarrow> PacketQueue" where
  "PacketQueue_new n = \<lparr>pkt_queue = [], frame_queue = [], max_queue_size = n\<rparr>"

text \<open>The size of the packet is logged after the push: a null pointer is dereferenced there.\<close>

definition enqueue :: "Packet option \<Rightarrow> (unit, 'a PacketQueue_scheme) act" where
  "enqueue packet q = (case packet of
     None \<Rightarrow> Crash Null_Deref
   | Some p \<Rightarrow> Done () (q\<lparr>pkt_queue := pkt_queue q @ [p]\<rparr>))"

definition enqueue_frame :: "Frame option \<Rightarrow> (unit, 'a PacketQueue_scheme) act" where
  "enqueue_frame frame q = (case frame of
     None \<Rightarrow> Crash Null_Deref
   | Some f \<Rightarrow> Done () (q\<lparr>frame_queue := frame_queue q @ [f]\<rparr>))"

definition dequeue :: "('a PacketQueue_scheme \<Rightarrow> 'a PacketQueue_scheme) \<Rightarrow> (Packet, 'a PacketQueue_scheme) act" where
  "dequeue wait q =
     (let q = (if pkt_queue q = [] then wait q else q) in
      case pkt_queue q of
        [] \<Rightarrow> Fail error_queue_is_empty q
      | p # ps \<Rightarrow> Done p (q\<lparr>pkt_queue := ps\<rparr>))"

text \<open>Without a frame the call succeeds and leaves the caller's pointer as it was.\<close>

definition dequeue_frame ::
  "('a PacketQueue_scheme \<Rightarrow> 'a PacketQueue_scheme) \<Rightarrow> Frame option \<Rightarrow> (Frame option, 'a PacketQueue_scheme) act" where
  "dequeue_frame wait frame q =
     (let q = (if frame_queue q = [] then wait q else q) in
      case frame_queue q of
        [] \<Rightarrow> Done frame q
      | f # fs \<Rightarrow> Done (Some f) (q\<lparr>frame_queue := fs\<rparr>))"

section \<open>Inputs\<close>

record Request_Info =
  ri_vhost :: bytes
  ri_path :: bytes
  ri_name :: bytes
  ri_params :: bytes

record InputHandler = PacketQueue +
  in_channel :: "nat option"
  origin_address :: "bytes \<times> int"
  origin_request :: Request_Info
  input_type :: EInputType
  in_conn :: bool
  in_client :: bool
  in_demux :: bool
  in_context :: "nat option"
  in_status :: EStatusSource
  in_stop :: bool
  in_running :: bool
  in_no_cache :: bool
  origin_try_count :: int

text \<open>\<open>input_type\<close> is not initialised: it is whatever \<open>ty\<close> stands in the memory.\<close>

definition InputHandler_new :: "EInputType \<Rightarrow> nat option \<Rightarrow> InputHandler" where
  "InputHandler_new ty ch = \<lparr>pkt_queue = [], frame_queue = [], max_queue_size = 1000, in_channel = ch,
     origin_address = ([], 0), origin_request = \<lparr>ri_vhost = [], ri_path = [], ri_name = [], ri_params = []\<rparr>,
     input_type = ty, in_conn = False, in_client = False, in_demux = False, in_context = None,
     in_status = ESourceInit, in_stop = False, in_running = False, in_no_cache = False,
     origin_try_count = 1\<rparr>"

definition set_connection :: "bool \<Rightarrow> (int, InputHandler) act" where
  "set_connection conn h = (if \<not> conn then Done (-1) h else Done 0 (h\<lparr>in_conn := True\<rparr>))"

definition can_use :: "InputHandler \<Rightarrow> bool" where
  "can_use h = (\<not> in_stop h)"

definition init_conn :: "bool \<Rightarrow> InputHandler \<Rightarrow> InputHandler" where
  "init_conn conn h = h\<lparr>in_conn := conn\<rparr>"

definition init_format :: "bool \<Rightarrow> InputHandler \<Rightarrow> InputHandler" where
  "init_format demux h = h\<lparr>in_demux := demux\<rparr>"

definition init_origin_client :: "bool \<Rightarrow> InputHandler \<Rightarrow> InputHandler" where
  "init_origin_client client h = h\<lparr>in_client := client\<rparr>"

definition set_origin_info :: "bytes \<times> int \<Rightarrow> bytes \<Rightarrow> bytes \<Rightarrow> bytes \<Rightarrow> bytes \<Rightarrow> bytes \<Rightarrow> InputHandler \<Rightarrow> InputHandler" where
  "set_origin_info address host path stream ext params h =
     h\<lparr>origin_address := address,
       origin_request := \<lparr>ri_vhost = host, ri_path = path, ri_name = stream @ lit ''.'' @ ext, ri_params = params\<rparr>\<rparr>"

text \<open>\<open>fetch_stream\<close>, given what \<open>client->read_data\<close> answers.\<close>

definition fetch_stream :: "int \<times> bytes \<Rightarrow> (int \<times> bytes, InputHandler) act" where
  "fetch_stream answer h =
     (if \<not> in_client h then Crash Null_Deref
      else if 0 < fst answer then Done answer h else Done (-1, snd answer) h)"

definition init_input :: "int \<Rightarrow> (unit, InputHandler) act" where
  "init_input rc h =
     (if \<not> in_demux h then Crash Null_Deref else if rc = 0 then Done () h else Fail rc h)"

text \<open>
  \<open>origin_start\<close>: \<open>attempts\<close> lists what \<open>connect\<close> and \<open>client->request\<close> return in each turn.
  The loop has no way out after a success; only the last turn counts.
\<close>

primrec origin_attempts :: "(int \<times> int) list \<Rightarrow> int \<Rightarrow> (int, InputHandler) act" where
  "origin_attempts [] rc = ret rc"
| "origin_attempts (a # as) rc = (\<lambda>h.
     if \<not> in_conn h then Crash Null_Deref
     else if fst a \<noteq> 0 then origin_attempts as (fst a) h
     else if \<not> in_client h then Fail error_ingest_no_client h
     else origin_attempts as (snd a) h)"

definition origin_start :: "(int \<times> int) list \<Rightarrow> (unit, InputHandler) act" where
  "origin_start attempts h =
     bind (origin_attempts (take (nat (origin_try_count h)) attempts) 0)
       (\<lambda>rc. if rc = 0 then ret () else fail rc) h"

definition input_set_no_cache :: "(unit, InputHandler) act" where
  "input_set_no_cache h = (if in_client h then Done () (h\<lparr>in_no_cache := True\<rparr>) else Crash Null_Deref)"

definition probe :: "(int \<times> int) list \<Rightarrow> (unit, InputHandler) act" where
  "probe attempts = (\<lambda>h.
     seq (if input_type h = EInputOrigin
          then (if in_status h = ESourceInit
                then seq (origin_start attempts) (\<lambda>h. Done () (h\<lparr>in_status := ESourceStart\<rparr>))
                else ret ())
          else (\<lambda>h. Done () (h\<lparr>in_status := ESourceStart\<rparr>)))
       input_set_no_cache h)"

definition input_set_stop :: "InputHandler \<Rightarrow> InputHandler" where
  "input_set_stop h = h\<lparr>in_stop := True\<rparr>"

text \<open>\<open>run\<close>: a coroutine that runs already is not started again.\<close>

definition input_run :: "int \<Rightarrow> (unit, InputHandler) act" where
  "input_run rc h =
     (if in_running h then Done () h
      else if rc = 0 then Done () (h\<lparr>in_running := True\<rparr>) else Fail rc (h\<lparr>in_running := True\<rparr>))"

text \<open>
  One round of the loop: \<open>ir_before\<close> is what the other coroutines did to the handler since the
  last round, \<open>ir_conn_stop\<close> the answer of \<open>input_conn->is_stop ()\<close>, \<open>ir_demux\<close> that of the
  demuxer: an error or a pointer to a packet.
\<close>

record input_round =
  ir_before :: "InputHandler \<Rightarrow> InputHandler"
  ir_conn_stop :: bool
  ir_demux :: "int + Packet option"

primrec input_rounds :: "input_round list \<Rightarrow> (bool, InputHandler) act" where
  "input_rounds [] = ret False"
| "input_rounds (r # rs) = (\<lambda>h0. let h = ir_before r h0 in
     if in_stop h then Done True h
     else if \<not> in_conn h then Crash Null_Deref
     else if ir_conn_stop r then Done True h
     else if \<not> in_demux h then Crash Null_Deref
     else (case ir_demux r of
       Inl e \<Rightarrow> Fail e h
     | Inr None \<Rightarrow> Done True h
     | Inr (Some p) \<Rightarrow> seq (enqueue (Some p)) (input_rounds rs) h))"

definition cycle_interleave :: "(int \<times> int) list \<Rightarrow> input_round list \<Rightarrow> (bool, InputHandler) act" where
  "cycle_interleave attempts rounds = seq (probe attempts) (input_rounds rounds)"

text \<open>
  \<open>cycle\<close> goes through \<open>cycle_interleave\<close> twice, also after an error, and answers what the second
  turn answered.  A turn that still waits (\<open>Done False\<close>) keeps the coroutine.
\<close>

definition InputHandler_cycle :: "(int \<times> int) list \<Rightarrow> input_round list \<Rightarrow> (int \<times> int) list \<Rightarrow> input_round list
    \<Rightarrow> (bool, InputHandler) act" where
  "InputHandler_cycle attempts1 rounds1 attempts2 rounds2 h =
     (case cycle_interleave attempts1 rounds1 h of
        Crash q \<Rightarrow> Crash q
      | Done False h \<Rightarrow> Done False h
      | Done True h \<Rightarrow> cycle_interleave attempts2 rounds2 h
      | Fail e h \<Rightarrow> cycle_interleave attempts2 rounds2 h)"

section \<open>Outputs\<close>

datatype EOutputType = EOutputPlay | EOutputForward

datatype EStatusOutput = EOutputInit | EOutputStart

text \<open>The calls a handler makes to its muxer, in their order.\<close>

datatype mux_call = Send_Status int | Handle_Output Packet

record OutputHandler = PacketQueue +
  out_channel :: "nat option"
  out_conn :: bool
  out_client :: bool
  out_mux :: bool
  input_context :: "nat option"
  output_context :: "nat option"
  out_stop :: bool
  output_type :: EOutputType
  out_status :: EStatusOutput
  out_running :: bool
  forward_address :: "bytes \<times> int"
  forward_url :: bytes
  start_at :: int
  last_send_at :: int
  mux_calls :: "mux_call list"

definition OutputHandler_new :: "EOutputType \<Rightarrow> nat option \<Rightarrow> OutputHandler" where
  "OutputHandler_new ty ch = \<lparr>pkt_queue = [], frame_queue = [], max_queue_size = 1000, out_channel = ch,
     out_conn = False, out_client = False, out_mux = False, input_context = None, output_context = None,
     out_stop = False, output_type = ty, out_status = EOutputInit, out_running = False,
     forward_address = ([], 0), forward_url = [], start_at = 0, last_send_at = 0, mux_calls = []\<rparr>"

text \<open>\<open>write_msg\<close>, given the answer of \<open>client->write_data\<close>; the log reads the connection's id.\<close>

definition write_msg :: "int \<Rightarrow> (int, OutputHandler) act" where
  "write_msg answer h = (if \<not> out_conn h \<or> \<not> out_client h then Crash Null_Deref else Done answer h)"

definition init_output :: "int \<Rightarrow> nat option \<Rightarrow> (unit, OutputHandler) act" where
  "init_output rc ctx h0 = (let h = h0\<lparr>input_context := ctx\<rparr> in
     if \<not> out_mux h then Crash Null_Deref else if rc = 0 then Done () h else Fail rc h)"

definition output_set_stop :: "OutputHandler \<Rightarrow> OutputHandler" where
  "output_set_stop h = h\<lparr>out_stop := True\<rparr>"

definition output_run :: "int \<Rightarrow> (unit, OutputHandler) act" where
  "output_run rc h =
     (if out_running h then Done () h
      else if rc = 0 then Done () (h\<lparr>out_running := True\<rparr>) else Fail rc (h\<lparr>out_running := True\<rparr>))"

definition call_mux :: "mux_call \<Rightarrow> (unit, OutputHandler) act" where
  "call_mux c h = (if out_mux h then Done () (h\<lparr>mux_calls := mux_calls h @ [c]\<rparr>) else Crash Null_Deref)"

text \<open>
  One round: what \<open>is_stop\<close> of the connection answers, what happens to the handler during the wait
  for a packet, what the muxer answers for it (and what the others did while it sent), and the
  time after it.
\<close>

record output_round =
  or_conn_stop :: bool
  or_wait :: "OutputHandler \<Rightarrow> OutputHandler"
  or_mux :: int
  or_after :: "OutputHandler \<Rightarrow> OutputHandler"
  or_time :: int

primrec output_rounds :: "output_round list \<Rightarrow> (bool, OutputHandler) act" where
  "output_rounds [] = ret False"
| "output_rounds (r # rs) = (\<lambda>h.
     if out_stop h then seq (call_mux (Send_Status 404)) (ret True) h
     else if \<not> out_conn h then Crash Null_Deref
     else if or_conn_stop r then seq (call_mux (Send_Status 404)) (ret True) h
     else bind (dequeue (or_wait r)) (\<lambda>p.
       seq (call_mux (Send_Status 200)) (seq (call_mux (Handle_Output p))
         (\<lambda>h. if or_mux r \<noteq> 0 then Fail (or_mux r) (or_after r h)
              else output_rounds rs ((or_after r h)\<lparr>last_send_at := or_time r\<rparr>)))) h)"

text \<open>\<open>cycle\<close>: a forwarding output connects first; \<open>connect_rc\<close> and \<open>forward_rc\<close> are the answers.\<close>

definition output_start :: "int \<Rightarrow> int \<Rightarrow> (unit, OutputHandler) act" where
  "output_start connect_rc forward_rc h =
     (if output_type h = EOutputForward then
        (if out_status h = EOutputInit then
           (if \<not> out_conn h then Crash Null_Deref
            else if connect_rc \<noteq> 0 then Fail connect_rc h
            else if \<not> out_mux h then Crash Null_Deref
            else if forward_rc \<noteq> 0 then Fail forward_rc h
            else Done () (h\<lparr>out_status := EOutputStart\<rparr>))
         else Done () h)
      else Done () (h\<lparr>out_status := EOutputStart\<rparr>))"

definition OutputHandler_cycle :: "int \<Rightarrow> int \<Rightarrow> int \<Rightarrow> output_round list \<Rightarrow> (bool, OutputHandler) act" where
  "OutputHandler_cycle connect_rc forward_rc now rounds =
     seq (output_start connect_rc forward_rc)
       (seq (\<lambda>h. Done () (h\<lparr>start_at := now, last_send_at := now\<rparr>)) (output_rounds rounds))"

end
