(* ===== verification/Raw_Format.thy ===== *)
theory Raw_Format
  imports Io_Buffer Http_Stack Handlers
begin

text \<open>
  \<open>RawDeMux\<close> and \<open>RawMux\<close> of \<open>src/format/raw/tmss_format_raw.cpp\<close>: packets made of whatever
  one read brings, and packets written out as they are, behind a status line.  Both work on a
  \<open>Buffer\<close> of their own and on a function they were given to read or write with: a
  \<open>'w reader\<close>, or a \<open>'w writer\<close> that returns the number of bytes it took.
\<close>

type_synonym 'w writer = "bytes \<Rightarrow> 'w \<Rightarrow> int \<times> 'w"

abbreviation (input) error_demux_buffer_full :: int where "error_demux_buffer_full \<equiv> 12003"

section \<open>Demuxer\<close>

record RawDeMux =
  dm_buffer :: "Buffer option"
  dm_read_func :: bool
  content_length :: int

definition RawDeMux_new :: RawDeMux where
  "RawDeMux_new = \<lparr>dm_buffer = None, dm_read_func = False, content_length = 0\<rparr>"

text \<open>\<open>init_input\<close>: \<open>mem\<close> is the block the caller has allocated.\<close>

definition raw_init_input :: "bytes \<Rightarrow> int \<Rightarrow> RawDeMux \<Rightarrow> RawDeMux" where
  "raw_init_input mem buffer_size d = d\<lparr>dm_buffer := Some (Buffer_new mem buffer_size), dm_read_func := True\<rparr>"

text \<open>Calls to the buffer behind a pointer.\<close>

definition with_dm :: "('a, Buffer) act \<Rightarrow> ('a, RawDeMux) act" where
  "with_dm m d = (case dm_buffer d of
     None \<Rightarrow> Crash Null_Deref
   | Some b \<Rightarrow> (case m b of
       Done x b' \<Rightarrow> Done x (d\<lparr>dm_buffer := Some b'\<rparr>)
     | Fail e b' \<Rightarrow> Fail e (d\<lparr>dm_buffer := Some b'\<rparr>)
     | Crash q \<Rightarrow> Crash q))"

definition packet_of :: "bytes \<Rightarrow> Packet" where
  "packet_of xs = \<lparr>pkt_buffer = xs, pkt_timestamp = 0, pkt_key_frame = False\<rparr>"

text \<open>\<open>flush_read\<close>: everything in the buffer becomes one packet; without data the packet is null.\<close>

definition flush_read :: "(Packet option, Buffer) act" where
  "flush_read = bind read_left (\<lambda>l.
     if l \<le> 0 then ret None
     else bind (read_bytes l) (\<lambda>xs. seq reset (ret (Some (packet_of xs)))))"

text \<open>The part of \<open>handle_input\<close> that reads: the bytes go to the write position.\<close>

definition fill_buffer :: "'w reader \<Rightarrow> (unit, Buffer \<times> 'w) act" where
  "fill_buffer rd = (\<lambda>(b, w). case continuous_write_left b of
     Done n b \<Rightarrow>
       (case rd n w of ((read_size, xs), w) \<Rightarrow>
         (case seq (mem_write (wpos b) xs) (ignore (seek_write read_size)) b of
            Done _ b \<Rightarrow> Done () (b, w) | Fail e b \<Rightarrow> Fail e (b, w) | Crash q \<Rightarrow> Crash q))
   | Fail e b \<Rightarrow> Fail e (b, w)
   | Crash q \<Rightarrow> Crash q)"

definition raw_handle_input :: "'w reader \<Rightarrow> (int \<times> Packet option, RawDeMux \<times> 'w) act" where
  "raw_handle_input rd = (\<lambda>(d, w).
     if \<not> dm_read_func d then Done (-2, None) (d, w)
     else case dm_buffer d of
       None \<Rightarrow> Crash Null_Deref
     | Some b \<Rightarrow>
         if buf_size b < 1 then Done (-1, None) (d, w)
         else (case read_left b of
           Fail e b \<Rightarrow> Fail e (d, w)
         | Crash q \<Rightarrow> Crash q
         | Done l b \<Rightarrow>
             (case (if l < 128 then fill_buffer rd (b, w) else Done () (b, w)) of
                Fail e (b, w) \<Rightarrow> Fail e (d\<lparr>dm_buffer := Some b\<rparr>, w)
              | Crash q \<Rightarrow> Crash q
              | Done _ (b, w) \<Rightarrow>
                  (case flush_read b of
                     Done p b \<Rightarrow> Done (0, p) (d\<lparr>dm_buffer := Some b\<rparr>, w)
                   | Fail e b \<Rightarrow> Done (0, None) (d\<lparr>dm_buffer := Some b\<rparr>, w)
                   | Crash q \<Rightarrow> Crash q))))"

text \<open>\<open>on_ingest\<close>: the body bytes that came with the header go to the buffer.\<close>

definition raw_on_ingest :: "int \<Rightarrow> bytes \<Rightarrow> (unit, RawDeMux) act" where
  "raw_on_ingest n data_header d =
     with_dm (bind write_left (\<lambda>l.
       if l < int (length data_header) then fail error_demux_buffer_full
       else ignore (write_bytes data_header))) (d\<lparr>content_length := n\<rparr>)"

section \<open>Muxer\<close>

record RawMux =
  mx_buffer :: "Buffer option"
  mx_write_func :: bool
  is_send_header :: bool

definition RawMux_new :: RawMux where
  "RawMux_new = \<lparr>mx_buffer = None, mx_write_func = False, is_send_header = False\<rparr>"

definition raw_init_output :: "bytes \<Rightarrow> int \<Rightarrow> RawMux \<Rightarrow> RawMux" where
  "raw_init_output mem buffer_size m = m\<lparr>mx_buffer := Some (Buffer_new mem buffer_size), mx_write_func := True\<rparr>"

text \<open>A call of the write function on \<open>n\<close> bytes from the read position.\<close>

definition write_out :: "'w writer \<Rightarrow> int \<Rightarrow> (int, Buffer \<times> 'w) act" where
  "write_out wr n = (\<lambda>(b, w). case mem_read (rpos b) n b of
     Done xs b \<Rightarrow> (case wr xs w of (k, w) \<Rightarrow> Done k (b, w))
   | Fail e b \<Rightarrow> Fail e (b, w)
   | Crash q \<Rightarrow> Crash q)"

definition on_buffer :: "('a, Buffer) act \<Rightarrow> ('a, Buffer \<times> 'w) act" where
  "on_buffer m = (\<lambda>(b, w). case m b of
     Done x b \<Rightarrow> Done x (b, w) | Fail e b \<Rightarrow> Fail e (b, w) | Crash q \<Rightarrow> Crash q)"

text \<open>
  \<open>flush_write\<close>: the piece up to the end of the block, then the rest.  The second call takes all
  that is left from the read position on, whether or not it wraps.
\<close>

definition flush_write :: "'w writer \<Rightarrow> (unit, Buffer \<times> 'w) act" where
  "flush_write wr =
     bind (on_buffer continuous_read_left) (\<lambda>n.
     bind (write_out wr n) (\<lambda>write_size.
     seq (ignore (on_buffer (seek_read write_size)))
       (bind (on_buffer read_left) (\<lambda>l.
          if 0 < l then bind (write_out wr l) (\<lambda>_. on_buffer reset) else ret ()))))"

definition put_packet :: "bytes \<Rightarrow> (unit, Buffer \<times> 'w) act" where
  "put_packet xs = on_buffer (ignore (write_bytes xs))"

text \<open>
  \<open>handle_output\<close> returns 0, or -1 for a packet that does not fit the empty buffer (the source's
  \<open>return -1\<close> is \<open>Done (-1)\<close>).  \<open>fl\<close> says whether there is a write function.
\<close>

definition raw_output :: "'w writer \<Rightarrow> bool \<Rightarrow> bytes \<Rightarrow> (int, Buffer \<times> 'w) act" where
  "raw_output wr fl xs =
     (let flush = (if fl then flush_write wr else ret ()) in
      bind (on_buffer write_left) (\<lambda>left.
        if left < int (length xs)
        then seq flush (bind (on_buffer write_left) (\<lambda>left.
               if left < int (length xs) then ret (-1)
               else seq (put_packet xs) (seq flush (ret 0))))
        else seq (put_packet xs) (seq flush (ret 0))))"

definition raw_handle_output :: "'w writer \<Rightarrow> Packet \<Rightarrow> (int, RawMux \<times> 'w) act" where
  "raw_handle_output wr p = (\<lambda>(m, w). case mx_buffer m of
     None \<Rightarrow> Crash Null_Deref
   | Some b \<Rightarrow> (case raw_output wr (mx_write_func m) (pkt_buffer p) (b, w) of
       Done x (b, w) \<Rightarrow> Done x (m\<lparr>mx_buffer := Some b\<rparr>, w)
     | Fail e (b, w) \<Rightarrow> Fail e (m\<lparr>mx_buffer := Some b\<rparr>, w)
     | Crash q \<Rightarrow> Crash q))"

text \<open>\<open>http_status_detail\<close>: a status it does not know gives the empty string.\<close>

definition status_detail :: "int \<Rightarrow> bytes" where
  "status_detail status =
     (if status = 200 then lit ''HTTP 200 OK'' else if status = 404 then lit ''404 Not Found'' else [])"

definition status_line :: "int \<Rightarrow> bytes" where
  "status_line status = lit ''HTTP/1.1 '' @ status_detail status @ CRLF @ CRLF"

text \<open>\<open>send_status\<close> writes the line once and pays no attention to how much of it was taken.\<close>

definition send_status :: "'w writer \<Rightarrow> int \<Rightarrow> RawMux \<times> 'w \<Rightarrow> RawMux \<times> 'w" where
  "send_status wr status = (\<lambda>(m, w).
     if is_send_header m then (m, w)
     else (m\<lparr>is_send_header := True\<rparr>, if mx_write_func m then snd (wr (status_line status) w) else w))"

text \<open>\<open>forward\<close> sends an empty request and reads at most 1024 bytes.\<close>

definition raw_forward :: "'w writer \<Rightarrow> 'w reader \<Rightarrow> 'w \<Rightarrow> 'w" where
  "raw_forward wr rd w = snd (rd 1024 (snd (wr [] w)))"

end
