(* ===== verification/Segments.thy ===== *)
theory Segments
  imports Raw_Format
begin

text \<open>
  \<open>SegmentsCache\<close> and \<open>SegmentHandler\<close> of \<open>src/base/cache/tmss_segment.cpp\<close>: a stream is cut into
  files of about five seconds.  Files are shared objects: \<open>seg_files\<close> is the memory they live in,
  and a file whose address no entry of the cache holds is gone (the handler has a weak pointer).

  The formats \<open>mpegts\<close> and \<open>flv\<close> mux through FFmpeg, which is a parameter: \<open>ff\<close> gives the pieces
  it writes for a packet and its result.  The format \<open>RAW\<close> is \<open>RawMux\<close>.
\<close>

section \<open>State\<close>

text \<open>\<open>seg_raw\<close> is the muxer when it is a \<open>RawMux\<close>.\<close>

record SegmentHandler =
  seg_file_name :: bytes
  seg_raw :: "RawMux option"
  seg_input_context :: "nat option"
  seg_file :: nat
  current_size :: int
  duration_ms :: int
  last_timestamp :: int
  first_timestamp :: int

record SegmentsCache =
  static_cache :: "(bytes, nat) std_map"
  seg_files :: "nat \<Rightarrow> File"
  next_file :: nat
  current_segment :: "SegmentHandler option"
  min_segment_size :: int
  max_segment_size :: int
  segment_enable :: bool
  cache_name :: bytes
  seg_format :: bytes
  segs_input_context :: "nat option"

definition SegmentsCache_new :: "int \<Rightarrow> int \<Rightarrow> SegmentsCache" where
  "SegmentsCache_new lo hi = \<lparr>static_cache = [], seg_files = (\<lambda>_. File_new []), next_file = 0,
     current_segment = None, min_segment_size = lo, max_segment_size = hi, segment_enable = True,
     cache_name = [], seg_format = [], segs_input_context = None\<rparr>"

section \<open>A segment\<close>

definition SegmentHandler_new :: "nat \<Rightarrow> SegmentHandler" where
  "SegmentHandler_new file = \<lparr>seg_file_name = [], seg_raw = None, seg_input_context = None, seg_file = file,
     current_size = 0, duration_ms = 0, last_timestamp = 0, first_timestamp = 0\<rparr>"

text \<open>\<open>init\<close> chooses the muxer and gives it a buffer of 16 KB.\<close>

definition segment_init :: "(nat \<Rightarrow> byte) \<Rightarrow> bytes \<Rightarrow> nat option \<Rightarrow> SegmentHandler \<Rightarrow> SegmentHandler" where
  "segment_init heap fmt ctx h =
     h\<lparr>seg_input_context := ctx,
       seg_raw := (if fmt = lit ''RAW''
         then Some (raw_init_output (fresh_block heap (1024 * 16)) (1024 * 16) RawMux_new) else None)\<rparr>"

text \<open>
  \<open>append_pts\<close>: the difference of two \<open>int64_t\<close> is added to an \<open>int\<close>.
\<close>

definition append_pts :: "int \<Rightarrow> SegmentHandler \<Rightarrow> SegmentHandler" where
  "append_pts pts h =
     (if 0 < last_timestamp h
      then h\<lparr>duration_ms := sint (of_int (duration_ms h + (pts - last_timestamp h)) :: 32 word)\<rparr> else h)"

text \<open>
  \<open>write\<close>: the file is reached through the weak pointer, appended to, and its error becomes -1.
  The state is that of the cache, whose current segment writes; \<open>k\<close> counts the bytes.
\<close>

definition alive :: "nat \<Rightarrow> SegmentsCache \<Rightarrow> bool" where
  "alive file s \<longleftrightarrow> file \<in> snd ` set (static_cache s)"

definition segment_write :: "(nat \<Rightarrow> byte) \<Rightarrow> nat \<Rightarrow> bytes \<Rightarrow> (int, SegmentsCache \<times> int) act" where
  "segment_write heap file src = (\<lambda>(s, k).
     if \<not> alive file s then Crash Null_Deref
     else case File_append heap src (seg_files s file) of
       Done _ f \<Rightarrow> Done (int (length src)) (s\<lparr>seg_files := (seg_files s)(file := f)\<rparr>, k + int (length src))
     | Fail e f \<Rightarrow> Done (-1) (s\<lparr>seg_files := (seg_files s)(file := f)\<rparr>, k)
     | Crash q \<Rightarrow> Crash q)"

text \<open>The write function as the raw muxer calls it; a crash inside it ends the process.\<close>

definition crashing_writer :: "(bytes \<Rightarrow> (int, 'w) act) \<Rightarrow> 'w + fault \<Rightarrow> bytes \<Rightarrow> int \<times> ('w + fault)" where
  "crashing_writer m w xs = (case w of
     Inr q \<Rightarrow> (0, Inr q)
   | Inl v \<Rightarrow> (case m xs v of
       Done k v \<Rightarrow> (k, Inl v) | Fail e v \<Rightarrow> (-1, Inl v) | Crash q \<Rightarrow> (0, Inr q)))"

fun write_pieces :: "(bytes \<Rightarrow> (int, 'w) act) \<Rightarrow> bytes list \<Rightarrow> (unit, 'w) act" where
  "write_pieces m [] = ret ()"
| "write_pieces m (x # xs) = bind (m x) (\<lambda>_. write_pieces m xs)"

text \<open>\<open>mux->handle_output (packet)\<close> of the segment \<open>h\<close>, and the rest of \<open>handle_packet\<close>.\<close>

definition segment_mux :: "(nat \<Rightarrow> byte) \<Rightarrow> (Packet \<Rightarrow> bytes list \<times> int) \<Rightarrow> SegmentHandler \<Rightarrow> Packet
    \<Rightarrow> (int \<times> RawMux option, SegmentsCache \<times> int) act" where
  "segment_mux heap ff h p = (\<lambda>w. case seg_raw h of
     Some m \<Rightarrow>
       (case raw_handle_output (\<lambda>xs v. crashing_writer (segment_write heap (seg_file h)) v xs) p (m, Inl w) of
          Done rc (m, Inl w) \<Rightarrow> Done (rc, Some m) w
        | Fail e (m, Inl w) \<Rightarrow> Done (e, Some m) w
        | Done rc (m, Inr q) \<Rightarrow> Crash q
        | Fail e (m, Inr q) \<Rightarrow> Crash q
        | Crash q \<Rightarrow> Crash q)
   | None \<Rightarrow> seq (write_pieces (segment_write heap (seg_file h)) (fst (ff p))) (ret (snd (ff p), None)) w)"

definition segment_handle_packet :: "(nat \<Rightarrow> byte) \<Rightarrow> (Packet \<Rightarrow> bytes list \<times> int) \<Rightarrow> Packet \<Rightarrow> SegmentHandler
    \<Rightarrow> (unit, SegmentsCache) act" where
  "segment_handle_packet heap ff p h s =
     (case segment_mux heap ff h p (s, current_size h) of
        Crash q \<Rightarrow> Crash q
      | Fail e (s, k) \<Rightarrow> Fail e (s\<lparr>current_segment := Some (h\<lparr>current_size := k\<rparr>)\<rparr>)
      | Done (rc, m) (s, k) \<Rightarrow>
          (let h = h\<lparr>current_size := k, seg_raw := m\<rparr> in
           if rc \<noteq> 0 then Fail rc (s\<lparr>current_segment := Some h\<rparr>)
           else Done () (s\<lparr>current_segment := Some (h\<lparr>last_timestamp := pkt_timestamp p,
               first_timestamp := (if first_timestamp h = 0 then pkt_timestamp p else first_timestamp h)\<rparr>)\<rparr>)))"

section \<open>The cache\<close>

text \<open>A new file in the cache, with a buffer of 16 KB, and a new segment that writes to it.\<close>

definition open_file :: "(nat \<Rightarrow> byte) \<Rightarrow> bytes \<Rightarrow> (unit, SegmentsCache) act" where
  "open_file heap nm s =
     (case init_buffer heap (16 * 1024) (File_new nm) of
        Crash q \<Rightarrow> Crash q
      | Fail e f \<Rightarrow> Fail e s
      | Done _ f \<Rightarrow> Done () (s\<lparr>seg_files := (seg_files s)(next_file s := f), next_file := next_file s + 1,
          static_cache := add_file nm (next_file s) (static_cache s),
          current_segment := Some (segment_init heap (seg_format s) (segs_input_context s)
             (SegmentHandler_new (next_file s)))\<rparr>))"

definition timestamp_name :: "bytes \<Rightarrow> int \<Rightarrow> bytes" where
  "timestamp_name nm t = nm @ GetStrFromInt64 (of_int t)"

text \<open>
  \<open>handle_packet\<close>.  The name of the first file has the packet's timestamp; the next file is named
  after the first timestamp of the segment it follows.
\<close>

definition update_current :: "(SegmentHandler \<Rightarrow> SegmentHandler) \<Rightarrow> (unit, SegmentsCache) act" where
  "update_current g s = (case current_segment s of
     None \<Rightarrow> Crash Null_Deref | Some h \<Rightarrow> Done () (s\<lparr>current_segment := Some (g h)\<rparr>))"

definition cut_segment :: "(nat \<Rightarrow> byte) \<Rightarrow> Packet \<Rightarrow> (unit, SegmentsCache) act" where
  "cut_segment heap p s = (case current_segment s of
     None \<Rightarrow> Crash Null_Deref
   | Some h \<Rightarrow>
       if 5 * 1000 \<le> duration_ms h \<and> pkt_key_frame p
       then open_file heap (timestamp_name (cache_name s) (first_timestamp h)) s
       else Done () s)"

definition segments_handle_packet :: "(nat \<Rightarrow> byte) \<Rightarrow> (Packet \<Rightarrow> bytes list \<times> int) \<Rightarrow> Packet \<Rightarrow> (unit, SegmentsCache) act" where
  "segments_handle_packet heap ff p s =
     (if \<not> segment_enable s then Done () s
      else seq (if current_segment s = None
                then open_file heap (timestamp_name (cache_name s) (pkt_timestamp p)) else ret ())
         (seq (update_current (append_pts (pkt_timestamp p)))
           (seq (cut_segment heap p)
             (\<lambda>s. case current_segment s of
                None \<Rightarrow> Crash Assert_Failed
              | Some h \<Rightarrow> segment_handle_packet heap ff p h s))) s)"

definition set_format :: "bytes \<Rightarrow> SegmentsCache \<Rightarrow> SegmentsCache" where
  "set_format fmt s = s\<lparr>seg_format := fmt\<rparr>"

definition set_input_context :: "nat option \<Rightarrow> SegmentsCache \<Rightarrow> SegmentsCache" where
  "set_input_context ctx s = s\<lparr>segs_input_context := ctx\<rparr>"

definition open_segment :: "SegmentsCache \<Rightarrow> SegmentsCache" where
  "open_segment s = s\<lparr>segment_enable := True\<rparr>"

definition close_segment :: "SegmentsCache \<Rightarrow> SegmentsCache" where
  "close_segment s = s\<lparr>segment_enable := False\<rparr>"

end
