(* ===== verification/Channel.thy ===== *)
theory Channel
  imports Segments
begin

text \<open>
  \<open>Channel\<close>, \<open>ChannelPool\<close> and \<open>ChannelMgr\<close> of \<open>src/base/cache/tmss_channel.cpp\<close>: a channel takes
  packets from its inputs and hands them to its outputs; the pool finds the channel of a stream.

  Inputs, outputs, channels and segment caches are shared objects, so the state of the server
  (\<open>Server\<close>) is a memory: each kind of object has its addresses.  A \<open>std::shared_ptr<PacketQueue>\<close>
  is a \<open>qptr\<close>: the null pointer, or an address with the object's dynamic type, which is what
  \<open>dynamic_pointer_cast\<close> looks at.  \<open>server_time\<close> is what \<open>get_cache_time ()\<close> answers.
\<close>

abbreviation (input) error_channel_killed :: int where "error_channel_killed \<equiv> 11001"

datatype qptr = Q_Null | Q_Input nat | Q_Output nat | Q_Plain nat

datatype EStatusChannel = EChannelInit | EChannelStart | EChannelKill

record Channel =
  ch_key :: bytes
  input_queue :: "qptr list"
  output_queue :: "qptr list"
  user_ctrl :: bool
  idle_at :: int
  channel_exit_time :: int
  ch_status :: EStatusChannel
  ch_input_context :: "nat option"
  segment_cache :: "nat option"
  ch_running :: bool

record Server =
  inputs :: "nat \<Rightarrow> InputHandler"
  outputs :: "nat \<Rightarrow> OutputHandler"
  plain_queues :: "nat \<Rightarrow> PacketQueue"
  channels :: "nat \<Rightarrow> Channel"
  segment_caches :: "nat \<Rightarrow> SegmentsCache"
  pool :: "(bytes, nat) std_map"
  next_channel :: nat
  next_input :: nat
  next_output :: nat
  next_segments :: nat
  server_time :: int

definition Channel_new :: "bytes \<Rightarrow> Channel" where
  "Channel_new k = \<lparr>ch_key = k, input_queue = [], output_queue = [], user_ctrl = False, idle_at = -1,
     channel_exit_time = -1, ch_status = EChannelInit, ch_input_context = None, segment_cache = None,
     ch_running = False\<rparr>"

text \<open>The server before its first request.\<close>

definition Server_new :: "int \<Rightarrow> Server" where
  "Server_new now = \<lparr>inputs = (\<lambda>_. InputHandler_new EInputPublish None),
     outputs = (\<lambda>_. OutputHandler_new EOutputPlay None), plain_queues = (\<lambda>_. PacketQueue_new 0),
     channels = (\<lambda>_. Channel_new []), segment_caches = (\<lambda>_. SegmentsCache_new 3 10), pool = [],
     next_channel = 0, next_input = 0, next_output = 0, next_segments = 0, server_time = now\<rparr>"

section \<open>Access to the objects\<close>

definition upd_channel :: "nat \<Rightarrow> (Channel \<Rightarrow> Channel) \<Rightarrow> Server \<Rightarrow> Server" where
  "upd_channel c g s = s\<lparr>channels := (channels s)(c := g (channels s c))\<rparr>"

definition do_channel :: "nat \<Rightarrow> (Channel \<Rightarrow> Channel) \<Rightarrow> (unit, Server) act" where
  "do_channel c g s = Done () (upd_channel c g s)"

text \<open>A call through \<open>dynamic_pointer_cast<InputHandler> (queue)\<close>: null unless it is an input.\<close>

definition on_input :: "qptr \<Rightarrow> ('a, InputHandler) act \<Rightarrow> ('a, Server) act" where
  "on_input q m s = (case q of
     Q_Input i \<Rightarrow> (case m (inputs s i) of
       Done x h \<Rightarrow> Done x (s\<lparr>inputs := (inputs s)(i := h)\<rparr>)
     | Fail e h \<Rightarrow> Fail e (s\<lparr>inputs := (inputs s)(i := h)\<rparr>)
     | Crash f \<Rightarrow> Crash f)
   | _ \<Rightarrow> Crash Null_Deref)"

definition on_output :: "qptr \<Rightarrow> ('a, OutputHandler) act \<Rightarrow> ('a, Server) act" where
  "on_output q m s = (case q of
     Q_Output i \<Rightarrow> (case m (outputs s i) of
       Done x h \<Rightarrow> Done x (s\<lparr>outputs := (outputs s)(i := h)\<rparr>)
     | Fail e h \<Rightarrow> Fail e (s\<lparr>outputs := (outputs s)(i := h)\<rparr>)
     | Crash f \<Rightarrow> Crash f)
   | _ \<Rightarrow> Crash Null_Deref)"

text \<open>The queue of packets behind a pointer, whatever its type.\<close>

definition packets_of :: "qptr \<Rightarrow> Server \<Rightarrow> Packet list" where
  "packets_of q s = (case q of
     Q_Null \<Rightarrow> [] | Q_Input i \<Rightarrow> pkt_queue (inputs s i) | Q_Output i \<Rightarrow> pkt_queue (outputs s i)
   | Q_Plain i \<Rightarrow> pkt_queue (plain_queues s i))"

definition set_packets :: "qptr \<Rightarrow> Packet list \<Rightarrow> Server \<Rightarrow> Server" where
  "set_packets q ps s = (case q of
     Q_Null \<Rightarrow> s
   | Q_Input i \<Rightarrow> s\<lparr>inputs := (inputs s)(i := (inputs s i)\<lparr>pkt_queue := ps\<rparr>)\<rparr>
   | Q_Output i \<Rightarrow> s\<lparr>outputs := (outputs s)(i := (outputs s i)\<lparr>pkt_queue := ps\<rparr>)\<rparr>
   | Q_Plain i \<Rightarrow> s\<lparr>plain_queues := (plain_queues s)(i := (plain_queues s i)\<lparr>pkt_queue := ps\<rparr>)\<rparr>)"

text \<open>\<open>enqueue\<close> and \<open>dequeue\<close> through a \<open>shared_ptr<PacketQueue>\<close>; \<open>wait\<close> is what the server does
  during the wait for a packet.\<close>

definition enqueue_at :: "Packet \<Rightarrow> qptr \<Rightarrow> (unit, Server) act" where
  "enqueue_at p q s = (if q = Q_Null then Crash Null_Deref
     else Done () (set_packets q (packets_of q s @ [p]) s))"

definition dequeue_at :: "(qptr \<Rightarrow> Server \<Rightarrow> Server) \<Rightarrow> qptr \<Rightarrow> (Packet, Server) act" where
  "dequeue_at wait q s0 = (if q = Q_Null then Crash Null_Deref
     else let s = (if packets_of q s0 = [] then wait q s0 else s0) in
       case packets_of q s of
         [] \<Rightarrow> Fail error_queue_is_empty s
       | p # ps \<Rightarrow> Done p (set_packets q ps s))"

section \<open>Idle time\<close>

definition wake_up :: "Channel \<Rightarrow> Channel" where
  "wake_up ch = ch\<lparr>idle_at := -1\<rparr>"

definition get_idle_time :: "nat \<Rightarrow> Server \<Rightarrow> int" where
  "get_idle_time c s = (if 0 < idle_at (channels s c) then server_time s - idle_at (channels s c) else -1)"

definition check_expire :: "nat \<Rightarrow> Server \<Rightarrow> bool" where
  "check_expire c s \<longleftrightarrow> 0 < channel_exit_time (channels s c)
     \<and> 60 * 1000 * 1000 < server_time s - channel_exit_time (channels s c)"

text \<open>
  \<open>check_and_sleep\<close>: without outputs and segments a channel falls idle, unless one of its inputs
  is a publisher.
\<close>

definition is_publish :: "qptr \<Rightarrow> (bool, Server) act" where
  "is_publish q = (if q = Q_Null then ret False else on_input q (\<lambda>h. Done (input_type h = EInputPublish) h))"

primrec any_publish :: "qptr list \<Rightarrow> bool \<Rightarrow> (bool, Server) act" where
  "any_publish [] found = ret found"
| "any_publish (q # qs) found = bind (is_publish q) (\<lambda>p. any_publish qs (found \<or> p))"

definition check_and_sleep :: "nat \<Rightarrow> (unit, Server) act" where
  "check_and_sleep c s = (let ch = channels s c in
     if idle_at ch = -1 \<and> output_queue ch = [] \<and> segment_cache ch = None
     then bind (any_publish (input_queue ch) False) (\<lambda>publish s.
       if publish then Done () s else Done () (upd_channel c (\<lambda>ch. ch\<lparr>idle_at := server_time s\<rparr>) s)) s
     else Done () s)"

section \<open>Inputs and outputs\<close>

definition add_input :: "nat \<Rightarrow> qptr \<Rightarrow> (unit, Server) act" where
  "add_input c q = do_channel c (\<lambda>ch.
     (wake_up ch)\<lparr>channel_exit_time := -1, input_queue := input_queue ch @ [q]\<rparr>)"

definition del_input :: "nat \<Rightarrow> qptr \<Rightarrow> (unit, Server) act" where
  "del_input c q s = Done () (upd_channel c (\<lambda>ch.
     let rest = remove1 q (input_queue ch) in
     ch\<lparr>input_queue := rest,
        idle_at := (if rest = [] \<and> idle_at ch = -1 then server_time s else idle_at ch)\<rparr>) s)"

text \<open>\<open>add_output\<close> drops the result of \<open>init_output\<close>, \<open>rc\<close>.\<close>

definition add_output :: "int \<Rightarrow> nat \<Rightarrow> qptr \<Rightarrow> (unit, Server) act" where
  "add_output rc c q =
     seq (do_channel c (\<lambda>ch. (wake_up ch)\<lparr>channel_exit_time := -1, output_queue := output_queue ch @ [q]\<rparr>))
       (\<lambda>s. ignore (on_output q (init_output rc (ch_input_context (channels s c)))) s)"

definition del_output :: "nat \<Rightarrow> qptr \<Rightarrow> (unit, Server) act" where
  "del_output c q =
     seq (do_channel c (\<lambda>ch. ch\<lparr>output_queue := remove1 q (output_queue ch)\<rparr>)) (check_and_sleep c)"

definition del_all_output :: "nat \<Rightarrow> (unit, Server) act" where
  "del_all_output c = do_channel c (\<lambda>ch. ch\<lparr>output_queue := []\<rparr>)"

definition add_segment_cache :: "nat \<Rightarrow> nat option \<Rightarrow> (unit, Server) act" where
  "add_segment_cache c cache = do_channel c (\<lambda>ch.
     (wake_up ch)\<lparr>channel_exit_time := -1, segment_cache := cache\<rparr>)"

definition del_segment_cache :: "nat \<Rightarrow> (unit, Server) act" where
  "del_segment_cache c = seq (do_channel c (\<lambda>ch. ch\<lparr>segment_cache := None\<rparr>)) (check_and_sleep c)"

section \<open>Packets\<close>

text \<open>\<open>fetch\<close>: one packet from every input, up to the first that has none.\<close>

primrec fetch_from :: "(qptr \<Rightarrow> Server \<Rightarrow> Server) \<Rightarrow> qptr list \<Rightarrow> Packet list \<Rightarrow> (Packet list, Server) act" where
  "fetch_from wait [] packets = ret packets"
| "fetch_from wait (q # qs) packets = (\<lambda>s. case dequeue_at wait q s of
     Done p s \<Rightarrow> fetch_from wait qs (packets @ [p]) s
   | Fail e s \<Rightarrow> Done packets s
   | Crash f \<Rightarrow> Crash f)"

definition fetch :: "(qptr \<Rightarrow> Server \<Rightarrow> Server) \<Rightarrow> nat \<Rightarrow> (Packet list, Server) act" where
  "fetch wait c s = fetch_from wait (input_queue (channels s c)) [] s"

definition dispatch :: "nat \<Rightarrow> Packet option \<Rightarrow> (unit, Server) act" where
  "dispatch c packet s = (case packet of
     None \<Rightarrow> Done () s
   | Some p \<Rightarrow> for_each (enqueue_at p) (output_queue (channels s c)) s)"

definition on_cycle :: "(nat \<Rightarrow> byte) \<Rightarrow> (Packet \<Rightarrow> bytes list \<times> int) \<Rightarrow> nat \<Rightarrow> Packet \<Rightarrow> (unit, Server) act" where
  "on_cycle heap ff c p s = (case segment_cache (channels s c) of
     None \<Rightarrow> Done () s
   | Some g \<Rightarrow> (case segments_handle_packet heap ff p (segment_caches s g) of
       Done _ t \<Rightarrow> Done () (s\<lparr>segment_caches := (segment_caches s)(g := t)\<rparr>)
     | Fail e t \<Rightarrow> Fail e (s\<lparr>segment_caches := (segment_caches s)(g := t)\<rparr>)
     | Crash f \<Rightarrow> Crash f))"

section \<open>Starting and stopping\<close>

text \<open>
  What the objects below a channel answer when it starts: the demuxers, the origin connections
  and clients, the muxers and the coroutine library, by the address of the handler.
\<close>

record channel_env =
  ce_init_input :: "nat \<Rightarrow> int"
  ce_origin :: "nat \<Rightarrow> (int \<times> int) list"
  ce_init_output :: "nat \<Rightarrow> int"
  ce_input_start :: "nat \<Rightarrow> int"
  ce_start :: "nat \<Rightarrow> int"

definition address_of :: "qptr \<Rightarrow> nat" where
  "address_of q = (case q of Q_Null \<Rightarrow> 0 | Q_Input i \<Rightarrow> i | Q_Output i \<Rightarrow> i | Q_Plain i \<Rightarrow> i)"

text \<open>
  The first loop of \<open>on_init\<close>.  The context of the first input that has one becomes the channel's.
\<close>

definition start_input :: "channel_env \<Rightarrow> nat \<Rightarrow> qptr \<Rightarrow> (unit, Server) act" where
  "start_input env c q =
     (if q = Q_Null then ret ()
      else seq (on_input q (init_input (ce_init_input env (address_of q))))
        (seq (on_input q (probe (ce_origin env (address_of q))))
          (bind (on_input q (\<lambda>h. Done (in_context h) h)) (\<lambda>ctx.
             do_channel c (\<lambda>ch. if ch_input_context ch = None then ch\<lparr>ch_input_context := ctx\<rparr> else ch)))))"

definition start_output :: "channel_env \<Rightarrow> nat \<Rightarrow> qptr \<Rightarrow> (unit, Server) act" where
  "start_output env c q s =
     (if q = Q_Null then Done () s
      else on_output q (init_output (ce_init_output env (address_of q)) (ch_input_context (channels s c))) s)"

definition run_input :: "channel_env \<Rightarrow> qptr \<Rightarrow> (unit, Server) act" where
  "run_input env q =
     (if q = Q_Null then ret () else ignore (on_input q (input_run (ce_input_start env (address_of q)))))"

definition give_context :: "nat \<Rightarrow> (unit, Server) act" where
  "give_context c s = (case segment_cache (channels s c) of
     None \<Rightarrow> Done () s
   | Some g \<Rightarrow> Done () (s\<lparr>segment_caches := (segment_caches s)
       (g := set_input_context (ch_input_context (channels s c)) (segment_caches s g))\<rparr>))"

definition on_init :: "channel_env \<Rightarrow> nat \<Rightarrow> (unit, Server) act" where
  "on_init env c = (\<lambda>s.
     seq (for_each (start_input env c) (input_queue (channels s c)))
       (\<lambda>s. seq (for_each (start_output env c) (output_queue (channels s c)))
         (seq (give_context c)
           (\<lambda>s. for_each (run_input env) (input_queue (channels s c)) s)) s) s)"

definition channel_start :: "channel_env \<Rightarrow> nat \<Rightarrow> (unit, Server) act" where
  "channel_start env c s =
     (if ch_running (channels s c) then Done () s
      else (let s = upd_channel c (\<lambda>ch. ch\<lparr>ch_running := True\<rparr>) s in
        if ce_start env c = 0 then Done () s else Fail (ce_start env c) s))"

definition channel_run :: "channel_env \<Rightarrow> nat \<Rightarrow> (unit, Server) act" where
  "channel_run env c s =
     (if ch_status (channels s c) = EChannelStart then Done () s
      else seq (on_init env c)
        (seq (do_channel c (\<lambda>ch. ch\<lparr>ch_status := EChannelStart\<rparr>)) (channel_start env c)) s)"

definition stop_input :: "qptr \<Rightarrow> (unit, Server) act" where
  "stop_input q = on_input q (\<lambda>h. Done () (input_set_stop h))"

definition stop_output :: "qptr \<Rightarrow> (unit, Server) act" where
  "stop_output q = on_output q (\<lambda>h. Done () (output_set_stop h))"

definition on_stop :: "nat \<Rightarrow> (unit, Server) act" where
  "on_stop c =
     seq (do_channel c (\<lambda>ch. ch\<lparr>ch_status := EChannelInit\<rparr>))
       (\<lambda>s. seq (for_each stop_input (input_queue (channels s c)))
         (\<lambda>s. seq (for_each stop_output (output_queue (channels s c)))
           (\<lambda>s. Done () (upd_channel c (\<lambda>ch. ch\<lparr>channel_exit_time := server_time s\<rparr>) s)) s) s)"

text \<open>\<open>on_process\<close>: the user's \<open>handle_cycle\<close>, then \<open>on_stop\<close>.\<close>

definition on_process :: "(nat \<Rightarrow> (unit, Server) act) \<Rightarrow> nat \<Rightarrow> (unit, Server) act" where
  "on_process handle_cycle c s =
     (if \<not> user_ctrl (channels s c) then Crash Null_Deref
      else seq (ignore (handle_cycle c)) (on_stop c) s)"

text \<open>The coroutine: \<open>cycle\<close>, then \<open>on_thread_stop\<close> of the base class, which lets it start again.\<close>

definition Channel_cycle :: "(nat \<Rightarrow> (unit, Server) act) \<Rightarrow> nat \<Rightarrow> (unit, Server) act" where
  "Channel_cycle handle_cycle c =
     seq (on_process handle_cycle c) (do_channel c (\<lambda>ch. ch\<lparr>ch_running := False\<rparr>))"

section \<open>The pool\<close>

definition pool_fetch :: "bytes \<Rightarrow> Server \<Rightarrow> nat option" where
  "pool_fetch key s = (case std_find key (pool s) of
     None \<Rightarrow> None
   | Some c \<Rightarrow> if ch_status (channels s c) = EChannelKill then None else Some c)"

text \<open>A new channel object; \<open>make_shared\<close> takes an address that is not in use.\<close>

definition new_channel :: "bytes \<Rightarrow> (nat, Server) act" where
  "new_channel key s = Done (next_channel s)
     (s\<lparr>channels := (channels s)(next_channel s := Channel_new key), next_channel := next_channel s + 1\<rparr>)"

definition fetch_or_create :: "bytes \<Rightarrow> (nat, Server) act" where
  "fetch_or_create key s = (case std_find key (pool s) of
     Some c \<Rightarrow>
       if ch_status (channels s c) = EChannelKill
       then bind (new_channel key) (\<lambda>n s.
         Done n (s\<lparr>pool := std_insert key n (std_erase (ch_key (channels s n)) (pool s))\<rparr>)) s
       else Done c s
   | None \<Rightarrow> bind (new_channel key) (\<lambda>n s. Done n (s\<lparr>pool := std_insert key n (pool s)\<rparr>)) s)"

definition fetch_or_create_channel :: "bytes \<Rightarrow> (nat, Server) act" where
  "fetch_or_create_channel key =
     bind (fetch_or_create key) (\<lambda>c s.
       if ch_status (channels s c) = EChannelKill then Fail error_channel_killed s
       else Done c (upd_channel c wake_up s))"

definition pool_remove :: "nat \<Rightarrow> (unit, Server) act" where
  "pool_remove c s = Done () (s\<lparr>pool := std_erase (ch_key (channels s c)) (pool s)\<rparr>)"

text \<open>
  One pass of \<open>ChannelPool::cycle\<close> over the entries: a range-based \<open>for\<close> keeps an iterator to the
  entry it is at.  When the pass erases that entry, the step to the next one reads freed memory.
\<close>

primrec expire_pass :: "(bytes \<times> nat) list \<Rightarrow> (unit, Server) act" where
  "expire_pass [] = ret ()"
| "expire_pass (e # es) = (\<lambda>s.
     if check_expire (snd e) s
     then seq (do_channel (snd e) (\<lambda>ch. ch\<lparr>ch_status := EChannelKill\<rparr>))
       (seq (pool_remove (snd e))
         (\<lambda>s. if std_find (fst e) (pool s) = None then Crash Bad_Free else expire_pass es s)) s
     else expire_pass es s)"

definition pool_pass :: "(unit, Server) act" where
  "pool_pass s = expire_pass (pool s) s"

end
