(* ===== verification/Media_Source.thy ===== *)
theory Media_Source
  imports Channel Http_Conn
begin

text \<open>
  \<open>MediaSource\<close> of \<open>src/media_source/media_source_handler.cpp\<close>, the user's handler that the server
  ships with: what a request does to channels, inputs, outputs and files, and the loop of a channel.

  The state of the server is \<open>Server\<close> together with the cached files (\<open>Site\<close>).  A coroutine
  that was started runs later, by the cycle of its class; what is started is recorded in the
  objects.  The connection of the request is a \<open>'w writer\<close> and its state.
\<close>

section \<open>The loop of a channel\<close>

text \<open>
  \<open>handle_cycle\<close>, over rounds: a round is what the server does while the channel waits for a
  packet.  All inputs give a packet, the first one is passed on.  \<open>Done False\<close>: the rounds are
  over and the loop goes on.
\<close>

primrec handle_cycle :: "(nat \<Rightarrow> byte) \<Rightarrow> (Packet \<Rightarrow> bytes list \<times> int) \<Rightarrow> nat \<Rightarrow> (qptr \<Rightarrow> Server \<Rightarrow> Server) list
    \<Rightarrow> (bool, Server) act" where
  "handle_cycle heap ff c [] = ret False"
| "handle_cycle heap ff c (wait # rounds) = (\<lambda>s.
     if 5 * 1000 * 1000 < get_idle_time c s then Done True s
     else bind (fetch wait c) (\<lambda>packet_group.
       case packet_group of
         [] \<Rightarrow> ret True
       | p # _ \<Rightarrow> seq (dispatch c (Some p)) (seq (ignore (on_cycle heap ff c p)) (handle_cycle heap ff c rounds))) s)"

section \<open>New inputs and outputs\<close>

definition create_channel_key :: "HttpRequest \<Rightarrow> bytes" where
  "create_channel_key req = vhost req @ lit ''|'' @ req_path req @ lit ''|'' @ req_name req"

text \<open>\<open>params_map[k]\<close>: the empty string for a key that is not there.\<close>

definition param :: "bytes \<Rightarrow> HttpRequest \<Rightarrow> bytes" where
  "param k req = (case params_map req k of None \<Rightarrow> [] | Some v \<Rightarrow> v)"

definition new_input :: "InputHandler \<Rightarrow> (nat, Server) act" where
  "new_input h s = Done (next_input s)
     (s\<lparr>inputs := (inputs s)(next_input s := h), next_input := next_input s + 1\<rparr>)"

definition new_output :: "OutputHandler \<Rightarrow> (nat, Server) act" where
  "new_output h s = Done (next_output s)
     (s\<lparr>outputs := (outputs s)(next_output s := h), next_output := next_output s + 1\<rparr>)"

text \<open>
  \<open>create_origin_stream\<close>: an input that pulls \<open>name.flv\<close> from the origin, by default port 80 of
  the requested host.
\<close>

definition before_dot :: "bytes \<Rightarrow> bytes" where
  "before_dot stream = (case find_str (lit ''.'') stream 0 of None \<Rightarrow> stream | Some i \<Rightarrow> take i stream)"

definition origin_of :: "HttpRequest \<Rightarrow> bytes \<times> int" where
  "origin_of req =
     (if 0 < length (param (lit ''origin_host'') req) then param (lit ''origin_host'') req else vhost req,
      if 0 < length (param (lit ''origin_port'') req)
      then sint (of_int (atoll (param (lit ''origin_port'') req)) :: 32 word) else 80)"

definition create_origin_stream :: "EInputType \<Rightarrow> nat \<Rightarrow> HttpRequest \<Rightarrow> (unit, Server) act" where
  "create_origin_stream ty c req s0 =
     bind (new_input ((set_origin_info (origin_of req) (vhost req) (req_path req) (before_dot (req_name req))
         (lit ''flv'') (if param (lit ''origin_param'') req = lit ''no'' then [] else req_params req)
         (init_origin_client True (init_conn True (init_format True (InputHandler_new ty (Some c))))))
         \<lparr>in_context := Some (next_input s0), input_type := EInputOrigin\<rparr>))
       (\<lambda>i. add_input c (Q_Input i)) s0"

text \<open>\<open>create_forward\<close>: an output whose connection is the null pointer; it is started at once.\<close>

definition create_forward :: "EOutputType \<Rightarrow> (nat \<Rightarrow> int) \<Rightarrow> int \<Rightarrow> nat \<Rightarrow> HttpRequest \<Rightarrow> (unit, Server) act" where
  "create_forward ty init_rc start_rc c req s0 =
     bind (new_output ((OutputHandler_new ty (Some c))
         \<lparr>out_mux := True, forward_address := (vhost req, 80), forward_url := create_channel_key req,
          output_context := Some (next_output s0), output_type := EOutputForward\<rparr>))
       (\<lambda>i. seq (add_output (init_rc i) c (Q_Output i)) (ignore (on_output (Q_Output i) (output_run start_rc)))) s0"

section \<open>Requests for streams\<close>

text \<open>
  What the objects a handler creates answer, and what the two uninitialised members hold.
\<close>

record media_env =
  me_channel :: channel_env
  me_output_start :: int
  me_input_type :: EInputType
  me_output_type :: EOutputType

text \<open>
  The channel of a request, with this handler as its user.  An error of the manager leaves the
  null pointer.
\<close>

definition channel_for :: "HttpRequest \<Rightarrow> (nat, Server) act" where
  "channel_for req s = (case fetch_or_create_channel (create_channel_key req) s of
     Fail e s \<Rightarrow> Crash Null_Deref
   | Crash f \<Rightarrow> Crash f
   | Done c s \<Rightarrow> Done c (upd_channel c (\<lambda>ch. ch\<lparr>user_ctrl := True\<rparr>) s))"

text \<open>A channel that does not run pulls from its origin and starts; if that fails it is stopped.\<close>

definition ensure_running :: "media_env \<Rightarrow> nat \<Rightarrow> HttpRequest \<Rightarrow> (int, Server) act" where
  "ensure_running env c req s =
     (if ch_status (channels s c) = EChannelStart then Done 0 s
      else (case seq (create_origin_stream (me_input_type env) c req) (channel_run (me_channel env) c) s of
          Done _ s \<Rightarrow> Done 0 s
        | Fail e s \<Rightarrow> seq (on_stop c) (ret e) s
        | Crash f \<Rightarrow> Crash f))"

definition result :: "int \<Rightarrow> (unit, 's) act" where
  "result rc = (if rc = 0 then ret () else fail rc)"

definition handle_play_stream :: "media_env \<Rightarrow> HttpRequest \<Rightarrow> (unit, Server) act" where
  "handle_play_stream env req =
     bind (channel_for req) (\<lambda>c s0.
       bind (new_output ((OutputHandler_new (me_output_type env) (Some c))
           \<lparr>out_conn := True, out_mux := True, out_client := True, output_context := Some (next_output s0),
            output_type := EOutputPlay\<rparr>)) (\<lambda>i.
         seq (add_output (ce_init_output (me_channel env) i) c (Q_Output i))
           (bind (ensure_running env c req) (\<lambda>rc.
             seq (ignore (on_output (Q_Output i) (output_run (me_output_start env)))) (result rc)))) s0)"

text \<open>\<open>handle_publish\<close>: the input has a demuxer and a connection, but no client.\<close>

definition handle_publish :: "media_env \<Rightarrow> HttpRequest \<Rightarrow> (unit, Server) act" where
  "handle_publish env req =
     bind (channel_for req) (\<lambda>c s0.
       bind (new_input ((init_conn True (init_format True (InputHandler_new (me_input_type env) (Some c))))
           \<lparr>in_context := Some (next_input s0), input_type := EInputPublish\<rparr>)) (\<lambda>i.
         seq (add_input c (Q_Input i))
           (seq (ignore (on_input (Q_Input i) (input_run (ce_input_start (me_channel env) i))))
             (seq (create_forward (me_output_type env) (ce_init_output (me_channel env)) (me_output_start env) c req)
               (ignore (channel_run (me_channel env) c))))) s0)"

definition handle_api :: "media_env \<Rightarrow> HttpRequest \<Rightarrow> (unit, Server) act" where
  "handle_api env req =
     bind (channel_for req) (\<lambda>c.
       seq (create_origin_stream (me_input_type env) c req)
         (seq (create_forward (me_output_type env) (ce_init_output (me_channel env)) (me_output_start env) c req)
           (ignore (channel_run (me_channel env) c))))"

section \<open>Requests for files\<close>

text \<open>A \<open>FileInputHandler\<close> that was started: the address of its file and what it will ask for.\<close>

record file_job =
  job_file :: nat
  job_type :: EInputType
  job_client :: bool
  job_request :: Request_Info
  job_address :: "bytes \<times> int"

record Site =
  server :: Server
  files :: "nat \<Rightarrow> File"
  file_cache :: "(bytes, nat) std_map"
  next_file :: nat
  file_jobs :: "file_job list"

definition Site_new :: "int \<Rightarrow> Site" where
  "Site_new now = \<lparr>server = Server_new now, files = (\<lambda>_. File_new []), file_cache = [], next_file = 0, file_jobs = []\<rparr>"

definition file_key :: "HttpRequest \<Rightarrow> bytes" where
  "file_key req = vhost req @ req_path req @ req_name req"

text \<open>\<open>create_origin_file\<close>: a new file in the cache, and the coroutine that is to fill it.\<close>

definition create_origin_file :: "HttpRequest \<Rightarrow> Site \<Rightarrow> nat \<times> Site" where
  "create_origin_file req s = (next_file s,
     s\<lparr>files := (files s)(next_file s := File_new (file_key req)), next_file := next_file s + 1,
       file_cache := add_file (file_key req) (next_file s) (file_cache s),
       file_jobs := file_jobs s @ [\<lparr>job_file = next_file s, job_type = EInputOrigin, job_client = False,
         job_request = \<lparr>ri_vhost = vhost req, ri_path = req_path req, ri_name = req_name req, ri_params = req_params req\<rparr>,
         job_address = (vhost req, 80)\<rparr>]\<rparr>)"

text \<open>
  The loop that sends a file, in pieces of at most 1024 bytes.  A round says what happens to the
  file during the wait in \<open>seek_range\<close> and while the piece is sent.  The state is the file, the
  muxer and the connection; the result says whether the loop has ended.
\<close>

record play_round =
  pr_wait :: "File \<Rightarrow> File"
  pr_sent :: "File \<Rightarrow> File"

definition all_sent :: "int \<Rightarrow> File \<Rightarrow> bool" where
  "all_sent offset f \<longleftrightarrow> complete f \<and> total_length f \<le> offset"

primrec play_rounds :: "'w writer \<Rightarrow> play_round list \<Rightarrow> int \<Rightarrow> (bool, File \<times> RawMux \<times> 'w) act" where
  "play_rounds wr [] offset = (\<lambda>(f, m, w). Done (all_sent offset f) (f, m, w))"
| "play_rounds wr (r # rs) offset = (\<lambda>(f, m, w).
     if all_sent offset f then Done True (f, m, w)
     else (case seek_range (pr_wait r) 1024 offset f of
       Crash q \<Rightarrow> Crash q
     | Fail e f \<Rightarrow> Fail e (f, m, w)
     | Done xs f \<Rightarrow>
         (case raw_handle_output wr (packet_of xs) (send_status wr 200 (m, w)) of
            Crash q \<Rightarrow> Crash q
          | Fail e (m, w) \<Rightarrow> Fail e (f, m, w)
          | Done rc (m, w) \<Rightarrow>
              if rc < 0 then Fail rc (pr_sent r f, m, w)
              else play_rounds wr rs (offset + int (length xs)) (pr_sent r f, m, w))))"

definition file_muxer :: "(nat \<Rightarrow> byte) \<Rightarrow> RawMux" where
  "file_muxer heap = raw_init_output (fresh_block heap (1024 * 16)) (1024 * 16) RawMux_new"

text \<open>What the cache has is used while it is fresh (\<open>age\<close> in milliseconds) or not complete.\<close>

definition usable :: "int \<Rightarrow> int \<Rightarrow> File \<Rightarrow> bool" where
  "usable age now f \<longleftrightarrow> now div 1000 - update_time_ms f < age \<or> \<not> complete f"

definition send_file :: "(nat \<Rightarrow> byte) \<Rightarrow> 'w writer \<Rightarrow> ('w \<Rightarrow> 'w) \<Rightarrow> play_round list \<Rightarrow> (bool, File \<times> 'w) act" where
  "send_file heap wr set_stop rounds = (\<lambda>(f, w).
     case play_rounds wr rounds 0 (f, file_muxer heap, w) of
       Done True (f, m, w) \<Rightarrow> Done True (f, set_stop w)
     | Done False (f, m, w) \<Rightarrow> Done False (f, w)
     | Fail e (f, m, w) \<Rightarrow> Fail e (f, set_stop w)
     | Crash q \<Rightarrow> Crash q)"

definition handle_play_file :: "(nat \<Rightarrow> byte) \<Rightarrow> 'w writer \<Rightarrow> ('w \<Rightarrow> 'w) \<Rightarrow> HttpRequest \<Rightarrow> play_round list
    \<Rightarrow> (bool, Site \<times> 'w) act" where
  "handle_play_file heap wr set_stop req rounds = (\<lambda>(s, w).
     let (a, s) = (case get_file (file_key req) (file_cache s) of
         Some a \<Rightarrow> if usable 1000 (server_time (server s)) (files s a) then (a, s) else create_origin_file req s
       | None \<Rightarrow> create_origin_file req s)
     in case send_file heap wr set_stop rounds (files s a, w) of
          Done b (f, w) \<Rightarrow> Done b (s\<lparr>files := (files s)(a := f)\<rparr>, w)
        | Fail e (f, w) \<Rightarrow> Fail e (s\<lparr>files := (files s)(a := f)\<rparr>, w)
        | Crash q \<Rightarrow> Crash q)"

text \<open>
  \<open>handle_play_segment\<close>: a segment cache is attached to the channel, which is started; the file is
  looked up in that cache, under the key of an ordinary file.
\<close>

definition attach_segments :: "HttpRequest \<Rightarrow> nat \<Rightarrow> (nat, Server) act" where
  "attach_segments req c s = (case segment_cache (channels s c) of
     Some g \<Rightarrow> Done g s
   | None \<Rightarrow>
       (let g = next_segments s in
        seq (add_segment_cache c (Some g)) (ret g)
          (s\<lparr>segment_caches := (segment_caches s)(g := set_format (req_ext req) (SegmentsCache_new 3 10)),
             next_segments := g + 1\<rparr>)))"

definition handle_play_segment :: "(nat \<Rightarrow> byte) \<Rightarrow> media_env \<Rightarrow> 'w writer \<Rightarrow> ('w \<Rightarrow> 'w) \<Rightarrow> ('w \<Rightarrow> 'w) \<Rightarrow> HttpRequest
    \<Rightarrow> play_round list \<Rightarrow> (bool, Server \<times> 'w) act" where
  "handle_play_segment heap env wr set_stop close req rounds = (\<lambda>(s, w).
     case bind (channel_for req) (\<lambda>c. bind (attach_segments req c) (\<lambda>g.
            bind (ensure_running env c req) (\<lambda>_. ret g))) s of
       Crash q \<Rightarrow> Crash q
     | Fail e s \<Rightarrow> Fail e (s, w)
     | Done g s \<Rightarrow>
         (let t = segment_caches s g;
              not_found = Done True (s, close (snd (send_status wr 404 (file_muxer heap, w))))
          in case get_file (file_key req) (static_cache t) of
            None \<Rightarrow> not_found
          | Some a \<Rightarrow>
              if \<not> usable (1000 * 1000) (server_time s) (seg_files t a) then not_found
              else (case send_file heap wr set_stop rounds (seg_files t a, w) of
                  Done b (f, w) \<Rightarrow> Done b
                    (s\<lparr>segment_caches := (segment_caches s)(g := t\<lparr>seg_files := (seg_files t)(a := f)\<rparr>)\<rparr>, w)
                | Fail e (f, w) \<Rightarrow> Fail e
                    (s\<lparr>segment_caches := (segment_caches s)(g := t\<lparr>seg_files := (seg_files t)(a := f)\<rparr>)\<rparr>, w)
                | Crash q \<Rightarrow> Crash q)))"

section \<open>All requests\<close>

definition on_server :: "('a, Server) act \<Rightarrow> ('a, Site \<times> 'w) act" where
  "on_server m = (\<lambda>(s, w). case m (server s) of
     Done x t \<Rightarrow> Done x (s\<lparr>server := t\<rparr>, w)
   | Fail e t \<Rightarrow> Fail e (s\<lparr>server := t\<rparr>, w)
   | Crash q \<Rightarrow> Crash q)"

definition handle_play :: "(nat \<Rightarrow> byte) \<Rightarrow> media_env \<Rightarrow> 'w writer \<Rightarrow> ('w \<Rightarrow> 'w) \<Rightarrow> ('w \<Rightarrow> 'w) \<Rightarrow> HttpRequest
    \<Rightarrow> play_round list \<Rightarrow> (bool, Site \<times> 'w) act" where
  "handle_play heap env wr set_stop close req rounds =
     (if param (lit ''mode'') req = lit ''hls'' then
        (\<lambda>(s, w). case handle_play_segment heap env wr set_stop close req rounds (server s, w) of
           Done x (t, w) \<Rightarrow> Done x (s\<lparr>server := t\<rparr>, w)
         | Fail e (t, w) \<Rightarrow> Fail e (s\<lparr>server := t\<rparr>, w)
         | Crash q \<Rightarrow> Crash q)
      else if param (lit ''mode'') req = lit ''live''
      then seq (on_server (handle_play_stream env req)) (ret True)
      else handle_play_file heap wr set_stop req rounds)"

text \<open>\<open>req->type\<close> is not set by the parser: it is whatever \<open>ty\<close> the memory holds.\<close>

definition handle_request :: "int \<Rightarrow> (nat \<Rightarrow> byte) \<Rightarrow> media_env \<Rightarrow> 'w writer \<Rightarrow> ('w \<Rightarrow> 'w) \<Rightarrow> ('w \<Rightarrow> 'w) \<Rightarrow> HttpRequest
    \<Rightarrow> play_round list \<Rightarrow> (bool, Site \<times> 'w) act" where
  "handle_request ty heap env wr set_stop close req rounds =
     (if ty = 1 then seq (on_server (handle_publish env req)) (ret True)
      else if ty = 2 then seq (on_server (handle_api env req)) (ret True)
      else handle_play heap env wr set_stop close req rounds)"

section \<open>The command line\<close>

text \<open>
  \<open>parse_params (num, param, port)\<close>: the arguments behind the program's name, up to the first
  that is not an option; \<open>-p\<close> takes the rest of its argument, or the next one, as the port.
\<close>

fun scan_option :: "bytes \<Rightarrow> bytes list \<Rightarrow> bytes \<Rightarrow> (bytes \<times> bytes list) option" where
  "scan_option [] rest temp = Some (temp, rest)"
| "scan_option (ch # p) rest temp =
     (if ch = of_char CHR ''p'' \<or> ch = of_char CHR ''P''
      then (if p \<noteq> [] then scan_option p rest p
            else case rest of [] \<Rightarrow> None | a # as \<Rightarrow> Some (a, as))
      else scan_option p rest temp)"

lemma scan_option_shorter: "scan_option p rest temp = Some (t, rest') \<Longrightarrow> length rest' \<le> length rest"
  by (induction p rest temp rule: scan_option.induct) (auto split: if_splits list.splits)

function scan_options :: "bytes list \<Rightarrow> bytes \<Rightarrow> bytes option" where
  "scan_options [] temp = Some temp"
| "scan_options (a # args) temp = (case a of
     [] \<Rightarrow> None
   | ch # p \<Rightarrow> if ch \<noteq> of_char CHR ''-'' then None
       else (case scan_option p args temp of
         None \<Rightarrow> None | Some (t, rest) \<Rightarrow> scan_options rest t))"
  by pat_completeness auto
termination
  by (relation "measure (\<lambda>(args, _). length args)") (auto dest: scan_option_shorter simp: less_Suc_eq_le)

definition parse_options :: "bytes list \<Rightarrow> (unit, int) act" where
  "parse_options args port = (case scan_options args [] of
     None \<Rightarrow> Fail (-1) port
   | Some temp \<Rightarrow> Done () (if temp = [] then port else sint (of_int (atoll temp) :: 32 word)))"

end
