(* ===== verification/Channel_Facts.thy ===== *)
theory Channel_Facts
  imports Media_Source
begin

text \<open>
  The steps of the server as a relation, with the invariant that holds in every reachable state:
  the pool maps each name to the channel of that name, none of them killed, and a channel is marked
  idle only while it has no input or nobody to send to.
\<close>

section \<open>Objects\<close>

lemma upd_channel_sel [simp]:
  "channels (upd_channel c g s) = (channels s)(c := g (channels s c))"
  "pool (upd_channel c g s) = pool s" "server_time (upd_channel c g s) = server_time s"
  "next_channel (upd_channel c g s) = next_channel s" "inputs (upd_channel c g s) = inputs s"
  "outputs (upd_channel c g s) = outputs s" "segment_caches (upd_channel c g s) = segment_caches s"
  "plain_queues (upd_channel c g s) = plain_queues s"
  by (simp_all add: upd_channel_def)

lemma do_channel_run [act_simps]: "do_channel c g s = Done () (upd_channel c g s)"
  by (simp add: do_channel_def)

text \<open>
  What a call to an input or output leaves alone.  \<open>frame P m\<close>: whatever \<open>m\<close> ends in, the state
  it ends in is related by \<open>P\<close> to the one it began in.
\<close>

definition frame :: "('s \<Rightarrow> 's \<Rightarrow> bool) \<Rightarrow> ('a, 's) act \<Rightarrow> bool" where
  "frame P m \<longleftrightarrow> (\<forall>s. case m s of Done _ t \<Rightarrow> P s t | Fail _ t \<Rightarrow> P s t | Crash _ \<Rightarrow> True)"

named_theorems frame_intro

lemma frame_ret [frame_intro]: "reflp P \<Longrightarrow> frame P (ret x)"
  by (simp add: frame_def ret_def reflp_def)

lemma frame_bind [frame_intro]:
  "transp P \<Longrightarrow> frame P m \<Longrightarrow> (\<And>x. frame P (f x)) \<Longrightarrow> frame P (bind m f)"
proof -
  assume tr: "transp P" and m: "frame P m" and f: "\<And>x. frame P (f x)"
  have "case bind m f s of Done _ t \<Rightarrow> P s t | Fail _ t \<Rightarrow> P s t | Crash _ \<Rightarrow> True" for s
  proof (cases "m s")
    case (Done x t)
    with m have st: "P s t" unfolding frame_def by (metis outcome.simps(10))
    have "case f x t of Done _ u \<Rightarrow> P t u | Fail _ u \<Rightarrow> P t u | Crash _ \<Rightarrow> True"
      using f unfolding frame_def by blast
    with Done st tr show ?thesis
      by (auto simp: bind_def split: outcome.splits dest: transpD)
  next
    case (Fail e t)
    with m have "P s t" unfolding frame_def by (metis outcome.simps(11))
    with Fail show ?thesis by (simp add: bind_def)
  qed (simp add: bind_def)
  then show ?thesis by (simp add: frame_def)
qed

lemma frame_seq [frame_intro]: "transp P \<Longrightarrow> frame P m \<Longrightarrow> frame P n \<Longrightarrow> frame P (seq m n)"
  by (simp add: seq_def frame_bind)

lemma frame_ignore [frame_intro]: "frame P m \<Longrightarrow> frame P (ignore m)"
proof -
  assume m: "frame P m"
  have "case ignore m s of Done _ t \<Rightarrow> P s t | Fail _ t \<Rightarrow> P s t | Crash _ \<Rightarrow> True" for s
    using m [unfolded frame_def, rule_format, of s] by (cases "m s") (simp_all add: ignore_def)
  then show ?thesis by (simp add: frame_def)
qed

lemma frame_for_each [frame_intro]:
  "reflp P \<Longrightarrow> transp P \<Longrightarrow> (\<And>x. frame P (f x)) \<Longrightarrow> frame P (for_each f xs)"
  by (induction xs) (simp_all add: frame_intro)

lemma frame_at: "(\<And>s. frame P (f s)) \<Longrightarrow> frame P (\<lambda>s. f s s)"
  by (simp add: frame_def)

lemma frame_at_bind:
  "transp P \<Longrightarrow> (\<And>s. frame P (g s)) \<Longrightarrow> (\<And>s x. frame P (f s x)) \<Longrightarrow> frame P (\<lambda>s. bind (g s) (f s) s)"
  by (rule frame_at [where f = "\<lambda>s. bind (g s) (f s)"]) (rule frame_bind)

lemma frameD:
  "frame P m \<Longrightarrow> m s = Done x t \<Longrightarrow> P s t" "frame P m \<Longrightarrow> m s = Fail e t \<Longrightarrow> P s t"
  unfolding frame_def by (metis outcome.simps(10), metis outcome.simps(11))

section \<open>The invariant\<close>

definition channel_ok :: "Channel \<Rightarrow> bool" where
  "channel_ok ch \<longleftrightarrow> (idle_at ch \<noteq> -1 \<longrightarrow>
     input_queue ch = [] \<or> (output_queue ch = [] \<and> segment_cache ch = None))"

definition server_ok :: "Server \<Rightarrow> bool" where
  "server_ok s \<longleftrightarrow> std_inv (pool s) \<and> (\<forall>c. channel_ok (channels s c))
     \<and> (\<forall>e\<in>set (pool s). ch_key (channels s (snd e)) = fst e
        \<and> ch_status (channels s (snd e)) \<noteq> EChannelKill \<and> snd e < next_channel s)"

definition keeps_ok :: "Server \<Rightarrow> Server \<Rightarrow> bool" where
  "keeps_ok s t \<longleftrightarrow> (server_ok s \<longrightarrow> server_ok t)"

lemma keeps_ok_order [frame_intro]: "reflp keeps_ok" "transp keeps_ok"
  by (auto simp: keeps_ok_def reflp_def transp_def)

lemma keeps_ok_refl [simp]: "keeps_ok s s"
  by (simp add: keeps_ok_def)

abbreviation preserves :: "('a, Server) act \<Rightarrow> bool" where
  "preserves \<equiv> frame keeps_ok"

text \<open>Calls that leave the channels and the pool alone.\<close>

definition same_channels :: "Server \<Rightarrow> Server \<Rightarrow> bool" where
  "same_channels s t \<longleftrightarrow> channels t = channels s \<and> pool t = pool s \<and> next_channel t = next_channel s
     \<and> server_time t = server_time s"

lemma same_channels_order [frame_intro]: "reflp same_channels" "transp same_channels"
  by (auto simp: same_channels_def reflp_def transp_def)

lemma server_ok_same: "same_channels s t \<Longrightarrow> server_ok t \<longleftrightarrow> server_ok s"
  by (simp add: server_ok_def same_channels_def)

lemma preserves_same: "frame same_channels m \<Longrightarrow> preserves m"
proof -
  assume m: "frame same_channels m"
  have "case m s of Done _ t \<Rightarrow> keeps_ok s t | Fail _ t \<Rightarrow> keeps_ok s t | Crash _ \<Rightarrow> True" for s
    using m [unfolded frame_def, rule_format, of s]
    by (cases "m s") (simp_all add: keeps_ok_def server_ok_same)
  then show ?thesis by (simp add: frame_def)
qed

lemma frame_on_input [frame_intro]: "frame same_channels (on_input q m)"
  by (auto simp: frame_def on_input_def same_channels_def split: outcome.splits qptr.splits)

lemma frame_on_output [frame_intro]: "frame same_channels (on_output q m)"
  by (auto simp: frame_def on_output_def same_channels_def split: outcome.splits qptr.splits)

lemma preserves_on_input [frame_intro]: "preserves (on_input q m)" "preserves (on_output q m')"
  by (simp_all add: preserves_same frame_intro)

text \<open>An update of one channel that keeps its key, does not kill it and leaves it in order.\<close>

lemma server_ok_upd:
  assumes "server_ok s" "channel_ok (channels s c) \<Longrightarrow> channel_ok (g (channels s c))"
    "ch_key (g (channels s c)) = ch_key (channels s c)"
    "ch_status (channels s c) \<noteq> EChannelKill \<Longrightarrow> ch_status (g (channels s c)) \<noteq> EChannelKill"
  shows "server_ok (upd_channel c g s)"
  using assms by (auto simp: server_ok_def)

lemma preserves_do_channel:
  "(\<And>ch. channel_ok ch \<Longrightarrow> channel_ok (g ch)) \<Longrightarrow> (\<And>ch. ch_key (g ch) = ch_key ch) \<Longrightarrow>
    (\<And>ch. ch_status ch \<noteq> EChannelKill \<Longrightarrow> ch_status (g ch) \<noteq> EChannelKill) \<Longrightarrow> preserves (do_channel c g)"
  by (simp add: frame_def do_channel_def keeps_ok_def server_ok_upd)

section \<open>The operations keep it\<close>

lemma same_any_publish [frame_intro]: "frame same_channels (any_publish qs found)"
proof (induction qs arbitrary: found)
  case (Cons q qs)
  show ?case using Cons by (simp add: is_publish_def frame_intro)
qed (simp add: frame_intro)

lemma preserves_check_and_sleep [frame_intro]: "preserves (check_and_sleep c)"
proof -
  have "case check_and_sleep c s of Done _ t \<Rightarrow> keeps_ok s t | Fail _ t \<Rightarrow> keeps_ok s t | Crash _ \<Rightarrow> True" for s
  proof (cases "idle_at (channels s c) = -1 \<and> output_queue (channels s c) = [] \<and> segment_cache (channels s c) = None")
    case True
    show ?thesis
    proof (cases "any_publish (input_queue (channels s c)) False s")
      case (Done publish t)
      then have st: "same_channels s t" by (rule frameD(1) [OF same_any_publish])
      have "keeps_ok s (upd_channel c (\<lambda>ch. ch\<lparr>idle_at := server_time t\<rparr>) t)"
        unfolding keeps_ok_def
      proof
        assume "server_ok s"
        with st have "server_ok t" by (simp add: server_ok_same)
        then show "server_ok (upd_channel c (\<lambda>ch. ch\<lparr>idle_at := server_time t\<rparr>) t)"
          using True st by (intro server_ok_upd) (auto simp: channel_ok_def same_channels_def)
      qed
      with st Done True show ?thesis
        by (auto simp: check_and_sleep_def Let_def act_simps keeps_ok_def server_ok_same)
    next
      case (Fail e t)
      then have "same_channels s t" by (rule frameD(2) [OF same_any_publish])
      with Fail True show ?thesis
        by (auto simp: check_and_sleep_def Let_def act_simps keeps_ok_def server_ok_same)
    qed (use True in \<open>simp add: check_and_sleep_def Let_def act_simps\<close>)
  next
    case False
    then show ?thesis by (auto simp: check_and_sleep_def Let_def keeps_ok_def)
  qed
  then show ?thesis by (simp add: frame_def)
qed

lemma preserves_inputs [frame_intro]: "preserves (add_input c q)" "preserves (del_input c q)"
proof -
  show "preserves (add_input c q)"
    unfolding add_input_def by (intro preserves_do_channel) (simp_all add: channel_ok_def wake_up_def)
  show "preserves (del_input c q)"
    by (auto simp: frame_def del_input_def keeps_ok_def Let_def channel_ok_def intro!: server_ok_upd)
qed

lemma preserves_outputs [frame_intro]:
  "preserves (add_output rc c q)" "preserves (del_output c q)" "preserves (del_all_output c)"
proof -
  have "preserves (\<lambda>s. ignore (on_output q (init_output rc (ch_input_context (channels s c)))) s)"
    by (rule frame_at [where f = "\<lambda>s. ignore (on_output q (init_output rc (ch_input_context (channels s c))))"])
      (intro frame_intro)
  then show "preserves (add_output rc c q)"
    unfolding add_output_def
    by (intro frame_intro preserves_do_channel) (simp_all add: channel_ok_def wake_up_def)
  show "preserves (del_output c q)"
    unfolding del_output_def
    by (intro frame_intro preserves_do_channel) (auto simp: channel_ok_def)
  show "preserves (del_all_output c)"
    unfolding del_all_output_def by (intro preserves_do_channel) (auto simp: channel_ok_def)
qed

lemma preserves_segments [frame_intro]: "preserves (add_segment_cache c g)" "preserves (del_segment_cache c)"
proof -
  show "preserves (add_segment_cache c g)"
    unfolding add_segment_cache_def by (intro preserves_do_channel) (auto simp: channel_ok_def wake_up_def)
  show "preserves (del_segment_cache c)"
    unfolding del_segment_cache_def
    by (intro frame_intro preserves_do_channel) (auto simp: channel_ok_def)
qed

text \<open>Starting, stopping and relaying change neither the queues' membership nor the idle mark.\<close>

lemma preserves_start [frame_intro]:
  "preserves (start_input env c q)" "preserves (start_output env c q)" "preserves (run_input env q)"
  "preserves (give_context c)" "preserves (channel_start env c)"
proof -
  show "preserves (start_input env c q)"
    unfolding start_input_def by (auto intro!: frame_intro preserves_do_channel simp: channel_ok_def split: if_splits)
  have "preserves (\<lambda>s. on_output q (init_output rc (ch_input_context (channels s c))) s)" for rc
    by (rule frame_at [where f = "\<lambda>s. on_output q (init_output rc (ch_input_context (channels s c)))"])
      (intro frame_intro)
  moreover have "preserves (\<lambda>s :: Server. Done () s)" by (simp add: frame_def keeps_ok_def)
  ultimately show "preserves (start_output env c q)"
    by (cases "q = Q_Null") (simp_all add: start_output_def [abs_def])
  show "preserves (run_input env q)"
    unfolding run_input_def by (auto intro!: frame_intro)
  show "preserves (give_context c)"
    by (rule preserves_same) (auto simp: frame_def give_context_def same_channels_def split: option.splits)
  show "preserves (channel_start env c)"
    by (auto simp: frame_def channel_start_def Let_def keeps_ok_def channel_ok_def intro!: server_ok_upd)
qed

lemma preserves_on_init [frame_intro]: "preserves (on_init env c)"
proof -
  have 1: "preserves (\<lambda>s. for_each (run_input env) (input_queue (channels s c)) s)"
    by (rule frame_at [where f = "\<lambda>s. for_each (run_input env) (input_queue (channels s c))"]) (intro frame_intro)
  have 2: "preserves (\<lambda>s. seq (for_each (start_output env c) (output_queue (channels s c)))
      (seq (give_context c) (\<lambda>s. for_each (run_input env) (input_queue (channels s c)) s)) s)"
    by (rule frame_at [where f = "\<lambda>s. seq (for_each (start_output env c) (output_queue (channels s c)))
      (seq (give_context c) (\<lambda>s. for_each (run_input env) (input_queue (channels s c)) s))"])
      (intro frame_intro 1)
  show ?thesis unfolding on_init_def
    by (rule frame_at [where f = "\<lambda>s. seq (for_each (start_input env c) (input_queue (channels s c)))
      (\<lambda>s. seq (for_each (start_output env c) (output_queue (channels s c)))
         (seq (give_context c) (\<lambda>s. for_each (run_input env) (input_queue (channels s c)) s)) s)"])
      (intro frame_intro 2)
qed

lemma preserves_channel_run [frame_intro]: "preserves (channel_run env c)"
proof -
  have 1: "preserves (seq (on_init env c)
        (seq (do_channel c (\<lambda>ch. ch\<lparr>ch_status := EChannelStart\<rparr>)) (channel_start env c)))"
    by (intro frame_intro preserves_do_channel) (auto simp: channel_ok_def)
  show ?thesis unfolding frame_def channel_run_def
    using 1 [unfolded frame_def] by (auto simp: keeps_ok_def)
qed

lemma preserves_on_stop [frame_intro]: "preserves (on_stop c)"
proof -
  have 0: "preserves (\<lambda>s. Done () (upd_channel c (\<lambda>ch. ch\<lparr>channel_exit_time := server_time s\<rparr>) s))"
    by (auto simp: frame_def keeps_ok_def channel_ok_def intro!: server_ok_upd)
  have 1: "preserves (\<lambda>s. seq (for_each stop_output (output_queue (channels s c)))
           (\<lambda>s. Done () (upd_channel c (\<lambda>ch. ch\<lparr>channel_exit_time := server_time s\<rparr>) s)) s)"
    by (rule frame_at [where f = "\<lambda>s. seq (for_each stop_output (output_queue (channels s c)))
           (\<lambda>s. Done () (upd_channel c (\<lambda>ch. ch\<lparr>channel_exit_time := server_time s\<rparr>) s))"])
      (intro frame_intro 0, simp add: stop_output_def frame_intro)
  have 2: "preserves (\<lambda>s. seq (for_each stop_input (input_queue (channels s c)))
         (\<lambda>s. seq (for_each stop_output (output_queue (channels s c)))
           (\<lambda>s. Done () (upd_channel c (\<lambda>ch. ch\<lparr>channel_exit_time := server_time s\<rparr>) s)) s) s)"
    by (rule frame_at [where f = "\<lambda>s. seq (for_each stop_input (input_queue (channels s c)))
         (\<lambda>s. seq (for_each stop_output (output_queue (channels s c)))
           (\<lambda>s. Done () (upd_channel c (\<lambda>ch. ch\<lparr>channel_exit_time := server_time s\<rparr>) s)) s)"])
      (intro frame_intro 1, simp add: stop_input_def frame_intro)
  show ?thesis unfolding on_stop_def
    by (intro frame_intro 2 preserves_do_channel) (auto simp: channel_ok_def)
qed

section \<open>The manager and the pool\<close>

lemma server_ok_add_channel:
  assumes "server_ok s" "std_find key (pool s) = None"
  shows "server_ok (s\<lparr>channels := (channels s)(next_channel s := Channel_new key),
     next_channel := next_channel s + 1, pool := std_insert key (next_channel s) (pool s)\<rparr>)"
proof -
  have "e \<in> set (std_insert key n m) \<Longrightarrow> e = (key, n) \<or> e \<in> set m" for e n and m :: "(bytes, nat) std_map"
    using set_std_put [of key n m] by (auto simp: std_insert_def split: option.splits)
  then have "e \<in> set (std_insert key (next_channel s) (pool s)) \<Longrightarrow> e = (key, next_channel s) \<or> e \<in> set (pool s)" for e .
  with assms show ?thesis
    by (fastforce simp: server_ok_def std_inv_insert Channel_new_def channel_ok_def)
qed

lemma std_find_in: "std_find k m = Some v \<Longrightarrow> (k, v) \<in> set m"
  by (induction m) (auto split: if_splits)

text \<open>In a state that is in order the manager always answers with a channel of that name.\<close>

lemma fetch_or_create_channel_ok:
  assumes "server_ok s"
  obtains c t where "fetch_or_create_channel key s = Done c t" "server_ok t" "std_find key (pool t) = Some c"
    "ch_key (channels t c) = key" "idle_at (channels t c) = -1"
    "\<forall>c'. std_find key (pool s) = Some c' \<longrightarrow> c = c' \<and> pool t = pool s"
    "\<forall>k c'. std_find k (pool s) = Some c' \<longrightarrow> std_find k (pool t) = Some c'"
proof (cases "std_find key (pool s)")
  case (Some c)
  then have "(key, c) \<in> set (pool s)" by (rule std_find_in)
  with assms have c: "ch_key (channels s c) = key" "ch_status (channels s c) \<noteq> EChannelKill"
    by (auto simp: server_ok_def)
  have "server_ok (upd_channel c wake_up s)"
    using assms by (intro server_ok_upd) (auto simp: channel_ok_def wake_up_def)
  with Some c show thesis
    by (intro that [of c "upd_channel c wake_up s"])
      (simp_all add: fetch_or_create_channel_def fetch_or_create_def act_simps wake_up_def)
next
  case None
  let ?n = "next_channel s"
  let ?t = "s\<lparr>channels := (channels s)(?n := Channel_new key), next_channel := ?n + 1,
     pool := std_insert key ?n (pool s)\<rparr>"
  have ok: "server_ok ?t" by (rule server_ok_add_channel [OF assms None])
  then have "server_ok (upd_channel ?n wake_up ?t)"
    by (intro server_ok_upd) (auto simp: channel_ok_def wake_up_def)
  with None show thesis
    by (intro that [of ?n "upd_channel ?n wake_up ?t"])
      (auto simp: fetch_or_create_channel_def fetch_or_create_def act_simps wake_up_def new_channel_def
        Channel_new_def std_find_insert)
qed

lemma preserves_fetch_or_create_channel [frame_intro]: "preserves (fetch_or_create_channel key)"
proof -
  have "case fetch_or_create_channel key s of Done _ t \<Rightarrow> keeps_ok s t | Fail _ t \<Rightarrow> keeps_ok s t | Crash _ \<Rightarrow> True" for s
  proof (cases "server_ok s")
    case True
    then obtain c t where "fetch_or_create_channel key s = Done c t" "server_ok t"
      by (rule fetch_or_create_channel_ok [of _ key])
    then show ?thesis by (simp add: keeps_ok_def)
  qed (simp add: keeps_ok_def split: outcome.split)
  then show ?thesis by (simp add: frame_def)
qed

lemma expire_pass_eq:
  "server_ok s \<Longrightarrow> set es \<subseteq> set (pool s) \<Longrightarrow>
    expire_pass es s = (if \<exists>e\<in>set es. check_expire (snd e) s then Crash Bad_Free else Done () s)"
proof (induction es)
  case (Cons e es)
  show ?case
  proof (cases "check_expire (snd e) s")
    case True
    have "ch_key (channels s (snd e)) = fst e" using Cons.prems by (auto simp: server_ok_def)
    with True show ?thesis by (simp add: act_simps pool_remove_def)
  next
    case False
    with Cons show ?thesis by simp
  qed
qed (simp add: act_simps)

lemma preserves_pool_pass [frame_intro]: "preserves pool_pass"
proof -
  have "case pool_pass s of Done _ t \<Rightarrow> keeps_ok s t | Fail _ t \<Rightarrow> keeps_ok s t | Crash _ \<Rightarrow> True" for s
  proof (cases "server_ok s")
    case True
    then show ?thesis using expire_pass_eq [of s "pool s"] by (simp add: pool_pass_def keeps_ok_def)
  qed (simp add: keeps_ok_def split: outcome.split)
  then show ?thesis by (simp add: frame_def)
qed

section \<open>Relaying\<close>

lemma same_set_packets: "same_channels s (set_packets q ps s)"
  by (simp add: same_channels_def set_packets_def split: qptr.split)

lemma same_enqueue_at [frame_intro]: "frame same_channels (enqueue_at p q)"
  by (simp add: frame_def enqueue_at_def same_set_packets)

lemma preserves_dispatch [frame_intro]: "preserves (dispatch c p)"
proof (cases p)
  case (Some x)
  have "frame same_channels (\<lambda>s. for_each (enqueue_at x) (output_queue (channels s c)) s)"
    by (rule frame_at [where f = "\<lambda>s. for_each (enqueue_at x) (output_queue (channels s c))"]) (intro frame_intro)
  with Some show ?thesis by (simp add: dispatch_def [abs_def] preserves_same)
qed (simp add: frame_def dispatch_def keeps_ok_def)

lemma preserves_on_cycle [frame_intro]: "preserves (on_cycle heap ff c p)"
  by (rule preserves_same)
    (auto simp: frame_def on_cycle_def same_channels_def split: option.split outcome.split)

lemma preserves_fetch_from:
  assumes "\<And>q s. server_ok s \<Longrightarrow> server_ok (wait q s)"
  shows "preserves (fetch_from wait qs ps)"
proof (induction qs arbitrary: ps)
  case (Cons q qs)
  have d: "case dequeue_at wait q s of Done _ t \<Rightarrow> keeps_ok s t | Fail _ t \<Rightarrow> keeps_ok s t | Crash _ \<Rightarrow> True" for s
    using assms by (auto simp: dequeue_at_def Let_def keeps_ok_def server_ok_same [OF same_set_packets] split: list.splits)
  have "case fetch_from wait (q # qs) ps s of Done _ t \<Rightarrow> keeps_ok s t | Fail _ t \<Rightarrow> keeps_ok s t | Crash _ \<Rightarrow> True" for s
  proof (cases "dequeue_at wait q s")
    case (Done p t)
    have "case fetch_from wait qs (ps @ [p]) t of Done _ u \<Rightarrow> keeps_ok t u | Fail _ u \<Rightarrow> keeps_ok t u | Crash _ \<Rightarrow> True"
      using Cons.IH unfolding frame_def by blast
    with Done d [of s] show ?thesis by (auto simp: keeps_ok_def split: outcome.splits)
  qed (use d [of s] in simp_all)
  then show ?case by (simp only: frame_def) blast
qed (simp add: frame_intro)

lemma preserves_handle_cycle:
  assumes "\<forall>wait\<in>set rounds. \<forall>q s. server_ok s \<longrightarrow> server_ok (wait q s)"
  shows "preserves (handle_cycle heap ff c rounds)"
  using assms
proof (induction rounds)
  case (Cons wait rounds)
  have 1: "preserves (fetch wait c)"
    unfolding fetch_def [abs_def]
    by (rule frame_at [where f = "\<lambda>s. fetch_from wait (input_queue (channels s c)) []"])
      (use Cons.prems in \<open>auto intro: preserves_fetch_from\<close>)
  have 2: "preserves (case ps of [] \<Rightarrow> ret True
      | p # _ \<Rightarrow> seq (dispatch c (Some p)) (seq (ignore (on_cycle heap ff c p)) (handle_cycle heap ff c rounds)))" for ps
    using Cons by (auto intro!: frame_intro split: list.split)
  have "preserves (bind (fetch wait c) (\<lambda>ps. case ps of [] \<Rightarrow> ret True
      | p # _ \<Rightarrow> seq (dispatch c (Some p)) (seq (ignore (on_cycle heap ff c p)) (handle_cycle heap ff c rounds))))"
    by (intro frame_intro 1 2)
  then show ?case by (auto simp: frame_def)
qed (simp add: frame_intro)

lemma preserves_Channel_cycle:
  assumes "preserves (handle c)"
  shows "preserves (Channel_cycle handle c)"
proof -
  have "preserves (seq (ignore (handle c)) (on_stop c))" by (intro frame_intro assms)
  then have "preserves (on_process handle c)" by (auto simp: on_process_def frame_def)
  then show ?thesis
    unfolding Channel_cycle_def by (intro frame_intro preserves_do_channel) (auto simp: channel_ok_def)
qed

section \<open>Requests\<close>

lemma preserves_new [frame_intro]: "preserves (new_input h)" "preserves (new_output h')"
  by (rule preserves_same, simp add: frame_def new_input_def new_output_def same_channels_def)+

lemma preserves_create_origin_stream [frame_intro]: "preserves (create_origin_stream ty c req)"
  unfolding create_origin_stream_def [abs_def] by (intro frame_at_bind frame_intro)

lemma preserves_create_forward [frame_intro]: "preserves (create_forward ty rc rc' c req)"
  unfolding create_forward_def [abs_def] by (intro frame_at_bind frame_intro)

lemma preserves_channel_for [frame_intro]: "preserves (channel_for req)"
proof -
  have "case channel_for req s of Done _ t \<Rightarrow> keeps_ok s t | Fail _ t \<Rightarrow> keeps_ok s t | Crash _ \<Rightarrow> True" for s
  proof (cases "server_ok s")
    case True
    then obtain c t where t: "fetch_or_create_channel (create_channel_key req) s = Done c t" "server_ok t"
      by (rule fetch_or_create_channel_ok [of _ "create_channel_key req"])
    then have "server_ok (upd_channel c (\<lambda>ch. ch\<lparr>user_ctrl := True\<rparr>) t)"
      by (intro server_ok_upd) (auto simp: channel_ok_def)
    with t show ?thesis by (simp add: channel_for_def keeps_ok_def)
  qed (simp add: keeps_ok_def split: outcome.split)
  then show ?thesis by (simp add: frame_def)
qed

lemma preserves_result [frame_intro]: "preserves (result rc)"
  by (simp add: frame_def result_def act_simps)

lemma preserves_ensure_running [frame_intro]: "preserves (ensure_running env c req)"
proof -
  let ?m = "seq (create_origin_stream (me_input_type env) c req) (channel_run (me_channel env) c)"
  have m: "preserves ?m" by (intro frame_intro)
  have st: "preserves (seq (on_stop c) (ret e))" for e :: int by (intro frame_intro)
  have "case ensure_running env c req s of Done _ t \<Rightarrow> keeps_ok s t | Fail _ t \<Rightarrow> keeps_ok s t | Crash _ \<Rightarrow> True" for s
  proof (cases "ch_status (channels s c) = EChannelStart")
    case False
    show ?thesis
    proof (cases "?m s")
      case (Done x t)
      with False frameD(1) [OF m Done] show ?thesis by (simp add: ensure_running_def)
    next
      case (Fail e t)
      have "case seq (on_stop c) (ret e) t of Done _ u \<Rightarrow> keeps_ok t u | Fail _ u \<Rightarrow> keeps_ok t u | Crash _ \<Rightarrow> True"
        using st unfolding frame_def by blast
      with False Fail frameD(2) [OF m Fail] show ?thesis
        by (auto simp: ensure_running_def keeps_ok_def split: outcome.splits)
    qed (use False in \<open>simp add: ensure_running_def\<close>)
  qed (simp add: ensure_running_def)
  then show ?thesis by (simp add: frame_def)
qed

lemma preserves_attach_segments [frame_intro]: "preserves (attach_segments req c)"
proof -
  have 1: "preserves (seq (add_segment_cache c (Some g)) (ret g))" for g by (intro frame_intro)
  have "case attach_segments req c s of Done _ t \<Rightarrow> keeps_ok s t | Fail _ t \<Rightarrow> keeps_ok s t | Crash _ \<Rightarrow> True" for s
  proof (cases "segment_cache (channels s c)")
    case None
    let ?g = "next_segments s"
    let ?s = "s\<lparr>segment_caches := (segment_caches s)(?g := set_format (req_ext req) (SegmentsCache_new 3 10)),
             next_segments := ?g + 1\<rparr>"
    have "case seq (add_segment_cache c (Some ?g)) (ret ?g) ?s of
        Done _ u \<Rightarrow> keeps_ok ?s u | Fail _ u \<Rightarrow> keeps_ok ?s u | Crash _ \<Rightarrow> True"
      using 1 unfolding frame_def by blast
    moreover have "server_ok ?s \<longleftrightarrow> server_ok s" by (rule server_ok_same) (simp add: same_channels_def)
    ultimately show ?thesis
      using None by (auto simp: attach_segments_def Let_def keeps_ok_def split: outcome.splits)
  qed (simp add: attach_segments_def)
  then show ?thesis by (simp add: frame_def)
qed

lemma preserves_play_stream [frame_intro]: "preserves (handle_play_stream env req)"
proof -
  have "preserves (seq (add_output rc c (Q_Output i)) (bind (ensure_running env c req) (\<lambda>rc.
     seq (ignore (on_output (Q_Output i) (output_run rc'))) (result rc))))" for rc c i rc'
    by (intro frame_intro)
  then show ?thesis
    unfolding handle_play_stream_def by (intro frame_bind frame_at_bind frame_intro)
qed

lemma preserves_publish [frame_intro]: "preserves (handle_publish env req)"
proof -
  have "preserves (seq (add_input c (Q_Input i)) (seq (ignore (on_input (Q_Input i) m))
     (seq (create_forward ty rcs rc c req) (ignore (channel_run ce c)))))" for c i m ty rcs rc ce
    by (intro frame_intro)
  then show ?thesis
    unfolding handle_publish_def by (intro frame_bind frame_at_bind frame_intro)
qed

lemma preserves_api [frame_intro]: "preserves (handle_api env req)"
  unfolding handle_api_def by (intro frame_intro)

section \<open>Steps\<close>

definition ends :: "('a, 's) act \<Rightarrow> 's \<Rightarrow> 's \<Rightarrow> bool" where
  "ends m s t \<longleftrightarrow> (case m s of Done _ u \<Rightarrow> u = t | Fail _ u \<Rightarrow> u = t | Crash _ \<Rightarrow> False)"

lemma ends_preserves: "ends m s t \<Longrightarrow> preserves m \<Longrightarrow> server_ok s \<Longrightarrow> server_ok t"
  by (cases "m s") (auto simp: ends_def keeps_ok_def dest: frameD)

text \<open>
  The steps of the server: the operations on a channel that the coroutines call, the requests, the
  loop of a channel (whose waits are steps of the others), the pool's pass, the coroutines' changes
  to inputs, outputs and segments, and time.
\<close>

inductive server_step :: "Server \<Rightarrow> Server \<Rightarrow> bool" where
  add_input: "ends (add_input c q) s t \<Longrightarrow> server_step s t"
| del_input: "ends (del_input c q) s t \<Longrightarrow> server_step s t"
| add_output: "ends (add_output rc c q) s t \<Longrightarrow> server_step s t"
| del_output: "ends (del_output c q) s t \<Longrightarrow> server_step s t"
| del_all_output: "ends (del_all_output c) s t \<Longrightarrow> server_step s t"
| add_segments: "ends (add_segment_cache c g) s t \<Longrightarrow> server_step s t"
| del_segments: "ends (del_segment_cache c) s t \<Longrightarrow> server_step s t"
| find: "ends (fetch_or_create_channel key) s t \<Longrightarrow> server_step s t"
| run: "ends (channel_run env c) s t \<Longrightarrow> server_step s t"
| stop: "ends (on_stop c) s t \<Longrightarrow> server_step s t"
| play: "ends (handle_play_stream env req) s t \<Longrightarrow> server_step s t"
| publish: "ends (handle_publish env req) s t \<Longrightarrow> server_step s t"
| api: "ends (handle_api env req) s t \<Longrightarrow> server_step s t"
| attach: "ends (attach_segments req c) s t \<Longrightarrow> server_step s t"
| cycle: "ends (Channel_cycle (\<lambda>c. bind (handle_cycle heap ff c rounds) (\<lambda>_. ret ())) c) s t \<Longrightarrow>
    \<forall>wait\<in>set rounds. \<forall>q u. server_step\<^sup>*\<^sup>* u (wait q u) \<Longrightarrow> server_step s t"
| expire: "ends pool_pass s t \<Longrightarrow> server_step s t"
| others: "same_channels s t \<Longrightarrow> server_step s t"
| time: "server_time s \<le> now \<Longrightarrow> server_step s (s\<lparr>server_time := now\<rparr>)"

lemma server_step_ok: "server_step s t \<Longrightarrow> server_ok s \<Longrightarrow> server_ok t"
proof (induction rule: server_step.induct)
  case (cycle heap ff rounds c s t)
  have "server_ok (wait q u)" if "wait \<in> set rounds" "server_ok u" for wait q u
  proof -
    have "(\<lambda>s t. server_step s t \<and> (server_ok s \<longrightarrow> server_ok t))\<^sup>*\<^sup>* u (wait q u)"
      using cycle.IH that(1) by blast
    then show ?thesis using that(2) by (induction rule: rtranclp_induct) auto
  qed
  then have "preserves (bind (handle_cycle heap ff c rounds) (\<lambda>_. ret ()))"
    by (intro frame_intro preserves_handle_cycle) auto
  with cycle.hyps(1) cycle.prems show ?case by (blast intro: ends_preserves preserves_Channel_cycle)
next
  case (others s t)
  then show ?case by (simp add: server_ok_same)
next
  case (time s now)
  then show ?case by (simp add: server_ok_def)
qed (blast intro: ends_preserves frame_intro)+

lemma server_reachable_ok: "server_step\<^sup>*\<^sup>* s t \<Longrightarrow> server_ok s \<Longrightarrow> server_ok t"
  by (induction rule: rtranclp_induct) (auto intro: server_step_ok)

lemma server_ok_new: "server_ok (Server_new now)"
  by (simp add: server_ok_def Server_new_def Channel_new_def channel_ok_def)

end
