(* ===== verification/Raw_Facts.thy ===== *)
theory Raw_Facts
  imports Raw_Format
begin

text \<open>
  Lemmas on files and on the raw format: what appending does to a file, and that the raw muxer
  writes out every packet that fits its buffer and leaves the buffer empty.
\<close>

section \<open>Files\<close>

text \<open>What a \<open>memcpy\<close> to the start of a block leaves there.\<close>

definition overlay :: "bytes \<Rightarrow> bytes \<Rightarrow> bytes" where
  "overlay src block = src @ drop (length src) block"

lemma length_overlay [simp]: "length src \<le> length block \<Longrightarrow> length (overlay src block) = length block"
  by (simp add: overlay_def)

lemma copy_to_data_fits:
  "file_data f = Some block \<Longrightarrow> length src \<le> length block \<Longrightarrow>
    copy_to_data src f = Done () (f\<lparr>file_data := Some (overlay src block)\<rparr>)"
  by (simp add: copy_to_data_def overlay_def)

lemma append_fits:
  "file_data f = Some block \<Longrightarrow> length src \<le> length block \<Longrightarrow> int (length src) \<le> left_size f \<Longrightarrow>
    File_append heap src f
      = Done () (f\<lparr>file_data := Some (overlay src block), file_pos := file_pos f + int (length src)\<rparr>)"
  by (simp add: File_append_def Let_def act_simps copy_to_data_fits append_pos_def)

lemma appends_fit:
  assumes "file_data f = Some block" "file_size f \<le> int (length block)" "0 \<le> file_pos f"
    "int (length (concat ps)) \<le> left_size f"
  shows "for_each (File_append heap) ps f = Done () (f\<lparr>file_data := Some (fold overlay ps block),
    file_pos := file_pos f + int (length (concat ps))\<rparr>)"
  using assms
proof (induction ps arbitrary: f block)
  case (Cons p ps)
  have p: "length p \<le> length block" "int (length p) \<le> left_size f"
    using Cons.prems by (auto simp: left_size_def)
  let ?f = "f\<lparr>file_data := Some (overlay p block), file_pos := file_pos f + int (length p)\<rparr>"
  have "for_each (File_append heap) ps ?f = Done () (?f\<lparr>file_data := Some (fold overlay ps (overlay p block)),
      file_pos := file_pos ?f + int (length (concat ps))\<rparr>)"
    using Cons.prems p by (intro Cons.IH) (auto simp: left_size_def)
  with append_fits [OF Cons.prems(1) p, of heap] show ?case by (simp add: act_simps add.assoc)
next
  case Nil
  then show ?case by (cases f) (simp add: act_simps)
qed

lemma take_fold_overlay: "take (length p) (fold overlay (ps @ [p]) block) = p"
  by (simp add: overlay_def)

lemma init_buffer_new:
  "file_data f = None \<Longrightarrow> 0 \<le> n \<Longrightarrow> n < 1024 * 1024 * 1024 \<Longrightarrow>
    init_buffer heap n f = Done () (f\<lparr>file_data := Some (fresh_block heap (n + 1)), file_size := n\<rparr>)"
  by (simp add: init_buffer_def)

lemma length_fresh_block [simp]: "length (fresh_block heap n) = nat n"
  by (simp add: fresh_block_def)

lemma seek_range_complete:
  assumes "file_data f = Some block" "file_pos f \<le> int (length block)" "0 \<le> offset" "offset < file_pos f"
    "0 \<le> n"
  shows "seek_range wait n offset f
    = Done (take (nat (min n (file_pos f - offset))) (drop (nat offset) block)) f"
  using assms by (auto simp: seek_range_def copy_from_data_def Let_def min_def)

section \<open>The raw muxer\<close>

text \<open>A connection that takes everything, and what it has taken.\<close>

definition takes_all :: "'w writer \<Rightarrow> ('w \<Rightarrow> bytes) \<Rightarrow> bool" where
  "takes_all wr out \<longleftrightarrow> (\<forall>xs w. fst (wr xs w) = int (length xs) \<and> out (snd (wr xs w)) = out w @ xs)"

lemma takes_allE:
  assumes "takes_all wr out"
  obtains w' where "wr xs w = (int (length xs), w')" "out w' = out w @ xs"
  using assms unfolding takes_all_def by (metis prod.collapse)

lemma on_buffer_run [act_simps]:
  "m b = Done x b' \<Longrightarrow> on_buffer m (b, w) = Done x (b', w)"
  "m b = Fail e b' \<Longrightarrow> on_buffer m (b, w) = Fail e (b', w)"
  by (simp_all add: on_buffer_def)

lemma write_out_run:
  assumes "takes_all wr out" "0 \<le> rpos b" "0 \<le> n" "rpos b + n \<le> int (length (buf b))"
  obtains w' where "write_out wr n (b, w) = Done n (b, w')"
    "out w' = out w @ take (nat n) (drop (nat (rpos b)) (buf b))"
proof -
  let ?xs = "take (nat n) (drop (nat (rpos b)) (buf b))"
  from takes_allE [OF assms(1)] obtain w' where w': "wr ?xs w = (int (length ?xs), w')" "out w' = out w @ ?xs" by blast
  have "int (length ?xs) = n" using assms by auto
  with w' assms that show thesis by (simp add: write_out_def mem_read_def)
qed

lemma wf_reset: "wf_buffer b \<Longrightarrow> wf_buffer (b\<lparr>rpos := 0, wpos := 0\<rparr>)"
  by (simp add: wf_buffer_def)

lemma content_reset: "content (b\<lparr>rpos := 0, wpos := 0\<rparr>) = []"
  by (simp add: content_def)

lemma flush_writes_all:
  assumes "wf_buffer b" "takes_all wr out"
  shows "\<exists>b' w'. flush_write wr (b, w) = Done () (b', w') \<and> wf_buffer b' \<and> content b' = []
    \<and> buf_size b' = buf_size b \<and> out w' = out w @ content b"
proof -
  note B = wf_bounds [OF assms(1)]
  show ?thesis
  proof (cases "rpos b \<le> wpos b")
    case True
    let ?n = "int (readable b)"
    have c: "content b = take (nat ?n) (drop (nat (rpos b)) (buf b))" and n: "?n = wpos b - rpos b"
      using True B by (auto simp: content_def readable_def)
    have l: "rpos b + ?n \<le> int (length (buf b))" using n B by linarith
    obtain w' where w': "write_out wr ?n (b, w) = Done ?n (b, w')" "out w' = out w @ content b"
      using write_out_run [OF assms(2) B(3) _ l, of w] c by auto
    have crl: "continuous_read_left b = Done ?n b"
      using True assms(1) by (simp add: continuous_read_left_def act_simps)
    show ?thesis
    proof (cases "content b = []")
      case empty: True
      then have "readable b = 0" by (simp add: readable_def)
      with w' crl assms(1) empty show ?thesis
        by (simp add: flush_write_def act_simps)
    next
      case False
      then have "0 < ?n" by (simp add: readable_def)
      then have "seek_read ?n b = Done () (skip (readable b) b)"
        using seek_read_eq [OF assms(1)] by simp
      moreover have "content (skip (readable b) b) = []" using assms(1) by (simp add: readable_def)
      moreover have "read_left (skip (readable b) b) = Done 0 (skip (readable b) b)"
        using assms(1) by (simp add: act_simps)
      ultimately show ?thesis
        using w' crl assms(1) by (simp add: flush_write_def act_simps)
    qed
  next
    case False
    let ?n = "buf_size b - rpos b" and ?k = "wpos b"
    let ?b = "skip (nat ?n) b"
    have c: "content b = take (nat ?n) (drop (nat (rpos b)) (buf b)) @ take (nat ?k) (buf b)"
      using False by (simp add: content_def)
    have n: "0 < ?n" "?n \<le> int (readable b)" using B c by (auto simp: readable_def)
    have r0: "rpos ?b = 0" using B by simp
    have l: "rpos b + ?n \<le> int (length (buf b))" using B by linarith
    obtain w1 where w1: "write_out wr ?n (b, w) = Done ?n (b, w1)"
      "out w1 = out w @ take (nat ?n) (drop (nat (rpos b)) (buf b))"
      using write_out_run [OF assms(2) B(3) _ l, of w] n by auto
    have crl: "continuous_read_left b = Done ?n b" using False by (simp add: continuous_read_left_def)
    have sk: "seek_read ?n b = Done () ?b" using seek_read_eq [OF assms(1) n] .
    have "int (readable ?b) = ?k" using assms(1) n c B by (auto simp: readable_def)
    then have rl: "read_left ?b = Done ?k ?b" using assms(1) by (simp add: act_simps)
    show ?thesis
    proof (cases "0 < ?k")
      case True
      have l2: "rpos ?b + ?k \<le> int (length (buf ?b))" using r0 B by simp
      obtain w2 where w2: "write_out wr ?k (?b, w1) = Done ?k (?b, w2)" "out w2 = out w1 @ take (nat ?k) (buf b)"
        using write_out_run [OF assms(2) _ _ l2, of w1] r0 B by auto
      with True w1 crl sk rl assms(1) c show ?thesis
        by (simp add: flush_write_def act_simps reset_def wf_reset content_reset)
    next
      case False
      then have "?k = 0" using B by simp
      moreover have "content ?b = []" using \<open>int (readable ?b) = ?k\<close> \<open>?k = 0\<close> by (simp add: readable_def)
      ultimately show ?thesis using w1 crl sk rl assms(1) c
        by (simp add: flush_write_def act_simps)
    qed
  qed
qed

text \<open>A packet that fits goes out whole; the empty packet changes nothing.\<close>

lemma raw_output_fits:
  assumes "wf_buffer b" "content b = []" "int (length xs) < buf_size b" "takes_all wr out"
  shows "\<exists>b' w'. raw_output wr True xs (b, w) = Done 0 (b', w') \<and> wf_buffer b' \<and> content b' = []
    \<and> buf_size b' = buf_size b \<and> out w' = out w @ xs"
proof -
  have room: "length xs \<le> room b" using assms by (simp add: room_def)
  define b1 where "b1 = (if xs = [] then b else push xs b)"
  have b1: "wf_buffer b1" "content b1 = xs" "buf_size b1 = buf_size b"
    using assms room by (auto simp: b1_def)
  have "ignore (write_bytes xs) b = Done () b1"
    using assms room by (cases "xs = []") (simp_all add: b1_def act_simps)
  moreover from flush_writes_all [OF b1(1) assms(4), of w] obtain b2 w2 where
    f: "flush_write wr (b1, w) = Done () (b2, w2)" "wf_buffer b2" "content b2 = []"
      "buf_size b2 = buf_size b" "out w2 = out w @ xs" using b1 by auto
  ultimately have "raw_output wr True xs (b, w) = Done 0 (b2, w2)"
    using assms room by (simp add: raw_output_def Let_def act_simps put_packet_def)
  with f show ?thesis by blast
qed

text \<open>A packet as large as the buffer or larger is refused, and nothing of it is written.\<close>

lemma raw_output_large:
  assumes "wf_buffer b" "content b = []" "buf_size b \<le> int (length xs)" "takes_all wr out"
  shows "\<exists>b' w'. raw_output wr True xs (b, w) = Done (-1) (b', w') \<and> wf_buffer b' \<and> content b' = []
    \<and> buf_size b' = buf_size b \<and> out w' = out w"
proof -
  from flush_writes_all [OF assms(1,4), of w] assms(2) obtain b2 w2 where
    f: "flush_write wr (b, w) = Done () (b2, w2)" "wf_buffer b2" "content b2 = []"
      "buf_size b2 = buf_size b" "out w2 = out w" by auto
  have r: "int (room b) < int (length xs)" "int (room b2) < int (length xs)"
    using assms f wf_bounds(1) [OF assms(1)] by (auto simp: room_def)
  with f assms have "raw_output wr True xs (b, w) = Done (-1) (b2, w2)"
    by (simp add: raw_output_def Let_def act_simps)
  with f show ?thesis by blast
qed

text \<open>A muxer that is ready: it has a write function and an empty buffer of \<open>n\<close> bytes.\<close>

definition mux_ready :: "int \<Rightarrow> RawMux \<Rightarrow> bool" where
  "mux_ready n m \<longleftrightarrow> mx_write_func m \<and>
     (\<exists>b. mx_buffer m = Some b \<and> wf_buffer b \<and> content b = [] \<and> buf_size b = n)"

lemma mux_ready_init:
  "0 < n \<Longrightarrow> n \<le> 2 ^ 30 \<Longrightarrow> nat n \<le> length mem \<Longrightarrow> mux_ready n (raw_init_output mem n RawMux_new)"
  by (auto simp: mux_ready_def raw_init_output_def Buffer_new_def wf_buffer_def content_def)

lemma handle_output_fits:
  assumes "mux_ready n m" "int (length (pkt_buffer p)) < n" "takes_all wr out"
  shows "\<exists>m' w'. raw_handle_output wr p (m, w) = Done 0 (m', w') \<and> mux_ready n m'
    \<and> is_send_header m' = is_send_header m \<and> out w' = out w @ pkt_buffer p"
proof -
  from assms(1) obtain b where b: "mx_buffer m = Some b" "mx_write_func m" "wf_buffer b" "content b = []" "buf_size b = n"
    by (auto simp: mux_ready_def)
  with raw_output_fits [of b "pkt_buffer p" wr out w] assms show ?thesis
    by (auto simp: raw_handle_output_def mux_ready_def)
qed

lemma handle_output_large:
  assumes "mux_ready n m" "n \<le> int (length (pkt_buffer p))" "takes_all wr out"
  shows "\<exists>m' w'. raw_handle_output wr p (m, w) = Done (-1) (m', w') \<and> mux_ready n m'
    \<and> is_send_header m' = is_send_header m \<and> out w' = out w"
proof -
  from assms(1) obtain b where b: "mx_buffer m = Some b" "mx_write_func m" "wf_buffer b" "content b = []" "buf_size b = n"
    by (auto simp: mux_ready_def)
  with raw_output_large [of b "pkt_buffer p" wr out w] assms show ?thesis
    by (auto simp: raw_handle_output_def mux_ready_def)
qed

lemma send_status_run:
  assumes "mux_ready n m" "takes_all wr out"
  shows "\<exists>m' w'. send_status wr st (m, w) = (m', w') \<and> mux_ready n m' \<and> is_send_header m'
    \<and> out w' = out w @ (if is_send_header m then [] else status_line st)"
proof -
  from takes_allE [OF assms(2)] obtain w' where "wr (status_line st) w = (int (length (status_line st)), w')"
    "out w' = out w @ status_line st" by blast
  with assms(1) show ?thesis by (auto simp: send_status_def mux_ready_def)
qed

text \<open>The demuxer: what one read brings becomes one packet.\<close>

definition demux_ready :: "int \<Rightarrow> RawDeMux \<Rightarrow> bool" where
  "demux_ready n d \<longleftrightarrow> dm_read_func d \<and> (\<exists>b. dm_buffer d = Some b \<and> wf_buffer b \<and> content b = []
     \<and> rpos b = 0 \<and> wpos b = 0 \<and> buf_size b = n)"

lemma demux_one_read:
  assumes "demux_ready n d" "rd (n - 1) w = ((int (length xs), xs), w')" "xs \<noteq> []" "int (length xs) < n"
  shows "\<exists>d'. raw_handle_input rd (d, w) = Done (0, Some (packet_of xs)) (d', w') \<and> demux_ready n d'
    \<and> content_length d' = content_length d"
proof -
  from assms(1) obtain b where b: "dm_read_func d" "dm_buffer d = Some b" "wf_buffer b" "content b = []"
    "rpos b = 0" "wpos b = 0" "buf_size b = n" by (auto simp: demux_ready_def)
  note B = wf_bounds [OF b(3)]
  have room: "int (room b) = n - 1" using b B by (simp add: room_def)
  have len: "length xs \<le> length (buf b)" using assms(4) B b(7) by linarith
  let ?b = "b\<lparr>buf := xs @ drop (length xs) (buf b)\<rparr>"
  have wfb: "wf_buffer ?b" "content ?b = []" "room ?b = room b"
    using b len by (auto simp: wf_buffer_def content_def room_def)
  let ?c = "?b\<lparr>wpos := int (length xs)\<rparr>"
  have sw: "seek_write (int (length xs)) ?b = Done () ?c"
    using seek_write_eq [OF wfb(1), of "int (length xs)"] wfb room assms b by simp
  have fill: "fill_buffer rd (b, w) = Done () (?c, w')"
    using b assms room len sw
    by (simp add: fill_buffer_def continuous_write_left_def act_simps mem_write_def)
  have wfc: "wf_buffer ?c" "content ?c = xs" using b assms len B by (auto simp: wf_buffer_def content_def)
  then have rc: "readable ?c = length xs" by (simp add: readable_def)
  have pos: "0 < int (length xs)" using assms(3) by simp
  have "read_left ?c = Done (int (length xs)) ?c" using wfc(1) rc by (simp add: act_simps)
  moreover have "read_bytes (int (length xs)) ?c = Done xs (skip (length xs) ?c)"
    using wfc rc pos by (simp add: act_simps)
  ultimately have "flush_read ?c = Done (Some (packet_of xs)) (?c\<lparr>rpos := 0, wpos := 0\<rparr>)"
    using pos by (simp add: flush_read_def act_simps reset_def)
  moreover have "demux_ready n (d\<lparr>dm_buffer := Some (?c\<lparr>rpos := 0, wpos := 0\<rparr>)\<rparr>)"
    using b wfb by (auto simp: demux_ready_def wf_buffer_def content_def)
  ultimately show ?thesis
    using b fill assms B(1) by (simp add: raw_handle_input_def act_simps readable_def)
qed

end
