(* ===== verification/File_Props.thy ===== *)
theory File_Props
  imports Raw_Facts Media_Source
begin

text \<open>
  The properties of the file cache: the table of files is a map, a file keeps the bytes of its last
  packet, appending beyond the size never enlarges the block, and a complete file is sent whole.
\<close>

section \<open>Filling and sending\<close>

definition file_update :: "(bytes, 'f) update \<Rightarrow> (bytes, 'f) std_map \<Rightarrow> (bytes, 'f) std_map" where
  "file_update u c = (case u of Insert k v \<Rightarrow> add_file k v c | Delete k \<Rightarrow> del_file k c)"

lemma file_update_eq: "file_update = cache.apply_update"
  by (intro ext) (simp add: file_update_def split: update.split)

lemma fill_rounds:
  assumes "file_data (the_file s) = Some block" "file_size (the_file s) \<le> int (length block)"
    "0 \<le> file_pos (the_file s)" "int (length (concat ps)) \<le> left_size (the_file s)"
    "ps \<noteq> []" "last ps \<noteq> []" "0 < total_size s" "handle_size s + int (length (concat ps)) = total_size s"
  shows "file_rounds heap (map Demux_Packet ps) s = Done True (s\<lparr>handle_size := total_size s,
     the_file := (the_file s)\<lparr>file_data := Some (fold overlay ps block),
       file_pos := file_pos (the_file s) + int (length (concat ps))\<rparr>\<rparr>)"
  using assms
proof (induction ps arbitrary: s block)
  case (Cons p ps)
  let ?f = "the_file s"
  have p: "length p \<le> length block" "int (length p) \<le> left_size ?f"
    using Cons.prems by (auto simp: left_size_def)
  let ?g = "?f\<lparr>file_data := Some (overlay p block), file_pos := file_pos ?f + int (length p)\<rparr>"
  let ?s = "s\<lparr>handle_size := handle_size s + int (length p), the_file := ?g\<rparr>"
  have step: "file_rounds heap (Demux_Packet p # map Demux_Packet ps) s =
      (if total_size s \<le> handle_size ?s then Done True ?s else file_rounds heap (map Demux_Packet ps) ?s)"
    using append_fits [OF Cons.prems(1) p, of heap] Cons.prems(7)
    by (simp add: act_simps set_file_def)
  show ?case
  proof (cases "ps = []")
    case True
    with step Cons.prems show ?thesis by simp
  next
    case False
    with Cons.prems(6) have "concat ps \<noteq> []" by (auto simp: concat_eq_Nil_conv dest: last_in_set)
    then have "0 < length (concat ps)" by (simp del: length_concat)
    moreover have "int (length (concat (p # ps))) = int (length p) + int (length (concat ps))"
      "handle_size ?s = handle_size s + int (length p)" by simp_all
    ultimately have less: "\<not> total_size s \<le> handle_size ?s" using Cons.prems(8) by linarith
    have "file_rounds heap (map Demux_Packet ps) ?s = Done True (?s\<lparr>handle_size := total_size ?s,
       the_file := (the_file ?s)\<lparr>file_data := Some (fold overlay ps (overlay p block)),
         file_pos := file_pos (the_file ?s) + int (length (concat ps))\<rparr>\<rparr>)"
      using Cons.prems False p by (intro Cons.IH) (auto simp: left_size_def)
    with step less show ?thesis by (simp add: add.assoc)
  qed
qed simp


text \<open>
  An \<open>append\<close> that needs more room than is left raises \<open>size\<close> to sixteen times what is asked for
  and keeps the old block: bytes that do not fit the block are written behind its end.
\<close>

lemma append_never_grows:
  assumes "file_data f = Some block" "0 \<le> file_pos f" "file_pos f \<le> file_size f" "file_pos f \<le> int (length block)"
    "left_size f < int (length src)" "m = max (file_size f) (int (length src))" "16 * (m + 1) < 2 ^ 31"
  shows "File_append heap src f =
    (if 2 ^ 30 \<le> 16 * (m + 1) then Fail error_file_buffer_not_enough f
     else if length src \<le> length block
     then Done () (f\<lparr>file_size := 16 * (m + 1), file_data := Some (overlay src block),
       file_pos := file_pos f + int (length src)\<rparr>)
     else Crash Out_Of_Bounds)"
proof -
  define g where "g = 16 * (m + 1)"
  have m: "file_size f \<le> m" "int (length src) \<le> m" using assms(6) by auto
  have g: "grown_size (file_size f) (int (length src)) = g"
    using assms m unfolding grown_size_def assms(6) [symmetric] g_def by (intro sint_32) auto
  have room: "int (length src) \<le> g - file_pos f" "file_size f \<le> g" "file_pos f \<le> g + 1" "0 \<le> g"
    using m assms(2,3) by (auto simp: g_def)
  show ?thesis
  proof (cases "2 ^ 30 \<le> g")
    case True
    then show ?thesis unfolding g_def [symmetric] using assms(5)
      by (simp add: File_append_def Let_def act_simps g init_buffer_def)
  next
    case False
    then have "init_buffer heap g f = Done () (f\<lparr>file_size := g\<rparr>)"
      using assms room by (simp add: init_buffer_def)
    with False room assms(1-5) g show ?thesis unfolding g_def [symmetric]
      by (simp add: File_append_def Let_def act_simps left_size_def copy_to_data_def
        overlay_def append_pos_def)
  qed
qed

text \<open>
  Pieces of at most 16 KB, appended to a file whose block has 16 KB: \<open>f\<close> has been raised at most
  once, and has taken \<open>k\<close> bytes.
\<close>

definition file_16k :: "nat \<Rightarrow> File \<Rightarrow> bool" where
  "file_16k k f \<longleftrightarrow> (\<exists>block. file_data f = Some block \<and> length block = 16385) \<and> file_pos f = int k
     \<and> ((file_size f = 16384 \<and> k \<le> 16384) \<or> (file_size f = 262160 \<and> k \<le> 262160))"

lemma append_16k:
  assumes "file_16k k f" "length src \<le> 16384" "k + length src \<le> 262160"
  obtains f' where "File_append heap src f = Done () f'" "file_16k (k + length src) f'"
proof -
  from assms(1) obtain block where f: "file_data f = Some block" "length block = 16385" "file_pos f = int k"
    "(file_size f = 16384 \<and> k \<le> 16384) \<or> (file_size f = 262160 \<and> k \<le> 262160)" by (auto simp: file_16k_def)
  have fit: "length src \<le> length block" using assms(2) f(2) by simp
  show thesis
  proof (cases "int (length src) \<le> left_size f")
    case True
    show thesis
      by (rule that [OF append_fits [OF f(1) fit True]])
        (use f fit True assms(3) in \<open>auto simp: file_16k_def left_size_def\<close>)
  next
    case False
    then have sz: "file_size f = 16384" "k \<le> 16384" using f assms(3) by (auto simp: left_size_def)
    have m: "(16384 :: int) = max (file_size f) (int (length src))" using sz assms(2) by simp
    have "File_append heap src f = Done () (f\<lparr>file_size := 16 * (16384 + 1), file_data := Some (overlay src block),
       file_pos := file_pos f + int (length src)\<rparr>)"
      using False sz f fit by (subst append_never_grows [OF f(1) _ _ _ _ m]) auto
    then show thesis
      by (rule that) (use f fit sz assms in \<open>auto simp: file_16k_def\<close>)
  qed
qed

lemma append_16k_over:
  assumes "file_16k k f" "length src \<le> 16384" "262160 < k + length src"
  shows "File_append heap src f = Crash Out_Of_Bounds"
proof -
  from assms obtain block where f: "file_data f = Some block" "length block = 16385" "file_pos f = int k"
    "file_size f = 262160" "k \<le> 262160" by (auto simp: file_16k_def)
  have "left_size f < int (length src)" "\<not> int (length block) \<ge> file_pos f"
    using f assms by (auto simp: left_size_def)
  moreover have "grown_size (file_size f) (int (length src)) = 4194576"
    using f assms(2) by (simp add: grown_size_def sint_32)
  ultimately show ?thesis using f by (simp add: File_append_def Let_def act_simps init_buffer_def)
qed

section \<open>Properties\<close>

text \<open>
  C33: the table of cached files is a map: after any series of \<open>add_file\<close> and \<open>del_file\<close> calls
  the entries are in the order of their names, none twice, and \<open>get_file\<close> finds what the same
  updates of a map give.
\<close>

lemma filecache_is_map:
  assumes "std_inv c"
  shows "std_inv (fold file_update us c)
    \<and> (\<lambda>k. get_file k (fold file_update us c)) = fold update_map us (\<lambda>k. get_file k c)"
  using cache.updates_refine [OF assms, of us] by (simp add: file_update_eq)

lemma filecache_is_map_witness:
  "get_file (lit ''b'') (fold file_update [Insert (lit ''b'') 1, Insert (lit ''a'') 2, Insert (lit ''b'') (3 :: nat),
      Delete (lit ''a'')] []) = Some 3"
  using fun_cong [OF conjunct2 [OF filecache_is_map [of "[]" "[Insert (lit ''b'') 1, Insert (lit ''a'') 2,
      Insert (lit ''b'') (3 :: nat), Delete (lit ''a'')]"]], of "lit ''b''"]
  by (simp add: lit_def)

text \<open>
  The coroutine that fetches a file of known length ends when it has the whole body, and the file
  is complete; but every packet was copied to the start of the block, so what the file holds
  is the last packet, over the tails of the packets before it.  Only a body that came in one
  packet is stored as it is.
\<close>

lemma file_keeps_last_packet:
  assumes "fi_type s = EInputOrigin" "fi_status s = ESourceInit" "handle_size s = 0"
    "file_data (the_file s) = None" "file_pos (the_file s) = 0"
    "fo_connect org = 0" "fo_request org = Some 0" "fo_total_length org = int (length (concat ps))"
    "ps \<noteq> []" "last ps \<noteq> []" "length (concat ps) < 2 ^ 30"
  shows "\<exists>s' block. FileInputHandler_cycle heap org (map Demux_Packet ps) s = Done True s'
    \<and> complete (the_file s') \<and> file_pos (the_file s') = int (length (concat ps))
    \<and> file_data (the_file s') = Some block
    \<and> block = fold overlay ps (fresh_block heap (int (length (concat ps)) + 1))
    \<and> take (length (last ps)) block = last ps
    \<and> (length ps = 1 \<longrightarrow> take (length (concat ps)) block = concat ps)"
proof -
  define n where "n = int (length (concat ps))"
  have "concat ps \<noteq> []" using assms(9,10) by (auto simp: concat_eq_Nil_conv dest: last_in_set)
  then have n: "0 < n" "n < 1024 * 1024 * 1024" using assms(11) by (auto simp: n_def)
  let ?f = "(the_file s)\<lparr>file_data := Some (fresh_block heap (n + 1)), file_size := n,
    total_length := n, update_time_ms := fo_time org div 1000\<rparr>"
  let ?s = "s\<lparr>fi_status := ESourceStart, total_size := n, the_file := ?f\<rparr>"
  have start: "start_origin heap org s = Done () ?s"
    using assms n init_buffer_new [OF assms(4), of n heap]
    by (simp add: start_origin_def act_simps set_file_def n_def [symmetric])
  have "file_rounds heap (map Demux_Packet ps) ?s = Done True (?s\<lparr>handle_size := total_size ?s,
     the_file := (the_file ?s)\<lparr>file_data := Some (fold overlay ps (fresh_block heap (n + 1))),
       file_pos := file_pos (the_file ?s) + int (length (concat ps))\<rparr>\<rparr>)"
    using assms n by (intro fill_rounds) (auto simp: left_size_def n_def [symmetric])
  with start have run: "FileInputHandler_cycle heap org (map Demux_Packet ps) s = Done True (?s\<lparr>handle_size := n,
     the_file := ?f\<lparr>file_data := Some (fold overlay ps (fresh_block heap (n + 1))), file_pos := n\<rparr>\<rparr>)"
    using assms(1,2,5) by (simp add: FileInputHandler_cycle_def act_simps n_def [symmetric])
  have last: "take (length (last ps)) (fold overlay ps bl) = last ps" for bl
    using take_fold_overlay [of "last ps" "butlast ps" bl] assms(9) by simp
  moreover have "take (length (concat ps)) (fold overlay ps bl) = concat ps" if "length ps = 1" for bl
    using that by (auto simp: length_Suc_conv overlay_def)
  ultimately show ?thesis
    using run n by (auto simp: complete_def n_def [symmetric])
qed

definition file_fetch :: FileInput where
  "file_fetch = \<lparr>fi_type = EInputOrigin, fi_status = ESourceInit, total_size = 0, handle_size = 0,
     the_file = File_new (lit ''a'')\<rparr>"

definition reachable_origin :: "int \<Rightarrow> file_origin" where
  "reachable_origin n = \<lparr>fo_connect = 0, fo_request = Some 0, fo_total_length = n, fo_time = 0\<rparr>"

lemma file_keeps_last_packet_witness:
  "\<exists>s'. FileInputHandler_cycle (\<lambda>_. 0) (reachable_origin 5) [Demux_Packet [1, 2, 3], Demux_Packet [4, 5]] file_fetch
     = Done True s' \<and> file_data (the_file s') = Some [4, 5, 3, 0, 0, 0]"
  using file_keeps_last_packet [of file_fetch "reachable_origin 5" "[[1, 2, 3], [4, 5]]" "\<lambda>_. 0"]
  by (auto simp: file_fetch_def reachable_origin_def File_new_def overlay_def fresh_block_def upt_rec)

text \<open>
  C27: what a segment's file can take.  Its buffer has 16 KB; pieces of at most 16 KB are taken, over
  one another, as long as they have at most 262160 bytes in all.  With the piece that goes beyond
  them the file reads behind the end of its block.
\<close>

lemma segment_file_capacity:
  assumes "\<forall>p\<in>set ps. length p \<le> 16384"
  shows "case bind (init_buffer heap (16 * 1024)) (\<lambda>_. for_each (File_append heap) ps) (File_new nm) of
      Done _ f \<Rightarrow> length (concat ps) \<le> 262160 \<and> file_pos f = int (length (concat ps))
    | Fail e f \<Rightarrow> False
    | Crash q \<Rightarrow> 262160 < length (concat ps) \<and> q = Out_Of_Bounds"
proof -
  define start where "start = (File_new nm)\<lparr>file_data := Some (fresh_block heap (16 * 1024 + 1)), file_size := 16 * 1024\<rparr>"
  have init: "init_buffer heap (16 * 1024) (File_new nm) = Done () start"
    unfolding start_def by (rule init_buffer_new) (simp_all add: File_new_def)
  have ok: "file_16k 0 start" by (auto simp: file_16k_def start_def File_new_def)
  have run: "\<And>k f. file_16k k f \<Longrightarrow> \<forall>p\<in>set ps. length p \<le> 16384 \<Longrightarrow>
     (case for_each (File_append heap) ps f of
        Done _ g \<Rightarrow> k + length (concat ps) \<le> 262160 \<and> file_pos g = int (k + length (concat ps))
      | Fail e g \<Rightarrow> False | Crash q \<Rightarrow> 262160 < k + length (concat ps) \<and> q = Out_Of_Bounds)"
  proof (induction ps)
    case Nil
    then show ?case by (auto simp: act_simps file_16k_def)
  next
    case (Cons p ps)
    show ?case
    proof (cases "k + length p \<le> 262160")
      case True
      with Cons.prems obtain g where g: "File_append heap p f = Done () g" "file_16k (k + length p) g"
        using append_16k [of k f p heap] by auto
      with Cons.IH [OF g(2)] Cons.prems(2) show ?thesis by (simp add: act_simps add.assoc split: outcome.splits)
    next
      case False
      with append_16k_over [of k f p heap] Cons.prems show ?thesis by (simp add: act_simps)
    qed
  qed
  show ?thesis using run [OF ok assms, unfolded add_0] init by (simp add: bind_Done)
qed

lemma segment_file_capacity_witness:
  "\<exists>f. bind (init_buffer (\<lambda>_. 0) (16 * 1024)) (\<lambda>_. for_each (File_append (\<lambda>_. 0)) [[1, 2], [3]]) (File_new []) = Done () f
    \<and> file_pos f = 3"
  using segment_file_capacity [of "[[1, 2], [3]]" "\<lambda>_. 0" "[]"] by (auto split: outcome.splits)







end
