(* ===== verification/Channel_Props.thy ===== *)
theory Channel_Props
  imports Channel_Facts File_Props "HOL-Library.Sublist"
begin

text \<open>
  The properties of channels: what holds in every reachable state of the server, that the manager
  always finds a channel, that the pool cannot drop one, what a channel relays, and the null
  pointers behind publishing and forwarding.
\<close>

section \<open>Relaying\<close>

text \<open>
  A wait in which \<open>xs\<close> arrive at input \<open>i\<close> and nothing else happens.
\<close>

definition feed :: "nat \<Rightarrow> Packet list \<Rightarrow> qptr \<Rightarrow> Server \<Rightarrow> Server" where
  "feed i xs q s = set_packets (Q_Input i) (packets_of (Q_Input i) s @ xs) s"

definition give :: "nat list \<Rightarrow> Packet list \<Rightarrow> Server \<Rightarrow> Server" where
  "give os xs s = s\<lparr>outputs := (\<lambda>j. if j \<in> set os
     then (outputs s j)\<lparr>pkt_queue := pkt_queue (outputs s j) @ xs\<rparr> else outputs s j)\<rparr>"

lemma give_sel [simp]:
  "channels (give os xs s) = channels s" "inputs (give os xs s) = inputs s"
  "server_time (give os xs s) = server_time s"
  "pkt_queue (outputs (give os xs s) j) = pkt_queue (outputs s j) @ (if j \<in> set os then xs else [])"
  by (auto simp: give_def)

lemma dispatch_gives:
  "distinct os \<Longrightarrow> output_queue (channels s c) = map Q_Output os \<Longrightarrow> dispatch c (Some p) s = Done () (give os [p] s)"
proof -
  assume d: "distinct os" and o: "output_queue (channels s c) = map Q_Output os"
  have "for_each (enqueue_at p) (map Q_Output os) s = Done () (give os [p] s)"
    using d
  proof (induction os arbitrary: s)
    case Nil
    then show ?case by (simp add: act_simps give_def)
  next
    case (Cons j os)
    let ?s = "set_packets (Q_Output j) (packets_of (Q_Output j) s @ [p]) s"
    have "enqueue_at p (Q_Output j) s = Done () ?s" by (simp add: enqueue_at_def)
    moreover have "give os [p] ?s = give (j # os) [p] s"
      using Cons.prems by (auto simp: give_def set_packets_def packets_of_def fun_eq_iff)
    ultimately show ?case using Cons by (simp add: act_simps)
  qed
  with o show ?thesis by (simp add: dispatch_def)
qed

lemma give_give: "give os ys (give os xs s) = give os (xs @ ys) s"
  by (auto simp: give_def fun_eq_iff)

lemma fetch_one:
  assumes "input_queue (channels s c) = [Q_Input i]" "pkt_queue (inputs s i) = p # ps"
  shows "fetch wait c s = Done [p] (set_packets (Q_Input i) ps s)"
  using assms by (simp add: fetch_def dequeue_at_def packets_of_def act_simps Let_def)

lemma fetch_wait:
  assumes "input_queue (channels s c) = [Q_Input i]" "pkt_queue (inputs s i) = []"
  shows "fetch (feed i xs) c s = (case xs of
     [] \<Rightarrow> Done [] (set_packets (Q_Input i) [] s)
   | p # ps \<Rightarrow> Done [p] (set_packets (Q_Input i) ps s))"
  using assms
  by (simp add: fetch_def dequeue_at_def packets_of_def act_simps Let_def feed_def set_packets_def split: list.split)

section \<open>Properties\<close>

text \<open>
  C6: a channel with one input relays: whatever arrives while it waits, every output gets the packets
  of the input in their order, each once, and what was not sent is still in the input's queue.
  The loop ends when a wait brings nothing; otherwise it has sent one packet per round.
\<close>

lemma channel_relays:
  assumes "input_queue (channels s c) = [Q_Input i]" "output_queue (channels s c) = map Q_Output os" "distinct os"
    "segment_cache (channels s c) = None" "idle_at (channels s c) = -1"
  shows "\<exists>ended t sent arrived. handle_cycle heap ff c (map (feed i) xss) s = Done ended t
    \<and> subseq arrived xss \<and> sent @ pkt_queue (inputs t i) = pkt_queue (inputs s i) @ concat arrived
    \<and> (\<forall>j. pkt_queue (outputs t j) = pkt_queue (outputs s j) @ (if j \<in> set os then sent else []))
    \<and> (if ended then pkt_queue (inputs t i) = [] else length sent = length xss)"
  using assms
proof (induction xss arbitrary: s)
  case Nil
  have "handle_cycle heap ff c (map (feed i) []) s = Done False s" by (simp add: act_simps)
  then show ?case
    by (intro exI [of _ False] exI [of _ s] exI [of _ "[] :: Packet list"] exI [of _ "[] :: Packet list list"]) simp
next
  case (Cons xs xss)
  have idle: "\<not> 5 * 1000 * 1000 < get_idle_time c s" using Cons.prems by (simp add: get_idle_time_def)
  have go: "\<exists>ended t sent arrived. handle_cycle heap ff c (map (feed i) (xs # xss)) s = Done ended t
    \<and> subseq arrived xss \<and> sent @ pkt_queue (inputs t i) = p # ps @ concat arrived
    \<and> (\<forall>j. pkt_queue (outputs t j) = pkt_queue (outputs s j) @ (if j \<in> set os then sent else []))
    \<and> (if ended then pkt_queue (inputs t i) = [] else length sent = length (xs # xss))"
    if f: "fetch (feed i xs) c s = Done [p] (set_packets (Q_Input i) ps s)" for p ps
  proof -
    let ?s = "give os [p] (set_packets (Q_Input i) ps s)"
    have ch: "channels ?s = channels s" "outputs (set_packets (Q_Input i) ps s) = outputs s"
      "channels (set_packets (Q_Input i) ps s) = channels s"
      "pkt_queue (inputs ?s i) = ps" by (simp_all add: set_packets_def)
    have "dispatch c (Some p) (set_packets (Q_Input i) ps s) = Done () ?s"
      using Cons.prems ch by (intro dispatch_gives) simp_all
    moreover have "ignore (on_cycle heap ff c p) ?s = Done () ?s"
      using Cons.prems ch by (simp add: ignore_def on_cycle_def)
    ultimately have run: "handle_cycle heap ff c (map (feed i) (xs # xss)) s = handle_cycle heap ff c (map (feed i) xss) ?s"
      using idle f by (simp add: act_simps)
    from Cons.IH [of ?s] Cons.prems ch obtain ended t sent arrived where
      r: "handle_cycle heap ff c (map (feed i) xss) ?s = Done ended t" "subseq arrived xss"
        "sent @ pkt_queue (inputs t i) = ps @ concat arrived"
        "\<forall>j. pkt_queue (outputs t j) = pkt_queue (outputs ?s j) @ (if j \<in> set os then sent else [])"
        "if ended then pkt_queue (inputs t i) = [] else length sent = length xss" by auto
    show ?thesis
      using run r ch by (intro exI [of _ ended] exI [of _ t] exI [of _ "p # sent"] exI [of _ arrived]) auto
  qed
  show ?case
  proof (cases "pkt_queue (inputs s i)")
    case (Cons p ps)
    from go [OF fetch_one [OF Cons.prems(1) Cons]] obtain ended t sent arrived where
      r: "handle_cycle heap ff c (map (feed i) (xs # xss)) s = Done ended t" "subseq arrived xss"
        "sent @ pkt_queue (inputs t i) = p # ps @ concat arrived"
        "\<forall>j. pkt_queue (outputs t j) = pkt_queue (outputs s j) @ (if j \<in> set os then sent else [])"
        "if ended then pkt_queue (inputs t i) = [] else length sent = length (xs # xss)" by blast
    from r(2) have "subseq arrived (xs # xss)" by (rule list_emb_Cons)
    with r Cons show ?thesis
      by (intro exI [of _ ended] exI [of _ t] exI [of _ sent] exI [of _ arrived]) (simp del: handle_cycle.simps)
  next
    case Nil
    note f = fetch_wait [OF Cons.prems(1) Nil, of xs]
    show ?thesis
    proof (cases xs)
      case (Cons p ps)
      with f go [of p ps] obtain ended t sent arrived where
        "handle_cycle heap ff c (map (feed i) (xs # xss)) s = Done ended t" "subseq arrived xss"
        "sent @ pkt_queue (inputs t i) = p # ps @ concat arrived"
        "\<forall>j. pkt_queue (outputs t j) = pkt_queue (outputs s j) @ (if j \<in> set os then sent else [])"
        "if ended then pkt_queue (inputs t i) = [] else length sent = length (xs # xss)"
        by (simp del: handle_cycle.simps) blast
      with Nil Cons show ?thesis
        by (intro exI [of _ ended] exI [of _ t] exI [of _ sent] exI [of _ "xs # arrived"])
          (simp del: handle_cycle.simps)
    next
      case empty: Nil
      have "handle_cycle heap ff c (map (feed i) (xs # xss)) s = Done True (set_packets (Q_Input i) [] s)"
        using idle f empty by (simp add: act_simps)
      with Nil show ?thesis
        by (intro exI [of _ True] exI [of _ "set_packets (Q_Input i) [] s"] exI [of _ "[] :: Packet list"]
            exI [of _ "[] :: Packet list list"]) (simp add: set_packets_def del: handle_cycle.simps)
    qed
  qed
qed

definition two_packets :: Server where
  "two_packets = (Server_new 0)\<lparr>channels := (\<lambda>_. (Channel_new [])\<lparr>input_queue := [Q_Input 0],
       output_queue := [Q_Output 0, Q_Output 1]\<rparr>),
     inputs := (\<lambda>_. (InputHandler_new EInputOrigin None)\<lparr>pkt_queue := [packet_of [1], packet_of [2]]\<rparr>)\<rparr>"

lemma channel_relays_witness:
  "\<exists>ended t sent arrived. handle_cycle (\<lambda>_. 0) (\<lambda>_. ([], 0)) 0 (map (feed 0) [[], []]) two_packets = Done ended t
    \<and> subseq arrived [[], []] \<and> pkt_queue (outputs t 1) = sent
    \<and> sent @ pkt_queue (inputs t 0) = [packet_of [1], packet_of [2]] @ concat arrived"
proof -
  from channel_relays [of two_packets 0 0 "[0, 1]" "\<lambda>_. 0" "\<lambda>_. ([], 0)" "[[], []]"] obtain ended t sent arrived where
    "handle_cycle (\<lambda>_. 0) (\<lambda>_. ([], 0)) 0 (map (feed 0) [[], []]) two_packets = Done ended t"
    "subseq arrived [[], []]" "sent @ pkt_queue (inputs t 0) = pkt_queue (inputs two_packets 0) @ concat arrived"
    "\<forall>j. pkt_queue (outputs t j) = pkt_queue (outputs two_packets j) @ (if j \<in> set [0, 1] then sent else [])"
    by (simp add: two_packets_def Channel_new_def del: handle_cycle.simps) blast
  then show ?thesis
    by (intro exI [of _ ended] exI [of _ t] exI [of _ sent] exI [of _ arrived])
      (simp add: two_packets_def Server_new_def OutputHandler_new_def del: handle_cycle.simps)
qed

text \<open>
  C5: in every state the server can reach, whatever requests came and however its coroutines
  interleaved, the pool has an entry at most once under each name, in order, each entry is a
  channel of that name that was not killed, and a channel that is marked idle has no input, or
  neither an output nor a segment cache.
\<close>

lemma reachable_invariant:
  assumes "server_step\<^sup>*\<^sup>* (Server_new now) s"
  shows "sorted_wrt (<) (map fst (pool s))
    \<and> (\<forall>(key, c)\<in>set (pool s). ch_key (channels s c) = key \<and> ch_status (channels s c) \<noteq> EChannelKill)
    \<and> (\<forall>c. idle_at (channels s c) \<noteq> -1 \<longrightarrow> input_queue (channels s c) = []
         \<or> (output_queue (channels s c) = [] \<and> segment_cache (channels s c) = None))"
  using server_reachable_ok [OF assms server_ok_new]
  by (auto simp: server_ok_def channel_ok_def std_inv_def split: prod.splits)

lemma reachable_invariant_witness:
  "\<exists>s. server_step\<^sup>*\<^sup>* (Server_new 7) s \<and> map fst (pool s) = [lit ''a'']
    \<and> (\<forall>(key, c)\<in>set (pool s). ch_key (channels s c) = key \<and> ch_status (channels s c) \<noteq> EChannelKill)"
proof -
  obtain c t where t: "fetch_or_create_channel (lit ''a'') (Server_new 7) = Done c t"
    by (rule fetch_or_create_channel_ok [OF server_ok_new, of "lit ''a''" 7]) (rule that)
  then have "map fst (pool t) = [lit ''a'']"
    by (auto simp: fetch_or_create_channel_def fetch_or_create_def new_channel_def act_simps std_insert_def
        Server_new_def Channel_new_def)
  moreover have st: "server_step\<^sup>*\<^sup>* (Server_new 7) t"
    by (rule r_into_rtranclp, rule server_step.find [of "lit ''a''"]) (simp add: ends_def t)
  ultimately show ?thesis
    using conjunct1 [OF conjunct2 [OF reachable_invariant [OF st]]] by (intro exI [of _ t] conjI)
qed

text \<open>
  C28: \<open>fetch_or_create_channel\<close> never fails on a reachable server: it answers with the channel that
  has the name, awake, and the same one the next time; other names keep their channels.  The
  error for a killed channel is never returned.
\<close>

lemma manager_finds_channel:
  assumes "server_step\<^sup>*\<^sup>* (Server_new now) s"
  shows "\<exists>c t u. fetch_or_create_channel key s = Done c t \<and> ch_key (channels t c) = key
    \<and> idle_at (channels t c) = -1 \<and> fetch_or_create_channel key t = Done c u \<and> pool u = pool t
    \<and> (\<forall>k c'. std_find k (pool s) = Some c' \<longrightarrow> std_find k (pool t) = Some c')"
proof -
  obtain c t where
    t: "fetch_or_create_channel key s = Done c t" "server_ok t" "std_find key (pool t) = Some c"
      "ch_key (channels t c) = key" "idle_at (channels t c) = -1"
      "\<forall>k c'. std_find k (pool s) = Some c' \<longrightarrow> std_find k (pool t) = Some c'"
    by (rule fetch_or_create_channel_ok [OF server_reachable_ok [OF assms server_ok_new], of key]) (rule that)
  obtain c' u where
    "fetch_or_create_channel key t = Done c' u" "\<forall>d. std_find key (pool t) = Some d \<longrightarrow> c' = d \<and> pool u = pool t"
    by (rule fetch_or_create_channel_ok [OF t(2), of key]) (rule that)
  with t show ?thesis by auto
qed

lemma manager_finds_channel_witness:
  "\<exists>c t. fetch_or_create_channel (lit ''a'') (Server_new 7) = Done c t \<and> ch_key (channels t c) = lit ''a''"
  using manager_finds_channel [of 7 "Server_new 7" "lit ''a''"] by blast



section \<open>Null pointers\<close>

lemma publish_input_crashes:
  assumes "ch_status (channels s c) \<noteq> EChannelStart" "input_queue (channels s c) = [Q_Input i]"
    "in_demux (inputs s i)" "\<not> in_client (inputs s i)" "input_type (inputs s i) = EInputPublish"
    "ce_init_input env i = 0"
  shows "channel_run env c s = Crash Null_Deref"
  using assms
  by (simp add: channel_run_def on_init_def start_input_def on_input_def init_input_def probe_def input_set_no_cache_def
    act_simps address_of_def)

lemma create_forward_run:
  obtains t where "create_forward ty rcs rc c req s = Done () t" "inputs t = inputs s"
    "ch_status (channels t c) = ch_status (channels s c)" "input_queue (channels t c) = input_queue (channels s c)"
    "outputs t (next_output s) = (OutputHandler_new ty (Some c))\<lparr>out_mux := True, forward_address := (vhost req, 80),
       forward_url := create_channel_key req, output_context := Some (next_output s),
       output_type := EOutputForward, input_context := ch_input_context (channels s c), out_running := True\<rparr>"
proof -
  let ?i = "next_output s"
  let ?h = "(OutputHandler_new ty (Some c))\<lparr>out_mux := True, forward_address := (vhost req, 80),
       forward_url := create_channel_key req, output_context := Some ?i, output_type := EOutputForward\<rparr>"
  let ?s1 = "upd_channel c (\<lambda>ch. (wake_up ch)\<lparr>channel_exit_time := -1, output_queue := output_queue ch @ [Q_Output ?i]\<rparr>)
     (s\<lparr>outputs := (outputs s)(?i := ?h), next_output := ?i + 1\<rparr>)"
  let ?h2 = "?h\<lparr>input_context := ch_input_context (channels s c)\<rparr>"
  let ?s2 = "?s1\<lparr>outputs := (outputs ?s1)(?i := ?h2)\<rparr>"
  let ?s3 = "?s2\<lparr>outputs := (outputs ?s2)(?i := ?h2\<lparr>out_running := True\<rparr>)\<rparr>"
  have "add_output r c (Q_Output ?i) (s\<lparr>outputs := (outputs s)(?i := ?h), next_output := ?i + 1\<rparr>) = Done () ?s2" for r
    by (simp add: add_output_def act_simps ignore_def on_output_def init_output_def Let_def OutputHandler_new_def wake_up_def)
  moreover have "ignore (on_output (Q_Output ?i) (output_run rc)) ?s2 = Done () ?s3"
    by (simp add: ignore_def on_output_def output_run_def OutputHandler_new_def)
  ultimately have "create_forward ty rcs rc c req s = Done () ?s3"
    by (simp add: create_forward_def new_output_def act_simps)
  then show thesis by (rule that) (simp_all add: wake_up_def)
qed

text \<open>
  Publishing ends the process.  The input of a publisher is given no client, and starting its
  channel calls through that null pointer: so it goes for every stream whose name the
  server does not know yet.
\<close>

lemma publish_dereferences_null:
  assumes "server_step\<^sup>*\<^sup>* (Server_new now) s" "std_find (create_channel_key req) (pool s) = None"
    "ce_init_input (me_channel env) (next_input s) = 0"
  shows "handle_publish env req s = Crash Null_Deref"
proof -
  let ?c = "next_channel s" and ?i = "next_input s"
  define ch where "ch = (wake_up (Channel_new (create_channel_key req)))\<lparr>user_ctrl := True\<rparr>"
  obtain s1 where s1: "channel_for req s = Done ?c s1" "channels s1 ?c = ch" "next_input s1 = ?i"
    using assms(2) by (simp add: channel_for_def fetch_or_create_channel_def fetch_or_create_def new_channel_def
      act_simps Channel_new_def ch_def upd_channel_def)
  let ?h = "(init_conn True (init_format True (InputHandler_new (me_input_type env) (Some ?c))))
     \<lparr>in_context := Some ?i, input_type := EInputPublish\<rparr>"
  let ?s2 = "s1\<lparr>inputs := (inputs s1)(?i := ?h), next_input := ?i + 1\<rparr>"
  let ?s3 = "upd_channel ?c (\<lambda>ch. (wake_up ch)\<lparr>channel_exit_time := -1, input_queue := input_queue ch @ [Q_Input ?i]\<rparr>) ?s2"
  let ?s4 = "?s3\<lparr>inputs := (inputs ?s3)(?i := ?h\<lparr>in_running := True\<rparr>)\<rparr>"
  have "add_input ?c (Q_Input ?i) ?s2 = Done () ?s3" by (simp add: add_input_def act_simps)
  moreover have "ignore (on_input (Q_Input ?i) (input_run r)) ?s3 = Done () ?s4" for r
    by (simp add: ignore_def on_input_def input_run_def init_conn_def init_format_def InputHandler_new_def)
  moreover obtain s5 where "create_forward (me_output_type env) (ce_init_output (me_channel env)) (me_output_start env) ?c req ?s4
      = Done () s5" "inputs s5 = inputs ?s4" "ch_status (channels s5 ?c) = ch_status (channels ?s4 ?c)"
      "input_queue (channels s5 ?c) = input_queue (channels ?s4 ?c)"
    by (rule create_forward_run)
  moreover from this have "channel_run (me_channel env) ?c s5 = Crash Null_Deref"
    using s1(2) assms(3) by (intro publish_input_crashes [of _ _ ?i])
      (auto simp: ch_def wake_up_def Channel_new_def init_conn_def init_format_def InputHandler_new_def)
  ultimately show ?thesis
    using s1 by (simp add: handle_publish_def new_input_def act_simps)
qed

definition quiet_env :: media_env where
  "quiet_env = \<lparr>me_channel = \<lparr>ce_init_input = (\<lambda>_. 0), ce_origin = (\<lambda>_. [(0, 0)]), ce_init_output = (\<lambda>_. 0),
     ce_input_start = (\<lambda>_. 0), ce_start = (\<lambda>_. 0)\<rparr>, me_output_start = 0, me_input_type = EInputOrigin,
     me_output_type = EOutputPlay\<rparr>"

lemma publish_dereferences_null_witness:
  "handle_publish quiet_env request_a (Server_new 7) = Crash Null_Deref"
  using publish_dereferences_null [of 7 "Server_new 7" request_a quiet_env]
  by (simp add: Server_new_def quiet_env_def)

text \<open>
  Forwarding ends the process too: the output that \<open>create_forward\<close> starts has no connection, and
  its coroutine calls through it first.
\<close>

lemma forward_dereferences_null:
  "\<exists>t. create_forward ty rcs rc c req s = Done () t \<and> out_running (outputs t (next_output s))
    \<and> OutputHandler_cycle connect_rc forward_rc now rounds (outputs t (next_output s)) = Crash Null_Deref"
proof -
  obtain t where "create_forward ty rcs rc c req s = Done () t"
    "outputs t (next_output s) = (OutputHandler_new ty (Some c))\<lparr>out_mux := True, forward_address := (vhost req, 80),
       forward_url := create_channel_key req, output_context := Some (next_output s),
       output_type := EOutputForward, input_context := ch_input_context (channels s c), out_running := True\<rparr>"
    by (rule create_forward_run)
  then show ?thesis
    by (simp add: OutputHandler_cycle_def output_start_def OutputHandler_new_def act_simps)
qed

end
