(* ===== verification/Stream_Props.thy ===== *)
theory Stream_Props
  imports Channel_Props Http_Props
begin

text \<open>
  Properties that follow bytes through several components: the raw format passes a stream through,
  what it writes in front of the stream is not what the program's own client expects, and what
  becomes of the first segment of a stream.
\<close>

section \<open>The raw format\<close>




section \<open>Properties\<close>



lemma status_line_200:
  "length (status_line 200) = 24" "0 \<notin> set (status_line 200)"
  "\<forall>k\<in>set [0..<24]. find_str (lit ''Content-Length:'') (take k (status_line 200)) 0 = None
     \<and> find_str (CRLF @ CRLF) (take k (status_line 200)) 0 = None"
  "find_str (lit ''Content-Length:'') (status_line 200) 0 = None" "find_str (CRLF @ CRLF) (status_line 200) 0 = Some 20"
  "find_str (lit ''Content-Length: '') (c_str (status_line 200)) 0 = None"
  "find_str (lit ''Transfer-Encoding: chunked'') (c_str (status_line 200)) 0 = None"
  by code_simp+

lemma status_of_line:
  "\<not> 0 < response_status h \<Longrightarrow> get_response_status (status_line 200) h = Done 0 (h\<lparr>response_status := 0\<rparr>)"
proof -
  have "take 4 (status_line 200) = lit ''HTTP''" "find_str (lit '' '') (status_line 200) 0 = Some 8"
    "find_str (lit '' '') (status_line 200) (uint32_of (int 8 + 1)) = Some 13"
    "take (nat (sz_minus (int 13) (int (uint32_of (int 8 + 1))))) (drop (uint32_of (int 8 + 1)) (status_line 200)) = lit ''HTTP''"
    "uint32_of (int 8 + 1) \<le> length (status_line 200)" "atoll (lit ''HTTP'') = 0" by code_simp+
  then show "\<not> 0 < response_status h \<Longrightarrow> ?thesis"
    by (simp add: get_response_status_def Let_def substr_def act_simps)
qed

text \<open>
  What the server sends in front of a stream, \<open>HTTP/1.1 HTTP 200 OK\<close>, is read by its own client as the
  status 0: a server that pulls from another one of its kind gets \<open>error_ingest_no_input\<close>, whatever
  the stream.
\<close>

lemma own_status_line_refused:
  assumes "delivers (cl_read_packet ops) rest"
    "cl_write ops (buildHttpGetRequest parms [] host path stream) w = (n, w1)" "0 \<le> n"
    "rest w1 = status_line 200 @ body" "24 \<le> k"
  shows "\<exists>w2. HttpClient_request k ops (CHttp_new len transcode) host path stream parms w = Fail error_ingest_no_input w2"
proof -
  let ?r = "status_line 200" and ?h = "CHttp_new len transcode"
  note R = status_line_200
  have "\<exists>h'. checkResponse (take k ?r) h = Done 0 h' \<and> response_status h' = response_status h" if "k < length ?r" for k h
    using R(1,3) that by (simp add: checkResponse_def checkHttpInputSimple_def act_simps)
  moreover have "\<exists>h'. checkResponse ?r h = Done (length ?r) h' \<and> response_status h' = response_status h" for h
    using R by (simp add: checkResponse_def checkHttpInputSimple_def act_simps)
  ultimately obtain h' w2 where
    loop: "response_loop k (cl_read_packet ops) (replicate 1024 0) 1024 0 (?h, w1)
      = Done (1, 24, ?r @ replicate (1024 - 24) 0) (h', w2)" "response_status h' = response_status ?h"
    using response_loop_reads [OF assms(1), of ?r 0 w1 body k ?h] R(1,2) assms(4,5) by auto
  have st: "\<not> 0 < response_status h'" using loop(2) by (simp add: CHttp_new_def)
  have "uint32_of (int 20 + 4) = 24" by simp
  then have "parseHttpResponse ?r h' = Done () (h'\<lparr>response_status := 0, http_data := []\<rparr>)"
    using R status_of_line [OF st]
    by (simp add: parseHttpResponse_def act_simps found_or_fail_def Let_def substr_from_def assign_def)
  moreover have "get_response_status ?r (h'\<lparr>response_status := 0, http_data := []\<rparr>)
    = Done 0 (h'\<lparr>response_status := 0, http_data := []\<rparr>)"
    using status_of_line [of "h'\<lparr>response_status := 0, http_data := []\<rparr>"] by simp
  ultimately show ?thesis
    unfolding HttpClient_request_def using assms(2,3) loop(1) R(1)
    by (intro exI [of _ w2]) (simp add: Let_def bind_def ignore_def)
qed

lemma own_status_line_refused_witness:
  "\<exists>w. HttpClient_request 24 (answering (status_line 200 @ lit ''FLV'')) (CHttp_new 0 False) (lit ''h'') (lit ''live'') (lit ''a'') [] []
    = Fail error_ingest_no_input w"
  using own_status_line_refused [OF answering_delivers [of "status_line 200 @ lit ''FLV''"], of "[]" "lit ''h''" "lit ''live''" "lit ''a''"
      "[]" _ _ "lit ''FLV''" 24 0 False]
  by (simp add: answering_def)

section \<open>Segments\<close>

text \<open>The pieces an FFmpeg muxer may write for a packet: at most 16 KB each, and no error.\<close>

definition muxes :: "(Packet \<Rightarrow> bytes list \<times> int) \<Rightarrow> Packet \<Rightarrow> nat \<Rightarrow> bool" where
  "muxes ff p n \<longleftrightarrow> (\<forall>x\<in>set (fst (ff p)). length x \<le> 16384) \<and> length (concat (fst (ff p))) = n \<and> snd (ff p) = 0"

lemma write_pieces_run:
  "alive a s \<Longrightarrow> file_16k k (seg_files s a) \<Longrightarrow> \<forall>x\<in>set xs. length x \<le> 16384 \<Longrightarrow>
    k + length (concat xs) \<le> 262160 \<Longrightarrow>
    \<exists>f. write_pieces (segment_write heap a) xs (s, n)
        = Done () (s\<lparr>seg_files := (seg_files s)(a := f)\<rparr>, n + int (length (concat xs)))
      \<and> file_16k (k + length (concat xs)) f"
proof (induction xs arbitrary: s k n)
  case Nil
  then show ?case by (intro exI [of _ "seg_files s a"]) (cases s, simp add: act_simps)
next
  case (Cons x xs)
  then have "length x \<le> 16384" "k + length x \<le> 262160" by auto
  then obtain f where f: "File_append heap x (seg_files s a) = Done () f" "file_16k (k + length x) f"
    by (rule append_16k [OF Cons.prems(2), of _ heap]) (rule that)
  let ?s = "s\<lparr>seg_files := (seg_files s)(a := f)\<rparr>"
  have al: "alive a ?s" using Cons.prems(1) by (simp add: alive_def)
  have ok: "file_16k (k + length x) (seg_files ?s a)" using f(2) by simp
  have le: "\<forall>x\<in>set xs. length x \<le> 16384" "k + length x + length (concat xs) \<le> 262160"
    using Cons.prems(3,4) by simp_all
  obtain g where g: "write_pieces (segment_write heap a) xs (?s, n + int (length x))
      = Done () (?s\<lparr>seg_files := (seg_files ?s)(a := g)\<rparr>, n + int (length x) + int (length (concat xs)))"
    "file_16k (k + length x + length (concat xs)) g"
    using Cons.IH [OF al ok le, of "n + int (length x)"] by blast
  have "segment_write heap a x (s, n) = Done (int (length x)) (?s, n + int (length x))"
    using Cons.prems(1) f(1) by (simp add: segment_write_def)
  then have "write_pieces (segment_write heap a) (x # xs) (s, n)
      = Done () (?s\<lparr>seg_files := (seg_files ?s)(a := g)\<rparr>, n + int (length x) + int (length (concat xs)))"
    using g(1) by (simp only: write_pieces.simps bind_def outcome.case)
  moreover have "?s\<lparr>seg_files := (seg_files ?s)(a := g)\<rparr> = s\<lparr>seg_files := (seg_files s)(a := g)\<rparr>" by simp
  ultimately show ?case using g(2) by (intro exI [of _ g]) (simp add: add.assoc fun_upd_def)
qed

text \<open>
  A segment that writes to file \<open>a\<close>: it began at \<open>t1\<close>, its last packet came at \<open>t\<close>, the file has
  taken \<open>k\<close> bytes, and the cache holds it under the name of \<open>t1\<close> and nothing else.
\<close>

definition in_segment :: "nat \<Rightarrow> int \<Rightarrow> int \<Rightarrow> nat \<Rightarrow> SegmentsCache \<Rightarrow> bool" where
  "in_segment a t1 t k s \<longleftrightarrow> segment_enable s \<and> seg_format s \<noteq> lit ''RAW'' \<and> cache_name s = []
     \<and> Segments.next_file s = Suc a \<and> static_cache s = [(timestamp_name [] t1, a)] \<and> file_16k k (seg_files s a)
     \<and> (\<exists>h. current_segment s = Some h \<and> seg_raw h = None \<and> seg_file h = a \<and> first_timestamp h = t1
         \<and> last_timestamp h = t \<and> duration_ms h = t - t1)"

lemma segment_packet_run:
  assumes "current_segment s = Some h" "seg_raw h = None" "static_cache s = [(nm, seg_file h)]"
    "file_16k k (seg_files s (seg_file h))" "muxes ff p n" "k + n \<le> 262160"
  shows "\<exists>f. segment_handle_packet heap ff p h s = Done () (s\<lparr>seg_files := (seg_files s)(seg_file h := f),
      current_segment := Some (h\<lparr>current_size := current_size h + int n, last_timestamp := pkt_timestamp p,
        first_timestamp := (if first_timestamp h = 0 then pkt_timestamp p else first_timestamp h)\<rparr>)\<rparr>)
    \<and> file_16k (k + n) f"
proof -
  have "alive (seg_file h) s" using assms(3) by (simp add: alive_def)
  from write_pieces_run [OF this assms(4), of "fst (ff p)" heap "current_size h"] assms(5,6) obtain f where
    f: "write_pieces (segment_write heap (seg_file h)) (fst (ff p)) (s, current_size h)
      = Done () (s\<lparr>seg_files := (seg_files s)(seg_file h := f)\<rparr>, current_size h + int n)" "file_16k (k + n) f"
    by (auto simp: muxes_def)
  have "h\<lparr>current_size := c, seg_raw := None\<rparr> = h\<lparr>current_size := c\<rparr>" for c using assms(2) by (cases h) simp
  with f assms(2,5) show ?thesis
    by (intro exI [of _ f])
      (simp add: segment_handle_packet_def segment_mux_def act_simps muxes_def Let_def)
qed

lemma segment_goes_on:
  assumes "in_segment a t1 t k s" "0 < t" "0 < t1" "\<bar>pkt_timestamp p - t1\<bar> < 2 ^ 31"
    "\<not> (5000 \<le> pkt_timestamp p - t1 \<and> pkt_key_frame p)" "muxes ff p n" "k + n \<le> 262160"
  shows "\<exists>s'. segments_handle_packet heap ff p s = Done () s' \<and> in_segment a t1 (pkt_timestamp p) (k + n) s'"
proof -
  from assms(1) obtain h where h: "current_segment s = Some h" "seg_raw h = None" "seg_file h = a" "first_timestamp h = t1"
    "last_timestamp h = t" "duration_ms h = t - t1" by (auto simp: in_segment_def)
  let ?h = "h\<lparr>duration_ms := pkt_timestamp p - t1\<rparr>" and ?s = "s\<lparr>current_segment := Some (h\<lparr>duration_ms := pkt_timestamp p - t1\<rparr>)\<rparr>"
  have "sint (of_int (t - t1 + (pkt_timestamp p - t)) :: 32 word) = pkt_timestamp p - t1"
    using assms(4) by (subst sint_32) auto
  then have up: "update_current (append_pts (pkt_timestamp p)) s = Done () ?s"
    using h assms(2) by (simp add: update_current_def append_pts_def)
  have cut: "cut_segment heap p ?s = Done () ?s" using assms(5) by (auto simp: cut_segment_def)
  obtain f where f: "segment_handle_packet heap ff p ?h ?s = Done () (?s\<lparr>seg_files := (seg_files ?s)(seg_file ?h := f),
      current_segment := Some (?h\<lparr>current_size := current_size ?h + int n, last_timestamp := pkt_timestamp p,
        first_timestamp := (if first_timestamp ?h = 0 then pkt_timestamp p else first_timestamp ?h)\<rparr>)\<rparr>)"
    "file_16k (k + n) f"
    using segment_packet_run [of ?s ?h "timestamp_name [] t1" k ff p n heap] assms(1,6,7) h
    by (auto simp: in_segment_def)
  have "segment_enable s" using assms(1) by (simp add: in_segment_def)
  then have "segments_handle_packet heap ff p s = segment_handle_packet heap ff p ?h ?s"
    using h(1) up cut by (simp add: segments_handle_packet_def act_simps)
  with f assms(1,3) h show ?thesis by (auto simp: in_segment_def)
qed

lemma open_file_run:
  "open_file heap nm s = Done () (s\<lparr>seg_files := (seg_files s)(Segments.next_file s :=
      (File_new nm)\<lparr>file_data := Some (fresh_block heap (16 * 1024 + 1)), file_size := 16 * 1024\<rparr>),
     Segments.next_file := Segments.next_file s + 1, static_cache := add_file nm (Segments.next_file s) (static_cache s),
     current_segment := Some (segment_init heap (seg_format s) (segs_input_context s)
       (SegmentHandler_new (Segments.next_file s)))\<rparr>)"
  by (simp add: open_file_def init_buffer_def File_new_def)

lemma new_file_16k: "file_16k 0 ((File_new nm)\<lparr>file_data := Some (fresh_block heap (16 * 1024 + 1)), file_size := 16 * 1024\<rparr>)"
  by (auto simp: file_16k_def File_new_def)

lemma segment_cut:
  assumes "in_segment a t1 t k s" "0 < t" "0 < t1" "\<bar>pkt_timestamp p - t1\<bar> < 2 ^ 31"
    "5000 \<le> pkt_timestamp p - t1" "pkt_key_frame p" "muxes ff p n" "n \<le> 262160"
  shows "\<exists>s' h. segments_handle_packet heap ff p s = Done () s' \<and> static_cache s' = [(timestamp_name [] t1, Suc a)]
    \<and> \<not> alive a s' \<and> current_segment s' = Some h \<and> seg_file h = Suc a \<and> first_timestamp h = pkt_timestamp p"
proof -
  from assms(1) obtain h where h: "current_segment s = Some h" "first_timestamp h = t1"
    "last_timestamp h = t" "duration_ms h = t - t1" and
    en: "segment_enable s" "seg_format s \<noteq> lit ''RAW''" "cache_name s = []" "Segments.next_file s = Suc a"
      "static_cache s = [(timestamp_name [] t1, a)]" by (auto simp: in_segment_def)
  let ?s = "s\<lparr>current_segment := Some (h\<lparr>duration_ms := pkt_timestamp p - t1\<rparr>)\<rparr>"
  have "sint (of_int (t - t1 + (pkt_timestamp p - t)) :: 32 word) = pkt_timestamp p - t1"
    using assms(4) by (subst sint_32) auto
  then have up: "update_current (append_pts (pkt_timestamp p)) s = Done () ?s"
    using h assms(2) by (simp add: update_current_def append_pts_def)
  let ?f = "(File_new (timestamp_name [] t1))\<lparr>file_data := Some (fresh_block heap (16 * 1024 + 1)), file_size := 16 * 1024\<rparr>"
  let ?h = "(SegmentHandler_new (Suc a))\<lparr>seg_input_context := segs_input_context s\<rparr>"
  let ?u = "s\<lparr>seg_files := (seg_files s)(Suc a := ?f), Segments.next_file := Suc a + 1,
     static_cache := [(timestamp_name [] t1, Suc a)], current_segment := Some ?h\<rparr>"
  have cut: "cut_segment heap p ?s = Done () ?u"
    using assms(5,6) h en by (simp add: cut_segment_def open_file_run add_file_def segment_init_def SegmentHandler_new_def)
  obtain f where f: "segment_handle_packet heap ff p ?h ?u = Done () (?u\<lparr>seg_files := (seg_files ?u)(seg_file ?h := f),
      current_segment := Some (?h\<lparr>current_size := current_size ?h + int n, last_timestamp := pkt_timestamp p,
        first_timestamp := (if first_timestamp ?h = 0 then pkt_timestamp p else first_timestamp ?h)\<rparr>)\<rparr>)"
    using segment_packet_run [of ?u ?h "timestamp_name [] t1" 0 ff p n heap] new_file_16k assms(7,8)
    by (auto simp: SegmentHandler_new_def)
  have "segments_handle_packet heap ff p s = segment_handle_packet heap ff p ?h ?u"
    using h(1) en(1) up cut by (simp add: segments_handle_packet_def act_simps)
  with f show ?thesis by (auto simp: alive_def SegmentHandler_new_def)
qed

text \<open>
  The first segment of a stream is lost when it is finished: the file of the second is given the
  first one's name, takes its place in the cache, and the first is freed.  A segment is
  finished by the first key frame that comes five seconds or more after its start; \<open>packets\<close> are
  the ones before it, and the FFmpeg muxer writes for them no more than the file can take.
\<close>

lemma first_segment_lost:
  assumes "fmt \<noteq> lit ''RAW''" "\<forall>p\<in>set (first # packets). 0 < pkt_timestamp p \<and> \<bar>pkt_timestamp p - t1\<bar> < 2 ^ 31
      \<and> \<not> (5000 \<le> pkt_timestamp p - t1 \<and> pkt_key_frame p) \<and> muxes ff p (size_of p)"
    "t1 = pkt_timestamp first" "sum_list (map size_of (first # packets)) \<le> 262160"
    "t1 + 5000 \<le> pkt_timestamp key" "pkt_timestamp key < t1 + 2 ^ 31" "pkt_key_frame key" "muxes ff key n" "n \<le> 262160"
  shows "\<exists>s' h. for_each (segments_handle_packet heap ff) (first # packets @ [key]) (set_format fmt (SegmentsCache_new lo hi))
      = Done () s'
    \<and> static_cache s' = [(timestamp_name [] t1, 1)] \<and> \<not> alive 0 s'
    \<and> current_segment s' = Some h \<and> seg_file h = 1 \<and> first_timestamp h = pkt_timestamp key"
proof -
  let ?s = "set_format fmt (SegmentsCache_new lo hi)"
  have t1: "0 < t1" using assms(2,3) by simp
  have rest: "\<exists>s' h. for_each (segments_handle_packet heap ff) (packets @ [key]) s = Done () s'
      \<and> static_cache s' = [(timestamp_name [] t1, 1)] \<and> \<not> alive 0 s'
      \<and> current_segment s' = Some h \<and> seg_file h = 1 \<and> first_timestamp h = pkt_timestamp key"
    if "in_segment 0 t1 t k s" "0 < t" "k + sum_list (map size_of packets) \<le> 262160"
      "\<forall>p\<in>set packets. 0 < pkt_timestamp p \<and> \<bar>pkt_timestamp p - t1\<bar> < 2 ^ 31
        \<and> \<not> (5000 \<le> pkt_timestamp p - t1 \<and> pkt_key_frame p) \<and> muxes ff p (size_of p)" for s t k
    using that
  proof (induction packets arbitrary: s t k)
    case Nil
    from segment_cut [OF Nil.prems(1,2) t1, of key ff n heap] assms(5-9) show ?case
      by (auto simp: seq_def bind_def act_simps split: outcome.splits)
  next
    case (Cons p packets)
    have "k + size_of p \<le> 262160" using Cons.prems(3) by simp
    then obtain u where u: "segments_handle_packet heap ff p s = Done () u" "in_segment 0 t1 (pkt_timestamp p) (k + size_of p) u"
      using segment_goes_on [OF Cons.prems(1,2) t1, of p ff "size_of p" heap] Cons.prems(4) by auto
    from Cons.IH [OF u(2)] Cons.prems(3,4) u(1) show ?case by (simp add: act_simps)
  qed
  let ?f = "(File_new (timestamp_name [] t1))\<lparr>file_data := Some (fresh_block heap (16 * 1024 + 1)), file_size := 16 * 1024\<rparr>"
  let ?h = "SegmentHandler_new 0"
  let ?u = "?s\<lparr>seg_files := (seg_files ?s)(0 := ?f), Segments.next_file := 1,
     static_cache := [(timestamp_name [] t1, 0)], current_segment := Some ?h\<rparr>"
  have opened: "open_file heap (timestamp_name [] (pkt_timestamp first)) ?s = Done () ?u"
    using assms(1,3)
    by (simp add: open_file_run add_file_def std_insert_def segment_init_def SegmentHandler_new_def set_format_def
        SegmentsCache_new_def)
  have "update_current (append_pts (pkt_timestamp first)) ?u = Done () ?u" "cut_segment heap first ?u = Done () ?u"
    by (simp_all add: update_current_def append_pts_def cut_segment_def SegmentHandler_new_def)
  then have "segments_handle_packet heap ff first ?s = segment_handle_packet heap ff first ?h ?u"
    using opened by (simp add: segments_handle_packet_def act_simps set_format_def SegmentsCache_new_def)
  moreover obtain f where "segment_handle_packet heap ff first ?h ?u = Done () (?u\<lparr>seg_files := (seg_files ?u)(seg_file ?h := f),
      current_segment := Some (?h\<lparr>current_size := current_size ?h + int (size_of first), last_timestamp := pkt_timestamp first,
        first_timestamp := (if first_timestamp ?h = 0 then pkt_timestamp first else first_timestamp ?h)\<rparr>)\<rparr>)"
    "file_16k (0 + size_of first) f"
    using segment_packet_run [of ?u ?h "timestamp_name [] t1" 0 ff first "size_of first" heap] new_file_16k assms(2,4)
    by (auto simp: SegmentHandler_new_def)
  ultimately obtain u where u: "segments_handle_packet heap ff first ?s = Done () u" "in_segment 0 t1 t1 (size_of first) u"
    using assms(1,3) by (auto simp: in_segment_def SegmentHandler_new_def set_format_def SegmentsCache_new_def)
  from rest [OF u(2) t1] assms(2,4) u(1) show ?thesis by (simp add: act_simps)
qed

definition frame_at_ms :: "int \<Rightarrow> Packet" where
  "frame_at_ms t = \<lparr>pkt_buffer = [], pkt_timestamp = t, pkt_key_frame = True\<rparr>"

lemma first_segment_lost_witness:
  "\<exists>s'. for_each (segments_handle_packet (\<lambda>_. 0) (\<lambda>p. ([[1, 2]], 0))) [frame_at_ms 40, frame_at_ms 80, frame_at_ms 5040]
      (set_format (lit ''flv'') (SegmentsCache_new 3 10)) = Done () s'
    \<and> get_file (lit ''40'') (static_cache s') = Some 1"
proof -
  have "timestamp_name [] 40 = lit ''40''" "lit ''flv'' \<noteq> lit ''RAW''" by code_simp+
  with first_segment_lost [of "lit ''flv''" "frame_at_ms 40" "[frame_at_ms 80]" 40 "\<lambda>p. ([[1, 2]], 0)" "\<lambda>_. 2"
      "frame_at_ms 5040" 2 "\<lambda>_. 0" 3 10]
  show ?thesis by (auto simp: frame_at_ms_def muxes_def get_file_def)
qed

end
