(* ===== verification/Rtmp_Client.thy ===== *)
theory Rtmp_Client
  imports Rtmp_Protocol Cpp_String
begin

text \<open>
  The client side of RTMP: the handshake (\<open>RtmpHandshakeBytes\<close> at the start of \<open>rtmp_stack.cpp\<close>) and
  \<open>RtmpClient\<close> (\<open>rtmp_client.cpp\<close>).  The connection below is an \<open>IClientConn\<close> and so a parameter:
  \<open>hs_ops\<close> are the calls made to it, to the clock and to \<open>rand\<close>, on a state \<open>'w\<close> of their own.
\<close>

abbreviation (input) error_rtmp_complex_handshake_not_support :: int where
  "error_rtmp_complex_handshake_not_support \<equiv> 14001"
abbreviation (input) error_rtmp_handshake :: int where "error_rtmp_handshake \<equiv> 14002"

record 'w hs_ops =
  hs_read_fully :: "'w reader"
  hs_write :: "bytes \<Rightarrow> 'w \<Rightarrow> int \<times> 'w"
  hs_time :: "'w \<Rightarrow> 32 word"
  hs_rand :: "'w \<Rightarrow> int \<times> 'w"
  hs_new :: "int \<Rightarrow> bytes"

section \<open>RtmpHandshakeBytes\<close>

record RtmpHandshakeBytes =
  c0c1 :: "bytes option"
  s0s1s2 :: "bytes option"
  c2 :: "bytes option"

definition RtmpHandshakeBytes_new :: RtmpHandshakeBytes where
  "RtmpHandshakeBytes_new = \<lparr>c0c1 = None, s0s1s2 = None, c2 = None\<rparr>"

text \<open>\<open>random_generate\<close> of \<open>util.cpp\<close>: \<open>rand () % 226\<close> above \<open>0x0f\<close>, for every byte.\<close>

primrec random_generate :: "'w hs_ops \<Rightarrow> nat \<Rightarrow> 'w \<Rightarrow> bytes \<times> 'w" where
  "random_generate ops 0 w = ([], w)"
| "random_generate ops (Suc n) w = (case hs_rand ops w of (r, w) \<Rightarrow>
     case random_generate ops n w of (xs, w) \<Rightarrow> (of_int (0x0f + r smod (256 - 0x0f - 0x0f)) # xs, w))"

text \<open>\<open>p = new char[n]; conn->read_fully (p, n)\<close>: what is not read is what \<open>new\<close> left there.\<close>

definition read_block :: "'w hs_ops \<Rightarrow> int \<Rightarrow> 'w \<Rightarrow> (int \<times> bytes) \<times> 'w" where
  "read_block ops n w = (case hs_read_fully ops n w of ((nsize, xs), w) \<Rightarrow>
     ((nsize, take (nat n) (xs @ drop (length xs) (hs_new ops n))), w))"

text \<open>All three report success, also after the warning that the read has failed.\<close>

definition read_c0c1 :: "'w hs_ops \<Rightarrow> (unit, RtmpHandshakeBytes \<times> 'w) act" where
  "read_c0c1 ops = (\<lambda>(hs, w). if c0c1 hs \<noteq> None then Done () (hs, w)
     else case read_block ops 1537 w of ((nsize, p), w) \<Rightarrow> Done () (hs\<lparr>c0c1 := Some p\<rparr>, w))"

definition read_s0s1s2 :: "'w hs_ops \<Rightarrow> (unit, RtmpHandshakeBytes \<times> 'w) act" where
  "read_s0s1s2 ops = (\<lambda>(hs, w). if s0s1s2 hs \<noteq> None then Done () (hs, w)
     else case read_block ops 3073 w of ((nsize, p), w) \<Rightarrow> Done () (hs\<lparr>s0s1s2 := Some p\<rparr>, w))"

definition read_c2 :: "'w hs_ops \<Rightarrow> (unit, RtmpHandshakeBytes \<times> 'w) act" where
  "read_c2 ops = (\<lambda>(hs, w). if c2 hs \<noteq> None then Done () (hs, w)
     else case read_block ops 1536 w of ((nsize, p), w) \<Rightarrow> Done () (hs\<lparr>c2 := Some p\<rparr>, w))"

text \<open>\<open>Buffer buffer (p, n)\<close> over the start of a block, some writes, and the block they leave.\<close>

definition through_buffer :: "int \<Rightarrow> (unit, Buffer) act \<Rightarrow> bytes \<Rightarrow> (bytes, 's) act" where
  "through_buffer n writes p = (\<lambda>s. case writes (Buffer_new p n) of
     Done u b \<Rightarrow> Done (buf b) s | Fail e b \<Rightarrow> Done (buf b) s | Crash q \<Rightarrow> Crash q)"

text \<open>The version, the time and four zero bytes, through a \<open>Buffer\<close> over nine bytes.\<close>

definition create_c0c1 :: "'w hs_ops \<Rightarrow> (unit, RtmpHandshakeBytes \<times> 'w) act" where
  "create_c0c1 ops = (\<lambda>(hs, w). if c0c1 hs \<noteq> None then Done () (hs, w)
     else case random_generate ops 1537 w of (p, w) \<Rightarrow>
       bind (through_buffer 9 (seq (write_1byte 0x03) (seq (write_4bytes (hs_time ops w)) (write_4bytes 0x00))) p)
         (\<lambda>p (hs, w). Done () (hs\<lparr>c0c1 := Some p\<rparr>, w)) (hs, w))"

definition create_s0s1s2 :: "'w hs_ops \<Rightarrow> bytes option \<Rightarrow> (unit, RtmpHandshakeBytes \<times> 'w) act" where
  "create_s0s1s2 ops c1 = (\<lambda>(hs, w). if s0s1s2 hs \<noteq> None then Done () (hs, w)
     else case random_generate ops 3073 w of (p, w) \<Rightarrow>
       bind (through_buffer 9 (seq (write_1byte 0x03) (seq (write_4bytes (hs_time ops w))
           (case c0c1 hs of None \<Rightarrow> ret () | Some c \<Rightarrow> ignore (write_bytes (take 4 (drop 1 c)))))) p)
         (\<lambda>p (hs, w). Done () (hs\<lparr>s0s1s2 := Some (case c1 of None \<Rightarrow> p
             | Some c \<Rightarrow> take 1537 p @ take 1536 c)\<rparr>, w)) (hs, w))"

definition create_c2 :: "'w hs_ops \<Rightarrow> (unit, RtmpHandshakeBytes \<times> 'w) act" where
  "create_c2 ops = (\<lambda>(hs, w). if c2 hs \<noteq> None then Done () (hs, w)
     else case random_generate ops 1536 w of (p, w) \<Rightarrow>
       bind (through_buffer 8 (seq (write_4bytes (hs_time ops w))
           (case s0s1s2 hs of None \<Rightarrow> ret () | Some s \<Rightarrow> ignore (write_bytes (take 4 (drop 1 s))))) p)
         (\<lambda>p (hs, w). Done () (hs\<lparr>c2 := Some p\<rparr>, w)) (hs, w))"

section \<open>RtmpClient: the handshake\<close>

definition hs_send :: "'w hs_ops \<Rightarrow> (RtmpHandshakeBytes \<Rightarrow> bytes option) \<Rightarrow> nat \<Rightarrow> (int, RtmpHandshakeBytes \<times> 'w) act" where
  "hs_send ops field n = (\<lambda>(hs, w). case field hs of None \<Rightarrow> Crash Null_Deref
     | Some p \<Rightarrow> (case hs_write ops (take n p) w of (nsize, w) \<Rightarrow> Done nsize (hs, w)))"

text \<open>
  \<open>nsize\<close> is a \<open>size_t\<close>, never below 0; and the result of the second write only decides what is logged.
\<close>

definition check_version :: "(unit, RtmpHandshakeBytes \<times> 'w) act" where
  "check_version = (\<lambda>(hs, w). case s0s1s2 hs of None \<Rightarrow> Crash Null_Deref
     | Some p \<Rightarrow> if p ! 0 \<noteq> 0x03 then Fail error_rtmp_handshake (hs, w) else Done () (hs, w))"

definition copy_s1 :: "(unit, RtmpHandshakeBytes \<times> 'w) act" where
  "copy_s1 = (\<lambda>(hs, w). case s0s1s2 hs of None \<Rightarrow> Crash Null_Deref
     | Some s \<Rightarrow> Done () (hs\<lparr>c2 := Some (take 1536 (drop 1 s))\<rparr>, w))"

definition handshake_steps :: "'w hs_ops \<Rightarrow> (unit, RtmpHandshakeBytes \<times> 'w) act" where
  "handshake_steps ops = seq (create_c0c1 ops) (bind (hs_send ops c0c1 1537) (\<lambda>nsize.
     seq (read_s0s1s2 ops) (seq check_version (seq (create_c2 ops) (seq copy_s1
       (bind (hs_send ops c2 1536) (\<lambda>nsize. ret ())))))))"

definition simple_handshake :: "'w hs_ops \<Rightarrow> (unit, 'w) act" where
  "simple_handshake ops w = (case handshake_steps ops (RtmpHandshakeBytes_new, w) of
     Done u (hs, w) \<Rightarrow> Done () w | Fail e (hs, w) \<Rightarrow> Fail e w | Crash q \<Rightarrow> Crash q)"

definition complex_handshake :: "(unit, 'w) act" where
  "complex_handshake = fail error_rtmp_complex_handshake_not_support"

definition handshake :: "'w hs_ops \<Rightarrow> (unit, 'w) act" where
  "handshake ops w = (case complex_handshake w of
     Done u w \<Rightarrow> Done () w | Fail e w \<Rightarrow> simple_handshake ops w | Crash q \<Rightarrow> Crash q)"

section \<open>RtmpClient: the commands\<close>

text \<open>\<open>client_io\<close> is the connection, \<open>protocol\<close> the handler over it.\<close>

record 'w RtmpClient =
  client_io :: 'w
  protocol :: "'w RtmpProtocolHandler option"

definition RtmpClient_new :: "'w \<Rightarrow> 'w RtmpClient" where
  "RtmpClient_new w = \<lparr>client_io = w, protocol = None\<rparr>"

definition on_protocol :: "('a, 'w RtmpProtocolHandler) act \<Rightarrow> ('a, 'w RtmpClient) act" where
  "on_protocol m = (\<lambda>c. case protocol c of None \<Rightarrow> Crash Null_Deref
     | Some p \<Rightarrow> (case m (p\<lparr>world := client_io c\<rparr>) of
         Done v p \<Rightarrow> Done v (c\<lparr>client_io := world p, protocol := Some p\<rparr>)
       | Fail e p \<Rightarrow> Fail e (c\<lparr>client_io := world p, protocol := Some p\<rparr>)
       | Crash q \<Rightarrow> Crash q))"

definition on_conn :: "('a, 'w) act \<Rightarrow> ('a, 'w RtmpClient) act" where
  "on_conn m = (\<lambda>c. case m (client_io c) of
     Done v w \<Rightarrow> Done v (c\<lparr>client_io := w\<rparr>) | Fail e w \<Rightarrow> Fail e (c\<lparr>client_io := w\<rparr>) | Crash q \<Rightarrow> Crash q)"

definition app_properties :: "bytes \<Rightarrow> bytes \<Rightarrow> (bytes \<times> amf0) list" where
  "app_properties path tc_url =
     [(lit ''app'', Amf0String (c_str path)), (lit ''flashVer'', Amf0String (lit ''WIN 15,0,0,239'')),
      (lit ''swfUrl'', Amf0String []), (lit ''tcUrl'', Amf0String (c_str tc_url)),
      (lit ''fpad'', Amf0Boolean False), (lit ''capabilities'', Amf0Number 0x406DE00000000000),
      (lit ''audioCodecs'', Amf0Number 0x40ABEE0000000000), (lit ''videoCodecs'', Amf0Number 0x406F800000000000),
      (lit ''videoFunction'', Amf0Number dbl_1), (lit ''pageUrl'', Amf0String []),
      (lit ''objectEncoding'', Amf0Number dbl_0)]"

text \<open>
  \<open>args\<close> is the null pointer of the packet's constructor; \<open>server_ip\<close> is set through it.
\<close>

definition connect_packet :: "bytes \<Rightarrow> bytes \<Rightarrow> (RtmpConnectAppPacket, 's) act" where
  "connect_packet path tc_url =
     (let p = RtmpConnectAppPacket_new\<lparr>connect_object :=
                foldl (\<lambda>obj (k, v). Amf0Object_set k v obj) (connect_object RtmpConnectAppPacket_new)
                  (app_properties path tc_url)\<rparr>
      in case connect_args p of None \<Rightarrow> crash Null_Deref
         | Some args \<Rightarrow> ret (p\<lparr>connect_args :=
             Some (Amf0Object_set (lit ''server_ip'') (Amf0String (lit ''127.0.0.1'')) args)\<rparr>))"

fun is_ConnectAppRes :: "rtmp_packet \<Rightarrow> bool" where
  "is_ConnectAppRes (ConnectAppRes p) \<longleftrightarrow> True"
| "is_ConnectAppRes _ \<longleftrightarrow> False"

fun is_CreateStreamRes :: "rtmp_packet \<Rightarrow> bool" where
  "is_CreateStreamRes (CreateStreamRes p) \<longleftrightarrow> True"
| "is_CreateStreamRes _ \<longleftrightarrow> False"

text \<open>The fuel: \<open>j\<close> for the chunks received, \<open>k\<close> for the pieces sent, \<open>n\<close> for the nesting of AMF0.\<close>

definition connect_app :: "nat \<Rightarrow> 'w host \<Rightarrow> nat \<Rightarrow> nat \<Rightarrow> bytes \<Rightarrow> bytes \<Rightarrow> (unit, 'w RtmpClient) act" where
  "connect_app j h k n path tc_url = bind (connect_packet path tc_url) (\<lambda>p.
     seq (on_protocol (send_packet h k (Some (ConnectApp p)) 0))
    (seq (on_protocol (send_packet h k (Some (SetWindowAckSize 2500000)) 0))
    (bind (on_protocol (expect_packet j h k n is_ConnectAppRes)) (\<lambda>response. ret ()))))"

text \<open>\<open>static_cast<int>\<close> of a double in range: the part before the point.\<close>

definition dbl_int :: "64 word \<Rightarrow> int" where
  "dbl_int x = (let e = unat (take_bit 11 (drop_bit 52 x)); m = 2 ^ 52 + uint (take_bit 52 x);
       v = (if e < 1023 then 0 else if e \<le> 1075 then m div 2 ^ (1075 - e) else m * 2 ^ (e - 1075))
     in if bit x 63 then - v else v)"

text \<open>The packet is declared, but never made.\<close>

definition create_stream :: "nat \<Rightarrow> 'w host \<Rightarrow> nat \<Rightarrow> nat \<Rightarrow> (int, 'w RtmpClient) act" where
  "create_stream j h k n = seq (on_protocol (send_packet h k None 0))
     (bind (on_protocol (expect_packet j h k n is_CreateStreamRes)) (\<lambda>response.
        case response of CreateStreamRes p \<Rightarrow> ret (dbl_int (stream_id p)) | _ \<Rightarrow> crash Null_Deref))"

text \<open>\<open>SetBufferLength\<close> and \<open>SetChunkSize\<close> are empty pointers: \<open>pkt->event_type = ...\<close> writes through null.\<close>

definition set_control :: "rtmp_packet option \<Rightarrow> (rtmp_packet \<Rightarrow> rtmp_packet) \<Rightarrow> (rtmp_packet, 's) act" where
  "set_control p f = (case p of None \<Rightarrow> crash Null_Deref | Some pkt \<Rightarrow> ret (f pkt))"

fun with_buffer_length :: "int \<Rightarrow> rtmp_packet \<Rightarrow> rtmp_packet" where
  "with_buffer_length sid (UserControl p) = UserControl (p\<lparr>event_type := SrcPCUCSetBufferLength,
     event_data := of_int sid, extra_data := 1000\<rparr>)"
| "with_buffer_length sid p = p"

fun with_chunk_size :: "rtmp_packet \<Rightarrow> rtmp_packet" where
  "with_chunk_size (SetChunkSize v) = SetChunkSize 4096"
| "with_chunk_size p = p"

definition client_play :: "'w host \<Rightarrow> nat \<Rightarrow> bytes \<Rightarrow> int \<Rightarrow> (unit, 'w RtmpClient) act" where
  "client_play h k stream sid =
     seq (on_protocol (send_packet h k (Some (Play (RtmpPlayPacket_new\<lparr>play_stream_name := stream\<rparr>))) sid))
    (bind (set_control None (with_buffer_length sid)) (\<lambda>pkt_user_control.
     seq (on_protocol (send_packet h k (Some pkt_user_control) 0))
    (bind (set_control None with_chunk_size) (\<lambda>pkt_set_chunk_size.
     on_protocol (send_packet h k (Some pkt_set_chunk_size) 0)))))"

definition client_publish :: "bytes \<Rightarrow> int \<Rightarrow> (unit, 'w RtmpClient) act" where
  "client_publish stream sid = ret ()"

definition fmle_publish :: "bytes \<Rightarrow> int \<Rightarrow> (unit, 'w RtmpClient) act" where
  "fmle_publish stream sid = ret ()"

definition client_connect ::
    "nat \<Rightarrow> 'w hs_ops \<Rightarrow> 'w host \<Rightarrow> nat \<Rightarrow> nat \<Rightarrow> bytes \<Rightarrow> bytes \<Rightarrow> (int, 'w RtmpClient) act" where
  "client_connect j ops h k n request_url path = seq (on_conn (handshake ops))
     (seq (connect_app j h k n path request_url) (create_stream j h k n))"

definition RtmpClient_request :: "nat \<Rightarrow> 'w hs_ops \<Rightarrow> 'w host \<Rightarrow> nat \<Rightarrow> nat \<Rightarrow> (int \<Rightarrow> bytes \<Rightarrow> 'w \<Rightarrow> 'w)
    \<Rightarrow> bytes \<Rightarrow> bytes \<Rightarrow> bytes \<Rightarrow> bytes \<Rightarrow> (unit, 'w RtmpClient) act" where
  "RtmpClient_request j ops h k n on_ingest origin_host origin_path stream prm =
     bind (client_connect j ops h k n
             (generate_tc_url origin_host origin_host origin_path (lit ''1935'') prm) origin_path) (\<lambda>sid.
     seq (client_play h k stream sid)
         (\<lambda>c. Done () (c\<lparr>client_io := on_ingest 0 [] (client_io c)\<rparr>)))"

definition RtmpClient_read_data :: "nat \<Rightarrow> 'w host \<Rightarrow> nat \<Rightarrow> nat \<Rightarrow> bytes \<Rightarrow> int
    \<Rightarrow> (int \<times> block option, 'w RtmpClient) act" where
  "RtmpClient_read_data j h k n dst sz = on_protocol (recv_message j h k n dst sz)"

definition RtmpClient_write_data :: "bytes \<Rightarrow> int \<Rightarrow> (unit, 'w RtmpClient) act" where
  "RtmpClient_write_data src sz = on_protocol (send_message src sz)"

definition RtmpClient_cycle :: "(unit, 'w RtmpClient) act" where
  "RtmpClient_cycle = ret ()"

end
