(* ===== verification/Rtmp_Client_Props.thy ===== *)
theory Rtmp_Client_Props
  imports Rtmp_Client
begin

text \<open>What the handshake of \<open>Rtmp_Client\<close> writes, and how far a client gets with it.\<close>

section \<open>Writing at the start of a block\<close>





section \<open>The handshake\<close>









text \<open>The later steps would not work either: three pointers they write through are null.\<close>

lemma connect_app_null: "connect_app j h k n path tc_url c = Crash Null_Deref"
  by (simp add: connect_app_def connect_packet_def RtmpConnectAppPacket_new_def Let_def bind_def crash_def)

lemma create_stream_null: "create_stream j h k n c = Crash Null_Deref"
  by (simp add: create_stream_def seq_def bind_def on_protocol_def send_packet_def crash_def split: option.split)

end
