(* ===== verification/Coroutine.thy ===== *)
theory Coroutine
  imports Tmss_Base
begin

text \<open>
  Coroutines: \<open>STCoroutine\<close> and \<open>ICoroutineHandler\<close> of \<open>src/base/coroutine/coroutine.cpp\<close>.  The first
  part translates their member functions, cut where they wait; the second puts one coroutine, its
  handler, the owners of the handler and a coroutine that stops it together as a step relation.
  The State Threads library switches between coroutines only where one of them waits, so what a
  function does between two waits is one step.
\<close>

abbreviation (input) error_cothread_start :: int where "error_cothread_start \<equiv> 10020"
abbreviation (input) error_cothread_interrupt :: int where "error_cothread_interrupt \<equiv> 10021"
abbreviation (input) error_cothread_stop :: int where "error_cothread_stop \<equiv> 10022"

section \<open>STCoroutine\<close>

definition get_ctx_id :: "32 word \<Rightarrow> 32 word" where
  "get_ctx_id cid = (let cid = cid + 1 in if sint cid < 0 then 0 else cid)"

record STCoroutine =
  co_name :: bytes
  co_context :: "32 word"
  trd :: bool
  trd_err :: int
  started :: bool
  interrupted :: bool
  disposed :: bool
  cycle_done :: bool

definition STCoroutine_new :: "bytes \<Rightarrow> 32 word \<Rightarrow> STCoroutine" where
  "STCoroutine_new n cid = \<lparr>co_name = n, co_context = cid, trd = False, trd_err = 0, started = False,
     interrupted = False, disposed = False, cycle_done = False\<rparr>"

text \<open>\<open>created\<close> says whether \<open>st_thread_create\<close> gives a thread.\<close>

definition co_start :: "bool \<Rightarrow> STCoroutine \<Rightarrow> int \<times> STCoroutine" where
  "co_start created c =
     (if started c \<or> disposed c then
        (error_cothread_start, if trd_err c = 0 then c\<lparr>trd_err := error_cothread_start\<rparr> else c)
      else if \<not> created then (error_cothread_start, c\<lparr>trd := False, trd_err := error_cothread_start\<rparr>)
      else (0, c\<lparr>trd := True, started := True\<rparr>))"

definition co_interrupt :: "STCoroutine \<Rightarrow> STCoroutine" where
  "co_interrupt c =
     (if \<not> started c \<or> interrupted c \<or> cycle_done c then c
      else (let c = c\<lparr>interrupted := True\<rparr>
            in if trd_err c = 0 then c\<lparr>trd_err := error_cothread_interrupt\<rparr> else c))"

text \<open>\<open>stop\<close> up to the wait (does it wait?), and from there on.\<close>

definition stop_end :: "STCoroutine \<Rightarrow> STCoroutine" where
  "stop_end c = (if trd_err c = 0 \<and> \<not> cycle_done c then c\<lparr>trd_err := error_cothread_stop\<rparr> else c)"

definition stop_begin :: "STCoroutine \<Rightarrow> bool \<times> STCoroutine" where
  "stop_begin c =
     (if disposed c then (False, c)
      else (let c = co_interrupt (c\<lparr>disposed := True\<rparr>) in if trd c then (True, c) else (False, stop_end c)))"

definition pull :: "STCoroutine \<Rightarrow> int" where
  "pull c = trd_err c"

definition co_cid :: "STCoroutine \<Rightarrow> 32 word" where
  "co_cid c = co_context c"

text \<open>\<open>cycle\<close> after the handler's \<open>cycle\<close> has returned: everyone who waits is woken before.\<close>

definition cycle_end :: "STCoroutine \<Rightarrow> STCoroutine" where
  "cycle_end c = c\<lparr>disposed := True, cycle_done := True\<rparr>"

text \<open>The end of \<open>pfn\<close>.\<close>

definition pfn_end :: "int \<Rightarrow> STCoroutine \<Rightarrow> STCoroutine" where
  "pfn_end err c = (if err \<noteq> 0 then c\<lparr>trd_err := err\<rparr> else c)"

section \<open>ICoroutineHandler\<close>

record ICoroutineHandler =
  coroutine_name :: bytes
  h_co :: "STCoroutine option"
  h_running :: bool

definition ICoroutineHandler_new :: "bytes \<Rightarrow> ICoroutineHandler" where
  "ICoroutineHandler_new n = \<lparr>coroutine_name = n, h_co = None, h_running = False\<rparr>"

text \<open>
  The coroutine that is replaced has ended (\<open>co_handler_ok\<close> below), so that its destructor does not wait.
\<close>

definition handler_start :: "bool \<Rightarrow> 32 word \<Rightarrow> (unit, ICoroutineHandler) act" where
  "handler_start created cid h =
     (if \<not> h_running h then
        (case co_start created (STCoroutine_new (coroutine_name h) cid) of (rc, c) \<Rightarrow>
           let h = h\<lparr>h_co := Some c, h_running := True\<rparr> in if rc = 0 then Done () h else Fail rc h)
      else Done () h)"

definition handler_stop :: "(bool, ICoroutineHandler) act" where
  "handler_stop h = (case h_co h of None \<Rightarrow> Crash Null_Deref
     | Some c \<Rightarrow> (case stop_begin c of (w, c) \<Rightarrow> Done w (h\<lparr>h_co := Some c\<rparr>)))"

definition on_thread_stop :: "(unit, ICoroutineHandler) act" where
  "on_thread_stop h = Done () (h\<lparr>h_running := False\<rparr>)"

definition co_handler_ok :: "ICoroutineHandler \<Rightarrow> bool" where
  "co_handler_ok h \<longleftrightarrow> h_running h \<or> (case h_co h of None \<Rightarrow> True | Some c \<Rightarrow> disposed c)"

section \<open>One coroutine and those around it\<close>

datatype phase = Not_Created | Ready | In_Cycle | Ended

text \<open>
  \<open>obj\<close> is the \<open>STCoroutine\<close>, \<open>None\<close> once it is destroyed; it belongs to its handler alone.  \<open>owners\<close>
  counts the shared pointers to the handler outside of the coroutine: while the handler's \<open>cycle\<close>
  runs, \<open>handler.lock ()\<close> holds one more.  \<open>stopping\<close>: someone waits in \<open>stop\<close>; \<open>destroying\<close>: it is
  the destructor that waits there.
\<close>

record co_sys =
  obj :: "STCoroutine option"
  thread :: phase
  owners :: nat
  stopping :: bool
  destroying :: bool

definition co_init :: "bytes \<Rightarrow> 32 word \<Rightarrow> co_sys" where
  "co_init n cid = \<lparr>obj = Some (STCoroutine_new n cid), thread = Not_Created, owners = 1,
     stopping = False, destroying = False\<rparr>"

text \<open>The last owner but the coroutine itself goes: the handler's destructor destroys the object.\<close>

definition destroy :: "co_sys \<Rightarrow> co_sys" where
  "destroy s = (case obj s of None \<Rightarrow> s
     | Some c \<Rightarrow> (case stop_begin c of (w, c) \<Rightarrow>
         if w then s\<lparr>obj := Some c, stopping := True, destroying := True\<rparr> else s\<lparr>obj := None\<rparr>))"

definition drop_owner :: "co_sys \<Rightarrow> co_sys" where
  "drop_owner s = (let s = s\<lparr>owners := owners s - 1\<rparr> in if owners s = 0 then destroy s else s)"

text \<open>
  The coroutine's own thread, from the return of the handler's \<open>cycle\<close> with \<open>err\<close> to its end.  First
  the pointer of \<open>handler.lock ()\<close> goes, and the handler and the object with it if it was the last.
  \<open>gives_up\<close> says whether \<open>on_thread_stop\<close> removes an owner, as that of \<open>HttpConnHandler\<close> does.
\<close>

definition wake :: "co_sys \<Rightarrow> co_sys" where
  "wake s = s\<lparr>stopping := False\<rparr>"

definition thread_end :: "int \<Rightarrow> bool \<Rightarrow> (unit, co_sys) act" where
  "thread_end err gives_up s =
     (if owners s = 0 then Crash Use_After_Free
      else case obj s of None \<Rightarrow> Crash Use_After_Free
      | Some c \<Rightarrow>
         (let s = (wake s)\<lparr>obj := Some (cycle_end c), thread := Ended\<rparr>;
              s = (if gives_up then drop_owner s else s)
          in case obj s of
               None \<Rightarrow> if err \<noteq> 0 then Crash Use_After_Free else Done () s
             | Some c \<Rightarrow> Done () (s\<lparr>obj := Some (pfn_end err c)\<rparr>)))"

text \<open>The start of the thread: \<open>handler.lock ()\<close> fails when the handler is gone.\<close>

definition thread_begin :: "(unit, co_sys) act" where
  "thread_begin s = (if obj s = None then Crash Use_After_Free
     else if owners s = 0 then Done () (s\<lparr>thread := Ended\<rparr>) else Done () (s\<lparr>thread := In_Cycle\<rparr>))"

definition start_step :: "bool \<Rightarrow> co_sys \<Rightarrow> co_sys" where
  "start_step created s = (case obj s of None \<Rightarrow> s
     | Some c \<Rightarrow> (case co_start created c of (rc, c) \<Rightarrow>
         s\<lparr>obj := Some c, thread := if rc = 0 then Ready else thread s\<rparr>))"

definition stop_step :: "co_sys \<Rightarrow> co_sys" where
  "stop_step s = (case obj s of None \<Rightarrow> s
     | Some c \<Rightarrow> (case stop_begin c of (w, c) \<Rightarrow> s\<lparr>obj := Some c, stopping := stopping s \<or> w\<rparr>))"

text \<open>
  A coroutine that stops itself does not wait: the interrupt it has just sent ends its own wait.
\<close>

definition stop_self_step :: "co_sys \<Rightarrow> co_sys" where
  "stop_self_step s = (case obj s of None \<Rightarrow> s
     | Some c \<Rightarrow> (case stop_begin c of (w, c) \<Rightarrow> s\<lparr>obj := Some (if w then stop_end c else c)\<rparr>))"

definition interrupt_step :: "co_sys \<Rightarrow> co_sys" where
  "interrupt_step s = s\<lparr>obj := map_option co_interrupt (obj s)\<rparr>"

text \<open>
  Who calls a member function has a pointer to the handler; one who waits in \<open>stop\<close> keeps it.  When
  the coroutine itself drops the last pointer from inside \<open>cycle\<close>, nothing is destroyed yet.
\<close>

inductive co_step :: "co_sys \<Rightarrow> (unit, co_sys) outcome \<Rightarrow> bool" where
  Start: "0 < owners s \<Longrightarrow> co_step s (Done () (start_step created s))"
| Stop: "0 < owners s \<Longrightarrow> co_step s (Done () (stop_step s))"
| Stop_self: "0 < owners s \<Longrightarrow> thread s = In_Cycle \<Longrightarrow> obj s = Some c \<Longrightarrow> \<not> interrupted c
    \<Longrightarrow> co_step s (Done () (stop_self_step s))"
| Interrupt: "0 < owners s \<Longrightarrow> co_step s (Done () (interrupt_step s))"
| Share: "0 < owners s \<Longrightarrow> co_step s (Done () (s\<lparr>owners := owners s + 1\<rparr>))"
| Drop: "1 < owners s \<Longrightarrow> co_step s (Done () (s\<lparr>owners := owners s - 1\<rparr>))"
| Drop_last: "owners s = 1 \<Longrightarrow> \<not> stopping s \<Longrightarrow> thread s \<noteq> In_Cycle \<Longrightarrow> co_step s (Done () (drop_owner s))"
| Drop_inside: "owners s = 1 \<Longrightarrow> \<not> stopping s \<Longrightarrow> thread s = In_Cycle \<Longrightarrow> co_step s (Done () (s\<lparr>owners := 0\<rparr>))"
| Begin: "thread s = Ready \<Longrightarrow> co_step s (thread_begin s)"
| End: "thread s = In_Cycle \<Longrightarrow> (gives_up \<Longrightarrow> stopping s \<Longrightarrow> 1 < owners s)
    \<Longrightarrow> co_step s (thread_end err gives_up s)"

text \<open>
  A disciplined run: the handler keeps an owner while its thread is ready or inside \<open>cycle\<close>, and a
  cycle that ends in an error does not give up the last one.
\<close>

definition kept :: "co_sys \<Rightarrow> bool" where
  "kept s \<longleftrightarrow> (thread s = Ready \<or> thread s = In_Cycle \<longrightarrow> 0 < owners s)"

inductive co_reach :: "co_sys \<Rightarrow> bool" where
  Init: "co_reach (co_init n cid)"
| Step: "co_reach s \<Longrightarrow> co_step s (Done () t) \<Longrightarrow> co_reach t"

inductive co_run :: "co_sys \<Rightarrow> bool" where
  Run_init: "co_run (co_init n cid)"
| Run_step: "co_run s \<Longrightarrow> co_step s (Done () t) \<Longrightarrow> kept t \<Longrightarrow> co_run t"

inductive_cases co_stepE: "co_step s r"

end
