(* ===== verification/Coroutine_Props.thy ===== *)
theory Coroutine_Props
  imports Coroutine
begin

text \<open>What holds of coroutines whose handler stays alive, and what happens to the others.\<close>

section \<open>Handlers\<close>

lemma co_handler_ok_new: "co_handler_ok (ICoroutineHandler_new n)"
  by (simp add: co_handler_ok_def ICoroutineHandler_new_def)

lemma co_handler_ok_start: "co_handler_ok h \<Longrightarrow> case handler_start created cid h of
    Done u h' \<Rightarrow> co_handler_ok h' | Fail e h' \<Rightarrow> co_handler_ok h' | Crash q \<Rightarrow> False"
  by (auto simp: handler_start_def co_handler_ok_def Let_def split: prod.splits)

lemma disposed_stop: "stop_begin c = (w, c') \<Longrightarrow> disposed c'"
  by (auto simp: stop_begin_def stop_end_def co_interrupt_def Let_def split: if_splits)

section \<open>The invariant of a disciplined run\<close>

definition co_inv :: "co_sys \<Rightarrow> bool" where
  "co_inv s \<longleftrightarrow> \<not> destroying s \<and> (stopping s \<longrightarrow> (thread s = Ready \<or> thread s = In_Cycle) \<and> 0 < owners s)
     \<and> (owners s = 0 \<longleftrightarrow> obj s = None) \<and> kept s
     \<and> (\<forall>c. obj s = Some c \<longrightarrow> (trd c \<longleftrightarrow> thread s \<noteq> Not_Created) \<and> (started c \<longleftrightarrow> trd c)
          \<and> (thread s = Ended \<longrightarrow> disposed c \<and> cycle_done c))"

lemma stop_beginD:
  "stop_begin c = (w, c') \<Longrightarrow> trd c' = trd c \<and> started c' = started c \<and> cycle_done c' = cycle_done c
     \<and> disposed c' \<and> (w \<longleftrightarrow> trd c \<and> \<not> disposed c)"
  by (auto simp: stop_begin_def stop_end_def co_interrupt_def Let_def split: if_splits)

lemma co_startD:
  "co_start created c = (rc, c') \<Longrightarrow> disposed c' = disposed c \<and> cycle_done c' = cycle_done c
     \<and> (if rc = 0 then \<not> started c \<and> started c' \<and> trd c' else started c' = started c \<and> (trd c' \<longleftrightarrow> trd c \<and> (started c \<or> disposed c)))"
  by (auto simp: co_start_def split: if_splits)

lemma stop_end_sel [simp]:
  "trd (stop_end c) = trd c" "started (stop_end c) = started c" "disposed (stop_end c) = disposed c"
  "cycle_done (stop_end c) = cycle_done c"
  by (simp_all add: stop_end_def)

lemma co_interrupt_sel [simp]:
  "trd (co_interrupt c) = trd c" "started (co_interrupt c) = started c" "disposed (co_interrupt c) = disposed c"
  "cycle_done (co_interrupt c) = cycle_done c"
  by (simp_all add: co_interrupt_def Let_def)

lemma later_sel [simp]:
  "trd (cycle_end c) = trd c" "started (cycle_end c) = started c" "disposed (cycle_end c)" "cycle_done (cycle_end c)"
  "trd (pfn_end e c) = trd c" "started (pfn_end e c) = started c" "disposed (pfn_end e c) = disposed c"
  "cycle_done (pfn_end e c) = cycle_done c"
  by (simp_all add: cycle_end_def pfn_end_def)

lemma co_inv_init: "co_inv (co_init n cid)"
  by (simp add: co_inv_def co_init_def kept_def STCoroutine_new_def)

lemma co_inv_obj: "co_inv s \<Longrightarrow> 0 < owners s \<Longrightarrow> \<exists>c. obj s = Some c"
  by (auto simp: co_inv_def)

lemma co_inv_start:
  assumes "co_inv s" "0 < owners s"
  shows "co_inv (start_step created s)"
proof -
  obtain c where c: "obj s = Some c" using co_inv_obj [OF assms] by blast
  obtain rc c' where b: "co_start created c = (rc, c')" by force
  show ?thesis using co_startD [OF b] b c assms
    by (auto simp: start_step_def co_inv_def kept_def split: if_splits)
qed

lemma co_inv_stop:
  assumes "co_inv s" "0 < owners s"
  shows "co_inv (stop_step s)"
proof -
  obtain c where c: "obj s = Some c" using co_inv_obj [OF assms] by blast
  obtain w c' where b: "stop_begin c = (w, c')" by force
  show ?thesis using stop_beginD [OF b] b c assms
    by (cases "thread s") (auto simp: stop_step_def co_inv_def kept_def)
qed

lemma co_inv_stop_self:
  assumes "co_inv s" "0 < owners s"
  shows "co_inv (stop_self_step s)"
proof -
  obtain c where c: "obj s = Some c" using co_inv_obj [OF assms] by blast
  obtain w c' where b: "stop_begin c = (w, c')" by force
  show ?thesis using stop_beginD [OF b] b c assms
    by (auto simp: stop_self_step_def co_inv_def kept_def)
qed

lemma co_inv_interrupt: "co_inv s \<Longrightarrow> co_inv (interrupt_step s)"
  by (auto simp: interrupt_step_def co_inv_def kept_def)

lemma co_inv_share: "co_inv s \<Longrightarrow> 0 < owners s \<Longrightarrow> 0 < n \<Longrightarrow> co_inv (s\<lparr>owners := n\<rparr>)"
  by (auto simp: co_inv_def kept_def)

lemma co_inv_destroy:
  assumes "co_inv s" "owners s = 1" "\<not> stopping s" "thread s = Not_Created \<or> thread s = Ended"
  shows "drop_owner s = s\<lparr>owners := 0, obj := None\<rparr>"
proof -
  obtain c where c: "obj s = Some c" using co_inv_obj [OF assms(1)] assms(2) by auto
  obtain w c' where b: "stop_begin c = (w, c')" by force
  have "\<not> w" using stop_beginD [OF b] assms c by (auto simp: co_inv_def)
  with b c assms(2) show ?thesis by (simp add: drop_owner_def destroy_def)
qed

lemma co_inv_begin: "co_inv s \<Longrightarrow> thread s = Ready \<Longrightarrow> thread_begin s = Done () (s\<lparr>thread := In_Cycle\<rparr>)"
  by (auto simp: thread_begin_def co_inv_def kept_def)

text \<open>How the thread ends: the object lives on, or nobody uses it any more.\<close>

lemma co_inv_end:
  assumes "co_inv s" "thread s = In_Cycle" "obj s = Some c" "gives_up \<Longrightarrow> stopping s \<Longrightarrow> 1 < owners s"
  shows "thread_end err gives_up s =
     (if gives_up \<and> owners s = 1
      then if err \<noteq> 0 then Crash Use_After_Free
           else Done () (s\<lparr>stopping := False, thread := Ended, owners := 0, obj := None\<rparr>)
      else Done () (s\<lparr>stopping := False, thread := Ended, obj := Some (pfn_end err (cycle_end c)),
             owners := owners s - of_bool gives_up\<rparr>))"
proof -
  have pos: "0 < owners s" using assms by (auto simp: co_inv_def kept_def)
  let ?t = "(wake s)\<lparr>obj := Some (cycle_end c), thread := Ended\<rparr>"
  show ?thesis
  proof (cases "gives_up \<and> owners s = 1")
    case True
    have "co_inv ?t" using assms True by (auto simp: co_inv_def kept_def wake_def)
    moreover have "owners ?t = 1" "\<not> stopping ?t" "thread ?t = Ended" using True by (simp_all add: wake_def)
    ultimately have "drop_owner ?t = ?t\<lparr>owners := 0, obj := None\<rparr>" by (intro co_inv_destroy) auto
    with True pos assms(3) show ?thesis by (simp add: thread_end_def Let_def) (simp add: wake_def)
  next
    case False
    with pos assms(3) show ?thesis
      by (auto simp: thread_end_def Let_def drop_owner_def wake_def)
  qed
qed

lemma co_inv_step:
  assumes "co_step s (Done () t)" "co_inv s" "kept t"
  shows "co_inv t"
  using assms(1)
proof (cases rule: co_step.cases)
  case Drop_last
  with assms(2,3) have "thread s = Not_Created \<or> thread s = Ended"
    by (cases "thread s") (auto simp: kept_def drop_owner_def destroy_def Let_def split: option.splits prod.splits if_splits)
  with Drop_last assms(2) co_inv_destroy [of s] show ?thesis by (auto simp: co_inv_def kept_def)
next
  case (End gives_up err)
  then obtain c where c: "obj s = Some c" using assms(2) by (auto simp: co_inv_def kept_def)
  with End co_inv_end [OF assms(2) _ c, of gives_up err] assms(2) show ?thesis
    by (auto simp: co_inv_def kept_def split: if_splits)
next
  case Begin
  with co_inv_begin [OF assms(2)] assms(2) show ?thesis by (auto simp: co_inv_def kept_def)
next
  case Drop_inside
  with assms(3) show ?thesis by (simp add: kept_def)
qed (use assms(2) in \<open>auto simp: co_inv_start co_inv_stop co_inv_stop_self co_inv_interrupt co_inv_share\<close>)

lemma co_run_inv: "co_run s \<Longrightarrow> co_inv s"
  by (induction rule: co_run.induct) (auto intro: co_inv_init co_inv_step)

section \<open>Disciplined runs\<close>

text \<open>
  C4: As long as the handler of a coroutine has an owner while its thread is ready or in \<open>cycle\<close>: whoever
  waits in \<open>stop\<close> waits for a thread that is still to end; the thread always gets into \<open>cycle\<close>, and its
  end wakes the waiter, without an error of memory unless it gives up the last owner after an error; and
  no coroutine is started twice.
\<close>

theorem coroutine_safe:
  assumes "co_run s"
  shows "(stopping s \<longrightarrow> thread s = Ready \<or> thread s = In_Cycle)
    \<and> (thread s = Ready \<longrightarrow> thread_begin s = Done () (s\<lparr>thread := In_Cycle\<rparr>))
    \<and> (thread s = In_Cycle \<and> (err = 0 \<or> \<not> gives_up \<or> 1 < owners s) \<and> (gives_up \<and> stopping s \<longrightarrow> 1 < owners s)
         \<longrightarrow> (\<exists>t. thread_end err gives_up s = Done () t \<and> thread t = Ended \<and> \<not> stopping t))
    \<and> (thread s \<noteq> Not_Created \<longrightarrow> thread (start_step created s) = thread s)"
proof (intro conjI impI)
  note inv = co_run_inv [OF assms]
  show "stopping s \<Longrightarrow> thread s = Ready \<or> thread s = In_Cycle" using inv by (simp add: co_inv_def)
  show "thread s = Ready \<Longrightarrow> thread_begin s = Done () (s\<lparr>thread := In_Cycle\<rparr>)"
    by (rule co_inv_begin [OF inv])
  assume e: "thread s = In_Cycle \<and> (err = 0 \<or> \<not> gives_up \<or> 1 < owners s) \<and> (gives_up \<and> stopping s \<longrightarrow> 1 < owners s)"
  then obtain c where c: "obj s = Some c" using inv by (auto simp: co_inv_def kept_def)
  show "\<exists>t. thread_end err gives_up s = Done () t \<and> thread t = Ended \<and> \<not> stopping t"
    using co_inv_end [OF inv _ c, of gives_up err] e by auto
next
  assume "thread s \<noteq> Not_Created"
  with co_run_inv [OF assms] show "thread (start_step created s) = thread s"
    by (auto simp: start_step_def co_inv_def dest!: co_startD split: option.split prod.split)
qed

text \<open>A coroutine that is started and then stopped from outside.\<close>

lemma started_run: "co_run (start_step True (co_init n cid))"
  by (rule Run_step [OF Run_init Start])
    (simp_all add: co_init_def kept_def start_step_def STCoroutine_new_def co_start_def)

lemma stopped_run: "co_run (stop_step (start_step True (co_init n cid)))"
  by (rule Run_step [OF started_run Stop])
    (simp_all add: co_init_def kept_def start_step_def STCoroutine_new_def co_start_def stop_step_def
      stop_begin_def co_interrupt_def)

theorem coroutine_safe_witness:
  "let s = stop_step (start_step True (co_init (lit ''server_base'') 1))
   in stopping s \<and> thread_begin s = Done () (s\<lparr>thread := In_Cycle\<rparr>) \<and> thread (start_step True s) = thread s"
proof -
  let ?s = "stop_step (start_step True (co_init (lit ''server_base'') 1))"
  have "stopping ?s" "thread ?s = Ready"
    by (simp_all add: co_init_def start_step_def STCoroutine_new_def co_start_def stop_step_def
        stop_begin_def co_interrupt_def)
  with coroutine_safe [OF stopped_run, of "lit ''server_base''" 1 0 False True] show ?thesis by (simp add: Let_def)
qed

section \<open>The others\<close>


text \<open>
  A coroutine whose \<open>cycle\<close> ends in an error and whose \<open>on_thread_stop\<close> gives up the last owner of the
  handler stores its error in an object that is gone.
\<close>

lemma use_after_free:
  assumes "co_run s" "thread s = In_Cycle" "owners s = 1" "\<not> stopping s" "err \<noteq> 0"
  shows "thread_end err True s = Crash Use_After_Free"
proof -
  note inv = co_run_inv [OF assms(1)]
  obtain c where c: "obj s = Some c" using inv assms(3) co_inv_obj by fastforce
  show ?thesis using co_inv_end [OF inv assms(2) c, of True err] assms by simp
qed

lemma cycling_run: "co_run (start_step True (co_init n cid)\<lparr>thread := In_Cycle\<rparr>)"
proof -
  let ?a = "start_step True (co_init n cid)"
  have a: "thread ?a = Ready" "owners ?a = 1"
    by (simp_all add: co_init_def start_step_def STCoroutine_new_def co_start_def)
  show ?thesis
    by (rule Run_step [OF started_run]) (use Begin [OF a(1)] co_inv_begin [OF co_run_inv [OF started_run] a(1)] a in
        \<open>simp_all add: kept_def\<close>)
qed

end
