(* ===== verification/St_Tcp.thy ===== *)
theory St_Tcp
  imports Tcp_Conn Cpp_String
begin

text \<open>
  \<open>src/transport/st_trans/st_tcp.cpp\<close> and the listening side of \<open>src/transport/tmss_trans_tcp.cpp\<close>.  The
  calls of the operating system and of the State Threads library are the fields of \<open>os_ops\<close>, on a
  state \<open>'k\<close> of the system; an \<open>st_netfd_t\<close> is a \<open>nat\<close>, or \<open>None\<close> for the null pointer.
\<close>

abbreviation (input) error_socket_create :: int where "error_socket_create \<equiv> 10002"
abbreviation (input) error_socket_open :: int where "error_socket_open \<equiv> 10003"
abbreviation (input) error_socket_read :: int where "error_socket_read \<equiv> 10004"
abbreviation (input) error_socket_write :: int where "error_socket_write \<equiv> 10005"
abbreviation (input) error_socket_bind :: int where "error_socket_bind \<equiv> 10006"
abbreviation (input) error_socket_listen :: int where "error_socket_listen \<equiv> 10007"
abbreviation (input) error_socket_timeout :: int where "error_socket_timeout \<equiv> 10008"
abbreviation (input) error_socket_set_resuse :: int where "error_socket_set_resuse \<equiv> 10010"
abbreviation (input) error_socket_connect :: int where "error_socket_connect \<equiv> 10011"
abbreviation (input) error_system_ip_invalid :: int where "error_system_ip_invalid \<equiv> 10012"
abbreviation (input) ETIME :: int where "ETIME \<equiv> 62"

datatype sockopt = SO_REUSEADDR | SO_REUSEPORT

record 'k os_ops =
  os_socket :: "'k \<Rightarrow> int \<times> 'k"
  os_open :: "int \<Rightarrow> 'k \<Rightarrow> nat option \<times> 'k"
  os_netfd_close :: "nat option \<Rightarrow> 'k \<Rightarrow> int \<times> 'k"
  os_close :: "int \<Rightarrow> 'k \<Rightarrow> 'k"
  os_fileno :: "nat \<Rightarrow> 'k \<Rightarrow> int"
  os_setsockopt :: "int \<Rightarrow> sockopt \<Rightarrow> int \<Rightarrow> 'k \<Rightarrow> int \<times> 'k"
  os_getaddrinfo :: "bytes \<Rightarrow> bytes \<Rightarrow> 'k \<Rightarrow> (int \<times> bytes) \<times> 'k"
  os_bind :: "int \<Rightarrow> bytes \<Rightarrow> 'k \<Rightarrow> int \<times> 'k"
  os_listen :: "int \<Rightarrow> int \<Rightarrow> 'k \<Rightarrow> int \<times> 'k"
  os_inet_addr :: "bytes \<Rightarrow> 32 word"
  os_gethostbyname :: "bytes \<Rightarrow> 'k \<Rightarrow> (int \<times> bytes) option \<times> 'k"
  os_connect :: "nat \<Rightarrow> 32 word \<Rightarrow> 16 word \<Rightarrow> 'k \<Rightarrow> int \<times> 'k"
  os_accept :: "nat option \<Rightarrow> 'k \<Rightarrow> nat option \<times> 'k"
  os_read :: "nat option \<Rightarrow> int \<Rightarrow> 'k \<Rightarrow> (int \<times> bytes) \<times> 'k"
  os_read_fully :: "nat option \<Rightarrow> int \<Rightarrow> 'k \<Rightarrow> (int \<times> bytes) \<times> 'k"
  os_write :: "nat option \<Rightarrow> bytes \<Rightarrow> 'k \<Rightarrow> int \<times> 'k"
  os_writev :: "nat option \<Rightarrow> bytes list \<Rightarrow> 'k \<Rightarrow> int \<times> 'k"
  os_errno :: "'k \<Rightarrow> int"

section \<open>Descriptors\<close>

text \<open>
  A host name is looked up unless it is an address already.  Of the answer the model has the length of
  the addresses and the text of the first; without one, the result is the zeroed \<open>ipv4\<close>, as empty as
  that of a failed lookup.
\<close>

definition dns_resolve :: "'k os_ops \<Rightarrow> bytes \<Rightarrow> 'k \<Rightarrow> bytes \<times> 'k" where
  "dns_resolve os hostname k =
     (if os_inet_addr os (c_str hostname) \<noteq> 0xFFFFFFFF then (hostname, k)
      else case os_gethostbyname os (c_str hostname) k of
        (None, k) \<Rightarrow> ([], k)
      | (Some (len, ipv4), k) \<Rightarrow> (if 0 < len then c_str ipv4 else [], k))"

definition st_tcp_create_fd :: "'k os_ops \<Rightarrow> 'k \<Rightarrow> (int \<times> nat option) \<times> 'k" where
  "st_tcp_create_fd os k = (case os_socket os k of (sock, k) \<Rightarrow>
     if sock < 0 then ((error_socket_create, None), k)
     else case os_open os sock k of
       (None, k) \<Rightarrow> ((error_socket_open, None), os_close os sock k)
     | (Some fd, k) \<Rightarrow> ((0, Some fd), k))"

definition st_tcp_close :: "'k os_ops \<Rightarrow> nat option \<Rightarrow> 'k \<Rightarrow> (int \<times> nat option) \<times> 'k" where
  "st_tcp_close os fd k = (case os_netfd_close os fd k of (r, k) \<Rightarrow>
     if r \<noteq> 0 then ((r, fd), k) else ((0, None), k))"

definition st_tcp_fd_reuseaddr :: "'k os_ops \<Rightarrow> int \<Rightarrow> int \<Rightarrow> (unit, 'k) act" where
  "st_tcp_fd_reuseaddr os fd enable k = (case os_setsockopt os fd SO_REUSEADDR enable k of (r, k) \<Rightarrow>
     if r = -1 then Fail error_socket_set_resuse k else Done () k)"

definition st_tcp_fd_reuseport :: "'k os_ops \<Rightarrow> int \<Rightarrow> (unit, 'k) act" where
  "st_tcp_fd_reuseport os fd k = (case os_setsockopt os fd SO_REUSEPORT 1 k of (r, k) \<Rightarrow>
     if r = -1 then Fail error_socket_set_resuse k else Done () k)"

text \<open>The steps of \<open>st_tcp_listen\<close>; a \<open>Fail\<close> is a \<open>goto failed\<close>.\<close>

definition port_text :: "int \<Rightarrow> bytes" where
  "port_text p = take 7 (if p < 0 then 45 # decimal (nat (- p)) else decimal (nat p))"

definition lookup_self :: "'k os_ops \<Rightarrow> bytes \<Rightarrow> int \<Rightarrow> (bytes, 'k) act" where
  "lookup_self os server port k = (case os_getaddrinfo os (c_str server) (port_text port) k of ((r, addr), k) \<Rightarrow>
     if r \<noteq> 0 then Fail error_socket_bind k else Done addr k)"

definition bind_to :: "'k os_ops \<Rightarrow> int \<Rightarrow> bytes \<Rightarrow> (unit, 'k) act" where
  "bind_to os fileno addr k = (case os_bind os fileno addr k of (r, k) \<Rightarrow>
     if r = -1 then Fail error_socket_bind k else Done () k)"

definition listen_on :: "'k os_ops \<Rightarrow> int \<Rightarrow> int \<Rightarrow> (unit, 'k) act" where
  "listen_on os fileno back_log k = (case os_listen os fileno back_log k of (r, k) \<Rightarrow>
     if r = -1 then Fail error_socket_listen k else Done () k)"

definition listen_steps :: "'k os_ops \<Rightarrow> bytes \<Rightarrow> int \<Rightarrow> int \<Rightarrow> int \<Rightarrow> bool \<Rightarrow> (unit, 'k) act" where
  "listen_steps os server port back_log fileno reuse_port =
     seq (st_tcp_fd_reuseaddr os fileno 1)
    (seq (if reuse_port then st_tcp_fd_reuseport os fileno else ret ())
    (bind (lookup_self os server port) (\<lambda>addr.
     seq (bind_to os fileno addr) (listen_on os fileno back_log))))"

definition st_tcp_listen :: "'k os_ops \<Rightarrow> bytes \<Rightarrow> int \<Rightarrow> int \<Rightarrow> bool \<Rightarrow> (int \<times> nat option, 'k) act" where
  "st_tcp_listen os server port back_log reuse_port k = (case st_tcp_create_fd os k of ((r, fd), k) \<Rightarrow>
     (case fd of None \<Rightarrow> Done (r, None) k
      | Some f \<Rightarrow>
         if r \<noteq> 0 then Done (r, fd) k
         else (case listen_steps os server port back_log (os_fileno os f k) reuse_port k of
            Done u k \<Rightarrow> Done (0, fd) k
          | Fail e k \<Rightarrow> (case st_tcp_close os fd k of ((r, fd), k) \<Rightarrow> Done (e, fd) k)
          | Crash q \<Rightarrow> Crash q)))"

text \<open>\<open>st_tcp_connect\<close>: the caller's descriptor is null unless the connection stands.\<close>

definition connect_to :: "'k os_ops \<Rightarrow> bytes \<Rightarrow> int \<Rightarrow> nat \<Rightarrow> (unit, 'k) act" where
  "connect_to os server port fd k = (case dns_resolve os server k of (ip, k) \<Rightarrow>
     if ip = [] then Fail error_system_ip_invalid k
     else case os_connect os fd (os_inet_addr os (c_str ip)) (of_int port) k of (r, k) \<Rightarrow>
       if r = -1 then Fail error_socket_connect k else Done () k)"

definition st_tcp_connect_fd :: "'k os_ops \<Rightarrow> bytes \<Rightarrow> int \<Rightarrow> (int \<times> nat option, 'k) act" where
  "st_tcp_connect_fd os server port k = (case st_tcp_create_fd os k of ((r, fd), k) \<Rightarrow>
     (case fd of None \<Rightarrow> Done (error_socket_open, None) k
      | Some f \<Rightarrow> (case connect_to os server port f k of
            Done u k \<Rightarrow> Done (0, Some f) k
          | Fail e k \<Rightarrow> (case st_tcp_close os (Some f) k of (_, k) \<Rightarrow> Done (e, None) k)
          | Crash q \<Rightarrow> Crash q)))"

section \<open>StTcpSocket\<close>

record StTcpSocket =
  rtm :: "64 word"
  stm :: "64 word"
  rbytes :: "64 word"
  sbytes :: "64 word"
  stfd :: "nat option"

definition ST_UTIME_NO_TIMEOUT :: "64 word" where "ST_UTIME_NO_TIMEOUT = - 1"

definition StTcpSocket_new :: "nat option \<Rightarrow> StTcpSocket" where
  "StTcpSocket_new fd = \<lparr>rtm = ST_UTIME_NO_TIMEOUT, stm = ST_UTIME_NO_TIMEOUT, rbytes = 0, sbytes = 0, stfd = fd\<rparr>"

definition set_recv_timeout :: "64 word \<Rightarrow> StTcpSocket \<Rightarrow> StTcpSocket" where
  "set_recv_timeout tm s = s\<lparr>rtm := tm\<rparr>"

definition set_send_timeout :: "64 word \<Rightarrow> StTcpSocket \<Rightarrow> StTcpSocket" where
  "set_send_timeout tm s = s\<lparr>stm := tm\<rparr>"

text \<open>The results: an error code, the count for the caller (\<open>None\<close>: not stored), the bytes.\<close>

definition StTcpSocket_read_fully ::
    "'k os_ops \<Rightarrow> int \<Rightarrow> StTcpSocket \<times> 'k \<Rightarrow> (int \<times> int \<times> bytes) \<times> StTcpSocket \<times> 'k" where
  "StTcpSocket_read_fully os sz = (\<lambda>(s, k). case os_read_fully os (stfd s) sz k of ((n, xs), k) \<Rightarrow>
     if n \<noteq> sz then
       ((if n < 0 \<and> os_errno os k = ETIME then error_socket_timeout else error_socket_read, n, xs), s, k)
     else ((0, n, xs), s\<lparr>rbytes := rbytes s + of_int n\<rparr>, k))"

definition StTcpSocket_read ::
    "'k os_ops \<Rightarrow> int \<Rightarrow> StTcpSocket \<times> 'k \<Rightarrow> (int \<times> int option \<times> bytes) \<times> StTcpSocket \<times> 'k" where
  "StTcpSocket_read os sz = (\<lambda>(s, k). case os_read os (stfd s) sz k of ((n, xs), k) \<Rightarrow>
     if n \<le> 0 then
       ((if n < 0 \<and> os_errno os k = ETIME then error_socket_timeout
         else if n = 0 then error_socket_already_closed else error_socket_read, None, xs), s, k)
     else ((0, Some n, xs), s\<lparr>rbytes := rbytes s + of_int n\<rparr>, k))"

definition StTcpSocket_write :: "'k os_ops \<Rightarrow> bytes \<Rightarrow> StTcpSocket \<times> 'k \<Rightarrow> int \<times> StTcpSocket \<times> 'k" where
  "StTcpSocket_write os xs = (\<lambda>(s, k). case os_write os (stfd s) xs k of (n, k) \<Rightarrow>
     if n \<le> 0 then (if n < 0 \<and> os_errno os k = ETIME then error_socket_timeout else error_socket_write, s, k)
     else (0, s\<lparr>sbytes := sbytes s + of_int n\<rparr>, k))"

section \<open>TcpServerConn, and TcpStreamConn over it all\<close>

text \<open>
  \<open>listen\<close> opens a socket, gives it to \<open>server_fd\<close>, and calls \<open>st_tcp_listen\<close>, which opens another one
  and stores that in \<open>server_fd\<close>.  The constructor leaves \<open>server_fd\<close> as it is.
\<close>

definition TcpServerConn_listen :: "'k os_ops \<Rightarrow> bytes \<Rightarrow> int \<Rightarrow> nat option \<times> 'k \<Rightarrow> (int, nat option \<times> 'k) outcome" where
  "TcpServerConn_listen os ip port = (\<lambda>(server_fd, k). case os_socket os k of (sock, k) \<Rightarrow>
     if sock < 0 then Done error_socket_create (server_fd, k)
     else (case st_tcp_fd_reuseaddr os sock 1 k of
         Fail e k \<Rightarrow> Done e (server_fd, k)
       | Crash q \<Rightarrow> Crash q
       | Done u k \<Rightarrow> (case os_open os sock k of (_, k) \<Rightarrow>
           (case st_tcp_listen os ip port 1024 (ST_UTIME_NO_TIMEOUT \<noteq> 0) k of
              Done (r, fd) k \<Rightarrow> Done r (fd, k) | Fail e k \<Rightarrow> Done e (server_fd, k) | Crash q \<Rightarrow> Crash q))))"

definition TcpServerConn_accept :: "'k os_ops \<Rightarrow> nat option \<times> 'k \<Rightarrow> nat option TcpStreamConn option \<times> nat option \<times> 'k" where
  "TcpServerConn_accept os = (\<lambda>(server_fd, k). case os_accept os server_fd k of (clfd, k) \<Rightarrow>
     (if clfd = None then None else Some (TcpStreamConn_new clfd True), server_fd, k))"

definition TcpServerConn_close :: "'k os_ops \<Rightarrow> nat option \<times> 'k \<Rightarrow> int \<times> nat option \<times> 'k" where
  "TcpServerConn_close os = (\<lambda>(server_fd, k). case st_tcp_close os server_fd k of ((r, fd), k) \<Rightarrow> (r, fd, k))"

text \<open>The calls \<open>TcpStreamConn\<close> makes, with \<open>client_fd\<close> and the system as the state below it.\<close>

definition tcp_st_ops :: "'k os_ops \<Rightarrow> bytes \<Rightarrow> int \<Rightarrow> (nat option \<times> 'k) st_ops" where
  "tcp_st_ops os server port = \<lparr>
     st_read = \<lambda>n (fd, k). case os_read os fd n k of (r, k) \<Rightarrow> (r, fd, k),
     st_write = \<lambda>xs (fd, k). case os_write os fd xs k of (r, k) \<Rightarrow> (r, fd, k),
     st_writev = \<lambda>iov (fd, k). case os_writev os fd iov k of (r, k) \<Rightarrow> (r, fd, k),
     st_netfd_close = \<lambda>(fd, k). case st_tcp_close os fd k of ((r, fd), k) \<Rightarrow> (r, fd, k),
     st_tcp_connect = \<lambda>(fd, k). case st_tcp_connect_fd os server port k of
         Done (r, fd) k \<Rightarrow> (r, fd, k) | Fail e k \<Rightarrow> (e, fd, k) | Crash q \<Rightarrow> (error_socket_open, fd, k)\<rparr>"

end
