(* ===== verification/St_Tcp_Props.thy ===== *)
theory St_Tcp_Props
  imports St_Tcp
begin

text \<open>Which descriptors \<open>St_Tcp\<close> leaves open: none when it fails, and one too many when a server listens.\<close>

section \<open>The operating system\<close>

text \<open>
  \<open>opn\<close> is the set of open descriptors.  A socket is a new one; wrapping it in an \<open>st_netfd_t\<close> opens
  nothing; the two ways to close take it away; the other calls leave descriptors alone.
\<close>

definition keeps :: "'k os_ops \<Rightarrow> ('k \<Rightarrow> int set) \<Rightarrow> ('k \<Rightarrow> 'a \<times> 'k) \<Rightarrow> bool" where
  "keeps os opn c \<longleftrightarrow> (\<forall>k f. opn (snd (c k)) = opn k \<and> os_fileno os f (snd (c k)) = os_fileno os f k)"

definition os_ok :: "'k os_ops \<Rightarrow> ('k \<Rightarrow> int set) \<Rightarrow> bool" where
  "os_ok os opn \<longleftrightarrow>
     (\<forall>k. case os_socket os k of (sock, k') \<Rightarrow>
        if sock < 0 then opn k' = opn k else sock \<notin> opn k \<and> opn k' = insert sock (opn k))
   \<and> (\<forall>sock k. case os_open os sock k of (fd, k') \<Rightarrow>
        opn k' = opn k \<and> (case fd of None \<Rightarrow> True | Some f \<Rightarrow> os_fileno os f k' = sock))
   \<and> (\<forall>sock k. opn (os_close os sock k) = opn k - {sock})
   \<and> (\<forall>f k. case os_netfd_close os (Some f) k of (r, k') \<Rightarrow> r = 0 \<and> opn k' = opn k - {os_fileno os f k})
   \<and> (\<forall>fd opt v. keeps os opn (os_setsockopt os fd opt v)) \<and> (\<forall>s p. keeps os opn (os_getaddrinfo os s p))
   \<and> (\<forall>fd a. keeps os opn (os_bind os fd a)) \<and> (\<forall>fd n. keeps os opn (os_listen os fd n))
   \<and> (\<forall>n. keeps os opn (os_gethostbyname os n)) \<and> (\<forall>fd a p. keeps os opn (os_connect os fd a p))"

lemma os_ok_socket:
  assumes "os_ok os opn" "os_socket os k = (sock, k')"
  shows "if sock < 0 then opn k' = opn k else sock \<notin> opn k \<and> opn k' = insert sock (opn k)"
  using spec [OF conjunct1 [OF assms(1) [unfolded os_ok_def]], of k] assms(2) by simp

lemma os_ok_open:
  assumes "os_ok os opn" "os_open os sock k = (fd, k')"
  shows "opn k' = opn k \<and> (case fd of None \<Rightarrow> True | Some f \<Rightarrow> os_fileno os f k' = sock)"
proof -
  have "\<forall>sock k. case os_open os sock k of (fd, k') \<Rightarrow>
      opn k' = opn k \<and> (case fd of None \<Rightarrow> True | Some f \<Rightarrow> os_fileno os f k' = sock)"
    using assms(1) unfolding os_ok_def by (elim conjE)
  from this [rule_format, where sock = sock and k = k] assms(2) show ?thesis by simp
qed

lemma os_ok_netfd_close:
  assumes "os_ok os opn"
  shows "fst (os_netfd_close os (Some f) k) = 0 \<and> opn (snd (os_netfd_close os (Some f) k)) = opn k - {os_fileno os f k}"
proof -
  have "\<forall>f k. case os_netfd_close os (Some f) k of (r, k') \<Rightarrow> r = 0 \<and> opn k' = opn k - {os_fileno os f k}"
    using assms unfolding os_ok_def by (elim conjE)
  then show ?thesis by (simp add: case_prod_beta)
qed

definition quiet :: "'k os_ops \<Rightarrow> ('k \<Rightarrow> int set) \<Rightarrow> ('a, 'k) act \<Rightarrow> bool" where
  "quiet os opn m \<longleftrightarrow> (\<forall>k. case m k of
     Done v k' \<Rightarrow> opn k' = opn k \<and> (\<forall>f. os_fileno os f k' = os_fileno os f k)
   | Fail e k' \<Rightarrow> e \<noteq> 0 \<and> opn k' = opn k \<and> (\<forall>f. os_fileno os f k' = os_fileno os f k)
   | Crash q \<Rightarrow> False)"

lemma quiet_ret: "quiet os opn (ret v)"
  by (simp add: quiet_def ret_def)

lemma quiet_bind: "quiet os opn m \<Longrightarrow> (\<And>v. quiet os opn (f v)) \<Longrightarrow> quiet os opn (bind m f)"
  unfolding quiet_def bind_def by (fastforce split: outcome.splits)

lemma quiet_seq: "quiet os opn m \<Longrightarrow> quiet os opn n \<Longrightarrow> quiet os opn (seq m n)"
  unfolding seq_def by (rule quiet_bind)

lemma quiet_check:
  assumes "keeps os opn c" "e \<noteq> 0" "\<And>k. m k = (case c k of (r, k) \<Rightarrow> if p r then Fail e k else Done (f r) k)"
  shows "quiet os opn m"
  unfolding quiet_def
proof
  fix k
  have "opn (snd (c k)) = opn k \<and> (\<forall>f. os_fileno os f (snd (c k)) = os_fileno os f k)"
    using assms(1) by (simp add: keeps_def)
  then show "case m k of
     Done v k' \<Rightarrow> opn k' = opn k \<and> (\<forall>f. os_fileno os f k' = os_fileno os f k)
   | Fail e k' \<Rightarrow> e \<noteq> 0 \<and> opn k' = opn k \<and> (\<forall>f. os_fileno os f k' = os_fileno os f k)
   | Crash q \<Rightarrow> False"
    using assms(2,3) by (simp add: case_prod_beta)
qed

lemma quiet_listen_steps:
  assumes "os_ok os opn"
  shows "quiet os opn (listen_steps os server port back_log fileno reuse_port)"
proof -
  have "quiet os opn (st_tcp_fd_reuseaddr os fd v)" for fd v
    by (rule quiet_check [of _ _ "os_setsockopt os fd SO_REUSEADDR v" 10010 _ "\<lambda>r. r = -1" "\<lambda>r. ()"])
      (use assms in \<open>simp_all add: os_ok_def st_tcp_fd_reuseaddr_def\<close>)
  moreover have "quiet os opn (st_tcp_fd_reuseport os fd)" for fd
    by (rule quiet_check [of _ _ "os_setsockopt os fd SO_REUSEPORT 1" 10010 _ "\<lambda>r. r = -1" "\<lambda>r. ()"])
      (use assms in \<open>simp_all add: os_ok_def st_tcp_fd_reuseport_def\<close>)
  moreover have "quiet os opn (lookup_self os server port)"
    by (rule quiet_check [of _ _ "os_getaddrinfo os (c_str server) (port_text port)" 10006 _ "\<lambda>r. fst r \<noteq> 0" snd])
      (use assms in \<open>simp_all add: os_ok_def lookup_self_def case_prod_beta\<close>)
  moreover have "quiet os opn (bind_to os fd a)" for fd a
    by (rule quiet_check [of _ _ "os_bind os fd a" 10006 _ "\<lambda>r. r = -1" "\<lambda>r. ()"])
      (use assms in \<open>simp_all add: os_ok_def bind_to_def\<close>)
  moreover have "quiet os opn (listen_on os fd n)" for fd n
    by (rule quiet_check [of _ _ "os_listen os fd n" 10007 _ "\<lambda>r. r = -1" "\<lambda>r. ()"])
      (use assms in \<open>simp_all add: os_ok_def listen_on_def\<close>)
  ultimately show ?thesis
    unfolding listen_steps_def by (intro quiet_seq quiet_bind) (auto intro: quiet_ret)
qed

lemma create_fd:
  assumes "os_ok os opn" "st_tcp_create_fd os k = ((r, fd), k')"
  shows "case fd of None \<Rightarrow> r \<noteq> 0 \<and> opn k' = opn k
    | Some f \<Rightarrow> r = 0 \<and> os_fileno os f k' \<notin> opn k \<and> opn k' = insert (os_fileno os f k') (opn k)"
proof -
  obtain sock k1 where s: "os_socket os k = (sock, k1)" by force
  obtain o_fd k2 where o: "os_open os sock k1 = (o_fd, k2)" by force
  have 1: "if sock < 0 then opn k1 = opn k else sock \<notin> opn k \<and> opn k1 = insert sock (opn k)"
    by (rule os_ok_socket [OF assms(1) s])
  have 2: "opn k2 = opn k1 \<and> (case o_fd of None \<Rightarrow> True | Some f \<Rightarrow> os_fileno os f k2 = sock)"
    by (rule os_ok_open [OF assms(1) o])
  have 3: "opn (os_close os sock k2) = opn k2 - {sock}" using assms(1) by (simp add: os_ok_def)
  show ?thesis using assms(2) s o 1 2 3
    by (auto simp: st_tcp_create_fd_def split: if_splits option.splits)
qed

text \<open>
  C17: \<open>st_tcp_listen\<close> returns, and with an error code it has closed what it opened and hands back a null
  descriptor; with success exactly one more descriptor is open, the one it hands back.
\<close>

theorem tcp_listen_descriptors:
  assumes "os_ok os opn"
  shows "\<exists>r fd k'. st_tcp_listen os server port back_log reuse_port k = Done (r, fd) k'
    \<and> (if r = 0 then \<exists>f. fd = Some f \<and> os_fileno os f k' \<notin> opn k \<and> opn k' = insert (os_fileno os f k') (opn k)
       else fd = None \<and> opn k' = opn k)"
proof -
  obtain r fd k1 where c: "st_tcp_create_fd os k = ((r, fd), k1)" by (metis prod.exhaust)
  note cf = create_fd [OF assms c]
  show ?thesis
  proof (cases fd)
    case None
    with cf c show ?thesis by (simp add: st_tcp_listen_def)
  next
    case (Some f)
    with cf have cf: "r = 0" "os_fileno os f k1 \<notin> opn k" "opn k1 = insert (os_fileno os f k1) (opn k)" by auto
    have q: "case listen_steps os server port back_log (os_fileno os f k1) reuse_port k1 of
       Done v k' \<Rightarrow> opn k' = opn k1 \<and> (\<forall>f. os_fileno os f k' = os_fileno os f k1)
     | Fail e k' \<Rightarrow> e \<noteq> 0 \<and> opn k' = opn k1 \<and> (\<forall>f. os_fileno os f k' = os_fileno os f k1)
     | Crash q \<Rightarrow> False" using quiet_listen_steps [OF assms] unfolding quiet_def by blast
    show ?thesis
    proof (cases "listen_steps os server port back_log (os_fileno os f k1) reuse_port k1")
      case (Done u k2)
      with q Some c cf show ?thesis by (simp add: st_tcp_listen_def)
    next
      case (Fail e k2)
      obtain k3 where "os_netfd_close os (Some f) k2 = (0, k3)" "opn k3 = opn k2 - {os_fileno os f k2}"
        using os_ok_netfd_close [OF assms, of f k2] by (metis prod.collapse)
      with q Some c cf Fail show ?thesis by (auto simp: st_tcp_listen_def st_tcp_close_def)
    qed (use q in simp)
  qed
qed

text \<open>
  A server that listens has opened two sockets and keeps one: the descriptor of the other is in no
  variable any more, and nothing closes it.
\<close>

theorem tcp_server_listen_leaks:
  assumes "os_ok os opn" "TcpServerConn_listen os ip port (server_fd, k) = Done 0 (fd, k')"
  shows "\<exists>f lost. fd = Some f \<and> lost \<noteq> os_fileno os f k' \<and> lost \<notin> opn k \<and> os_fileno os f k' \<notin> opn k
    \<and> opn k' = {lost, os_fileno os f k'} \<union> opn k"
proof -
  obtain sock k1 where s: "os_socket os k = (sock, k1)" by force
  have s_new: "if sock < 0 then opn k1 = opn k else sock \<notin> opn k \<and> opn k1 = insert sock (opn k)"
    by (rule os_ok_socket [OF assms(1) s])
  have k1: "0 \<le> sock" using assms(2) s by (auto simp: TcpServerConn_listen_def split: if_splits)
  have "keeps os opn (os_setsockopt os sock SO_REUSEADDR 1)" using assms(1) by (simp add: os_ok_def)
  then have "opn (snd (os_setsockopt os sock SO_REUSEADDR 1 k1)) = opn k1" by (simp add: keeps_def)
  then have r: "case st_tcp_fd_reuseaddr os sock 1 k1 of Done u k2 \<Rightarrow> opn k2 = opn k1 | Fail e k2 \<Rightarrow> e \<noteq> 0 | Crash q \<Rightarrow> False"
    by (simp add: st_tcp_fd_reuseaddr_def case_prod_beta)
  then obtain k2 where k2: "st_tcp_fd_reuseaddr os sock 1 k1 = Done () k2" "opn k2 = opn k1"
    using assms(2) s k1 by (cases "st_tcp_fd_reuseaddr os sock 1 k1") (auto simp: TcpServerConn_listen_def)
  obtain o_fd k3 where o: "os_open os sock k2 = (o_fd, k3)" by force
  have k3: "opn k3 = opn k2" using os_ok_open [OF assms(1) o] by simp
  obtain r f' k4 where l: "st_tcp_listen os ip port 1024 (ST_UTIME_NO_TIMEOUT \<noteq> 0) k3 = Done (r, f') k4"
    and d: "if r = 0 then \<exists>f. f' = Some f \<and> os_fileno os f k4 \<notin> opn k3 \<and> opn k4 = insert (os_fileno os f k4) (opn k3)
       else f' = None \<and> opn k4 = opn k3"
    using tcp_listen_descriptors [OF assms(1)] by blast
  have "r = 0" "fd = f'" "k' = k4" using assms(2) s k1 k2 o l by (auto simp: TcpServerConn_listen_def)
  with d s_new k1 k2 k3 show ?thesis by (auto intro!: exI [of _ sock])
qed

text \<open>
  A system on which every call succeeds: the number of the next descriptor, and the open ones.
\<close>

definition easy_os :: "(nat \<times> int set) os_ops" where
  "easy_os = \<lparr>os_socket = \<lambda>(n, s). (int n, (n + 1, insert (int n) s)), os_open = \<lambda>sock k. (if sock < 0 then None else Some (nat sock), k),
     os_netfd_close = \<lambda>fd (n, s). (0, n, s - {case fd of None \<Rightarrow> -1 | Some f \<Rightarrow> int f}),
     os_close = \<lambda>sock (n, s). (n, s - {sock}), os_fileno = \<lambda>f k. int f, os_setsockopt = \<lambda>fd opt v k. (0, k),
     os_getaddrinfo = \<lambda>s p k. ((0, [127, 0, 0, 1]), k), os_bind = \<lambda>fd a k. (0, k), os_listen = \<lambda>fd n k. (0, k),
     os_inet_addr = \<lambda>s. 0, os_gethostbyname = \<lambda>n k. (None, k), os_connect = \<lambda>fd a p k. (0, k),
     os_accept = \<lambda>fd k. (None, k), os_read = \<lambda>fd n k. ((0, []), k), os_read_fully = \<lambda>fd n k. ((0, []), k),
     os_write = \<lambda>fd xs k. (int (length xs), k), os_writev = \<lambda>fd iov k. (0, k), os_errno = \<lambda>k. 0\<rparr>"

definition easy_open :: "nat \<times> int set \<Rightarrow> int set" where
  "easy_open k = {x \<in> snd k. 0 \<le> x \<and> x < int (fst k)}"

lemma easy_os_ok: "os_ok easy_os easy_open"
  by (auto simp: os_ok_def keeps_def easy_os_def easy_open_def split: option.splits)

theorem tcp_listen_descriptors_witness:
  "\<exists>r fd k'. st_tcp_listen easy_os (lit ''0.0.0.0'') 80 1024 True (3, {}) = Done (r, fd) k'
    \<and> (if r = 0 then \<exists>f. fd = Some f \<and> os_fileno easy_os f k' \<notin> easy_open (3, {})
         \<and> easy_open k' = insert (os_fileno easy_os f k') (easy_open (3, {}))
       else fd = None \<and> easy_open k' = easy_open (3, {}))"
  by (rule tcp_listen_descriptors [OF easy_os_ok])

lemma easy_listen: "TcpServerConn_listen easy_os (lit ''0.0.0.0'') 80 (None, 3, {}) = Done 0 (Some 4, 5, {3, 4})"
  by (simp add: TcpServerConn_listen_def st_tcp_listen_def st_tcp_create_fd_def easy_os_def listen_steps_def
      st_tcp_fd_reuseaddr_def st_tcp_fd_reuseport_def lookup_self_def bind_to_def listen_on_def seq_def bind_def
      ST_UTIME_NO_TIMEOUT_def insert_commute)

theorem tcp_server_listen_leaks_witness:
  "\<exists>f lost. (Some 4 :: nat option) = Some f \<and> lost \<noteq> os_fileno easy_os f (5, {3, 4}) \<and> lost \<notin> easy_open (3, {})
    \<and> os_fileno easy_os f (5, {3, 4}) \<notin> easy_open (3, {})
    \<and> easy_open (5, {3, 4}) = {lost, os_fileno easy_os f (5, {3, 4})} \<union> easy_open (3, {})"
  by (rule tcp_server_listen_leaks [OF easy_os_ok easy_listen])

end
