(* ===== verification/St_Srt.thy ===== *)
theory St_Srt
  imports St_Tcp
begin

text \<open>
  SRT: \<open>src/transport/st_trans/st_srt.cpp\<close> and \<open>src/transport/tmss_trans_srt.cpp\<close>.  The SRT library is not
  part of the sources: its calls and constants are the fields of \<open>srt_ops\<close>, on a state \<open>'k\<close> that it shares
  with the operating system below \<open>srt_os\<close>.  The \<open>SrtStDispatch\<close> of the thread, which is in the sources,
  stands beside that state.  Error messages are not modelled.
\<close>

abbreviation (input) error_srt_socket_create :: int where "error_srt_socket_create \<equiv> 10102"
abbreviation (input) error_srt_socket_bind :: int where "error_srt_socket_bind \<equiv> 10106"
abbreviation (input) error_srt_socket_listen :: int where "error_srt_socket_listen \<equiv> 10107"
abbreviation (input) error_srt_socket_timeout :: int where "error_srt_socket_timeout \<equiv> 10108"
abbreviation (input) error_srt_socket_already_closed :: int where "error_srt_socket_already_closed \<equiv> 10109"
abbreviation (input) error_srt_socket_connect :: int where "error_srt_socket_connect \<equiv> 10111"
abbreviation (input) error_srt_socket_broken :: int where "error_srt_socket_broken \<equiv> 10112"
abbreviation (input) error_srt_socket_closing :: int where "error_srt_socket_closing \<equiv> 10113"
abbreviation (input) error_srt_socket_noexist :: int where "error_srt_socket_noexist \<equiv> 10114"
abbreviation (input) error_srt_socket_other :: int where "error_srt_socket_other \<equiv> 10115"
abbreviation (input) error_srt_socket_eintr :: int where "error_srt_socket_eintr \<equiv> 10116"
abbreviation (input) SRT_ERROR :: int where "SRT_ERROR \<equiv> -1"
abbreviation (input) SRT_INVALID_SOCK :: int where "SRT_INVALID_SOCK \<equiv> -1"
abbreviation (input) EINTR :: int where "EINTR \<equiv> 4"

section \<open>State and library\<close>

datatype StSrtEvent = ST_SRT_IN | ST_SRT_OUT | ST_SRT_ERR | ST_SRT_CONN | ST_SRT_ACCEPT

datatype StSrtMode = ST_SRT_MODE_GLOBAL | ST_SRT_MODE_FILE | ST_SRT_MODE_LIVE

datatype SRT_SOCKSTATUS = SRTS_BROKEN | SRTS_CLOSING | SRTS_CLOSED | SRTS_NONEXIST | SRTS_OTHER

datatype srt_option = RCVSYN bool | SNDSYN bool | TRANSTYPE_FILE | TRANSTYPE_LIVE | NAKREPORT bool
  | LINGER int int | TSBPDMODE bool | SNDDROPDELAY int | TLPKTDROP bool

text \<open>
  A condition lives on the stack of the coroutine that waits for it; the pointers in \<open>conditions\<close> are
  numbers of entries of \<open>cnds\<close>.
\<close>

record SrtEventCondition =
  cnd_event :: StSrtEvent
  cnd_err :: int

record SrtStDispatch =
  srt_eid :: int
  conditions :: "int \<Rightarrow> nat list option"
  cnds :: "nat \<Rightarrow> SrtEventCondition"
  next_cnd :: nat
  d_stop :: bool

type_synonym 'k srt = "SrtStDispatch \<times> 'k"

record 'k srt_ops =
  srt_os :: "'k os_ops"
  srt_inet_pton :: "bytes \<Rightarrow> 32 word option"
  srt_create_socket :: "'k \<Rightarrow> int \<times> 'k"
  srt_setsockopt :: "int \<Rightarrow> srt_option \<Rightarrow> 'k \<Rightarrow> 'k"
  srt_bind_acquire :: "int \<Rightarrow> int \<Rightarrow> 'k \<Rightarrow> int \<times> 'k"
  srt_bind :: "int \<Rightarrow> 16 word \<Rightarrow> int \<Rightarrow> 'k \<Rightarrow> int \<times> 'k"
  srt_connect :: "int \<Rightarrow> 32 word \<Rightarrow> 16 word \<Rightarrow> 'k \<Rightarrow> int \<times> 'k"
  srt_connect_bind :: "int \<Rightarrow> 32 word \<times> 16 word \<Rightarrow> 32 word \<times> 16 word \<Rightarrow> 'k \<Rightarrow> int \<times> 'k"
  srt_listen :: "int \<Rightarrow> int \<Rightarrow> 'k \<Rightarrow> int \<times> 'k"
  srt_accept :: "int \<Rightarrow> 'k \<Rightarrow> int \<times> 'k"
  srt_recv :: "int \<Rightarrow> int \<Rightarrow> 'k \<Rightarrow> (int \<times> bytes) \<times> 'k"
  srt_sendmsg :: "int \<Rightarrow> bytes \<Rightarrow> 'k \<Rightarrow> int \<times> 'k"
  srt_close :: "int \<Rightarrow> 'k \<Rightarrow> int \<times> 'k"
  srt_getlasterror :: "'k \<Rightarrow> int"
  udp_socket :: "'k \<Rightarrow> int \<times> 'k"
  udp_bind :: "int \<Rightarrow> 16 word \<Rightarrow> 'k \<Rightarrow> int \<times> 'k"
  epoll_add :: "int \<Rightarrow> int \<Rightarrow> 32 word \<Rightarrow> 'k \<Rightarrow> int \<times> 'k"
  epoll_update :: "int \<Rightarrow> int \<Rightarrow> 32 word \<Rightarrow> 'k \<Rightarrow> int \<times> 'k"
  epoll_remove :: "int \<Rightarrow> int \<Rightarrow> 'k \<Rightarrow> int \<times> 'k"
  cond_timedwait :: "nat \<Rightarrow> 64 word \<Rightarrow> 'k srt \<Rightarrow> int \<times> 'k srt"
  event_bits :: "StSrtEvent \<Rightarrow> 32 word"
  SRT_EPOLL_ETONLY :: "32 word"
  SRT_LIVE_DEF_PLSIZE :: nat
  MJ_AGAIN :: int

section \<open>The dispatcher\<close>

definition st_srt_socket_error :: "SRT_SOCKSTATUS \<Rightarrow> int" where
  "st_srt_socket_error status = (case status of
     SRTS_BROKEN \<Rightarrow> error_srt_socket_broken | SRTS_CLOSING \<Rightarrow> error_srt_socket_closing
   | SRTS_CLOSED \<Rightarrow> error_srt_socket_already_closed | SRTS_NONEXIST \<Rightarrow> error_srt_socket_noexist
   | SRTS_OTHER \<Rightarrow> error_srt_socket_other)"

definition SrtStDispatch_new :: "int \<Rightarrow> SrtStDispatch" where
  "SrtStDispatch_new eid = \<lparr>srt_eid = eid, conditions = \<lambda>_. None,
     cnds = \<lambda>_. \<lparr>cnd_event = ST_SRT_IN, cnd_err = 0\<rparr>, next_cnd = 0, d_stop = False\<rparr>"

definition get_exits_evt :: "'k srt_ops \<Rightarrow> int \<Rightarrow> SrtStDispatch \<Rightarrow> 32 word" where
  "get_exits_evt ops fd d = (case conditions d fd of None \<Rightarrow> 0
     | Some es \<Rightarrow> foldl (\<lambda>old e. or old (event_bits ops (cnd_event (cnds d e)))) 0 es)"

text \<open>The four parts of \<open>st_srt_epoll\<close>: telling the library, waiting, taking back, the result.\<close>

definition epoll_watch :: "'k srt_ops \<Rightarrow> int \<Rightarrow> StSrtEvent \<Rightarrow> 'k srt \<Rightarrow> int \<times> 'k" where
  "epoll_watch ops fd event = (\<lambda>(d, k).
     if conditions d fd = None
     then epoll_add ops (srt_eid d) fd (or (event_bits ops event) (event_bits ops ST_SRT_ERR)) k
     else epoll_update ops (srt_eid d) fd
            (or (or (or (get_exits_evt ops fd d) (event_bits ops event)) (event_bits ops ST_SRT_ERR))
                (SRT_EPOLL_ETONLY ops)) k)"

definition add_condition :: "int \<Rightarrow> StSrtEvent \<Rightarrow> SrtStDispatch \<Rightarrow> nat \<times> SrtStDispatch" where
  "add_condition fd event d = (let c = next_cnd d in
     (c, d\<lparr>conditions := (conditions d)(fd := Some (c # (case conditions d fd of None \<Rightarrow> [] | Some es \<Rightarrow> es))),
           cnds := (cnds d)(c := \<lparr>cnd_event = event, cnd_err = 0\<rparr>), next_cnd := c + 1\<rparr>))"

definition drop_condition :: "int \<Rightarrow> nat \<Rightarrow> SrtStDispatch \<Rightarrow> SrtStDispatch" where
  "drop_condition fd c d = (case conditions d fd of None \<Rightarrow> d
     | Some es \<Rightarrow> d\<lparr>conditions := (conditions d)(fd := Some (filter (\<lambda>e. e \<noteq> c) es))\<rparr>)"

definition epoll_unwatch :: "'k srt_ops \<Rightarrow> int \<Rightarrow> 'k srt \<Rightarrow> 'k" where
  "epoll_unwatch ops fd = (\<lambda>(d, k). let old_evt = get_exits_evt ops fd d in
     snd (if old_evt = 0 then epoll_remove ops (srt_eid d) fd k
          else epoll_update ops (srt_eid d) fd (or old_evt (SRT_EPOLL_ETONLY ops)) k))"

definition st_srt_epoll :: "'k srt_ops \<Rightarrow> int \<Rightarrow> StSrtEvent \<Rightarrow> 64 word \<Rightarrow> 'k srt \<Rightarrow> int \<times> 'k srt" where
  "st_srt_epoll ops fd event timeout = (\<lambda>(d, k). case epoll_watch ops fd event (d, k) of (r, k) \<Rightarrow>
     if r = SRT_ERROR then (SRT_ERROR, d, k)
     else case add_condition fd event d of (c, d) \<Rightarrow>
       (case cond_timedwait ops c timeout (d, k) of (rc, d, k) \<Rightarrow>
         (let e = os_errno (srt_os ops) k; d = drop_condition fd c d; k = epoll_unwatch ops fd (d, k);
              err = cnd_err (cnds d c)
          in (if err \<noteq> 0 then err
              else if rc \<noteq> 0 then
                (if e = ETIME then error_srt_socket_timeout
                 else if e = EINTR then error_srt_socket_eintr else error_srt_socket_other)
              else rc, d, k))))"

text \<open>
  One event of \<open>cycle\<close>: the loop over the conditions of its socket, which wakes (\<open>st_cond_broadcast\<close>)
  some and keeps the others.  \<open>err\<close> is set when the event has the error bit.
\<close>

primrec notify :: "'k srt_ops \<Rightarrow> 32 word \<Rightarrow> int option \<Rightarrow> nat list \<Rightarrow> SrtStDispatch \<Rightarrow> (nat list \<times> nat list) \<times> SrtStDispatch" where
  "notify ops events err [] d = (([], []), d)"
| "notify ops events err (c # cs) d =
     (let d = (case err of None \<Rightarrow> d | Some e \<Rightarrow> d\<lparr>cnds := (cnds d)(c := (cnds d c)\<lparr>cnd_err := e\<rparr>)\<rparr>);
          wakes = (err \<noteq> None \<or> and events (event_bits ops (cnd_event (cnds d c))) \<noteq> 0)
      in case notify ops events err cs d of ((woken, left), d) \<Rightarrow>
           (if wakes then (c # woken, left) else (woken, c # left), d))"

definition dispatch_event ::
    "'k srt_ops \<Rightarrow> int \<Rightarrow> 32 word \<Rightarrow> SRT_SOCKSTATUS \<Rightarrow> 'k srt \<Rightarrow> nat list \<times> 'k srt" where
  "dispatch_event ops fd events status = (\<lambda>(d, k). case conditions d fd of
     None \<Rightarrow> ([], d, snd (epoll_remove ops (srt_eid d) fd k))
   | Some es \<Rightarrow>
       (case notify ops events (if and events (event_bits ops ST_SRT_ERR) \<noteq> 0
                                then Some (st_srt_socket_error status) else None) es d of
          ((woken, left), d) \<Rightarrow>
            (woken, d\<lparr>conditions := (conditions d)(fd := if left = [] then None else Some left)\<rparr>, k)))"

text \<open>
  The loop of \<open>cycle\<close>.  A round is what \<open>epoll_uwait\<close> answers, with the state of each socket, and what the
  others do to the state while the loop sleeps; the result are the conditions that are woken, in order.
  The loop ends where \<open>stop\<close> is set, or goes on behind the rounds that are given (\<open>False\<close>).
\<close>

definition dispatch_events :: "'k srt_ops \<Rightarrow> (int \<times> 32 word \<times> SRT_SOCKSTATUS) list \<Rightarrow> nat list \<times> 'k srt \<Rightarrow> nat list \<times> 'k srt" where
  "dispatch_events ops es s = foldl (\<lambda>(woken, dk) (fd, events, status).
     case dispatch_event ops fd events status dk of (w, dk) \<Rightarrow> (woken @ w, dk)) s es"

primrec dispatch_cycle :: "'k srt_ops \<Rightarrow> ((int \<times> 32 word \<times> SRT_SOCKSTATUS) list \<times> ('k srt \<Rightarrow> 'k srt)) list
    \<Rightarrow> nat list \<times> 'k srt \<Rightarrow> bool \<times> nat list \<times> 'k srt" where
  "dispatch_cycle ops [] s = (d_stop (fst (snd s)), s)"
| "dispatch_cycle ops (r # rs) s =
     (if d_stop (fst (snd s)) then (True, s)
      else case dispatch_events ops (fst r) s of (woken, dk) \<Rightarrow> dispatch_cycle ops rs (woken, snd r dk))"

section \<open>Sockets\<close>

definition st_srt_set_global_mode :: "StSrtMode \<Rightarrow> StSrtMode" where
  "st_srt_set_global_mode mode = (if mode = ST_SRT_MODE_LIVE then ST_SRT_MODE_LIVE else ST_SRT_MODE_FILE)"

definition st_srt_create_fd :: "'k srt_ops \<Rightarrow> StSrtMode \<Rightarrow> StSrtMode \<Rightarrow> 'k \<Rightarrow> int \<times> 'k" where
  "st_srt_create_fd ops default_srt_mode mode k = (case srt_create_socket ops k of (fd, k) \<Rightarrow>
     if fd = SRT_INVALID_SOCK then (fd, k)
     else (let mode = (if mode = ST_SRT_MODE_GLOBAL then default_srt_mode else mode);
               options = [RCVSYN False, SNDSYN False] @
                 (if mode = ST_SRT_MODE_FILE then [TRANSTYPE_FILE, LINGER 1 2, NAKREPORT True]
                  else [TRANSTYPE_LIVE, TSBPDMODE False, SNDDROPDELAY (-1), TLPKTDROP False, LINGER 0 3])
           in (fd, foldl (\<lambda>k opt. srt_setsockopt ops fd opt k) k options)))"

definition st_srt_again :: "'k srt_ops \<Rightarrow> 'k \<Rightarrow> bool" where
  "st_srt_again ops k \<longleftrightarrow> srt_getlasterror ops k sdiv 1000 = MJ_AGAIN ops"

definition st_srt_close :: "'k srt_ops \<Rightarrow> int \<Rightarrow> 'k \<Rightarrow> int \<times> 'k" where
  "st_srt_close ops fd k = (SRT_INVALID_SOCK, snd (srt_close ops fd k))"

text \<open>The end both functions \<open>st_srt_connect\<close> share, and what they do before.\<close>

definition wait_connected :: "'k srt_ops \<Rightarrow> int \<Rightarrow> 64 word \<Rightarrow> int \<Rightarrow> 'k srt \<Rightarrow> int \<times> 'k srt" where
  "wait_connected ops fd tm r = (\<lambda>(d, k). if r = SRT_ERROR then (error_srt_socket_connect, d, k)
     else st_srt_epoll ops fd ST_SRT_CONN tm (d, k))"

definition acquire :: "'k srt_ops \<Rightarrow> int \<Rightarrow> int \<Rightarrow> 'k \<Rightarrow> int \<times> 'k" where
  "acquire ops fd ufd k = (if 0 < ufd then srt_bind_acquire ops fd ufd k else (0, k))"

definition st_srt_connect :: "'k srt_ops \<Rightarrow> int \<Rightarrow> bytes \<Rightarrow> int \<Rightarrow> 64 word \<Rightarrow> int \<Rightarrow> 'k srt \<Rightarrow> int \<times> 'k srt" where
  "st_srt_connect ops fd server port tm ufd = (\<lambda>(d, k). case dns_resolve (srt_os ops) server k of (ip, k) \<Rightarrow>
     if ip = [] then (error_system_ip_invalid, d, k)
     else case srt_inet_pton ops (c_str ip) of
       None \<Rightarrow> (error_srt_socket_create, d, k)
     | Some addr \<Rightarrow> (case acquire ops fd ufd k of (r, k) \<Rightarrow>
         if r = SRT_ERROR then (error_srt_socket_bind, d, k)
         else case srt_connect ops fd addr (of_int port) k of (r, k) \<Rightarrow> wait_connected ops fd tm r (d, k)))"

definition st_srt_connect_from ::
    "'k srt_ops \<Rightarrow> int \<Rightarrow> bytes \<Rightarrow> int \<Rightarrow> bytes \<Rightarrow> int \<Rightarrow> 64 word \<Rightarrow> 'k srt \<Rightarrow> int \<times> 'k srt" where
  "st_srt_connect_from ops fd server port self_ip self_port tm = (\<lambda>(d, k).
     case dns_resolve (srt_os ops) server k of (ip, k) \<Rightarrow>
     if ip = [] then (error_system_ip_invalid, d, k)
     else case (srt_inet_pton ops (c_str ip), srt_inet_pton ops (c_str self_ip)) of
       (Some addr, Some self_addr) \<Rightarrow>
         (case srt_connect_bind ops fd (self_addr, of_int self_port) (addr, of_int port) k of (r, k) \<Rightarrow>
            wait_connected ops fd tm r (d, k))
     | _ \<Rightarrow> (error_srt_socket_create, d, k))"

text \<open>
  \<open>st_srt_listen\<close> binds to every address, not to \<open>server\<close>.  Its fallback passes the value of
  \<open>sizeof (self_addr) == SRT_ERROR\<close>, which is 0, as the length of the address.
\<close>

definition listen_socket :: "'k srt_ops \<Rightarrow> int \<Rightarrow> int \<Rightarrow> bool \<Rightarrow> int \<Rightarrow> (unit, 'k) act" where
  "listen_socket ops fd port reuse_port sock =
     seq (check (sock \<noteq> -1) 1)
    (seq (if reuse_port then seq (st_tcp_fd_reuseaddr (srt_os ops) sock 1) (st_tcp_fd_reuseport (srt_os ops) sock)
          else ret ())
    (seq (\<lambda>k. case udp_bind ops sock (of_int port) k of (r, k) \<Rightarrow> check (r \<noteq> -1) 1 k)
         (\<lambda>k. case srt_bind_acquire ops fd sock k of (r, k) \<Rightarrow> check (r \<noteq> SRT_ERROR) 1 k)))"

definition listen_bound :: "'k srt_ops \<Rightarrow> int \<Rightarrow> int \<Rightarrow> 'k \<Rightarrow> int \<times> 'k" where
  "listen_bound ops fd back_log k = (case srt_listen ops fd back_log k of (r, k) \<Rightarrow>
     (if r = SRT_ERROR then error_srt_socket_listen else 0, k))"

definition st_srt_listen :: "'k srt_ops \<Rightarrow> int \<Rightarrow> bytes \<Rightarrow> int \<Rightarrow> int \<Rightarrow> bool \<Rightarrow> (int, 'k) act" where
  "st_srt_listen ops fd server port back_log reuse_port k = (case udp_socket ops k of (sock, k) \<Rightarrow>
     (case listen_socket ops fd port reuse_port sock k of
        Done u k \<Rightarrow> (case listen_bound ops fd back_log k of (r, k) \<Rightarrow> Done r k)
      | Crash q \<Rightarrow> Crash q
      | Fail e k \<Rightarrow> (let k = os_close (srt_os ops) sock k in
          if reuse_port then Done error_srt_socket_create k
          else case srt_bind ops fd (of_int port) 0 k of (r, k) \<Rightarrow>
            if r \<noteq> 0 then Done error_srt_socket_bind k
            else (case listen_bound ops fd back_log k of (r, k) \<Rightarrow> Done r k))))"

section \<open>Loops over a socket\<close>

text \<open>
  Accept, read and write try again while the library has nothing to do; the fuel bounds the tries.
\<close>

primrec st_srt_accept :: "nat \<Rightarrow> 'k srt_ops \<Rightarrow> int \<Rightarrow> 64 word \<Rightarrow> (int, 'k srt) act" where
  "st_srt_accept 0 ops fd timeout = crash No_Fuel"
| "st_srt_accept (Suc n) ops fd timeout = (\<lambda>(d, k). case srt_accept ops fd k of (r, k) \<Rightarrow>
     if r \<noteq> SRT_INVALID_SOCK then Done r (d, k)
     else if \<not> st_srt_again ops k then Done r (d, k)
     else case st_srt_epoll ops fd ST_SRT_ACCEPT timeout (d, k) of (r, dk) \<Rightarrow>
       if r \<noteq> 0 then Done r dk else st_srt_accept n ops fd timeout dk)"

text \<open>The result of \<open>st_srt_read\<close>: the code, and the bytes when \<open>nread\<close> is set.\<close>

primrec st_srt_read :: "nat \<Rightarrow> 'k srt_ops \<Rightarrow> int \<Rightarrow> int \<Rightarrow> 64 word \<Rightarrow> (int \<times> (int \<times> bytes) option, 'k srt) act" where
  "st_srt_read 0 ops fd nbyte timeout = crash No_Fuel"
| "st_srt_read (Suc n) ops fd nbyte timeout = (\<lambda>(d, k). case srt_recv ops fd nbyte k of ((r, xs), k) \<Rightarrow>
     if r = SRT_ERROR then
       (if \<not> st_srt_again ops k then Done (r, None) (d, k)
        else case st_srt_epoll ops fd ST_SRT_IN timeout (d, k) of (r, dk) \<Rightarrow>
          if r \<noteq> 0 then Done (r, None) dk else st_srt_read n ops fd nbyte timeout dk)
     else if r \<le> 0
     then Done (if r = 0 then error_srt_socket_already_closed else error_srt_socket_other, None) (d, k)
     else Done (0, Some (r, xs)) (d, k))"

text \<open>\<open>left\<close> is \<open>buf + has_send\<close> up to its end; the pieces are limited by the library.\<close>

primrec write_loop :: "nat \<Rightarrow> 'k srt_ops \<Rightarrow> int \<Rightarrow> 64 word \<Rightarrow> nat \<Rightarrow> bytes \<Rightarrow> (int \<times> nat option, 'k srt) act" where
  "write_loop 0 ops fd timeout has_send left = crash No_Fuel"
| "write_loop (Suc n) ops fd timeout has_send left = (\<lambda>(d, k).
     if left = [] then Done (0, Some has_send) (d, k)
     else case srt_sendmsg ops fd (take (SRT_LIVE_DEF_PLSIZE ops) left) k of (r, k) \<Rightarrow>
       if r = SRT_ERROR then
         (if \<not> st_srt_again ops k then Done (r, None) (d, k)
          else case st_srt_epoll ops fd ST_SRT_OUT timeout (d, k) of (r, dk) \<Rightarrow>
            if r \<noteq> 0 then Done (r, None) dk else write_loop n ops fd timeout has_send left dk)
       else write_loop n ops fd timeout (has_send + nat r) (drop (nat r) left) (d, k))"

definition st_srt_write :: "nat \<Rightarrow> 'k srt_ops \<Rightarrow> int \<Rightarrow> bytes \<Rightarrow> 64 word \<Rightarrow> (int \<times> nat option, 'k srt) act" where
  "st_srt_write n ops fd src timeout = write_loop n ops fd timeout 0 src"

section \<open>StSrtSocket\<close>

record StSrtSocket =
  srt_fd :: int
  srt_rtm :: "64 word"
  srt_stm :: "64 word"

definition StSrtSocket_new :: "int \<Rightarrow> StSrtSocket" where
  "StSrtSocket_new fd = \<lparr>srt_fd = fd, srt_rtm = ST_UTIME_NO_TIMEOUT, srt_stm = ST_UTIME_NO_TIMEOUT\<rparr>"

definition StSrtSocket_set_recv_timeout :: "64 word \<Rightarrow> StSrtSocket \<Rightarrow> StSrtSocket" where
  "StSrtSocket_set_recv_timeout tm s = s\<lparr>srt_rtm := tm\<rparr>"

definition StSrtSocket_set_send_timeout :: "64 word \<Rightarrow> StSrtSocket \<Rightarrow> StSrtSocket" where
  "StSrtSocket_set_send_timeout tm s = s\<lparr>srt_stm := tm\<rparr>"

definition StSrtSocket_read :: "nat \<Rightarrow> 'k srt_ops \<Rightarrow> StSrtSocket \<Rightarrow> int \<Rightarrow> (int \<times> (int \<times> bytes) option, 'k srt) act" where
  "StSrtSocket_read n ops s sz = st_srt_read n ops (srt_fd s) sz (srt_rtm s)"

text \<open>
  \<open>read_fully\<close> leaves its loop when a read has succeeded, with the count before that read, and goes on
  when it has failed.  The result: the code, \<open>*nread\<close>, and the bytes stored.
\<close>

primrec read_fully_loop :: "nat \<Rightarrow> nat \<Rightarrow> 'k srt_ops \<Rightarrow> StSrtSocket \<Rightarrow> int \<Rightarrow> int \<Rightarrow> (int \<times> int \<times> bytes, 'k srt) act" where
  "read_fully_loop 0 n ops s sz got = crash No_Fuel"
| "read_fully_loop (Suc j) n ops s sz got =
     (if got < sz then
        bind (st_srt_read n ops (srt_fd s) (sz - got) (srt_rtm s)) (\<lambda>(r, x).
          if r = 0 then ret (r, got, case x of None \<Rightarrow> [] | Some (nr, xs) \<Rightarrow> xs)
          else read_fully_loop j n ops s sz (got + (case x of None \<Rightarrow> 0 | Some (nr, xs) \<Rightarrow> nr)))
      else ret (0, got, []))"

definition StSrtSocket_read_fully :: "nat \<Rightarrow> nat \<Rightarrow> 'k srt_ops \<Rightarrow> StSrtSocket \<Rightarrow> int \<Rightarrow> (int \<times> int \<times> bytes, 'k srt) act" where
  "StSrtSocket_read_fully j n ops s sz = read_fully_loop j n ops s sz 0"

definition StSrtSocket_write :: "nat \<Rightarrow> 'k srt_ops \<Rightarrow> StSrtSocket \<Rightarrow> bytes \<Rightarrow> (int, 'k srt) act" where
  "StSrtSocket_write n ops s xs = bind (st_srt_write n ops (srt_fd s) xs (srt_stm s)) (\<lambda>(r, write_size). ret r)"

section \<open>SRTStreamConn and SRTServerConn\<close>

record SRTStreamConn =
  client_socket :: int
  srt_connected :: bool
  timeouts :: "32 word \<times> 32 word \<times> 32 word"

text \<open>The timeouts of connecting, sending and receiving are three seconds; the library takes microseconds.\<close>

definition SRTStreamConn_new :: "int \<Rightarrow> SRTStreamConn" where
  "SRTStreamConn_new fd = \<lparr>client_socket = fd, srt_connected = (fd \<noteq> 0), timeouts = (3000, 3000, 3000)\<rparr>"

definition utime_of :: "32 word \<Rightarrow> 64 word" where
  "utime_of ms = (if sint ms < 0 then - 1 else scast ms * 1000)"

definition SRTStreamConn_connect ::
    "'k srt_ops \<Rightarrow> bytes \<Rightarrow> int \<Rightarrow> SRTStreamConn \<times> 'k srt \<Rightarrow> int \<times> SRTStreamConn \<times> 'k srt" where
  "SRTStreamConn_connect ops ip port = (\<lambda>(c, d, k). case srt_create_socket ops k of (fd, k) \<Rightarrow>
     let c = c\<lparr>client_socket := fd\<rparr> in
     if fd = SRT_ERROR then (-1, c, d, k)
     else case st_srt_connect ops fd ip port (utime_of (fst (timeouts c))) 0 (d, k) of (r, dk) \<Rightarrow>
       if r = SRT_ERROR then (r, c, dk) else (r, c\<lparr>srt_connected := True\<rparr>, dk))"

definition SRTStreamConn_write :: "nat \<Rightarrow> 'k srt_ops \<Rightarrow> SRTStreamConn \<Rightarrow> bytes \<Rightarrow> (int, 'k srt) act" where
  "SRTStreamConn_write n ops c xs =
     (if \<not> srt_connected c then ret error_srt_socket_already_closed
      else bind (st_srt_write n ops (client_socket c) xs (utime_of (fst (snd (timeouts c))))) (\<lambda>(r, write_size).
        if r = SRT_ERROR then ret r else ret (case write_size of None \<Rightarrow> 0 | Some w \<Rightarrow> int w)))"

definition SRTStreamConn_read :: "nat \<Rightarrow> 'k srt_ops \<Rightarrow> SRTStreamConn \<Rightarrow> int \<Rightarrow> (int \<times> bytes, 'k srt) act" where
  "SRTStreamConn_read n ops c sz =
     (if \<not> srt_connected c then ret (error_srt_socket_already_closed, [])
      else bind (st_srt_read n ops (client_socket c) sz (utime_of (snd (snd (timeouts c))))) (\<lambda>(r, x).
        if r = SRT_ERROR then ret (r, []) else ret (case x of None \<Rightarrow> (0, []) | Some y \<Rightarrow> y)))"

definition SRTStreamConn_close :: "'k srt_ops \<Rightarrow> SRTStreamConn \<times> 'k \<Rightarrow> int \<times> SRTStreamConn \<times> 'k" where
  "SRTStreamConn_close ops = (\<lambda>(c, k). if \<not> srt_connected c then (0, c, k)
     else case srt_close ops (client_socket c) k of (r, k) \<Rightarrow>
       if r = SRT_ERROR then (-1, c, k) else (0, c\<lparr>srt_connected := False\<rparr>, k))"

definition SRTServerConn_listen :: "'k srt_ops \<Rightarrow> StSrtMode \<Rightarrow> bytes \<Rightarrow> int \<Rightarrow> int \<times> 'k \<Rightarrow> (int, int \<times> 'k) outcome" where
  "SRTServerConn_listen ops default_srt_mode ip port = (\<lambda>(_, k).
     case st_srt_create_fd ops default_srt_mode ST_SRT_MODE_GLOBAL k of (fd, k) \<Rightarrow>
       if fd = SRT_INVALID_SOCK then Done error_srt_socket_create (fd, k)
       else case st_srt_listen ops fd ip port 1024 True k of
         Done r k \<Rightarrow> Done r (fd, k) | Fail e k \<Rightarrow> Fail e (fd, k) | Crash q \<Rightarrow> Crash q)"

text \<open>An error code of \<open>st_srt_accept\<close> other than -1 is taken for a socket.\<close>

definition SRTServerConn_accept :: "nat \<Rightarrow> 'k srt_ops \<Rightarrow> int \<Rightarrow> (SRTStreamConn option, 'k srt) act" where
  "SRTServerConn_accept n ops server_socket = bind (st_srt_accept n ops server_socket ST_UTIME_NO_TIMEOUT) (\<lambda>cfd.
     ret (if cfd = SRT_INVALID_SOCK then None else Some (SRTStreamConn_new cfd)))"

definition SRTServerConn_close :: "'k srt_ops \<Rightarrow> int \<times> 'k \<Rightarrow> int \<times> int \<times> 'k" where
  "SRTServerConn_close ops = (\<lambda>(server_socket, k).
     case st_srt_close ops server_socket k of (fd, k) \<Rightarrow> (0, fd, k))"

end
