(* ===== verification/St_Srt_Props.thy ===== *)
theory St_Srt_Props
  imports St_Srt
begin

text \<open>What writing to an SRT socket sends, whom the dispatcher wakes, and what reading hides.\<close>

section \<open>Waiting\<close>

text \<open>
  What \<open>st_srt_write\<close> relies on: \<open>srt_sendmsg\<close> sends a part of its argument that is not empty, as one
  message, or nothing; \<open>delay\<close> bounds how often a wait for the socket still ends well; the other calls
  of the library send nothing.
\<close>

definition srt_sender :: "'k srt_ops \<Rightarrow> int \<Rightarrow> ('k \<Rightarrow> bytes list) \<Rightarrow> ('k \<Rightarrow> nat) \<Rightarrow> bool" where
  "srt_sender ops fd sent delay \<longleftrightarrow> 0 < SRT_LIVE_DEF_PLSIZE ops
   \<and> (\<forall>xs k. xs \<noteq> [] \<longrightarrow> (case srt_sendmsg ops fd xs k of (r, k') \<Rightarrow> delay k' \<le> delay k
        \<and> (if r = SRT_ERROR then sent k' = sent k
           else 0 < r \<and> r \<le> int (length xs) \<and> sent k' = sent k @ [take (nat r) xs])))
   \<and> (\<forall>eid fd ev k. sent (snd (epoll_add ops eid fd ev k)) = sent k \<and> delay (snd (epoll_add ops eid fd ev k)) \<le> delay k)
   \<and> (\<forall>eid fd ev k. sent (snd (epoll_update ops eid fd ev k)) = sent k \<and> delay (snd (epoll_update ops eid fd ev k)) \<le> delay k)
   \<and> (\<forall>eid fd k. sent (snd (epoll_remove ops eid fd k)) = sent k \<and> delay (snd (epoll_remove ops eid fd k)) \<le> delay k)
   \<and> (\<forall>c tm d k. case cond_timedwait ops c tm (d, k) of (r, d', k') \<Rightarrow>
        sent k' = sent k \<and> delay k' \<le> delay k \<and> (r = 0 \<longrightarrow> delay k' < delay k))"

lemma srt_sender_send:
  assumes "srt_sender ops fd sent delay" "xs \<noteq> []" "srt_sendmsg ops fd xs k = (r, k')"
  shows "delay k' \<le> delay k \<and> (if r = SRT_ERROR then sent k' = sent k
           else 0 < r \<and> r \<le> int (length xs) \<and> sent k' = sent k @ [take (nat r) xs])"
proof -
  have "\<forall>xs k. xs \<noteq> [] \<longrightarrow> (case srt_sendmsg ops fd xs k of (r, k') \<Rightarrow> delay k' \<le> delay k
        \<and> (if r = SRT_ERROR then sent k' = sent k
           else 0 < r \<and> r \<le> int (length xs) \<and> sent k' = sent k @ [take (nat r) xs]))"
    using assms(1) unfolding srt_sender_def by (elim conjE)
  from this [rule_format, where xs = xs and k = k] assms(2,3) show ?thesis by simp
qed

lemma srt_sender_wait:
  assumes "srt_sender ops fd sent delay" "cond_timedwait ops c tm (d, k) = (r, d', k')"
  shows "sent k' = sent k \<and> delay k' \<le> delay k \<and> (r = 0 \<longrightarrow> delay k' < delay k)"
proof -
  have "\<forall>c tm d k. case cond_timedwait ops c tm (d, k) of (r, d', k') \<Rightarrow>
        sent k' = sent k \<and> delay k' \<le> delay k \<and> (r = 0 \<longrightarrow> delay k' < delay k)"
    using assms(1) unfolding srt_sender_def by (elim conjE)
  from this [rule_format, where c = c and tm = tm and d = d and k = k] assms(2) show ?thesis by simp
qed

lemma srt_sender_epoll:
  assumes "srt_sender ops fd sent delay"
  shows "sent (snd (epoll_add ops eid i ev k)) = sent k" "delay (snd (epoll_add ops eid i ev k)) \<le> delay k"
    "sent (snd (epoll_update ops eid i ev k)) = sent k" "delay (snd (epoll_update ops eid i ev k)) \<le> delay k"
    "sent (snd (epoll_remove ops eid i k)) = sent k" "delay (snd (epoll_remove ops eid i k)) \<le> delay k"
  using assms by (simp_all add: srt_sender_def)

lemma epoll_watch_keeps:
  assumes "srt_sender ops fd sent delay" "epoll_watch ops i ev (d, k) = (r, k')"
  shows "sent k' = sent k \<and> delay k' \<le> delay k"
proof -
  have k': "k' = snd (epoll_watch ops i ev (d, k))" using assms(2) by simp
  show ?thesis unfolding k' epoll_watch_def using srt_sender_epoll [OF assms(1)] by simp
qed

lemma epoll_unwatch_keeps:
  assumes "srt_sender ops fd sent delay"
  shows "sent (epoll_unwatch ops i (d, k)) = sent k \<and> delay (epoll_unwatch ops i (d, k)) \<le> delay k"
  unfolding epoll_unwatch_def using srt_sender_epoll [OF assms] by (simp add: Let_def)

lemma epoll_keeps:
  assumes "srt_sender ops fd sent delay" "st_srt_epoll ops i ev tm (d, k) = (r, d', k')"
  shows "sent k' = sent k \<and> (r = 0 \<longrightarrow> delay k' < delay k)"
proof -
  obtain r1 k1 where w: "epoll_watch ops i ev (d, k) = (r1, k1)" by force
  note w' = epoll_watch_keeps [OF assms(1) w]
  show ?thesis
  proof (cases "r1 = SRT_ERROR")
    case True
    with assms(2) w w' show ?thesis by (auto simp: st_srt_epoll_def)
  next
    case False
    obtain c d1 where a: "add_condition i ev d = (c, d1)" by force
    obtain rc d2 k2 where t: "cond_timedwait ops c tm (d1, k1) = (rc, d2, k2)" by (metis prod.exhaust)
    note t' = srt_sender_wait [OF assms(1) t]
    have "k' = epoll_unwatch ops i (drop_condition i c d2, k2) \<and> (r = 0 \<longrightarrow> rc = 0)"
      using assms(2) w a t False by (auto simp: st_srt_epoll_def Let_def split: if_splits)
    then show ?thesis using epoll_unwatch_keeps [OF assms(1), of i "drop_condition i c d2" k2] w' t' by auto
  qed
qed

section \<open>Writing\<close>

lemma write_loop_sends:
  assumes "srt_sender ops fd sent delay" "length left + delay k < n"
  shows "\<exists>r w d' k' msgs. write_loop n ops fd timeout has_send left (d, k) = Done (r, w) (d', k')
    \<and> sent k' = sent k @ msgs \<and> (\<forall>m\<in>set msgs. m \<noteq> [] \<and> length m \<le> SRT_LIVE_DEF_PLSIZE ops)
    \<and> (if r = 0 then concat msgs = left \<and> w = Some (has_send + length left) else w = None \<and> prefix (concat msgs) left)"
  using assms(2)
proof (induction n arbitrary: has_send left d k)
  case (Suc n)
  let ?P = "SRT_LIVE_DEF_PLSIZE ops"
  show ?case
  proof (cases "left = []")
    case False
    have P: "0 < ?P" using assms(1) by (simp add: srt_sender_def)
    let ?xs = "take ?P left"
    have xs: "?xs \<noteq> []" using False P by simp
    obtain r k1 where s: "srt_sendmsg ops fd ?xs k = (r, k1)" by force
    note snd = srt_sender_send [OF assms(1) xs s]
    show ?thesis
    proof (cases "r = SRT_ERROR")
      case True
      show ?thesis
      proof (cases "st_srt_again ops k1")
        case again: True
        obtain r2 d2 k2 where e: "st_srt_epoll ops fd ST_SRT_OUT timeout (d, k1) = (r2, d2, k2)"
          by (metis prod.exhaust)
        note ek = epoll_keeps [OF assms(1) e]
        show ?thesis
        proof (cases "r2 = 0")
          case r2: True
          with ek snd Suc.prems True have "length left + delay k2 < n" by simp
          from Suc.IH [OF this, of has_send d2] obtain r' w d' k' msgs where
            "write_loop n ops fd timeout has_send left (d2, k2) = Done (r', w) (d', k')"
            "sent k' = sent k2 @ msgs" "\<forall>m\<in>set msgs. m \<noteq> [] \<and> length m \<le> ?P"
            "if r' = 0 then concat msgs = left \<and> w = Some (has_send + length left) else w = None \<and> prefix (concat msgs) left"
            by blast
          with False s True again e r2 snd ek show ?thesis by (intro exI [of _ r'] exI [of _ w] exI [of _ d'] exI [of _ k'] exI [of _ msgs]) simp
        next
          case False
          with \<open>left \<noteq> []\<close> s True again e snd ek show ?thesis
            by (intro exI [of _ r2] exI [of _ None] exI [of _ d2] exI [of _ k2] exI [of _ "[]"]) simp
        qed
      next
        case again: False
        with False s True snd show ?thesis
          by (intro exI [of _ r] exI [of _ None] exI [of _ d] exI [of _ k1] exI [of _ "[]"]) simp
      qed
    next
      case r: False
      with snd have r': "0 < r" "r \<le> int (length ?xs)" "sent k1 = sent k @ [take (nat r) ?xs]" by auto
      have len: "nat r \<le> length left" "nat r \<le> ?P" "take (nat r) ?xs = take (nat r) left"
        using r' by (simp_all add: min_def split: if_splits)
      have "length (drop (nat r) left) + delay k1 < n" using r'(1) len(1) conjunct1 [OF snd] Suc.prems unfolding length_drop by linarith
      from Suc.IH [OF this, of "has_send + nat r" d] obtain r2 w d' k' msgs where ih:
        "write_loop n ops fd timeout (has_send + nat r) (drop (nat r) left) (d, k1) = Done (r2, w) (d', k')"
        "sent k' = sent k1 @ msgs" "\<forall>m\<in>set msgs. m \<noteq> [] \<and> length m \<le> ?P"
        "if r2 = 0 then concat msgs = drop (nat r) left \<and> w = Some (has_send + nat r + length (drop (nat r) left))
         else w = None \<and> prefix (concat msgs) (drop (nat r) left)"
        by blast
      let ?m = "take (nat r) left"
      have "prefix (concat (?m # msgs)) left" if "prefix (concat msgs) (drop (nat r) left)"
        using that by (metis append_take_drop_id concat.simps(2) same_prefix_prefix)
      moreover have "?m \<noteq> []" "length ?m \<le> ?P" using r' len False by auto
      ultimately show ?thesis using ih False s r r' len
        by (intro exI [of _ r2] exI [of _ w] exI [of _ d'] exI [of _ k'] exI [of _ "?m # msgs"]) (auto simp del: take_eq_Nil)
    qed
  qed (auto intro!: exI [of _ "[]"])
qed simp

text \<open>
  C14: Writing to an SRT socket returns, and sends the bytes in order and once each in messages that are not
  empty and within the limit of the library: all of them with success, a prefix with an error.
\<close>

theorem srt_write_sends:
  assumes "srt_sender ops fd sent delay" "length src + delay k < n"
  shows "\<exists>r w d' k' msgs. st_srt_write n ops fd src timeout (d, k) = Done (r, w) (d', k')
    \<and> sent k' = sent k @ msgs \<and> (\<forall>m\<in>set msgs. m \<noteq> [] \<and> length m \<le> SRT_LIVE_DEF_PLSIZE ops)
    \<and> (if r = 0 then concat msgs = src \<and> w = Some (length src) else w = None \<and> prefix (concat msgs) src)"
  unfolding st_srt_write_def
  by (rule write_loop_sends [OF assms, of timeout 0 d, unfolded add_0])

text \<open>
  A library that answers at once: the state is what was sent; pieces are whole, the wait times out.
\<close>

definition quiet_os :: "bytes list os_ops" where
  "quiet_os = \<lparr>os_socket = \<lambda>k. (3, k), os_open = \<lambda>sock k. (Some (nat sock), k),
     os_netfd_close = \<lambda>fd k. (0, k), os_close = \<lambda>sock k. k, os_fileno = \<lambda>f k. int f, os_setsockopt = \<lambda>fd opt v k. (0, k),
     os_getaddrinfo = \<lambda>s p k. ((0, []), k), os_bind = \<lambda>fd a k. (0, k), os_listen = \<lambda>fd n k. (0, k),
     os_inet_addr = \<lambda>s. 0, os_gethostbyname = \<lambda>n k. (None, k), os_connect = \<lambda>fd a p k. (0, k),
     os_accept = \<lambda>fd k. (None, k), os_read = \<lambda>fd n k. ((0, []), k), os_read_fully = \<lambda>fd n k. ((0, []), k),
     os_write = \<lambda>fd xs k. (int (length xs), k), os_writev = \<lambda>fd iov k. (0, k), os_errno = \<lambda>k. ETIME\<rparr>"

definition quiet_srt :: "bytes list srt_ops" where
  "quiet_srt = \<lparr>srt_os = quiet_os, srt_inet_pton = \<lambda>s. None, srt_create_socket = \<lambda>k. (7, k), srt_setsockopt = \<lambda>fd opt k. k,
     srt_bind_acquire = \<lambda>fd u k. (0, k), srt_bind = \<lambda>fd p n k. (0, k), srt_connect = \<lambda>fd a p k. (0, k),
     srt_connect_bind = \<lambda>fd a b k. (0, k), srt_listen = \<lambda>fd n k. (0, k), srt_accept = \<lambda>fd k. (8, k),
     srt_recv = \<lambda>fd n k. ((if n < 2 then n else 2, take (nat n) [1, 2]), k),
     srt_sendmsg = \<lambda>fd xs k. (int (length xs), k @ [xs]), srt_close = \<lambda>fd k. (0, k),
     srt_getlasterror = \<lambda>k. 6001, udp_socket = \<lambda>k. (4, k), udp_bind = \<lambda>fd p k. (0, k),
     epoll_add = \<lambda>e fd ev k. (0, k), epoll_update = \<lambda>e fd ev k. (0, k), epoll_remove = \<lambda>e fd k. (0, k),
     cond_timedwait = \<lambda>c tm dk. (-1, dk),
     event_bits = (\<lambda>e. case e of ST_SRT_IN \<Rightarrow> 1 | ST_SRT_OUT \<Rightarrow> 4 | ST_SRT_ERR \<Rightarrow> 8 | ST_SRT_CONN \<Rightarrow> 4 | ST_SRT_ACCEPT \<Rightarrow> 1),
     SRT_EPOLL_ETONLY = 0x80000000, SRT_LIVE_DEF_PLSIZE = 1316, MJ_AGAIN = 6\<rparr>"

lemma quiet_sender: "srt_sender quiet_srt fd id (\<lambda>_. 0)"
  by (simp add: srt_sender_def quiet_srt_def)

theorem srt_write_sends_witness:
  "\<exists>r w d' k' msgs. st_srt_write 4001 quiet_srt 7 (replicate 4000 9) 0 (SrtStDispatch_new 1, [[5]]) = Done (r, w) (d', k')
    \<and> k' = [[5]] @ msgs \<and> (\<forall>m\<in>set msgs. m \<noteq> [] \<and> length m \<le> SRT_LIVE_DEF_PLSIZE quiet_srt)
    \<and> (if r = 0 then concat msgs = replicate 4000 9 \<and> w = Some 4000 else w = None \<and> prefix (concat msgs) (replicate 4000 9))"
  by (rule srt_write_sends [OF quiet_sender, where fd = 7 and src = "replicate 4000 9" and k = "[[5]]" and n = 4001
        and timeout = 0 and d = "SrtStDispatch_new 1", unfolded id_apply length_replicate]) simp

section \<open>The dispatcher\<close>

lemma notify_quiet:
  "notify ops events None es d = ((filter (\<lambda>c. and events (event_bits ops (cnd_event (cnds d c))) \<noteq> 0) es,
      filter (\<lambda>c. and events (event_bits ops (cnd_event (cnds d c))) = 0) es), d)"
  by (induction es) (auto simp: Let_def)

lemma notify_error:
  "\<exists>d'. notify ops events (Some e) es d = ((es, []), d') \<and> conditions d' = conditions d
     \<and> (\<forall>c. cnd_err (cnds d' c) = (if c \<in> set es then e else cnd_err (cnds d c)))"
proof (induction es arbitrary: d)
  case (Cons c cs)
  let ?d = "d\<lparr>cnds := (cnds d)(c := (cnds d c)\<lparr>cnd_err := e\<rparr>)\<rparr>"
  obtain d' where "notify ops events (Some e) cs ?d = ((cs, []), d')" "conditions d' = conditions ?d"
    "\<forall>c. cnd_err (cnds d' c) = (if c \<in> set cs then e else cnd_err (cnds ?d c))"
    using Cons.IH [of ?d] by blast
  then show ?case by (auto simp: Let_def)
qed simp

text \<open>
  C15: An event of a socket wakes exactly the coroutines that wait for one of its kinds, and all of them when
  it is an error, each then with the error's code; who is not woken goes on waiting, and a socket
  without waiters leaves the table.
\<close>

theorem dispatch_wakes:
  assumes "conditions d fd = Some es"
  shows "\<exists>d' woken. dispatch_event ops fd events status (d, k) = (woken, d', k)
    \<and> woken = filter (\<lambda>c. and events (event_bits ops ST_SRT_ERR) \<noteq> 0
                       \<or> and events (event_bits ops (cnd_event (cnds d c))) \<noteq> 0) es
    \<and> (\<forall>c\<in>set woken. cnd_err (cnds d' c) =
         (if and events (event_bits ops ST_SRT_ERR) \<noteq> 0 then st_srt_socket_error status else cnd_err (cnds d c)))
    \<and> (\<forall>i. conditions d' i = (if i = fd
         then if set es = set woken then None else Some (filter (\<lambda>c. c \<notin> set woken) es) else conditions d i))"
proof (cases "and events (event_bits ops ST_SRT_ERR) = 0")
  case True
  let ?p = "\<lambda>c. and events (event_bits ops (cnd_event (cnds d c))) \<noteq> 0"
  have "filter (\<lambda>c. c \<notin> set (filter ?p es)) es = filter (\<lambda>c. \<not> ?p c) es" by (rule filter_cong) auto
  moreover have "set es = set (filter ?p es) \<longleftrightarrow> filter (\<lambda>c. \<not> ?p c) es = []" by (auto simp: filter_empty_conv)
  ultimately show ?thesis using assms True
    by (intro exI [of _ "d\<lparr>conditions := (conditions d)(fd := if filter (\<lambda>c. \<not> ?p c) es = [] then None
           else Some (filter (\<lambda>c. \<not> ?p c) es))\<rparr>"] exI [of _ "filter ?p es"])
      (simp add: dispatch_event_def notify_quiet)
next
  case False
  obtain d' where "notify ops events (Some (st_srt_socket_error status)) es d = ((es, []), d')"
    "conditions d' = conditions d"
    "\<forall>c. cnd_err (cnds d' c) = (if c \<in> set es then st_srt_socket_error status else cnd_err (cnds d c))"
    using notify_error by blast
  with assms False show ?thesis
    by (intro exI [of _ "d'\<lparr>conditions := (conditions d')(fd := None)\<rparr>"] exI [of _ es]) (simp add: dispatch_event_def)
qed

definition two_waiters :: SrtStDispatch where
  "two_waiters = snd (add_condition 7 ST_SRT_OUT (snd (add_condition 7 ST_SRT_IN (SrtStDispatch_new 1))))"

lemma two_waiters: "conditions two_waiters 7 = Some [1, 0]"
    "cnd_event (cnds two_waiters 0) = ST_SRT_IN" "cnd_event (cnds two_waiters 1) = ST_SRT_OUT"
  by (simp_all add: two_waiters_def add_condition_def SrtStDispatch_new_def Let_def)

theorem dispatch_wakes_witness:
  "\<exists>d'. dispatch_event quiet_srt 7 1 SRTS_OTHER (two_waiters, []) = ([0], d', []) \<and> conditions d' 7 = Some [1]"
proof -
  have bits: "event_bits quiet_srt ST_SRT_ERR = 8" "event_bits quiet_srt ST_SRT_IN = 1" "event_bits quiet_srt ST_SRT_OUT = 4"
    by (simp_all add: quiet_srt_def)
  obtain d' woken where d: "dispatch_event quiet_srt 7 1 SRTS_OTHER (two_waiters, []) = (woken, d', [])"
    "woken = filter (\<lambda>c. and 1 (event_bits quiet_srt ST_SRT_ERR) \<noteq> 0
       \<or> and 1 (event_bits quiet_srt (cnd_event (cnds two_waiters c))) \<noteq> 0) [1, 0]"
    "\<forall>i. conditions d' i = (if i = 7 then if set [1, 0] = set woken then None
       else Some (filter (\<lambda>c. c \<notin> set woken) [1, 0]) else conditions two_waiters i)"
    using dispatch_wakes [OF two_waiters(1), of quiet_srt 1 SRTS_OTHER "[]"] by blast
  have "woken = [0]" using d(2) by (simp add: bits two_waiters [unfolded One_nat_def] two_waiters)
  with d(1,3) show ?thesis by auto
qed

section \<open>Reading\<close>

text \<open>
  \<open>StSrtSocket::read_fully\<close> has its condition the wrong way round: it returns after the first read that
  succeeds, reporting 0 bytes whatever that read brought, and while reads fail it never returns.
\<close>

theorem srt_read_fully_inverted:
  assumes "0 < sz"
  shows "(\<forall>t nr xs t'. st_srt_read n ops (srt_fd s) sz (srt_rtm s) t = Done (0, Some (nr, xs)) t'
           \<longrightarrow> StSrtSocket_read_fully (Suc j) n ops s sz t = Done (0, 0, xs) t')
    \<and> ((\<forall>t. \<exists>e t'. st_srt_read n ops (srt_fd s) sz (srt_rtm s) t = Done (e, None) t' \<and> e \<noteq> 0)
           \<longrightarrow> StSrtSocket_read_fully j n ops s sz t = Crash No_Fuel)"
proof (intro conjI allI impI)
  fix t nr xs t'
  assume "st_srt_read n ops (srt_fd s) sz (srt_rtm s) t = Done (0, Some (nr, xs)) t'"
  with assms show "StSrtSocket_read_fully (Suc j) n ops s sz t = Done (0, 0, xs) t'"
    by (simp add: StSrtSocket_read_fully_def bind_def ret_def)
next
  assume bad: "\<forall>t. \<exists>e t'. st_srt_read n ops (srt_fd s) sz (srt_rtm s) t = Done (e, None) t' \<and> e \<noteq> 0"
  show "StSrtSocket_read_fully j n ops s sz t = Crash No_Fuel"
    unfolding StSrtSocket_read_fully_def
  proof (induction j arbitrary: t)
    case 0
    show ?case by (simp add: crash_def)
  next
    case (Suc j)
    obtain e t' where "st_srt_read n ops (srt_fd s) sz (srt_rtm s) t = Done (e, None) t'" "e \<noteq> 0" using bad by blast
    with Suc assms show ?case by (simp add: bind_def)
  qed
qed

theorem srt_read_fully_inverted_witness:
  "StSrtSocket_read_fully 5 1 quiet_srt (StSrtSocket_new 7) 3073 (SrtStDispatch_new 1, [])
     = Done (0, 0, [1, 2]) (SrtStDispatch_new 1, [])"
proof -
  have "st_srt_read 1 quiet_srt (srt_fd (StSrtSocket_new 7)) 3073 (srt_rtm (StSrtSocket_new 7)) (SrtStDispatch_new 1, [])
      = Done (0, Some (2, [1, 2])) (SrtStDispatch_new 1, [])"
    by (simp add: quiet_srt_def numeral_eq_Suc)
  then show ?thesis
    using srt_read_fully_inverted [of 3073 1 quiet_srt "StSrtSocket_new 7" 4] by (simp add: numeral_eq_Suc)
qed

end
