(* ===== verification/Server_Loop.thy ===== *)
theory Server_Loop
  imports Coroutine St_Tcp Http_Conn Media_Source
begin

text \<open>
  The server around the handlers: \<open>IServer\<close> and \<open>IConnManager\<close> (\<open>src/protocol/server.cpp\<close>), what
  \<open>HttpServer\<close> and \<open>HttpConnHandler\<close> add (\<open>http_server.cpp\<close>), what the coroutines of a connection, an
  input and an output do when they end, \<open>MediaSource::init\<close>, and the clock (\<open>timer.cpp\<close>).
\<close>

section \<open>The clock\<close>

text \<open>\<open>now\<close> is the answer of \<open>gettimeofday\<close>, in seconds and microseconds; \<open>None\<close> when it fails.\<close>

definition update_time :: "(int \<times> int) option \<Rightarrow> 64 word \<Rightarrow> 64 word \<times> 64 word" where
  "update_time now cached = (case now of None \<Rightarrow> (0, cached)
     | Some (sec, usec) \<Rightarrow> (let t = of_int (sec * 1000 * 1000 + usec) in (t, t)))"

definition get_cache_time :: "(int \<times> int) option \<Rightarrow> 64 word \<Rightarrow> 64 word \<times> 64 word" where
  "get_cache_time now cached = (if cached = 0 then update_time now cached else (cached, cached))"

record MonitorTimer =
  interval :: "64 word"
  last_report :: "64 word"

definition MonitorTimer_new :: "64 word \<Rightarrow> MonitorTimer" where
  "MonitorTimer_new t = \<lparr>interval = t, last_report = 0\<rparr>"

definition monitor_next :: "64 word \<Rightarrow> MonitorTimer \<Rightarrow> bool \<times> MonitorTimer" where
  "monitor_next time m = (if interval m \<le> time - last_report m then (True, m\<lparr>last_report := time\<rparr>) else (False, m))"

text \<open>The timer's coroutine: each round is what the clock answers; the cached time is the state.\<close>

primrec StTimer_cycle :: "(int \<times> int) option list \<Rightarrow> 64 word \<Rightarrow> 64 word" where
  "StTimer_cycle [] cached = cached"
| "StTimer_cycle (now # rounds) cached = StTimer_cycle rounds (snd (update_time now cached))"

section \<open>Connections\<close>

record IClientConn =
  conn_id :: "32 word"
  conn_stop :: bool
  connect_timeout_ms :: "32 word"
  send_timeout_ms :: "32 word"
  recv_timeout_ms :: "32 word"
  conn_handler :: "nat option"

text \<open>Every connection takes the next number.\<close>

definition IClientConn_new :: "32 word \<Rightarrow> IClientConn \<times> 32 word" where
  "IClientConn_new global_id = (\<lparr>conn_id = global_id, conn_stop = False, connect_timeout_ms = 3000,
     send_timeout_ms = 3000, recv_timeout_ms = 3000, conn_handler = None\<rparr>, global_id + 1)"

definition conn_set_stop :: "IClientConn \<Rightarrow> IClientConn" where
  "conn_set_stop c = c\<lparr>conn_stop := True\<rparr>"

definition conn_set_handler :: "nat \<Rightarrow> IClientConn \<Rightarrow> IClientConn" where
  "conn_set_handler h c = c\<lparr>conn_handler := Some h\<rparr>"

definition conn_set_connect_timeout :: "32 word \<Rightarrow> IClientConn \<Rightarrow> IClientConn" where
  "conn_set_connect_timeout ms c = c\<lparr>connect_timeout_ms := ms\<rparr>"

definition conn_set_send_timeout :: "32 word \<Rightarrow> IClientConn \<Rightarrow> IClientConn" where
  "conn_set_send_timeout ms c = c\<lparr>send_timeout_ms := ms\<rparr>"

definition conn_set_recv_timeout :: "32 word \<Rightarrow> IClientConn \<Rightarrow> IClientConn" where
  "conn_set_recv_timeout ms c = c\<lparr>recv_timeout_ms := ms\<rparr>"

text \<open>
  A \<open>Pool\<close> keeps the objects that are added to it; \<open>max_size\<close> is never looked at.
\<close>

record 'a Pool =
  pool_members :: "'a set"
  pool_max_size :: int

definition Pool_new :: "int \<Rightarrow> 'a Pool" where
  "Pool_new n = \<lparr>pool_members = {}, pool_max_size = n\<rparr>"

definition pool_add :: "'a \<Rightarrow> 'a Pool \<Rightarrow> 'a Pool" where
  "pool_add x p = p\<lparr>pool_members := insert x (pool_members p)\<rparr>"

definition pool_drop :: "'a \<Rightarrow> 'a Pool \<Rightarrow> 'a Pool" where
  "pool_drop x p = p\<lparr>pool_members := pool_members p - {x}\<rparr>"

definition address_str :: "bytes \<times> int \<Rightarrow> bytes" where
  "address_str a = fst a @ lit '':'' @ (if snd a < 0 then 45 # decimal (nat (- snd a)) else decimal (nat (snd a)))"

section \<open>IServer\<close>

text \<open>
  The connection handlers are numbered in the order they are made; \<open>conn_pool\<close> is the set of the
  \<open>IConnManager\<close>, which owns them.
\<close>

record IServer =
  sv_ip :: bytes
  sv_port :: int
  sv_server :: ICoroutineHandler
  sv_conn :: ICoroutineHandler
  sv_handlers :: "nat \<Rightarrow> ICoroutineHandler"
  sv_conns :: "nat \<Rightarrow> IClientConn"
  next_handler :: nat
  conn_pool :: "nat set"

definition IServer_new :: IServer where
  "IServer_new = \<lparr>sv_ip = [], sv_port = 0, sv_server = ICoroutineHandler_new (lit ''server_base''),
     sv_conn = ICoroutineHandler_new (lit ''server_conn''), sv_handlers = \<lambda>_. ICoroutineHandler_new (lit ''conn_handler''),
     sv_conns = \<lambda>_. fst (IClientConn_new 0), next_handler = 0, conn_pool = {}\<rparr>"

definition IServer_init :: "bytes \<Rightarrow> int \<Rightarrow> IServer \<Rightarrow> IServer" where
  "IServer_init ip port s = s\<lparr>sv_ip := ip, sv_port := port\<rparr>"

definition register_conn :: "nat \<Rightarrow> IServer \<Rightarrow> IServer" where
  "register_conn i s = s\<lparr>conn_pool := insert i (conn_pool s)\<rparr>"

definition remove_conn :: "nat \<Rightarrow> IServer \<Rightarrow> IServer" where
  "remove_conn i s = s\<lparr>conn_pool := conn_pool s - {i}\<rparr>"

definition start_handler :: "(IServer \<Rightarrow> ICoroutineHandler) \<Rightarrow> (ICoroutineHandler \<Rightarrow> IServer \<Rightarrow> IServer)
    \<Rightarrow> bool \<Rightarrow> 32 word \<Rightarrow> (unit, IServer) act" where
  "start_handler get put created cid s = (case handler_start created cid (get s) of
     Done u h \<Rightarrow> Done () (put h s) | Fail e h \<Rightarrow> Fail e (put h s) | Crash q \<Rightarrow> Crash q)"

text \<open>\<open>run\<close>: \<open>listen_rc\<close> is the result of \<open>listen\<close>; the server's coroutine, then that of its connection.\<close>

definition IServer_run :: "int \<Rightarrow> bool \<times> bool \<Rightarrow> 32 word \<times> 32 word \<Rightarrow> (unit, IServer) act" where
  "IServer_run listen_rc created cids =
     seq (check (listen_rc = 0) listen_rc)
    (seq (start_handler sv_server (\<lambda>h s. s\<lparr>sv_server := h\<rparr>) (fst created) (fst cids))
         (start_handler sv_conn (\<lambda>h s. s\<lparr>sv_conn := h\<rparr>) (snd created) (snd cids)))"

text \<open>
  One turn of \<open>cycle\<close>: what \<open>accept\<close> gives, whether the coroutine of the handler can be made, and the
  handlers that removed themselves while the server waited in \<open>accept\<close>.
\<close>

record accept_round =
  ar_gone :: "nat set"
  ar_conn :: "IClientConn option"
  ar_created :: bool
  ar_cid :: "32 word"

definition HttpConnHandler_on_init :: "nat \<Rightarrow> IServer \<Rightarrow> IServer" where
  "HttpConnHandler_on_init i s = s\<lparr>sv_conns := (sv_conns s)(i := conn_set_handler i (sv_conns s i))\<rparr>"

definition HttpConnHandler_on_accept :: "nat \<Rightarrow> bool \<Rightarrow> 32 word \<Rightarrow> (unit, IServer) act" where
  "HttpConnHandler_on_accept i created cid =
     start_handler (\<lambda>s. sv_handlers s i) (\<lambda>h s. s\<lparr>sv_handlers := (sv_handlers s)(i := h)\<rparr>) created cid"

definition create_conn_handler :: "IClientConn \<Rightarrow> IServer \<Rightarrow> nat \<times> IServer" where
  "create_conn_handler c s = (let i = next_handler s in
     (i, s\<lparr>sv_handlers := (sv_handlers s)(i := ICoroutineHandler_new (lit ''conn_handler'')),
           sv_conns := (sv_conns s)(i := c), next_handler := i + 1\<rparr>))"

definition accept_turn :: "accept_round \<Rightarrow> (unit, IServer) act" where
  "accept_turn r s0 = (let s = s0\<lparr>conn_pool := conn_pool s0 - ar_gone r\<rparr> in
     case ar_conn r of None \<Rightarrow> Done () s
     | Some c \<Rightarrow> (case create_conn_handler c s of (i, s) \<Rightarrow>
         seq (\<lambda>s. Done () (HttpConnHandler_on_init i s))
        (seq (HttpConnHandler_on_accept i (ar_created r) (ar_cid r))
             (\<lambda>s. Done () (register_conn i s))) s))"

definition IServer_cycle :: "accept_round list \<Rightarrow> (unit, IServer) act" where
  "IServer_cycle rounds = for_each accept_turn rounds"

section \<open>The ends of coroutines\<close>

text \<open>\<open>HttpConnHandler::on_thread_stop\<close> gives up the pointer of the connection manager.\<close>

definition HttpConnHandler_on_thread_stop :: "bool \<Rightarrow> nat \<Rightarrow> IServer \<Rightarrow> IServer" where
  "HttpConnHandler_on_thread_stop has_server i s = (if \<not> has_server then s else remove_conn i s)"

text \<open>
  \<open>OutputHandler\<close> and \<open>InputHandler\<close>: the status goes back, and the channel, if it is still there, loses
  the handler.  The connection is closed unless it has stopped, which its own state shows.
\<close>

definition OutputHandler_on_thread_stop :: "nat \<Rightarrow> (unit, Server) act" where
  "OutputHandler_on_thread_stop i =
     bind (on_output (Q_Output i) (\<lambda>h. if \<not> out_conn h then Crash Null_Deref
             else Done (out_channel h) (h\<lparr>out_status := EOutputInit\<rparr>)))
       (\<lambda>ch. case ch of None \<Rightarrow> ret () | Some c \<Rightarrow> del_output c (Q_Output i))"

definition InputHandler_on_thread_stop :: "nat \<Rightarrow> (unit, Server) act" where
  "InputHandler_on_thread_stop i =
     bind (on_input (Q_Input i) (\<lambda>h. if \<not> in_conn h then Crash Null_Deref
             else Done (in_channel h) (h\<lparr>in_status := ESourceInit\<rparr>)))
       (\<lambda>ch. case ch of None \<Rightarrow> ret () | Some c \<Rightarrow> del_input c (Q_Input i))"

section \<open>MediaSource::init\<close>

text \<open>
  The arguments give the port; the result of reading them is dropped.  The server listens on the
  loopback address.
\<close>

definition parse_port :: "bytes list \<Rightarrow> int" where
  "parse_port args = (case parse_options args 8002 of Done u port \<Rightarrow> port | Fail e port \<Rightarrow> port | Crash q \<Rightarrow> 8002)"

definition MediaSource_init :: "'k os_ops \<Rightarrow> bool \<times> bool \<Rightarrow> 32 word \<times> 32 word \<Rightarrow> bytes list
    \<Rightarrow> (unit, IServer \<times> nat option \<times> 'k) act" where
  "MediaSource_init os created cids args = (\<lambda>(s, fd, k).
     let s = IServer_init (lit ''127.0.0.1'') (parse_port args) s in
     case TcpServerConn_listen os (sv_ip s) (sv_port s) (fd, k) of
       Crash q \<Rightarrow> Crash q
     | Fail e fdk \<Rightarrow> Fail e (s, fdk)
     | Done r fdk \<Rightarrow> (case IServer_run r created cids s of
           Done u s \<Rightarrow> Done () (s, fdk) | Fail e s \<Rightarrow> Fail e (s, fdk) | Crash q \<Rightarrow> Crash q))"

end
