(* ===== verification/Server_Props.thy ===== *)
theory Server_Props
  imports Server_Loop Coroutine_Props Channel_Facts
begin

text \<open>Which connections the server keeps, what ends its loop, and how the handler of a connection ends.\<close>

section \<open>The accept loop\<close>

lemma new_handler_start:
  "handler_start created cid (ICoroutineHandler_new n) =
     (let c = (if created then (STCoroutine_new n cid)\<lparr>trd := True, started := True\<rparr>
               else (STCoroutine_new n cid)\<lparr>trd_err := error_cothread_start\<rparr>);
          h = \<lparr>coroutine_name = n, h_co = Some c, h_running = True\<rparr>
      in if created then Done () h else Fail error_cothread_start h)"
  by (simp add: handler_start_def ICoroutineHandler_new_def co_start_def STCoroutine_new_def Let_def)

text \<open>A handler that serves: its coroutine has been started.\<close>

definition serving :: "IServer \<Rightarrow> nat \<Rightarrow> bool" where
  "serving s i \<longleftrightarrow> h_running (sv_handlers s i) \<and> (\<exists>c. h_co (sv_handlers s i) = Some c \<and> started c)
     \<and> conn_handler (sv_conns s i) = Some i"

lemma accept_turn_cases:
  "case accept_turn r s of
     Done u t \<Rightarrow>
       (if ar_conn r = None then t = s\<lparr>conn_pool := conn_pool s - ar_gone r\<rparr>
        else ar_created r \<and> next_handler t = next_handler s + 1 \<and> serving t (next_handler s)
          \<and> conn_pool t = insert (next_handler s) (conn_pool s - ar_gone r)
          \<and> (\<forall>i. i < next_handler s \<longrightarrow> sv_handlers t i = sv_handlers s i \<and> sv_conns t i = sv_conns s i))
   | Fail e t \<Rightarrow> e = error_cothread_start \<and> ar_conn r \<noteq> None \<and> \<not> ar_created r
   | Crash q \<Rightarrow> False"
  by (cases "ar_conn r")
    (auto simp: accept_turn_def create_conn_handler_def Let_def HttpConnHandler_on_init_def HttpConnHandler_on_accept_def
      start_handler_def new_handler_start register_conn_def serving_def conn_set_handler_def seq_def bind_def
      STCoroutine_new_def split: if_splits)

definition accepted :: "accept_round list \<Rightarrow> nat" where
  "accepted rounds = length (filter (\<lambda>r. ar_conn r \<noteq> None) rounds)"

lemma cycle_Cons: "IServer_cycle (r # rounds) s = seq (accept_turn r) (IServer_cycle rounds) s"
  by (simp add: IServer_cycle_def)

lemma accept_turn_fail: "accept_turn r s = Fail e t \<Longrightarrow> e = error_cothread_start \<and> ar_conn r \<noteq> None \<and> \<not> ar_created r"
  using accept_turn_cases [of r s] by simp

lemma accept_turn_no_crash: "accept_turn r s \<noteq> Crash q"
  using accept_turn_cases [of r s] by auto

text \<open>What one turn that goes on does, whether or not there was a connection.\<close>

lemma accept_turn_Done:
  assumes "accept_turn r s = Done u t"
  shows "(ar_conn r \<noteq> None \<longrightarrow> ar_created r) \<and> next_handler t = next_handler s + of_bool (ar_conn r \<noteq> None)
    \<and> (\<forall>i. next_handler s \<le> i \<and> i < next_handler t \<longrightarrow> serving t i)
    \<and> conn_pool t = conn_pool s - ar_gone r \<union> {next_handler s ..< next_handler t}
    \<and> (\<forall>i < next_handler s. sv_handlers t i = sv_handlers s i \<and> sv_conns t i = sv_conns s i)"
  using accept_turn_cases [of r s] assms by (auto split: if_splits simp: less_Suc_eq)

lemma server_cycle_Done:
  assumes "IServer_cycle rounds s = Done u t"
  shows "(\<forall>r\<in>set rounds. ar_conn r \<noteq> None \<longrightarrow> ar_created r)
    \<and> next_handler t = next_handler s + accepted rounds
    \<and> (\<forall>i. next_handler s \<le> i \<and> i < next_handler t \<longrightarrow> serving t i)
    \<and> conn_pool t \<subseteq> conn_pool s \<union> {next_handler s ..< next_handler t}
    \<and> (\<forall>i. i \<in> conn_pool s \<union> {next_handler s ..< next_handler t} \<and> (\<forall>r\<in>set rounds. i \<notin> ar_gone r) \<longrightarrow> i \<in> conn_pool t)
    \<and> (\<forall>i < next_handler s. sv_handlers t i = sv_handlers s i \<and> sv_conns t i = sv_conns s i)"
  using assms
proof (induction rounds arbitrary: s)
  case Nil
  then show ?case by (auto simp: IServer_cycle_def ret_def accepted_def)
next
  case (Cons r rounds)
  from Cons.prems obtain s1 where s1: "accept_turn r s = Done () s1" "IServer_cycle rounds s1 = Done u t"
    by (auto simp: cycle_Cons seq_Done_iff)
  note turn = accept_turn_Done [OF s1(1)]
  note rest = Cons.IH [OF s1(2)]
  have acc: "accepted (r # rounds) = of_bool (ar_conn r \<noteq> None) + accepted rounds" by (simp add: accepted_def)
  have serve: "serving t i" if "next_handler s \<le> i" "i < next_handler t" for i
  proof (cases "i < next_handler s1")
    case True
    with turn that rest show ?thesis by (simp add: serving_def)
  next
    case False
    with rest that show ?thesis by simp
  qed
  have own: "i \<in> conn_pool t"
    if "i \<in> conn_pool s \<union> {next_handler s ..< next_handler t}" "\<forall>q\<in>set (r # rounds). i \<notin> ar_gone q" for i
  proof -
    have "i \<in> conn_pool s1 \<union> {next_handler s1 ..< next_handler t}" using that turn by auto
    with that(2) rest show ?thesis by simp
  qed
  have sub: "conn_pool t \<subseteq> conn_pool s \<union> {next_handler s ..< next_handler t}"
  proof -
    have "conn_pool t \<subseteq> conn_pool s1 \<union> {next_handler s1 ..< next_handler t}" using rest by blast
    moreover have "conn_pool s1 \<subseteq> conn_pool s \<union> {next_handler s ..< next_handler s1}" using turn by blast
    moreover have "next_handler s \<le> next_handler s1" "next_handler s1 \<le> next_handler t" using turn rest by auto
    ultimately show ?thesis by fastforce
  qed
  show ?case using turn rest acc serve own sub by auto
qed

text \<open>
  C7: The accept loop of a server goes on for good exactly while the coroutine of every connection can be made.
  Then each accepted connection has a handler of its own that serves it, every handler is owned by
  the manager unless it has removed itself, and no other is; the first coroutine that cannot be made ends
  the loop, and with it the server, with the error of the coroutine.
\<close>

theorem server_accepts:
  "case IServer_cycle rounds s of
     Done u t \<Rightarrow> (\<forall>r\<in>set rounds. ar_conn r \<noteq> None \<longrightarrow> ar_created r)
       \<and> next_handler t = next_handler s + accepted rounds
       \<and> (\<forall>i. next_handler s \<le> i \<and> i < next_handler t \<longrightarrow> serving t i)
       \<and> conn_pool t \<subseteq> conn_pool s \<union> {next_handler s ..< next_handler t}
       \<and> (\<forall>i. i \<in> conn_pool s \<union> {next_handler s ..< next_handler t} \<and> (\<forall>r\<in>set rounds. i \<notin> ar_gone r) \<longrightarrow> i \<in> conn_pool t)
   | Fail e t \<Rightarrow> e = error_cothread_start \<and> (\<exists>r\<in>set rounds. ar_conn r \<noteq> None \<and> \<not> ar_created r)
   | Crash q \<Rightarrow> False"
proof (cases "IServer_cycle rounds s")
  case (Done u t)
  show ?thesis unfolding Done outcome.case using server_cycle_Done [OF Done] by blast
next
  case (Fail e t)
  then have "e = error_cothread_start \<and> (\<exists>r\<in>set rounds. ar_conn r \<noteq> None \<and> \<not> ar_created r)"
    by (induction rounds arbitrary: s)
      (auto simp: IServer_cycle_def ret_def seq_def bind_def split: outcome.splits dest: accept_turn_fail)
  with Fail show ?thesis by simp
next
  case (Crash q)
  then have False
    by (induction rounds arbitrary: s)
      (auto simp: IServer_cycle_def ret_def seq_def bind_def accept_turn_no_crash split: outcome.splits)
  then show ?thesis ..
qed

definition one_connection :: accept_round where
  "one_connection = \<lparr>ar_gone = {}, ar_conn = Some (fst (IClientConn_new 4)), ar_created = True, ar_cid = 2\<rparr>"

theorem server_accepts_witness:
  "\<exists>t. IServer_cycle [one_connection, one_connection\<lparr>ar_conn := None\<rparr>, one_connection] IServer_new = Done () t
     \<and> conn_pool t = {0, 1} \<and> serving t 0 \<and> serving t 1"
proof -
  let ?rounds = "[one_connection, one_connection\<lparr>ar_conn := None\<rparr>, one_connection]"
  have r: "accepted ?rounds = 2" "\<forall>r\<in>set ?rounds. ar_conn r \<noteq> None \<longrightarrow> ar_created r" "\<forall>r\<in>set ?rounds. ar_gone r = {}"
    by (simp_all add: accepted_def one_connection_def)
  note claim = server_accepts [of ?rounds IServer_new]
  obtain t where t: "IServer_cycle ?rounds IServer_new = Done () t"
    using claim r(2) by (cases "IServer_cycle ?rounds IServer_new") auto
  note c = claim [unfolded t outcome.case]
  have n: "next_handler IServer_new = 0" "conn_pool IServer_new = {}" by (simp_all add: IServer_new_def)
  have two: "next_handler t = 2" using c r(1) n by simp
  have "conn_pool t = {0 ..< 2}"
  proof
    show "conn_pool t \<subseteq> {0 ..< 2}" using c n two by simp
    show "{0 ..< 2} \<subseteq> conn_pool t" using c n two r(3) by fastforce
  qed
  moreover have "serving t 0" "serving t 1" using c n two by auto
  moreover have "{0 ..< 2 :: nat} = {0, 1}" by auto
  ultimately show ?thesis using t by auto
qed

section \<open>The end of a connection\<close>

text \<open>
  C40: A connection that ends in an error, as every connection that its client closes does, is the last owner's
  end: the handler takes itself out of the manager, which destroys it with its coroutine, and the
  coroutine then stores its error in the destroyed object.
\<close>

theorem http_handler_use_after_free:
  assumes "co_run s" "thread s = In_Cycle" "owners s = 1" "\<not> stopping s" "i \<in> conn_pool sv"
    and "HttpConnHandler_cycle j k env mem http mux True w = Fail e w'" "e \<noteq> 0"
  shows "thread_end e (i \<in> conn_pool sv - conn_pool (HttpConnHandler_on_thread_stop True i sv)) s
    = Crash Use_After_Free"
proof -
  have "i \<in> conn_pool sv - conn_pool (HttpConnHandler_on_thread_stop True i sv)"
    using assms(5) by (simp add: HttpConnHandler_on_thread_stop_def remove_conn_def)
  with use_after_free [OF assms(1-4,7)] show ?thesis by simp
qed

text \<open>A client that closes its connection before it has sent anything.\<close>

definition closing_env :: "(unit, unit) http_env" where
  "closing_env = \<lparr>env_read = \<lambda>n w. ((0, []), w), env_is_stop = \<lambda>w. False, env_set_stop = \<lambda>w. w,
     env_no_timeout = \<lambda>w. w, env_handle = \<lambda>h req w. (0, w)\<rparr>"

lemma closing_cycle:
  "HttpConnHandler_cycle 1 1 closing_env mem http HttpMux_new True () = Fail error_socket_closed ()"
  by (simp add: HttpConnHandler_cycle_def HttpParser_parse_request_def closing_env_def act_simps)

theorem http_handler_use_after_free_witness:
  "let s = start_step True (co_init (lit ''conn_handler'') 1)\<lparr>thread := In_Cycle\<rparr>; sv = register_conn 0 IServer_new
   in thread_end error_socket_closed (0 \<in> conn_pool sv - conn_pool (HttpConnHandler_on_thread_stop True 0 sv)) s
      = Crash Use_After_Free"
proof -
  let ?s = "start_step True (co_init (lit ''conn_handler'') 1)\<lparr>thread := In_Cycle\<rparr>"
  have "owners ?s = 1" "\<not> stopping ?s" "thread ?s = In_Cycle"
    by (simp_all add: co_init_def start_step_def STCoroutine_new_def co_start_def)
  then show ?thesis
    unfolding Let_def
    by (intro http_handler_use_after_free [OF cycling_run _ _ _ _ closing_cycle])
      (simp_all add: register_conn_def error_socket_closed_def)
qed

end
