(* ===== verification/Av_Format.thy ===== *)
theory Av_Format
  imports Raw_Format
begin

text \<open>
  The formats \<open>flv\<close> and \<open>ts\<close>: \<open>BaseDeMux\<close> and \<open>BaseMux\<close> of \<open>src/format/ffmpeg/tmss_format_base.cpp\<close>.
  The FFmpeg libraries are not in the repository: each call of theirs is a field of \<open>av_lib\<close>, over their
  state \<open>'w\<close>, and of their structures only the members the code uses are here.

  The context of the input is one object that the demuxer fills and every muxer of the stream reads: it is
  an argument of the muxer's operations, with the value it has at the call.
\<close>

section \<open>The library\<close>

datatype media_type = AVMEDIA_TYPE_VIDEO | AVMEDIA_TYPE_AUDIO | AVMEDIA_TYPE_SUBTITLE | AVMEDIA_TYPE_OTHER

type_synonym AVRational = "int \<times> int"

record AVStream =
  par_codec_type :: media_type
  par_codec_id :: int
  par_codec_tag :: "32 word"
  st_time_base :: AVRational

text \<open>Of the two lists of formats a codec supports, the first entry, when there is a list.\<close>

record AVCodec =
  codec_no :: int
  pix_fmts :: "int option"
  sample_fmts :: "int option"

record AVCodecContext =
  cc_codec_id :: int
  cc_codec_type :: media_type
  cc_height :: int
  cc_width :: int
  cc_sample_aspect_ratio :: AVRational
  cc_pix_fmt :: int
  cc_time_base :: AVRational
  cc_framerate :: AVRational
  cc_sample_rate :: int
  cc_channel_layout :: "64 word"
  cc_channels :: int
  cc_sample_fmt :: int
  cc_flags :: "32 word"

record AVPacket =
  av_data :: bytes
  av_pts :: int
  av_dts :: int
  av_stream_index :: int
  av_flags :: "32 word"

record AVFormatContext =
  av_streams :: "AVStream list"
  fmt_flags :: "32 word"

record ('f, 'w) av_lib =
  avformat_alloc_context :: "'w \<Rightarrow> AVFormatContext option \<times> 'w"
  avformat_open_input :: "AVFormatContext option \<Rightarrow> 'w \<Rightarrow> (int \<times> AVFormatContext option) \<times> 'w"
  avformat_find_stream_info :: "AVFormatContext option \<Rightarrow> 'w \<Rightarrow> (int \<times> AVFormatContext option) \<times> 'w"
  avformat_alloc_output :: "bytes \<Rightarrow> 'w \<Rightarrow> (int \<times> AVFormatContext option) \<times> 'w"
  avformat_new_stream :: "AVFormatContext \<Rightarrow> 'w \<Rightarrow> AVStream option \<times> 'w"
  avformat_write_header :: "AVFormatContext \<Rightarrow> 'w \<Rightarrow> int \<times> 'w"
  av_write_frame :: "AVPacket \<Rightarrow> 'w \<Rightarrow> int \<times> 'w"
  av_read_frame :: "'w \<Rightarrow> (int \<times> AVPacket) \<times> 'w"
  avcodec_find_decoder :: "int \<Rightarrow> AVCodec option"
  avcodec_find_encoder :: "int \<Rightarrow> AVCodec option"
  avcodec_alloc_context3 :: "AVCodec \<Rightarrow> 'w \<Rightarrow> AVCodecContext option \<times> 'w"
  avcodec_parameters_to_context :: "AVStream \<Rightarrow> AVCodecContext \<Rightarrow> 'w \<Rightarrow> (int \<times> AVCodecContext) \<times> 'w"
  avcodec_parameters_from_context :: "AVCodecContext \<Rightarrow> AVStream \<Rightarrow> 'w \<Rightarrow> (int \<times> AVStream) \<times> 'w"
  avcodec_open2 :: "AVCodec \<Rightarrow> AVCodecContext \<Rightarrow> 'w \<Rightarrow> (int \<times> AVCodecContext) \<times> 'w"
  avcodec_send_packet :: "AVCodecContext \<Rightarrow> AVPacket \<Rightarrow> 'w \<Rightarrow> int \<times> 'w"
  avcodec_receive_frame :: "AVCodecContext \<Rightarrow> 'w \<Rightarrow> (int \<times> 'f) \<times> 'w"
  avcodec_send_frame :: "AVCodecContext \<Rightarrow> 'f \<Rightarrow> 'w \<Rightarrow> int \<times> 'w"
  avcodec_receive_packet :: "AVCodecContext \<Rightarrow> 'w \<Rightarrow> (int \<times> AVPacket) \<times> 'w"
  av_guess_frame_rate :: "AVStream \<Rightarrow> AVRational"
  av_get_channel_layout_nb_channels :: "64 word \<Rightarrow> int"
  av_inv_q :: "AVRational \<Rightarrow> AVRational"
  av_rescale_q :: "int \<Rightarrow> AVRational \<Rightarrow> AVRational \<Rightarrow> int"
  av_bsf_get_by_name :: "bytes \<Rightarrow> nat option"
  av_bsf_alloc :: "nat option \<Rightarrow> 'w \<Rightarrow> (int \<times> nat option) \<times> 'w"
  avcodec_parameters_copy :: "nat \<Rightarrow> AVStream \<Rightarrow> 'w \<Rightarrow> int \<times> 'w"
  av_bsf_init :: "nat \<Rightarrow> 'w \<Rightarrow> int \<times> 'w"
  av_bsf_send_packet :: "nat \<Rightarrow> AVPacket \<Rightarrow> 'w \<Rightarrow> int \<times> 'w"
  av_bsf_receive_packet :: "nat \<Rightarrow> 'w \<Rightarrow> (int \<times> AVPacket) \<times> 'w"
  AVFMT_GLOBALHEADER :: "32 word"
  AV_CODEC_FLAG_GLOBAL_HEADER :: "32 word"
  AV_PKT_FLAG_KEY :: "32 word"

abbreviation (input) error_ffmpeg_init_input :: int where "error_ffmpeg_init_input \<equiv> 17001"
abbreviation (input) error_ffmpeg_read :: int where "error_ffmpeg_read \<equiv> 17002"
abbreviation (input) error_ffmpeg_init_output :: int where "error_ffmpeg_init_output \<equiv> 17003"
abbreviation (input) error_ffmpeg_write :: int where "error_ffmpeg_write \<equiv> 17004"
abbreviation (input) error_ffmpeg_write_header :: int where "error_ffmpeg_write_header \<equiv> 17005"

text \<open>A call of the library, beside a state of the program, and a pointer that is used.\<close>

definition lib_call :: "('w \<Rightarrow> 'a \<times> 'w) \<Rightarrow> ('a, 's \<times> 'w) act" where
  "lib_call f = (\<lambda>(s, w). case f w of (x, w) \<Rightarrow> Done x (s, w))"

definition deref :: "'a option \<Rightarrow> ('a, 's) act" where
  "deref p = (case p of None \<Rightarrow> crash Null_Deref | Some x \<Rightarrow> ret x)"

text \<open>\<open>v[i]\<close> of a \<open>std::vector\<close>.\<close>

definition vector_at :: "'a list \<Rightarrow> int \<Rightarrow> ('a, 's) act" where
  "vector_at xs i = (if 0 \<le> i \<and> i < int (length xs) then ret (xs ! nat i) else crash Out_Of_Bounds)"

section \<open>Contexts and packets\<close>

record TmssAVFormatContext =
  fmt_ctx :: "AVFormatContext option"
  codec_ctx_group :: "AVCodecContext option list"
  is_transcode :: bool
  is_annexb :: bool
  bsf_ctx :: "nat option"
  video_stream_index :: int

text \<open>
  The constructor sets two members; the others are what the memory \<open>junk\<close> holds.
\<close>

definition TmssAVFormatContext_new :: "TmssAVFormatContext \<Rightarrow> bool \<Rightarrow> TmssAVFormatContext" where
  "TmssAVFormatContext_new junk is_codec = junk\<lparr>fmt_ctx := None, codec_ctx_group := [], is_transcode := is_codec\<rparr>"

text \<open>
  A \<open>void *\<close> to a context.  The code casts it to a \<open>TmssAVFormatContext\<close> without a test; the members of
  one are outside the object when it is an \<open>IContext\<close>.
\<close>

datatype context_ptr = No_Context | Plain_Context | Av_Context TmssAVFormatContext

definition av_context :: "context_ptr \<Rightarrow> (TmssAVFormatContext, 's) act" where
  "av_context p = (case p of
     No_Context \<Rightarrow> crash Null_Deref | Plain_Context \<Rightarrow> crash Out_Of_Bounds | Av_Context c \<Rightarrow> ret c)"

text \<open>An \<open>IPacket\<close> pointer: null, a packet of the raw format, or a \<open>TmssAVPacket\<close>.\<close>

datatype ipacket = Null_Packet | Raw_Packet Packet | Av_Packet AVPacket

text \<open>The virtual functions of a \<open>TmssAVPacket\<close>: \<open>buffer\<close> and \<open>get_size\<close>, \<open>timestamp\<close>, \<open>is_key_frame\<close>.\<close>

definition av_timestamp :: "AVPacket \<Rightarrow> int" where
  "av_timestamp p = av_dts p"

definition av_is_key_frame :: "('f, 'w) av_lib \<Rightarrow> AVPacket \<Rightarrow> bool" where
  "av_is_key_frame lib p \<longleftrightarrow> and (av_flags p) (AV_PKT_FLAG_KEY lib) \<noteq> 0"

definition common_view :: "('f, 'w) av_lib \<Rightarrow> AVPacket \<Rightarrow> Packet" where
  "common_view lib p = \<lparr>pkt_buffer = av_data p, pkt_timestamp = av_timestamp p, pkt_key_frame = av_is_key_frame lib p\<rparr>"

section \<open>Demuxer\<close>

record BaseDeMux =
  dm_raw :: RawDeMux
  dm_format :: bytes

definition BaseDeMux_new :: "bytes \<Rightarrow> BaseDeMux" where
  "BaseDeMux_new fmt = \<lparr>dm_raw = RawDeMux_new, dm_format = fmt\<rparr>"

definition FlvDeMux_new :: BaseDeMux where "FlvDeMux_new = BaseDeMux_new (lit ''flv'')"
definition MpegTsDeMux_new :: BaseDeMux where "MpegTsDeMux_new = BaseDeMux_new (lit ''mpegts'')"

text \<open>
  \<open>init_input\<close>; its result is the context it has filled.  The I/O context it attaches has no member the
  code reads again.
\<close>

definition base_init_input :: "('f, 'w) av_lib \<Rightarrow> bytes \<Rightarrow> int \<Rightarrow> context_ptr \<Rightarrow> (context_ptr, BaseDeMux \<times> 'w) act" where
  "base_init_input lib mem buffer_size in_ptr =
     seq (\<lambda>(d, w). Done () (d\<lparr>dm_raw := raw_init_input mem buffer_size (dm_raw d)\<rparr>, w))
       (bind (av_context in_ptr) (\<lambda>c.
          bind (lib_call (avformat_alloc_context lib)) (\<lambda>f.
            bind (deref f) (\<lambda>f. ret (Av_Context (c\<lparr>fmt_ctx := Some f\<rparr>))))))"

text \<open>\<open>handle_input\<close> for packets, and for frames, which decodes at most one frame per packet.\<close>

definition read_packet :: "('f, 'w) av_lib \<Rightarrow> (AVPacket, 's \<times> 'w) act" where
  "read_packet lib = bind (lib_call (av_read_frame lib)) (\<lambda>(r, p).
     if r < 0 then fail error_ffmpeg_read else ret p)"

definition base_handle_input :: "('f, 'w) av_lib \<Rightarrow> (ipacket, TmssAVFormatContext \<times> 'w) act" where
  "base_handle_input lib = bind (read_packet lib) (\<lambda>p. ret (Av_Packet p))"

definition base_handle_input_frame :: "('f, 'w) av_lib \<Rightarrow> ('f \<times> int, TmssAVFormatContext \<times> 'w) act" where
  "base_handle_input_frame lib = bind (read_packet lib) (\<lambda>p. \<lambda>(c, w).
     bind (bind (vector_at (codec_ctx_group c) (av_stream_index p)) deref) (\<lambda>cc.
     bind (lib_call (avcodec_send_packet lib cc p)) (\<lambda>r.
       if r < 0 then fail r
       else bind (lib_call (avcodec_receive_frame lib cc)) (\<lambda>(r, f).
         if r < 0 then fail r else ret (f, av_stream_index p)))) (c, w))"

text \<open>
  \<open>open_bitstream_filter\<close>: the result for an unknown name is overwritten, and by the place of a bracket
  a failed allocation returns 1.
\<close>

definition open_bitstream_filter :: "('f, 'w) av_lib \<Rightarrow> AVStream \<Rightarrow> bytes \<Rightarrow> (int, TmssAVFormatContext \<times> 'w) act" where
  "open_bitstream_filter lib stream nm =
     bind (lib_call (av_bsf_alloc lib (av_bsf_get_by_name lib nm))) (\<lambda>(r, b).
     seq (\<lambda>(c, w). Done () (c\<lparr>bsf_ctx := b\<rparr>, w))
       (if r < 0 then ret 1
        else bind (deref b) (\<lambda>b.
          bind (lib_call (avcodec_parameters_copy lib b stream)) (\<lambda>r.
            if r < 0 then ret r else lib_call (av_bsf_init lib b)))))"

definition push_codec :: "AVCodecContext option \<Rightarrow> (unit, TmssAVFormatContext \<times> 'w) act" where
  "push_codec cc = (\<lambda>(c, w). Done () (c\<lparr>codec_ctx_group := codec_ctx_group c @ [cc]\<rparr>, w))"

text \<open>What was done to the object behind the pointer pushed last.\<close>

definition set_last_codec :: "AVCodecContext \<Rightarrow> (unit, TmssAVFormatContext \<times> 'w) act" where
  "set_last_codec cc = (\<lambda>(c, w). Done () (c\<lparr>codec_ctx_group := butlast (codec_ctx_group c) @ [Some cc]\<rparr>, w))"

text \<open>One turn of the loop of \<open>on_ingest\<close>: a decoder for the stream \<open>i\<close>, and what is noted of a video.\<close>

definition ingest_stream :: "('f, 'w) av_lib \<Rightarrow> nat \<Rightarrow> AVStream \<Rightarrow> (int, TmssAVFormatContext \<times> 'w) act" where
  "ingest_stream lib i stream = (case avcodec_find_decoder lib (par_codec_id stream) of
     None \<Rightarrow> fail error_ffmpeg_init_input
   | Some dec \<Rightarrow>
       bind (lib_call (avcodec_alloc_context3 lib dec)) (\<lambda>cc.
       seq (push_codec cc) (case cc of
         None \<Rightarrow> fail error_ffmpeg_init_input
       | Some cc \<Rightarrow>
           bind (lib_call (avcodec_parameters_to_context lib stream cc)) (\<lambda>(r, cc).
           seq (set_last_codec cc) (if r \<noteq> 0 then fail error_ffmpeg_init_input
           else bind (lib_call (avcodec_open2 lib dec cc)) (\<lambda>(r, cc).
             seq (set_last_codec cc) (if r < 0 then fail r
             else seq (set_last_codec (cc\<lparr>cc_framerate := av_guess_frame_rate lib stream\<rparr>))
               (\<lambda>(c, w). Done r
                 (if par_codec_type stream = AVMEDIA_TYPE_VIDEO
                  then c\<lparr>video_stream_index := int i, is_annexb := (par_codec_tag stream \<noteq> 0)\<rparr> else c, w)))))))))"

primrec ingest_streams :: "('f, 'w) av_lib \<Rightarrow> nat \<Rightarrow> int \<Rightarrow> AVStream list \<Rightarrow> (int, TmssAVFormatContext \<times> 'w) act" where
  "ingest_streams lib i r [] = ret r"
| "ingest_streams lib i r (s # ss) = bind (ingest_stream lib i s) (\<lambda>r. ingest_streams lib (i + 1) r ss)"

text \<open>A call that may change the format context.\<close>

definition on_format :: "(AVFormatContext option \<Rightarrow> 'w \<Rightarrow> (int \<times> AVFormatContext option) \<times> 'w)
    \<Rightarrow> (int, TmssAVFormatContext \<times> 'w) act" where
  "on_format f = (\<lambda>(c, w). case f (fmt_ctx c) w of ((r, x), w) \<Rightarrow> Done r (c\<lparr>fmt_ctx := x\<rparr>, w))"

text \<open>The filter a video needs whose codec tag is 0; the last result is the one of the function.\<close>

definition ingest_filter :: "('f, 'w) av_lib \<Rightarrow> AVFormatContext \<Rightarrow> int \<Rightarrow> (unit, TmssAVFormatContext \<times> 'w) act" where
  "ingest_filter lib f r = (\<lambda>(c, w).
     bind (if is_annexb c then ret r
       else bind (vector_at (av_streams f) (video_stream_index c)) (\<lambda>stream.
         bind (open_bitstream_filter lib stream (lit ''h264_mp4toannexb'')) (\<lambda>r. if r < 0 then fail r else ret r)))
       (\<lambda>r. check (r = 0) r) (c, w))"

definition base_on_ingest :: "('f, 'w) av_lib \<Rightarrow> int \<Rightarrow> bytes \<Rightarrow> (unit, TmssAVFormatContext \<times> 'w) act" where
  "base_on_ingest lib n data_header =
     bind (on_format (avformat_open_input lib)) (\<lambda>r.
     if r < 0 then fail error_ffmpeg_init_input
     else bind (on_format (avformat_find_stream_info lib)) (\<lambda>r.
     if r < 0 then fail error_ffmpeg_init_input
     else (\<lambda>(c, w). bind (deref (fmt_ctx c)) (\<lambda>f.
       bind (ingest_streams lib 0 r (av_streams f)) (ingest_filter lib f)) (c\<lparr>video_stream_index := 0\<rparr>, w))))"

section \<open>Muxer\<close>

text \<open>
  \<open>has_ifmt_ctx\<close> says whether \<open>ifmt_ctx\<close> was set; \<open>stream_info\<close> is the \<open>std::map\<close> of the two time bases,
  which gives \<open>(0, 0)\<close> for a stream it has no entry of.
\<close>

record BaseMux =
  mx_raw :: RawMux
  is_send_avheader :: bool
  mx_format :: bytes
  has_ifmt_ctx :: bool
  stream_info :: "int \<Rightarrow> AVRational \<times> AVRational"

definition BaseMux_new :: "bytes \<Rightarrow> BaseMux" where
  "BaseMux_new fmt = \<lparr>mx_raw = RawMux_new, is_send_avheader = False, mx_format = fmt, has_ifmt_ctx = False,
     stream_info = (\<lambda>_. ((0, 0), (0, 0)))\<rparr>"

definition FlvMux_new :: BaseMux where "FlvMux_new = BaseMux_new (lit ''flv'')"
definition MpegTsMux_new :: BaseMux where "MpegTsMux_new = BaseMux_new (lit ''mpegts'')"

text \<open>The fields of an encoder, from those of the decoder \<open>ic\<close> of the same stream.\<close>

definition encoder_fields :: "('f, 'w) av_lib \<Rightarrow> AVCodec \<Rightarrow> AVCodecContext \<Rightarrow> AVCodecContext \<Rightarrow> (AVCodecContext, 's) act" where
  "encoder_fields lib enc ic cc =
     (if cc_codec_type ic = AVMEDIA_TYPE_VIDEO
      then ret (cc\<lparr>cc_height := cc_height ic, cc_width := cc_width ic, cc_sample_aspect_ratio := cc_sample_aspect_ratio ic,
        cc_pix_fmt := (case pix_fmts enc of Some x \<Rightarrow> x | None \<Rightarrow> cc_pix_fmt ic),
        cc_time_base := av_inv_q lib (cc_framerate ic)\<rparr>)
      else bind (deref (sample_fmts enc)) (\<lambda>x.
        ret (cc\<lparr>cc_sample_rate := cc_sample_rate ic, cc_channel_layout := cc_channel_layout ic,
          cc_channels := av_get_channel_layout_nb_channels lib (cc_channel_layout ic),
          cc_sample_fmt := x, cc_time_base := (1, cc_sample_rate ic)\<rparr>)))"

text \<open>The time base packets are written in; the denominator is an \<open>int\<close>.\<close>

definition time_base_out :: "bytes \<Rightarrow> AVRational \<Rightarrow> AVRational" where
  "time_base_out fmt tb = (if fmt = lit ''mpegts'' then (fst tb, sint (of_int (snd tb * 90) :: 32 word)) else tb)"

definition wanted_stream :: "AVStream \<Rightarrow> bool" where
  "wanted_stream s \<longleftrightarrow> par_codec_type s \<in> {AVMEDIA_TYPE_AUDIO, AVMEDIA_TYPE_VIDEO, AVMEDIA_TYPE_SUBTITLE}"

text \<open>
  One turn of the loop of \<open>init_output\<close>; the state is the muxer, the output's context and the library.
  The new streams are appended to the output's format context.
\<close>

type_synonym 'w mux_state = "(BaseMux \<times> TmssAVFormatContext) \<times> 'w"

definition upd_mux :: "(BaseMux \<Rightarrow> BaseMux) \<Rightarrow> (unit, 'w mux_state) act" where
  "upd_mux g = (\<lambda>((m, c), w). Done () ((g m, c), w))"

definition on_output_context :: "(unit, TmssAVFormatContext \<times> 'w) act \<Rightarrow> (unit, 'w mux_state) act" where
  "on_output_context f = (\<lambda>((m, c), w). case f (c, w) of
     Done x (c, w) \<Rightarrow> Done x ((m, c), w) | Fail e (c, w) \<Rightarrow> Fail e ((m, c), w) | Crash q \<Rightarrow> Crash q)"

definition upd_streams :: "(AVStream list \<Rightarrow> AVStream list) \<Rightarrow> (unit, TmssAVFormatContext \<times> 'w) act" where
  "upd_streams g = (\<lambda>(c, w). bind (deref (fmt_ctx c)) (\<lambda>f. \<lambda>(c, w).
     Done () (c\<lparr>fmt_ctx := Some (f\<lparr>av_streams := g (av_streams f)\<rparr>)\<rparr>, w)) (c, w))"

definition add_stream :: "AVStream \<Rightarrow> (unit, TmssAVFormatContext \<times> 'w) act" where
  "add_stream st = upd_streams (\<lambda>sts. sts @ [st])"

definition set_last_stream :: "AVStream \<Rightarrow> (unit, TmssAVFormatContext \<times> 'w) act" where
  "set_last_stream st = upd_streams (\<lambda>sts. butlast sts @ [st])"

definition make_output_stream :: "('f, 'w) av_lib \<Rightarrow> nat \<Rightarrow> AVCodec \<Rightarrow> AVCodecContext \<Rightarrow> AVCodecContext \<Rightarrow> AVStream
    \<Rightarrow> AVFormatContext \<Rightarrow> (unit, 'w mux_state) act" where
  "make_output_stream lib i enc ic cc st f =
     bind (encoder_fields lib enc ic cc) (\<lambda>cc.
     let cc = (if and (fmt_flags f) (AVFMT_GLOBALHEADER lib) \<noteq> 0
               then cc\<lparr>cc_flags := or (cc_flags cc) (AV_CODEC_FLAG_GLOBAL_HEADER lib)\<rparr> else cc);
         tb = cc_time_base cc;
         st = st\<lparr>st_time_base := tb\<rparr> in
     seq (on_output_context (seq (set_last_codec cc) (set_last_stream st)))
     (seq (upd_mux (\<lambda>m. m\<lparr>stream_info := (stream_info m)(int i := (tb, time_base_out (mx_format m) tb))\<rparr>))
     (bind (lib_call (avcodec_open2 lib enc cc)) (\<lambda>(r, cc).
       seq (on_output_context (set_last_codec cc))
       (if r < 0 then fail r
        else bind (lib_call (avcodec_parameters_from_context lib cc st)) (\<lambda>(r, st).
          seq (on_output_context (set_last_stream st)) (if r < 0 then fail r else ret ())))))))"

definition output_stream :: "('f, 'w) av_lib \<Rightarrow> TmssAVFormatContext \<Rightarrow> nat \<Rightarrow> AVStream \<Rightarrow> (unit, 'w mux_state) act" where
  "output_stream lib ictx i in_stream =
     (if \<not> wanted_stream in_stream then ret ()
      else bind (bind (vector_at (codec_ctx_group ictx) (int i)) deref) (\<lambda>ic.
        case avcodec_find_encoder lib (cc_codec_id ic) of
          None \<Rightarrow> fail error_ffmpeg_init_output
        | Some enc \<Rightarrow>
            bind (lib_call (avcodec_alloc_context3 lib enc)) (\<lambda>cc.
            seq (on_output_context (push_codec cc)) (case cc of
              None \<Rightarrow> fail error_ffmpeg_init_input
            | Some cc \<Rightarrow> (\<lambda>((m, c), w). bind (deref (fmt_ctx c)) (\<lambda>f.
                bind (lib_call (avformat_new_stream lib f)) (\<lambda>st. case st of
                  None \<Rightarrow> fail error_ffmpeg_init_output
                | Some st \<Rightarrow> seq (on_output_context (add_stream st)) (make_output_stream lib i enc ic cc st f))) ((m, c), w))))))"

primrec output_streams :: "('f, 'w) av_lib \<Rightarrow> TmssAVFormatContext \<Rightarrow> nat \<Rightarrow> AVStream list \<Rightarrow> (unit, 'w mux_state) act" where
  "output_streams lib ictx i [] = ret ()"
| "output_streams lib ictx i (s # ss) = seq (output_stream lib ictx i s) (output_streams lib ictx (i + 1) ss)"

text \<open>\<open>init_output\<close>.  The output's context is part of the state, behind its pointer.\<close>

definition init_streams :: "('f, 'w) av_lib \<Rightarrow> context_ptr \<Rightarrow> (unit, 'w mux_state) act" where
  "init_streams lib in_ptr = (case in_ptr of
     No_Context \<Rightarrow> ret ()
   | _ \<Rightarrow> seq (upd_mux (\<lambda>m. m\<lparr>has_ifmt_ctx := True\<rparr>))
        (bind (av_context in_ptr) (\<lambda>ictx.
         bind (deref (fmt_ctx ictx)) (\<lambda>f. output_streams lib ictx 0 (av_streams f)))))"

definition alloc_output :: "('f, 'w) av_lib \<Rightarrow> (unit, 'w mux_state) act" where
  "alloc_output lib = (\<lambda>((m, c), w). case avformat_alloc_output lib (mx_format m) w of ((r, f), w) \<Rightarrow>
     let s = ((m, c\<lparr>fmt_ctx := f\<rparr>), w) in
     if r < 0 then Fail error_ffmpeg_init_output s else bind (deref f) (\<lambda>_. ret ()) s)"

definition base_init_output :: "('f, 'w) av_lib \<Rightarrow> bytes \<Rightarrow> int \<Rightarrow> context_ptr
    \<Rightarrow> (unit, (BaseMux \<times> context_ptr) \<times> 'w) act" where
  "base_init_output lib mem buffer_size in_ptr = (\<lambda>((m, out_ptr), w).
     case out_ptr of
       No_Context \<Rightarrow> Crash Null_Deref
     | Plain_Context \<Rightarrow> Crash Out_Of_Bounds
     | Av_Context c \<Rightarrow>
         (case seq (alloc_output lib) (init_streams lib in_ptr)
             ((m\<lparr>mx_raw := raw_init_output mem buffer_size (mx_raw m)\<rparr>, c), w) of
            Done x ((m, c), w) \<Rightarrow> Done x ((m, Av_Context c), w)
          | Fail e ((m, c), w) \<Rightarrow> Fail e ((m, Av_Context c), w)
          | Crash q \<Rightarrow> Crash q))"

text \<open>The header goes out before the first packet or frame; it is tried again while it fails.\<close>

definition send_avheader :: "('f, 'w) av_lib \<Rightarrow> TmssAVFormatContext \<Rightarrow> (unit, BaseMux \<times> 'w) act" where
  "send_avheader lib octx = (\<lambda>(m, w).
     if is_send_avheader m then Done () (m, w)
     else bind (deref (fmt_ctx octx)) (\<lambda>f.
       bind (lib_call (avformat_write_header lib f)) (\<lambda>r.
         if r \<noteq> 0 then fail error_ffmpeg_write_header
         else (\<lambda>(m, w). Done () (m\<lparr>is_send_avheader := True\<rparr>, w)))) (m, w))"

definition rescale :: "('f, 'w) av_lib \<Rightarrow> BaseMux \<Rightarrow> AVPacket \<Rightarrow> AVPacket" where
  "rescale lib m p = (case stream_info m (av_stream_index p) of (tb_in, tb_out) \<Rightarrow>
     p\<lparr>av_pts := av_rescale_q lib (av_pts p) tb_in tb_out, av_dts := av_rescale_q lib (av_dts p) tb_in tb_out\<rparr>)"

definition write_frame :: "('f, 'w) av_lib \<Rightarrow> AVPacket \<Rightarrow> (unit, 's \<times> 'w) act" where
  "write_frame lib p = bind (lib_call (av_write_frame lib p)) (\<lambda>r. if r < 0 then fail error_ffmpeg_write else ret ())"

text \<open>The loop that writes what the filter gives; \<open>n\<close> is fuel.\<close>

primrec filter_loop :: "nat \<Rightarrow> ('f, 'w) av_lib \<Rightarrow> nat \<Rightarrow> (unit, 's \<times> 'w) act" where
  "filter_loop 0 lib b = crash No_Fuel"
| "filter_loop (Suc n) lib b = bind (lib_call (av_bsf_receive_packet lib b)) (\<lambda>(r, p).
     if r \<noteq> 0 then ret () else seq (write_frame lib p) (filter_loop n lib b))"

text \<open>A refused packet makes \<open>handle_output\<close> return 1, again by the place of a bracket.\<close>

definition filter_packet :: "nat \<Rightarrow> ('f, 'w) av_lib \<Rightarrow> nat option \<Rightarrow> AVPacket \<Rightarrow> (unit, 's \<times> 'w) act" where
  "filter_packet n lib bsf p = bind (deref bsf) (\<lambda>b.
     bind (lib_call (av_bsf_send_packet lib b p)) (\<lambda>r. if r < 0 then fail 1 else filter_loop n lib b))"

definition base_handle_output :: "nat \<Rightarrow> ('f, 'w) av_lib \<Rightarrow> TmssAVFormatContext \<Rightarrow> TmssAVFormatContext \<Rightarrow> ipacket
    \<Rightarrow> (unit, BaseMux \<times> 'w) act" where
  "base_handle_output n lib ictx octx packet =
     seq (send_avheader lib octx) (case packet of
       Av_Packet p \<Rightarrow> (\<lambda>(m, w).
         (if \<not> has_ifmt_ctx m then crash Out_Of_Bounds
          else if \<not> is_annexb ictx \<and> video_stream_index ictx = av_stream_index p
          then filter_packet n lib (bsf_ctx ictx) (rescale lib m p)
          else write_frame lib (rescale lib m p)) (m, w))
     | _ \<Rightarrow> crash Null_Deref)"

definition base_handle_output_frame :: "('f, 'w) av_lib \<Rightarrow> TmssAVFormatContext \<Rightarrow> 'f \<Rightarrow> int \<Rightarrow> (unit, BaseMux \<times> 'w) act" where
  "base_handle_output_frame lib octx frame i =
     seq (send_avheader lib octx)
       (bind (bind (vector_at (codec_ctx_group octx) i) deref) (\<lambda>cc.
        bind (lib_call (avcodec_send_frame lib cc frame)) (\<lambda>r.
        if r < 0 then fail r
        else bind (lib_call (avcodec_receive_packet lib cc)) (\<lambda>(r, p).
          if r < 0 then fail r
          else (\<lambda>(m, w). write_frame lib (rescale lib m (p\<lparr>av_stream_index := i\<rparr>)) (m, w))))))"

section \<open>Choosing a format\<close>

datatype any_mux = Raw_Mux RawMux | Base_Mux BaseMux
datatype any_demux = Raw_Demux RawDeMux | Base_Demux BaseDeMux

definition create_mux_by_ext :: "bytes \<Rightarrow> any_mux" where
  "create_mux_by_ext e =
     (if e = lit ''flv'' then Base_Mux FlvMux_new else if e = lit ''ts'' then Base_Mux MpegTsMux_new else Raw_Mux RawMux_new)"

definition create_demux_by_format :: "bytes \<Rightarrow> any_demux" where
  "create_demux_by_format f =
     (if f = lit ''flv'' then Base_Demux FlvDeMux_new else if f = lit ''ts'' then Base_Demux MpegTsDeMux_new
      else Raw_Demux RawDeMux_new)"

definition create_context_by_ext :: "TmssAVFormatContext \<Rightarrow> bytes \<Rightarrow> context_ptr" where
  "create_context_by_ext junk e =
     (if e = lit ''flv'' then Av_Context (TmssAVFormatContext_new junk False)
      else if e = lit ''ts'' then Av_Context (TmssAVFormatContext_new junk False) else Plain_Context)"

definition create_context_by_format :: "TmssAVFormatContext \<Rightarrow> bytes \<Rightarrow> context_ptr" where
  "create_context_by_format junk f =
     (if f = lit ''flv'' then Av_Context (TmssAVFormatContext_new junk False)
      else if f = lit ''ts'' then Av_Context (TmssAVFormatContext_new junk False) else Plain_Context)"

end
