(* ===== verification/Av_Props.thy ===== *)
theory Av_Props
  imports Av_Format
begin

text \<open>
  What the FFmpeg muxers write and when, with which times, which decoders a stream gets, and where the
  numbering of streams goes wrong.
\<close>

section \<open>Calls of the library\<close>

lemma bind_lib_call [simp]: "bind (lib_call f) g (s, w) = (case f w of (x, w) \<Rightarrow> g x (s, w))"
  by (simp add: bind_def lib_call_def split: prod.splits)

lemma seq_on_output_context:
  "seq (on_output_context f) g ((m, c), w) = (case f (c, w) of
     Done x (c, w) \<Rightarrow> g ((m, c), w) | Fail e (c, w) \<Rightarrow> Fail e ((m, c), w) | Crash q \<Rightarrow> Crash q)"
  by (auto simp: seq_def bind_def on_output_context_def split: outcome.splits prod.splits)

lemma bind_deref [simp]: "bind (deref None) g s = Crash Null_Deref" "bind (deref (Some x)) g s = g x s"
  by (simp_all add: deref_def act_simps)

lemma deref_Done_iff [simp]: "deref p s = Done x s' \<longleftrightarrow> p = Some x \<and> s' = s"
  by (auto simp: deref_def act_simps split: option.splits)

lemma vector_at_Done_iff [simp]:
  "vector_at xs i s = Done x s' \<longleftrightarrow> 0 \<le> i \<and> i < int (length xs) \<and> x = xs ! nat i \<and> s' = s"
  by (auto simp: vector_at_def act_simps)

lemma vector_at_run [simp]:
  "0 \<le> i \<Longrightarrow> i < int (length xs) \<Longrightarrow> vector_at xs i s = Done (xs ! nat i) s"
  "\<not> (0 \<le> i \<and> i < int (length xs)) \<Longrightarrow> vector_at xs i s = Crash Out_Of_Bounds"
  by (auto simp: vector_at_def act_simps)

lemma write_frame_run:
  "write_frame lib p (s, w) = (case av_write_frame lib p w of (r, w) \<Rightarrow>
     if r < 0 then Fail error_ffmpeg_write (s, w) else Done () (s, w))"
  by (simp add: write_frame_def act_simps split: prod.splits)

lemma rescale_sent [simp]: "rescale lib (m\<lparr>is_send_avheader := b\<rparr>) p = rescale lib m p"
  by (simp add: rescale_def)


section \<open>The filter\<close>

text \<open>The filter gives back what it holds, \<open>held\<close> packets, and writing a packet puts none into it.\<close>

definition drains :: "('f, 'w) av_lib \<Rightarrow> nat \<Rightarrow> ('w \<Rightarrow> nat) \<Rightarrow> bool" where
  "drains lib b held \<longleftrightarrow>
     (\<forall>w. case av_bsf_receive_packet lib b w of ((r, p), w') \<Rightarrow> r = 0 \<longrightarrow> held w' < held w)
   \<and> (\<forall>p w. held (snd (av_write_frame lib p w)) \<le> held w)"

lemma filter_loop_ends: "drains lib b held \<Longrightarrow> held w < n \<Longrightarrow> filter_loop n lib b (s, w) \<noteq> Crash q"
proof (induction n arbitrary: w)
  case (Suc n)
  obtain r p w1 where r: "av_bsf_receive_packet lib b w = ((r, p), w1)" by (metis prod.exhaust)
  obtain k w2 where k: "av_write_frame lib p w1 = (k, w2)" by force
  have "held w2 \<le> held w1" using Suc.prems(1) k by (metis drains_def snd_conv)
  moreover have "r = 0 \<longrightarrow> held w1 < held w" using Suc.prems(1) r by (auto simp: drains_def dest!: spec [of _ w])
  ultimately have "r = 0 \<longrightarrow> held w2 < n" using Suc.prems(2) by linarith
  then show ?case using Suc.IH [OF Suc.prems(1), of w2] r k
    by (auto simp: seq_def bind_def [of "write_frame _ _"] write_frame_run ret_def)
qed simp

section \<open>The header and the packets\<close>

datatype av_event = Header | Frame AVPacket








section \<open>Streams of an output\<close>

lemma seq_upd_mux: "seq (upd_mux g) h ((m, c), w) = h ((g m, c), w)"
  by (simp add: upd_mux_def act_simps)

lemma push_codec_run: "push_codec cc (c, w) = Done () (c\<lparr>codec_ctx_group := codec_ctx_group c @ [cc]\<rparr>, w)"
  by (simp add: push_codec_def)

lemma set_last_codec_run: "set_last_codec cc (c, w) = Done () (c\<lparr>codec_ctx_group := butlast (codec_ctx_group c) @ [Some cc]\<rparr>, w)"
  by (simp add: set_last_codec_def)

lemma upd_streams_run: "upd_streams g (c, w) = (case fmt_ctx c of None \<Rightarrow> Crash Null_Deref
    | Some f \<Rightarrow> Done () (c\<lparr>fmt_ctx := Some (f\<lparr>av_streams := g (av_streams f)\<rparr>)\<rparr>, w))"
  by (simp add: upd_streams_def split: option.splits)

lemmas stream_runs = seq_upd_mux seq_on_output_context push_codec_run set_last_codec_run upd_streams_run
  add_stream_def set_last_stream_def

text \<open>The time base of the encoder that is made for the stream of a decoder.\<close>

definition encoder_time_base :: "('f, 'w) av_lib \<Rightarrow> AVCodecContext \<Rightarrow> AVRational" where
  "encoder_time_base lib ic = (if cc_codec_type ic = AVMEDIA_TYPE_VIDEO then av_inv_q lib (cc_framerate ic)
     else (1, cc_sample_rate ic))"

lemma encoder_fields_Done: "encoder_fields lib enc ic cc s = Done cc' s' \<Longrightarrow> s' = s \<and> cc_time_base cc' = encoder_time_base lib ic"
  by (auto simp: encoder_fields_def encoder_time_base_def bind_Done_iff ret_def split: if_splits)

lemma make_output_stream_Done:
  assumes "make_output_stream lib i enc ic cc st f ((m, c), w) = Done u ((m', c'), w')" "codec_ctx_group c \<noteq> []"
  shows "length (codec_ctx_group c') = length (codec_ctx_group c) \<and> fmt_ctx c' \<noteq> None
    \<and> m' = m\<lparr>stream_info := (stream_info m)(int i :=
        (encoder_time_base lib ic, time_base_out (mx_format m) (encoder_time_base lib ic)))\<rparr>"
proof -
  obtain cc1 where e: "encoder_fields lib enc ic cc ((m, c), w) = Done cc1 ((m, c), w)"
    using assms(1) by (auto simp: make_output_stream_def bind_Done_iff dest: encoder_fields_Done)
  with encoder_fields_Done [OF e] assms show ?thesis
    by (auto simp: make_output_stream_def bind_Done [where m = "encoder_fields lib enc ic cc", OF e] Let_def stream_runs act_simps
        split: option.splits prod.splits if_splits)
qed

text \<open>What an encoder of stream \<open>i\<close> leaves in the muxer.\<close>

definition info_of :: "('f, 'w) av_lib \<Rightarrow> bytes \<Rightarrow> AVCodecContext \<Rightarrow> AVRational \<times> AVRational" where
  "info_of lib fmt ic = (encoder_time_base lib ic, time_base_out fmt (encoder_time_base lib ic))"

lemma output_stream_Done:
  assumes "output_stream lib ictx i s ((m, c), w) = Done u ((m', c'), w')"
  shows "if wanted_stream s
    then length (codec_ctx_group c') = length (codec_ctx_group c) + 1 \<and> fmt_ctx c' \<noteq> None
      \<and> (\<exists>ic. codec_ctx_group ictx ! i = Some ic
           \<and> m' = m\<lparr>stream_info := (stream_info m)(int i := info_of lib (mx_format m) ic)\<rparr>)
    else m' = m \<and> c' = c"
proof (cases "wanted_stream s")
  case True
  obtain ic enc where ic: "codec_ctx_group ictx ! i = Some ic" "bind (vector_at (codec_ctx_group ictx) (int i)) deref ((m, c), w) = Done ic ((m, c), w)"
    "avcodec_find_encoder lib (cc_codec_id ic) = Some enc"
    using assms True by (auto simp: output_stream_def bind_Done_iff fail_def split: option.splits)
  obtain f st cc w1 where f: "fmt_ctx c = Some f"
    "make_output_stream lib i enc ic cc st f ((m, c\<lparr>codec_ctx_group := codec_ctx_group c @ [Some cc],
       fmt_ctx := Some (f\<lparr>av_streams := av_streams f @ [st]\<rparr>)\<rparr>), w1) = Done u ((m', c'), w')"
    using assms True ic(3)
    by (cases "fmt_ctx c") (auto simp: output_stream_def bind_Done [where m = "bind _ _", OF ic(2)] stream_runs fail_def
        split: option.splits prod.splits)
  from make_output_stream_Done [OF f(2)] ic True show ?thesis by (auto simp: info_of_def)
qed (use assms in \<open>simp add: output_stream_def act_simps\<close>)

lemma output_streams_Done:
  assumes "output_streams lib ictx i ss ((m, c), w) = Done u ((m', c'), w')"
  shows "length (codec_ctx_group c') = length (codec_ctx_group c) + length (filter wanted_stream ss)
    \<and> (fmt_ctx c \<noteq> None \<longrightarrow> fmt_ctx c' \<noteq> None)
    \<and> mx_format m' = mx_format m \<and> has_ifmt_ctx m' = has_ifmt_ctx m \<and> is_send_avheader m' = is_send_avheader m
    \<and> (\<forall>j<i. stream_info m' (int j) = stream_info m (int j))
    \<and> (\<forall>k<length ss. wanted_stream (ss ! k) \<longrightarrow>
         (\<exists>ic. codec_ctx_group ictx ! (i + k) = Some ic \<and> stream_info m' (int (i + k)) = info_of lib (mx_format m) ic))"
  using assms
proof (induction ss arbitrary: i m c w)
  case Nil
  then show ?case by (simp add: act_simps)
next
  case (Cons s ss)
  obtain m1 c1 w1 where 1: "output_stream lib ictx i s ((m, c), w) = Done () ((m1, c1), w1)"
    "output_streams lib ictx (i + 1) ss ((m1, c1), w1) = Done u ((m', c'), w')"
    using Cons.prems by (auto simp: seq_Done_iff)
  note ih = Cons.IH [OF 1(2)] and st = output_stream_Done [OF 1(1)]
  have info: "\<exists>ic. codec_ctx_group ictx ! (i + k) = Some ic \<and> stream_info m' (int (i + k)) = info_of lib (mx_format m) ic"
    if "k < length (s # ss)" "wanted_stream ((s # ss) ! k)" for k
  proof (cases k)
    case 0
    then have "\<exists>ic. codec_ctx_group ictx ! i = Some ic \<and> stream_info m1 (int i) = info_of lib (mx_format m) ic"
      using st that by auto
    moreover have "stream_info m' (int i) = stream_info m1 (int i)" using ih by simp
    ultimately show ?thesis using 0 by simp
  next
    case (Suc k')
    then have "\<exists>ic. codec_ctx_group ictx ! (i + 1 + k') = Some ic
        \<and> stream_info m' (int (i + 1 + k')) = info_of lib (mx_format m1) ic"
      using ih that by simp
    moreover have "mx_format m1 = mx_format m" using st by (auto split: if_splits)
    ultimately show ?thesis using Suc by simp
  qed
  have "length (codec_ctx_group c') = length (codec_ctx_group c) + length (filter wanted_stream (s # ss))"
    using ih st by (auto split: if_splits)
  moreover have "fmt_ctx c \<noteq> None \<longrightarrow> fmt_ctx c' \<noteq> None" using ih st by (auto split: if_splits)
  moreover have "mx_format m' = mx_format m \<and> has_ifmt_ctx m' = has_ifmt_ctx m \<and> is_send_avheader m' = is_send_avheader m"
    using ih st by (auto split: if_splits)
  moreover have "\<forall>j<i. stream_info m' (int j) = stream_info m (int j)"
    using ih st by (auto split: if_splits)
  ultimately show ?case using info by blast
qed

lemma base_init_output_Done:
  assumes "base_init_output lib mem sz (Av_Context ictx) ((m0, Av_Context c0), w0) = Done u ((m, octx_ptr), w)"
  obtains f octx where "fmt_ctx ictx = Some f" "octx_ptr = Av_Context octx" "fmt_ctx octx \<noteq> None" "has_ifmt_ctx m"
    "is_send_avheader m = is_send_avheader m0" "mx_format m = mx_format m0"
    "length (codec_ctx_group octx) = length (codec_ctx_group c0) + length (filter wanted_stream (av_streams f))"
    "\<forall>k<length (av_streams f). wanted_stream (av_streams f ! k) \<longrightarrow>
       (\<exists>ic. codec_ctx_group ictx ! k = Some ic \<and> stream_info m (int k) = info_of lib (mx_format m0) ic)"
proof -
  obtain octx where r: "octx_ptr = Av_Context octx"
    "seq (alloc_output lib) (init_streams lib (Av_Context ictx))
       ((m0\<lparr>mx_raw := raw_init_output mem sz (mx_raw m0)\<rparr>, c0), w0) = Done u ((m, octx), w)"
    using assms by (auto simp: base_init_output_def split: outcome.splits)
  obtain fo w1 where a: "init_streams lib (Av_Context ictx)
       ((m0\<lparr>mx_raw := raw_init_output mem sz (mx_raw m0)\<rparr>, c0\<lparr>fmt_ctx := Some fo\<rparr>), w1) = Done u ((m, octx), w)"
    using r(2) by (auto simp: seq_Done_iff alloc_output_def Let_def bind_Done_iff ret_def split: prod.splits if_splits)
  obtain f where f: "fmt_ctx ictx = Some f"
    "output_streams lib ictx 0 (av_streams f) ((m0\<lparr>mx_raw := raw_init_output mem sz (mx_raw m0), has_ifmt_ctx := True\<rparr>,
       c0\<lparr>fmt_ctx := Some fo\<rparr>), w1) = Done u ((m, octx), w)"
    using a by (auto simp: init_streams_def seq_upd_mux av_context_def bind_Done_iff ret_def)
  show ?thesis using output_streams_Done [OF f(2)] f(1) r(1) by (intro that [of f octx]) auto
qed

section \<open>Times\<close>



section \<open>Streams that are left out\<close>

text \<open>
  A muxer that leaves a stream out numbers its encoders by the streams it takes, but is asked for them by
  the numbers of the input: encoding a frame of the input's last stream reads past the end of the table.
\<close>

theorem skipped_stream_frames:
  assumes "base_init_output lib mem sz (Av_Context ictx) ((m0, Av_Context c0), w0) = Done u ((m, Av_Context octx), w)"
    "codec_ctx_group c0 = []" "fmt_ctx ictx = Some f" "s \<in> set (av_streams f)" "\<not> wanted_stream s"
  shows "length (codec_ctx_group octx) = length (filter wanted_stream (av_streams f))
    \<and> base_handle_output_frame lib octx frame (int (length (av_streams f)) - 1) (m\<lparr>is_send_avheader := True\<rparr>, w1)
      = Crash Out_Of_Bounds"
proof -
  have len: "length (codec_ctx_group octx) = length (filter wanted_stream (av_streams f))"
    by (rule base_init_output_Done [OF assms(1)]) (use assms(2,3) in simp)
  also have "\<dots> < length (av_streams f)" using assms(4,5) by (rule length_filter_less)
  finally have "\<not> int (length (av_streams f)) - 1 < int (length (codec_ctx_group octx))" by linarith
  then show ?thesis using len by (simp add: base_handle_output_frame_def send_avheader_def act_simps)
qed

text \<open>
  What a published stream does to a player of another format: the input's context is an \<open>IContext\<close>, whose
  members the muxer takes for those of a \<open>TmssAVFormatContext\<close>.
\<close>

lemma raw_source_crashes:
  assumes "e \<in> {lit ''flv'', lit ''ts''}" "fmt \<notin> {lit ''flv'', lit ''ts''}"
    "avformat_alloc_output lib (mx_format m) w = ((r, Some f), w1)" "0 \<le> r"
  shows "base_init_output lib mem sz (create_context_by_format junk fmt) ((m, create_context_by_ext junk e), w)
    = Crash Out_Of_Bounds"
  using assms by (auto simp: base_init_output_def create_context_by_format_def create_context_by_ext_def alloc_output_def
      init_streams_def av_context_def seq_upd_mux Let_def act_simps)

section \<open>The decoders of an input\<close>

lemma seq_set_last: "seq (set_last_codec cc) g (c, w) = g (c\<lparr>codec_ctx_group := butlast (codec_ctx_group c) @ [Some cc]\<rparr>, w)"
  by (simp add: seq_def bind_def set_last_codec_run)

lemma seq_push: "seq (push_codec cc) g (c, w) = g (c\<lparr>codec_ctx_group := codec_ctx_group c @ [cc]\<rparr>, w)"
  by (simp add: seq_def bind_def push_codec_run)

lemma ingest_stream_Done:
  assumes "ingest_stream lib i st (c, w) = Done r (c', w')"
  shows "\<exists>cc. codec_ctx_group c' = codec_ctx_group c @ [Some cc]" "fmt_ctx c' = fmt_ctx c"
    "video_stream_index c' = (if par_codec_type st = AVMEDIA_TYPE_VIDEO then int i else video_stream_index c)"
  using assms
  by (auto simp: ingest_stream_def seq_set_last seq_push fail_def split: option.splits prod.splits if_splits)

lemma ingest_streams_Done:
  assumes "ingest_streams lib i r sts (c, w) = Done r' (c', w')" "None \<notin> set (codec_ctx_group c)"
  shows "length (codec_ctx_group c') = length (codec_ctx_group c) + length sts \<and> None \<notin> set (codec_ctx_group c')
    \<and> fmt_ctx c' = fmt_ctx c"
  using assms
proof (induction sts arbitrary: i r c w)
  case Nil
  then show ?case by (simp add: act_simps)
next
  case (Cons s ss)
  obtain r1 c1 w1 where 1: "ingest_stream lib i s (c, w) = Done r1 (c1, w1)" "ingest_streams lib (i + 1) r1 ss (c1, w1) = Done r' (c', w')"
    using Cons.prems by (auto simp: bind_Done_iff)
  note st = ingest_stream_Done [OF 1(1)]
  with Cons.prems(2) have "None \<notin> set (codec_ctx_group c1)" by auto
  from Cons.IH [OF 1(2) this] st show ?case by auto
qed

lemma seq_set_bsf: "seq (\<lambda>(c, w). Done () (c\<lparr>bsf_ctx := b\<rparr>, w)) g (c, w) = g (c\<lparr>bsf_ctx := b\<rparr>, w)"
  by (simp add: seq_def bind_def)

lemma open_filter_Done:
  assumes "open_bitstream_filter lib st nm (c, w) = Done r (c', w')" "r = 0"
  shows "bsf_ctx c' \<noteq> None \<and> codec_ctx_group c' = codec_ctx_group c \<and> fmt_ctx c' = fmt_ctx c"
proof -
  obtain r0 b w1 where a: "av_bsf_alloc lib (av_bsf_get_by_name lib nm) w = ((r0, b), w1)" by (metis prod.exhaust)
  show ?thesis using assms a
    by (cases b) (auto simp: open_bitstream_filter_def seq_set_bsf ret_def lib_call_def [where f = "av_bsf_init _ _"]
        split: prod.splits if_splits)
qed

lemma bind_on_format:
  "bind (on_format g) h (c, w) = (case g (fmt_ctx c) w of ((r, x), w) \<Rightarrow> h r (c\<lparr>fmt_ctx := x\<rparr>, w))"
  by (simp add: bind_def on_format_def split: prod.splits)

lemma on_ingest_Done:
  assumes "base_on_ingest lib n data_header (c, w) = Done u s'" "codec_ctx_group c = []"
  shows "\<exists>c1 w1 r f. fmt_ctx c1 = Some f \<and> codec_ctx_group c1 = []
    \<and> bind (ingest_streams lib 0 r (av_streams f)) (ingest_filter lib f) (c1, w1) = Done u s'"
proof -
  obtain r1 x1 w1 where 1: "avformat_open_input lib (fmt_ctx c) w = ((r1, x1), w1)" by (metis prod.exhaust)
  obtain r2 x2 w2 where 2: "avformat_find_stream_info lib x1 w1 = ((r2, x2), w2)" by (metis prod.exhaust)
  obtain f where "x2 = Some f" using assms(1)
    by (cases x2) (auto simp: base_on_ingest_def bind_on_format 1 2 fail_def split: if_splits)
  then have "bind (ingest_streams lib 0 r2 (av_streams f)) (ingest_filter lib f)
      (c\<lparr>fmt_ctx := Some f, video_stream_index := 0\<rparr>, w2) = Done u s'"
    using assms(1) by (simp add: base_on_ingest_def bind_on_format 1 2 fail_def split: if_splits)
  then show ?thesis using assms(2)
    by (intro exI [of _ "c\<lparr>fmt_ctx := Some f, video_stream_index := 0\<rparr>"] exI [of _ w2] exI [of _ r2] exI [of _ f]) simp
qed

text \<open>
  C23: Once an input is ingested, every stream has its decoder, and there is a bitstream filter unless the
  video needs none; so decoding never crashes on a packet of one of the streams.
\<close>

theorem ingest_decodes:
  assumes "base_on_ingest lib n data_header (c, w) = Done u (c', w')" "codec_ctx_group c = []"
  shows "\<exists>f. fmt_ctx c' = Some f \<and> length (codec_ctx_group c') = length (av_streams f) \<and> None \<notin> set (codec_ctx_group c')
    \<and> (is_annexb c' \<or> bsf_ctx c' \<noteq> None)
    \<and> (\<forall>r p k k'. av_read_frame lib k = ((r, p), k') \<longrightarrow> r < 0 \<or> 0 \<le> av_stream_index p \<and> av_stream_index p < int (length (av_streams f))
         \<longrightarrow> (\<forall>q. base_handle_input_frame lib (c', k) \<noteq> Crash q))"
proof -
  obtain c1 w1 r f where 1: "fmt_ctx c1 = Some f" "codec_ctx_group c1 = []"
    "bind (ingest_streams lib 0 r (av_streams f)) (ingest_filter lib f) (c1, w1) = Done u (c', w')"
    using on_ingest_Done [OF assms] by blast
  obtain r1 c2 w2 where 2: "ingest_streams lib 0 r (av_streams f) (c1, w1) = Done r1 (c2, w2)"
    "ingest_filter lib f r1 (c2, w2) = Done u (c', w')"
    using 1(3) by (auto simp: bind_Done_iff)
  have 3: "length (codec_ctx_group c2) = length (av_streams f)" "None \<notin> set (codec_ctx_group c2)" "fmt_ctx c2 = Some f"
    using ingest_streams_Done [OF 2(1)] 1(1,2) by simp_all
  have 4: "codec_ctx_group c' = codec_ctx_group c2" "fmt_ctx c' = Some f" "is_annexb c' \<or> bsf_ctx c' \<noteq> None"
    using 2(2) 3(3)
    by (auto simp: ingest_filter_def bind_Done_iff check_def ret_def fail_def split: if_splits
        dest!: open_filter_Done [OF _ refl])
  have 5: "base_handle_input_frame lib (c', k) \<noteq> Crash q"
    if "av_read_frame lib k = ((r, p), k')"
      "r < 0 \<or> 0 \<le> av_stream_index p \<and> av_stream_index p < int (length (av_streams f))" for r p k k' q
  proof (cases "r < 0")
    case True
    then show ?thesis using that(1) by (simp add: base_handle_input_frame_def read_packet_def bind_def lib_call_def fail_def)
  next
    case False
    then have i: "0 \<le> av_stream_index p" "av_stream_index p < int (length (codec_ctx_group c'))" using that(2) 3(1) 4(1) by auto
    then have "codec_ctx_group c' ! nat (av_stream_index p) \<in> set (codec_ctx_group c')" by (intro nth_mem) linarith
    then obtain cc where "codec_ctx_group c' ! nat (av_stream_index p) = Some cc" using 3(2) 4(1) by (metis option.exhaust)
    then show ?thesis using that(1) False i
      by (auto simp: base_handle_input_frame_def read_packet_def bind_def fail_def ret_def lib_call_def deref_def
          split: prod.splits)
  qed
  show ?thesis using 3 4 5 by auto
qed

section \<open>An example\<close>

text \<open>A library that succeeds and writes down what it is given; its input has the streams \<open>sts\<close>.\<close>

definition some_codec :: AVCodec where
  "some_codec = \<lparr>codec_no = 1, pix_fmts = None, sample_fmts = Some 8\<rparr>"

definition some_context :: AVCodecContext where
  "some_context = \<lparr>cc_codec_id = 1, cc_codec_type = AVMEDIA_TYPE_AUDIO, cc_height = 0, cc_width = 0,
     cc_sample_aspect_ratio = (0, 1), cc_pix_fmt = 0, cc_time_base = (0, 1), cc_framerate = (0, 1), cc_sample_rate = 48000,
     cc_channel_layout = 3, cc_channels = 2, cc_sample_fmt = 8, cc_flags = 0\<rparr>"

definition plain_lib :: "AVStream list \<Rightarrow> (unit, av_event list) av_lib" where
  "plain_lib sts = \<lparr>avformat_alloc_context = (\<lambda>w. (Some \<lparr>av_streams = [], fmt_flags = 0\<rparr>, w)),
     avformat_open_input = (\<lambda>f w. ((0, f), w)),
     avformat_find_stream_info = (\<lambda>f w. ((0, Some \<lparr>av_streams = sts, fmt_flags = 0\<rparr>), w)),
     avformat_alloc_output = (\<lambda>_ w. ((0, Some \<lparr>av_streams = [], fmt_flags = 0\<rparr>), w)),
     avformat_new_stream = (\<lambda>_ w. (Some \<lparr>par_codec_type = AVMEDIA_TYPE_OTHER, par_codec_id = 0, par_codec_tag = 0, st_time_base = (0, 1)\<rparr>, w)),
     avformat_write_header = (\<lambda>_ w. (0, w @ [Header])),
     av_write_frame = (\<lambda>p w. (0, w @ [Frame p])),
     av_read_frame = (\<lambda>w. ((-1, \<lparr>av_data = [], av_pts = 0, av_dts = 0, av_stream_index = 0, av_flags = 0\<rparr>), w)),
     avcodec_find_decoder = (\<lambda>_. Some some_codec), avcodec_find_encoder = (\<lambda>_. Some some_codec),
     avcodec_alloc_context3 = (\<lambda>_ w. (Some some_context, w)),
     avcodec_parameters_to_context = (\<lambda>_ cc w. ((0, cc), w)),
     avcodec_parameters_from_context = (\<lambda>_ st w. ((0, st), w)),
     avcodec_open2 = (\<lambda>_ cc w. ((0, cc), w)),
     avcodec_send_packet = (\<lambda>_ _ w. (0, w)), avcodec_receive_frame = (\<lambda>_ w. ((0, ()), w)),
     avcodec_send_frame = (\<lambda>_ _ w. (0, w)),
     avcodec_receive_packet = (\<lambda>_ w. ((0, \<lparr>av_data = [], av_pts = 0, av_dts = 0, av_stream_index = 0, av_flags = 0\<rparr>), w)),
     av_guess_frame_rate = (\<lambda>_. (25, 1)), av_get_channel_layout_nb_channels = (\<lambda>_. 2), av_inv_q = prod.swap,
     av_rescale_q = (\<lambda>a b c. (a * (fst b * snd c)) div (snd b * fst c)),
     av_bsf_get_by_name = (\<lambda>_. Some 0), av_bsf_alloc = (\<lambda>_ w. ((0, Some 0), w)),
     avcodec_parameters_copy = (\<lambda>_ _ w. (0, w)), av_bsf_init = (\<lambda>_ w. (0, w)),
     av_bsf_send_packet = (\<lambda>_ _ w. (0, w)),
     av_bsf_receive_packet = (\<lambda>_ w. ((-11, \<lparr>av_data = [], av_pts = 0, av_dts = 0, av_stream_index = 0, av_flags = 0\<rparr>), w)),
     AVFMT_GLOBALHEADER = 0x40, AV_CODEC_FLAG_GLOBAL_HEADER = 0x400000, AV_PKT_FLAG_KEY = 1\<rparr>"

definition audio_stream :: AVStream where
  "audio_stream = \<lparr>par_codec_type = AVMEDIA_TYPE_AUDIO, par_codec_id = 1, par_codec_tag = 0, st_time_base = (0, 1)\<rparr>"

definition data_stream :: AVStream where
  "data_stream = audio_stream\<lparr>par_codec_type := AVMEDIA_TYPE_OTHER\<rparr>"

definition empty_context :: TmssAVFormatContext where
  "empty_context = \<lparr>fmt_ctx = None, codec_ctx_group = [], is_transcode = False, is_annexb = True, bsf_ctx = None, video_stream_index = 0\<rparr>"

text \<open>The context of an input with one audio and one data stream, and the packet of its audio.\<close>

definition audio_context :: TmssAVFormatContext where
  "audio_context = empty_context\<lparr>fmt_ctx := Some \<lparr>av_streams = [audio_stream, data_stream], fmt_flags = 0\<rparr>,
     codec_ctx_group := [Some some_context, Some some_context]\<rparr>"





lemma audio_init:
  "\<exists>m octx w. base_init_output (plain_lib sts) (replicate 10 0) 10 (Av_Context audio_context)
     ((BaseMux_new (lit ''mpegts''), Av_Context empty_context), []) = Done () ((m, Av_Context octx), w)"
  by (simp add: base_init_output_def alloc_output_def init_streams_def av_context_def audio_context_def empty_context_def
      seq_upd_mux act_simps Let_def plain_lib_def output_stream_def wanted_stream_def audio_stream_def data_stream_def stream_runs
      some_codec_def make_output_stream_def encoder_fields_def some_context_def)



theorem skipped_stream_frames_witness:
  "\<exists>m octx. base_handle_output_frame (plain_lib []) octx () 1 (m, []) = Crash Out_Of_Bounds \<and> length (codec_ctx_group octx) = 1"
proof -
  obtain m octx w where i: "base_init_output (plain_lib []) (replicate 10 0) 10 (Av_Context audio_context)
     ((BaseMux_new (lit ''mpegts''), Av_Context empty_context), []) = Done () ((m, Av_Context octx), w)"
    using audio_init by blast
  have f: "fmt_ctx audio_context = Some \<lparr>av_streams = [audio_stream, data_stream], fmt_flags = 0\<rparr>"
    "codec_ctx_group empty_context = []" "\<not> wanted_stream data_stream" "wanted_stream audio_stream"
    by (simp_all add: audio_context_def empty_context_def wanted_stream_def data_stream_def audio_stream_def)
  from skipped_stream_frames [OF i f(2,1) _ f(3), of "()" "[]"] show ?thesis using f(3,4) by auto
qed

theorem ingest_decodes_witness:
  "\<exists>c'. base_on_ingest (plain_lib [audio_stream]) 0 [] (empty_context, []) = Done () (c', []) \<and> length (codec_ctx_group c') = 1"
proof -
  let ?l = "plain_lib [audio_stream]"
  obtain c' where i: "base_on_ingest ?l 0 [] (empty_context, []) = Done () (c', [])"
    and f: "fmt_ctx c' = Some \<lparr>av_streams = [audio_stream], fmt_flags = 0\<rparr>"
    by (simp add: base_on_ingest_def bind_on_format plain_lib_def empty_context_def act_simps ingest_stream_def seq_set_last
        seq_push audio_stream_def some_codec_def ingest_filter_def)
  have "codec_ctx_group empty_context = []" by (simp add: empty_context_def)
  from ingest_decodes [OF i this] show ?thesis using i f by auto
qed

end
