(* ===== verification/Amf0_Print.thy ===== *)
theory Amf0_Print
  imports Rtmp_Messages Cpp_String
begin

text \<open>
  The text dumps of AMF0 values: \<open>amf0_do_print\<close> and \<open>human_print\<close> of \<open>src/protocol/rtmp/rtmp_amf.cpp\<close>, and
  \<open>RtmpOnMetaDataPacket::get_body\<close> of \<open>rtmp_stack.cpp\<close>.  They write to a string stream, of which the model has
  the flags the code sets (\<open>std::hex\<close>, \<open>std::fixed\<close>, the precision) and the text.
\<close>

section \<open>String streams\<close>

record sstream =
  ss_hex :: bool
  ss_fixed :: bool
  ss_precision :: nat
  ss_text :: bytes

definition sstream_new :: sstream where
  "sstream_new = \<lparr>ss_hex = False, ss_fixed = False, ss_precision = 6, ss_text = []\<rparr>"

definition put :: "bytes \<Rightarrow> sstream \<Rightarrow> sstream" where
  "put s ss = ss\<lparr>ss_text := ss_text ss @ s\<rparr>"

definition endl :: bytes where
  "endl = [10]"

fun hexadecimal :: "nat \<Rightarrow> bytes" where
  "hexadecimal n = (if n < 16 then [xd (of_nat n)] else hexadecimal (n div 16) @ [xd (of_nat (n mod 16))])"

declare hexadecimal.simps [simp del]

text \<open>An \<open>int\<close> that is not negative, and signed integers that are written in base 16.\<close>

definition put_count :: "nat \<Rightarrow> sstream \<Rightarrow> sstream" where
  "put_count n ss = put (if ss_hex ss then hexadecimal n else decimal n) ss"

definition put_hex :: "'a::len word \<Rightarrow> sstream \<Rightarrow> sstream" where
  "put_hex v ss = put (hexadecimal (unat v)) (ss\<lparr>ss_hex := True\<rparr>)"

section \<open>Numbers\<close>

text \<open>
  A \<open>double\<close> that is finite is \<open>num / den\<close>, up to its sign.
\<close>

definition dbl_sign :: "64 word \<Rightarrow> bool" where
  "dbl_sign w \<longleftrightarrow> bit w 63"

definition dbl_exponent :: "64 word \<Rightarrow> nat" where
  "dbl_exponent w = unat (and (drop_bit 52 w) 0x7FF)"

definition dbl_mantissa :: "64 word \<Rightarrow> nat" where
  "dbl_mantissa w = unat (take_bit 52 w)"

definition dbl_num :: "64 word \<Rightarrow> nat" where
  "dbl_num w = (if dbl_exponent w = 0 then dbl_mantissa w else dbl_mantissa w + 2 ^ 52) * 2 ^ (dbl_exponent w - 1075)"

definition dbl_den :: "64 word \<Rightarrow> nat" where
  "dbl_den w = 2 ^ (1075 - max 1 (dbl_exponent w))"

definition round_half_even :: "nat \<Rightarrow> nat \<Rightarrow> nat" where
  "round_half_even a b = (let q = a div b; r = a mod b in if 2 * r < b \<or> 2 * r = b \<and> even q then q else q + 1)"

definition padded :: "nat \<Rightarrow> nat \<Rightarrow> bytes" where
  "padded k n = replicate (k - length (decimal n)) 48 @ decimal n"

text \<open>\<open>t\<close> is a number of units of \<open>10 ^ - k\<close>.\<close>

definition with_point :: "nat \<Rightarrow> nat \<Rightarrow> bytes" where
  "with_point k t = decimal (t div 10 ^ k) @ (if k = 0 then [] else 46 # padded k (t mod 10 ^ k))"

definition fixed_text :: "nat \<Rightarrow> nat \<Rightarrow> nat \<Rightarrow> bytes" where
  "fixed_text k a b = with_point k (round_half_even (10 ^ k * a) b)"

text \<open>
  Without \<open>std::fixed\<close>: \<open>k > 0\<close> significant digits, without zeros at the end, and with an exponent if it is below
  \<open>-4\<close> or at least \<open>k\<close>.  \<open>digits_at\<close> rounds to a unit of \<open>10 ^ (x - (k - 1))\<close>.
\<close>

definition digits_at :: "nat \<Rightarrow> nat \<Rightarrow> nat \<Rightarrow> int \<Rightarrow> nat" where
  "digits_at k a b x = (let e = int k - 1 - x in
     if 0 \<le> e then round_half_even (a * 10 ^ nat e) b else round_half_even a (b * 10 ^ nat (- e)))"

text \<open>The exponent of \<open>a / b\<close>; a \<open>double\<close> is not below \<open>10 ^ -324\<close>.\<close>

primrec small_exponent :: "nat \<Rightarrow> nat \<Rightarrow> nat \<Rightarrow> nat" where
  "small_exponent 0 a b = 0"
| "small_exponent (Suc n) a b = (if b \<le> a then 0 else Suc (small_exponent n (10 * a) b))"

definition exponent_of :: "nat \<Rightarrow> nat \<Rightarrow> int" where
  "exponent_of a b = (if b \<le> a then int (length (decimal (a div b))) - 1 else - int (small_exponent 325 a b))"

definition strip_zeros :: "bytes \<Rightarrow> bytes" where
  "strip_zeros s = (let t = rev (dropWhile (\<lambda>c. c = 48) (rev s)) in if t \<noteq> [] \<and> last t = 46 then butlast t else t)"

definition strip_text :: "bytes \<Rightarrow> bytes" where
  "strip_text s = (if 46 \<in> set s then strip_zeros s else s)"

definition general_text :: "nat \<Rightarrow> nat \<Rightarrow> nat \<Rightarrow> bytes" where
  "general_text k a b =
     (if a = 0 then decimal 0
      else let x = exponent_of a b;
               ds = digits_at k a b x;
               (x, ds) = (if ds = 10 ^ k then (x + 1, 10 ^ (k - 1)) else (x, ds))
           in if x < -4 \<or> int k \<le> x
              then strip_text (with_point (k - 1) ds) @ [101, if x < 0 then 45 else 43] @ padded 2 (nat \<bar>x\<bar>)
              else strip_text (with_point (nat (int k - 1 - x)) ds))"

definition put_double :: "64 word \<Rightarrow> sstream \<Rightarrow> sstream" where
  "put_double w ss = put ((if dbl_sign w then [45] else []) @
     (if dbl_exponent w = 0x7FF then (if dbl_mantissa w = 0 then lit ''inf'' else lit ''nan'')
      else if ss_fixed ss then fixed_text (ss_precision ss) (dbl_num w) (dbl_den w)
      else general_text (max 1 (ss_precision ss)) (dbl_num w) (dbl_den w))) ss"

section \<open>amf0_do_print\<close>

definition fill_level_spaces :: "nat \<Rightarrow> sstream \<Rightarrow> sstream" where
  "fill_level_spaces level = put (concat (replicate level (lit ''    '')))"

definition print_head :: "bytes \<Rightarrow> nat \<Rightarrow> sstream \<Rightarrow> sstream" where
  "print_head nm n ss = put (lit '' items)'' @ endl) (put_count n (put (nm @ lit '' ('') ss))"

text \<open>
  Every branch tests the marker of the class; there is none for \<open>Amf0Undefined\<close> and the end mark.
\<close>

fun amf0_do_print :: "amf0 \<Rightarrow> nat \<Rightarrow> sstream \<Rightarrow> sstream"
and print_props :: "bytes \<Rightarrow> (bytes \<times> amf0) list \<Rightarrow> nat \<Rightarrow> sstream \<Rightarrow> sstream"
and print_elems :: "amf0 list \<Rightarrow> nat \<Rightarrow> sstream \<Rightarrow> sstream" where
  "amf0_do_print (Amf0Boolean v) level ss = put (lit ''Boolean '' @ lit (if v then ''true'' else ''false'') @ endl) ss"
| "amf0_do_print (Amf0Number v) level ss = put endl (put_double v ((put (lit ''Number '') ss)\<lparr>ss_fixed := True\<rparr>))"
| "amf0_do_print (Amf0String s) level ss = put (lit ''String '' @ s @ endl) ss"
| "amf0_do_print (Amf0Date d z) level ss = put endl (put_hex z (put (lit ''/'') (put_hex d (put (lit ''Date '') ss))))"
| "amf0_do_print Amf0Null level ss = put (lit ''Null'' @ endl) ss"
| "amf0_do_print (Amf0EcmaArray c ps) level ss =
     print_props (lit ''Elem '') ps (level + 1) (print_head (lit ''EcmaArray'') (length ps) ss)"
| "amf0_do_print (Amf0StrictArray c vs) level ss =
     print_elems vs (level + 1) (print_head (lit ''StrictArray'') (length vs) ss)"
| "amf0_do_print (Amf0Object ps) level ss =
     print_props (lit ''Property '') ps (level + 1) (print_head (lit ''Object'') (length ps) ss)"
| "amf0_do_print Amf0Undefined level ss = put (lit ''Unknown'' @ endl) ss"
| "amf0_do_print Amf0ObjectEOF level ss = put (lit ''Unknown'' @ endl) ss"
| "print_props nm [] level ss = ss"
| "print_props nm ((k, v) # ps) level ss =
     print_props nm ps level (amf0_do_print v (if is_complex_object v then level else 0)
       (put (nm @ lit [CHR 0x27] @ k @ lit [CHR 0x27] @ lit '' '') (fill_level_spaces level ss)))"
| "print_elems [] level ss = ss"
| "print_elems (v # vs) level ss =
     print_elems vs level (amf0_do_print v (if is_complex_object v then level else 0)
       (put (lit ''Elem '') (fill_level_spaces level ss)))"

text \<open>\<open>human_print\<close>: the text, and the size it reports; the C string has a NUL behind it.\<close>

definition human_print :: "amf0 \<Rightarrow> (bytes \<times> nat) option" where
  "human_print v = (let s = ss_text (amf0_do_print v 0 (sstream_new\<lparr>ss_precision := 1\<rparr>)) in
     if s = [] then None else Some (s @ [0], length s))"

section \<open>get_body\<close>

definition fill_spaces :: "nat \<Rightarrow> sstream \<Rightarrow> sstream" where
  "fill_spaces level = put (concat (replicate level (lit ''  '')))"

text \<open>Strings are written through a C string.\<close>

fun get_body :: "amf0 \<Rightarrow> nat \<Rightarrow> sstream \<Rightarrow> sstream"
and body_props :: "(bytes \<times> amf0) list \<Rightarrow> nat \<Rightarrow> sstream \<Rightarrow> sstream"
and body_elems :: "amf0 list \<Rightarrow> nat \<Rightarrow> sstream \<Rightarrow> sstream" where
  "get_body (Amf0Boolean v) level ss = put (lit (if v then ''true'' else ''false'') @ endl) ss"
| "get_body (Amf0Number v) level ss = put endl (put_double v ss)"
| "get_body (Amf0String s) level ss = put (c_str s @ endl) ss"
| "get_body (Amf0Date d z) level ss = put endl (put_hex z (put (lit ''/'') (put_hex d ss)))"
| "get_body Amf0Null level ss = put (lit ''Null'' @ endl) ss"
| "get_body (Amf0Object ps) level ss = body_props ps (level + 1) ss"
| "get_body (Amf0EcmaArray c ps) level ss = body_props ps (level + 1) ss"
| "get_body (Amf0StrictArray c vs) level ss = body_elems vs (level + 1) ss"
| "get_body Amf0Undefined level ss = put (lit ''Unknown'' @ endl) ss"
| "get_body Amf0ObjectEOF level ss = put (lit ''Unknown'' @ endl) ss"
| "body_props [] level ss = ss"
| "body_props ((k, v) # ps) level ss =
     body_props ps level (get_body v (if is_complex_object v then level else 0)
       (put (k @ lit '':'') (fill_spaces level ss)))"
| "body_elems [] level ss = ss"
| "body_elems (v # vs) level ss =
     body_elems vs level (get_body v (if is_complex_object v then level else 0) (fill_spaces level ss))"

section \<open>What a dump contains\<close>

text \<open>The text only grows, the precision stays, and base 16 is never left again.\<close>

definition extends :: "sstream \<Rightarrow> sstream \<Rightarrow> bool" where
  "extends s t \<longleftrightarrow> prefix (ss_text s) (ss_text t) \<and> ss_precision t = ss_precision s \<and> (ss_hex s \<longrightarrow> ss_hex t)"

lemma extends_trans: "extends s t \<Longrightarrow> extends t u \<Longrightarrow> extends s u"
  by (auto simp: extends_def prefix_def)

lemma extends_put [simp]: "extends s (put x s)"
  by (simp add: extends_def put_def)

lemma extends_steps [simp]: "extends s (put_count n s)" "extends s (put_double w s)" "extends s (put_hex v s)"
  "extends s (fill_level_spaces k s)" "extends s (s\<lparr>ss_fixed := True\<rparr>)" "extends s (fill_spaces k s)"
  by (simp_all add: put_count_def put_double_def put_hex_def fill_level_spaces_def fill_spaces_def extends_def put_def)

lemma extends_refl [simp]: "extends s s"
  by (simp add: extends_def)

lemmas extends_into [simp] = extends_put [THEN extends_trans [rotated]] extends_steps [THEN extends_trans [rotated]]

lemma extends_head [simp]: "extends s (print_head nm n s)"
  unfolding print_head_def by simp

lemmas extends_head_into [simp] = extends_head [THEN extends_trans [rotated]]

lemma print_extends:
  "extends s (amf0_do_print v level s)" "extends s (print_props nm ps level s)" "extends s (print_elems vs level s)"
proof (induction v level s and nm ps level s and vs level s rule: amf0_do_print_print_props_print_elems.induct)
  case (12 nm k v ps level s)
  show ?case unfolding print_props.simps print_elems.simps
    by (rule extends_trans [OF extends_trans [OF _ 12(1)] 12(2)]) simp
next
  case (14 v vs level s)
  show ?case unfolding print_props.simps print_elems.simps
    by (rule extends_trans [OF extends_trans [OF _ 14(1)] 14(2)]) simp
qed (auto intro: extends_trans [OF extends_head])

lemma put_hex_hex: "ss_hex (put_hex v s)" "ss_hex (put x s) = ss_hex s"
  by (simp_all add: put_hex_def put_def)

text \<open>After a date, the number of parts of every later value is in base 16 too.\<close>

lemma count_after_date:
  "amf0_do_print (Amf0Object ps) level (amf0_do_print (Amf0Date d z) k s)
     = print_props (lit ''Property '') ps (level + 1) (put (lit '' items)'' @ endl)
         (put (hexadecimal (length ps)) (put (lit ''Object ('') (amf0_do_print (Amf0Date d z) k s))))"
  by (simp add: print_head_def put_count_def put_hex_hex lit_def)

text \<open>\<open>human_print\<close> always gives a text, whose size is the one it reports.\<close>

lemma human_print_Some: "\<exists>s. human_print v = Some (s @ [0], length s) \<and> s \<noteq> []"
proof -
  have "ss_text (amf0_do_print v 0 s) \<noteq> []" for s
  proof (cases v)
    case (Amf0Object ps)
    have "extends (print_head (lit ''Object'') (length ps) s) (amf0_do_print v 0 s)"
      using Amf0Object print_extends(2) by simp
    moreover have "ss_text (print_head (lit ''Object'') (length ps) s) \<noteq> []" by (simp add: print_head_def put_def endl_def)
    ultimately show ?thesis by (auto simp: extends_def)
  next
    case (Amf0EcmaArray c ps)
    have "extends (print_head (lit ''EcmaArray'') (length ps) s) (amf0_do_print v 0 s)"
      using Amf0EcmaArray print_extends(2) by simp
    moreover have "ss_text (print_head (lit ''EcmaArray'') (length ps) s) \<noteq> []" by (simp add: print_head_def put_def endl_def)
    ultimately show ?thesis by (auto simp: extends_def)
  next
    case (Amf0StrictArray c vs)
    have "extends (print_head (lit ''StrictArray'') (length vs) s) (amf0_do_print v 0 s)"
      using Amf0StrictArray print_extends(3) by simp
    moreover have "ss_text (print_head (lit ''StrictArray'') (length vs) s) \<noteq> []" by (simp add: print_head_def put_def endl_def)
    ultimately show ?thesis by (auto simp: extends_def)
  qed (simp_all add: put_def endl_def)
  then show ?thesis by (simp add: human_print_def Let_def)
qed

end
