(* ===== verification/Start_Up.thy ===== *)
theory Start_Up
  imports Server_Loop
begin

text \<open>
  The start of the process: the options of \<open>main\<close> (\<open>src/base/main/tmss_main.cpp\<close>) and the set-up of the
  handler the server ships with.  What forks, loads a library or waits for good has no definition.
\<close>

text \<open>
  \<open>parse_options\<close> of one argument behind its first character, with the arguments that follow: the file
  name of \<open>-l\<close> and what is left, or \<open>None\<close> where the process prints its help and exits.  The codes \<open>-1\<close>
  and \<open>-2\<close> are dropped by \<open>main\<close>; the file name stays.
\<close>

fun main_option :: "bytes \<Rightarrow> bytes list \<Rightarrow> bytes \<Rightarrow> (bytes \<times> bytes list) option" where
  "main_option [] rest dll_file = Some (dll_file, rest)"
| "main_option (ch # p) rest dll_file =
     (if ch = of_char CHR ''?'' \<or> ch = of_char CHR ''h'' then None
      else if ch = of_char CHR ''l'' \<or> ch = of_char CHR ''L'' then
        (if p \<noteq> [] then main_option p rest p
         else case rest of [] \<Rightarrow> Some (dll_file, []) | a # as \<Rightarrow> Some (a, as))
      else Some (dll_file, rest))"

lemma main_option_shorter: "main_option p rest dll = Some (d, rest') \<Longrightarrow> length rest' \<le> length rest"
  by (induction p rest dll rule: main_option.induct) (auto split: if_splits list.splits)

function main_options :: "bytes list \<Rightarrow> bytes \<Rightarrow> bytes option" where
  "main_options [] dll_file = Some dll_file"
| "main_options (a # args) dll_file = (case a of
     [] \<Rightarrow> None
   | ch # p \<Rightarrow> if ch \<noteq> of_char CHR ''-'' then None
       else (case main_option p args dll_file of None \<Rightarrow> None | Some (d, rest) \<Rightarrow> main_options rest d))"
  by pat_completeness auto
termination
  by (relation "measure (\<lambda>(args, _). length args)") (auto dest: main_option_shorter simp: less_Suc_eq_le)

text \<open>
  \<open>init_default_handler\<close>: \<open>MediaSource\<close>, the handler \<open>h\<close>, serves the pattern \<open>/\<close>, and its server starts.
\<close>

definition init_default_handler :: "'k os_ops \<Rightarrow> bool \<times> bool \<Rightarrow> 32 word \<times> 32 word \<Rightarrow> bytes list \<Rightarrow> 'h
    \<Rightarrow> (unit, 'h HttpMux \<times> IServer \<times> nat option \<times> 'k) act" where
  "init_default_handler os created cids args h = (\<lambda>(mux, s).
     let mux = register_handler (lit ''/'') 0 (Some h) mux in
     case MediaSource_init os created cids args s of
       Done u s \<Rightarrow> Done u (mux, s) | Fail e s \<Rightarrow> Fail e (mux, s) | Crash q \<Rightarrow> Crash q)"

text \<open>
  A file name that follows \<open>-l\<close> directly is read as further options: one with a leading \<open>l\<close> loses it, one
  with a leading \<open>h\<close> ends the process.
\<close>

lemma attached_name_misread:
  "p \<noteq> [] \<Longrightarrow> main_option (lit ''ll'' @ p) rest dll = main_option p rest p"
  "main_option (lit ''lh'' @ p) rest dll = None"
  by (simp_all add: lit_def)

lemma separate_name:
  "main_options [lit ''-l'', f] dll = Some f"
  by (simp add: lit_def)

end
