(* ===== verification/Spec2Isabelle.thy ===== *)
theory Spec2Isabelle
  imports Ring_Props Amf0_Props Rtmp_Packet_Props Io_Props Rtmp_Protocol_Props Http_Props Stream_Props Rtmp_Client_Props Coroutine_Props St_Tcp_Props St_Srt_Props Server_Props Av_Props Amf0_Print Start_Up
begin

text \<open>
  A verification development for the streaming server in this repository: the C++ program under
  \<open>src/src\<close> and \<open>src/media_source\<close>.  It takes streams and files over HTTP (TCP or SRT below it), keeps them in
  channels and caches, and hands them to players, to other servers and to segment files; an RTMP stack
  stands beside the HTTP one.  All code runs in coroutines of the State Threads library.

  \<^bold>\<open>How the program is modelled.\<close>  A class is a \<open>record\<close> with the class's members, an enum or a class
  hierarchy a \<open>datatype\<close>, a \<open>std::string\<close> a list of bytes, an integer a word of its width where the code relies on
  the width, and an \<open>int\<close> with the wrap-around written out elsewhere.  A member function is a function of the
  same name on the state, in the order of the code; one that can fail is an \<open>act\<close> (theory \<open>Tmss_Base\<close>) that ends in
  \<open>Done\<close>, in \<open>Fail\<close> with the error code and the state at the \<open>return\<close>, or in \<open>Crash\<close> where an assertion fails or the
  behaviour is undefined: a null pointer, an access outside a block, a use after free, a missing \<open>return\<close>.
  Shared objects live under numbers in a map.  While a coroutine waits, others run: such a wait takes a
  function that says what they did, and an endless loop a list of rounds.

  \<^bold>\<open>Parts and theories\<close> (files are under \<open>src/src\<close> unless a path says otherwise).

  \<^item> \<open>Tmss_Base\<close>, \<open>Act_Hoare\<close>, \<open>Stream_Codec\<close>, \<open>Keyed_Store\<close>, \<open>Std_Map\<close>: the prelude, a Hoare logic of calls, and the
    interfaces between components.  The locales \<open>byte_queue\<close> (in \<open>Ring_Buffer\<close>), \<open>stream_writer\<close>, \<open>stream_codec\<close>,
    \<open>sized_writer\<close> and \<open>codec_pair\<close> are the contract of the buffer and of what is encoded on it, \<open>keyed_store\<close> that
    of the program's tables, \<open>framed\<close> (in \<open>Http_Facts\<close>) that of a message with a length; each is interpreted on
    the program's own functions where they are defined, and the facts of the interpretations carry the properties.
  \<^item> \<open>Ring_Buffer\<close>, \<open>Ring_Props\<close>: \<open>Buffer\<close> of \<open>base/io/io_buffer.cpp\<close>, the ring of bytes below every codec.
  \<^item> \<open>Io_Buffer\<close>, \<open>Tcp_Conn\<close>, \<open>Io_Props\<close>: \<open>IOBuffer\<close>, a connection read through a \<open>Buffer\<close>, and \<open>TcpStreamConn\<close> of
    \<open>transport/tmss_trans_tcp.cpp\<close>.
  \<^item> \<open>Amf0_Prim\<close>, \<open>Amf0\<close>, \<open>Amf0_Facts\<close>, \<open>Amf0_Stream\<close>, \<open>Amf0_Props\<close>, \<open>Amf0_Print\<close>: \<open>protocol/rtmp/rtmp_amf.cpp\<close>.
  \<^item> \<open>Rtmp_Packets\<close>, \<open>Rtmp_Messages\<close>, \<open>Rtmp_Packet_Facts\<close>, \<open>Rtmp_Packet_Props\<close>: the packet classes of
    \<open>protocol/rtmp/rtmp_stack.cpp\<close>.
  \<^item> \<open>Rtmp_Chunk\<close>, \<open>Rtmp_Chunk_Facts\<close>, \<open>Rtmp_Chunk_Safe\<close>: \<open>rtmp_message.cpp\<close> and the chunk headers;
    \<open>Rtmp_Protocol\<close>, \<open>Rtmp_Protocol_Facts\<close>, \<open>Rtmp_Protocol_Props\<close>: \<open>RtmpProtocolHandler\<close>;
    \<open>Rtmp_Client\<close>, \<open>Rtmp_Client_Props\<close>: the handshake and \<open>rtmp_client.cpp\<close>.
  \<^item> \<open>Cpp_String\<close>, \<open>Cpp_String_Facts\<close>: \<open>base/util/util.cpp\<close>; \<open>Http_Stack\<close>, \<open>Http_Conn\<close>, \<open>Http_Facts\<close>, \<open>Http_Requests\<close>,
    \<open>Http_Query\<close>, \<open>Http_Props\<close>: \<open>protocol/http\<close> (messages, parser, table of handlers, client).
  \<^item> \<open>File_Cache\<close>, \<open>Handlers\<close>, \<open>Raw_Format\<close>, \<open>Raw_Facts\<close>, \<open>Segments\<close>, \<open>File_Props\<close>, \<open>Stream_Props\<close>: \<open>base/cache\<close> (files,
    queues, inputs, outputs, segments) and \<open>format/raw\<close>; \<open>Av_Format\<close>, \<open>Av_Props\<close>: \<open>format/ffmpeg\<close>.
  \<^item> \<open>Channel\<close>, \<open>Channel_Facts\<close>, \<open>Channel_Props\<close>: channels, their pool and manager, and the relation \<open>server_step\<close> of
    what the server does to them; \<open>Media_Source\<close>: \<open>src/media_source\<close>, the request handlers above them.
  \<^item> \<open>Coroutine\<close>, \<open>Coroutine_Props\<close>: \<open>base/coroutine/coroutine.cpp\<close> with the step relation \<open>co_step\<close>;
    \<open>St_Tcp\<close>, \<open>St_Tcp_Props\<close>, \<open>St_Srt\<close>, \<open>St_Srt_Props\<close>: the sockets of \<open>transport\<close>; \<open>Server_Loop\<close>, \<open>Server_Props\<close>:
    \<open>protocol/server.cpp\<close>, connections and the clock; \<open>Start_Up\<close>: the options of \<open>base/main\<close>.

  A byte travels as follows.  A socket (\<open>St_Tcp\<close>, \<open>St_Srt\<close>) is read by \<open>IOBuffer\<close> or by the HTTP parser; an accepted
  connection (\<open>Server_Loop\<close>) has its request parsed (\<open>Http_Conn\<close>) and given to \<open>Media_Source\<close>, which makes inputs and
  outputs in a \<open>Channel\<close>; the loop of the channel takes a packet from its inputs, which demuxers fill, passes
  it to every output, whose muxer writes it out, and to the segments, which are files of the cache.

  \<^bold>\<open>What is proved.\<close>  The 40 properties of the manifest are the theorems whose texts begin with their numbers.
  The buffer is a bounded queue whose \<open>int\<close> arithmetic stays in range (refinement, bounds).  Encoders append exactly the wire
  format and \<open>get_size\<close> its length; decoders of arbitrary bytes end in a value or an error, and give a packet of
  the class its user expects; packets, chunks, requests and responses are read back as they were sent.  The receiver of chunks
  keeps its invariant whatever the peer sends; sending, reading and writing loops end and lose or double nothing.
  Tables are maps.  Every reachable state of the server keeps the invariant of channels and pool, a channel relays
  each packet once and in order, the accept loop keeps each connection it serves, coroutines that keep
  an owner end well and wake who waits for them; sockets leave no descriptor open when they fail; muxers write one header,
  then every packet with its times.  The error properties state where the code does not do what it means to
  do: each is the theorem of a finding, with the line of the code.

  \<^bold>\<open>Fuel and bounds.\<close>  Where the recursion of the code is not structural, the definition carries fuel, running out is
  \<open>Crash No_Fuel\<close> or \<open>None\<close>, and the theorems say what is enough.  Decoding an AMF0 value: more than the readable bytes,
  since each level reads at least one.  The loops that receive chunks: the number of chunks; the send
  loop: more than the number of pieces.  Parsing a request: 1024 rounds, the code's own bound; the
  response of the client: the bytes of its block.  \<open>split_string\<close>: the length and two, with a separator that is not empty (with the
  empty one the source never ends).  Writing to an SRT socket: more than the bytes to send and the waits that end well.
  The filter of a muxer: one more than the packets it holds.  Theorems on the buffer hold for sizes up to \<open>2 ^ 30\<close>, so that
  sums of positions fit an \<open>int\<close>; strings are shorter than \<open>2 ^ 31\<close>; segment files hold up to 262160 bytes.

  \<^bold>\<open>Parameters and hypotheses.\<close>  Code that is not in the repository is an argument: the State Threads library and the operating
  system (\<open>os_ops\<close>), the SRT library (\<open>srt_ops\<close>), FFmpeg (\<open>av_lib\<close>, and the pieces its muxer writes for a packet in
  \<open>Segments\<close>), the clock, random bytes, and the contents of fresh memory.  What theorems rely on has names:
  \<open>stream_reader\<close>, \<open>delivers\<close> and \<open>delivers_all\<close> (a connection hands out a stream in order), \<open>host_ok\<close> and \<open>roomy\<close> (a read stores no more than
  was asked for, \<open>new\<close> gives the bytes asked for), \<open>takes_all\<close> and \<open>logs\<close> (a writer takes what it is given), \<open>muxes\<close> (a
  muxer writes pieces that fit), \<open>os_ok\<close> (a socket is a new descriptor, closing takes it away), \<open>srt_sender\<close> (a call
  sends a part of the message), \<open>logs_writes\<close> and \<open>rescales\<close> (two calls write; an exact quotient is the result).
  \<open>delivers_all\<close> says what the chunk layer is written for, a read that returns 0; \<open>IOBuffer::read_bytes\<close> returns a count, and
  what becomes of the chunk layer over it is a finding of its own.  Every theorem with a hypothesis has a witness, a
  concrete run that meets it.

  \<^bold>\<open>Not modelled.\<close>  The abstract classes of \<open>format/base\<close> have no code of their own.  Logging (\<open>base/log\<close>) and the text of the SRT
  statistics change no state, and the latter needs the arithmetic of \<open>double\<close>.  \<open>co_threads.cpp\<close> wraps
  \<open>pthread_create\<close> and is not used; forking and loading a library (\<open>base/main\<close>, \<open>base/dll\<close>) are calls of the operating system.
  The frames of the raw format (\<open>handle_input\<close> and \<open>handle_output\<close> that return 0), getters, and code the
  preprocessor removes have no definition.  Numbers of AMF0 are the 64 bits of a \<open>double\<close>; their value is computed only
  where they are printed.  Preemption does not exist in the program; the interleavings that do are
  the waits above and the relations \<open>server_step\<close> and \<open>co_step\<close>.
\<close>

end
